(* ===== verification/Go_Prelude.thy ===== *)
theory Go_Prelude imports Main begin

text \<open>
  What every component of the operator model shares: Go errors and panics as values, the
  state-passing operations the reconciler is built from, their sequencing, and the
  weakest-precondition calculus the component proofs use.

  A Go \<open>string\<close> is a list of bytes, so it is Isabelle's \<^typ>\<open>string\<close>.  A Go pointer that
  may be nil is an \<open>option\<close>; following a nil pointer is a panic, which is a value of its own
  (\<open>Panic\<close>), never an unspecified result.
\<close>

named_theorems wp_rules \<open>weakest preconditions of the sequencing combinators\<close>

section \<open>Errors\<close>

text \<open>
  The error values the operator distinguishes.  \<open>Api_Err\<close> is an apimachinery StatusError with
  its reason, \<open>Plain_Err\<close> an error made by errors.New or by fmt.Errorf without a wrapped error,
  \<open>Wrap_Err pre e post\<close> an fmt.Errorf whose \<open>%w\<close> verb holds \<open>e\<close>.  The remaining
  constructors are the error types the sources test for by name.
\<close>

datatype api_reason =
    ReasonNotFound
  | ReasonAlreadyExists
  | ReasonServiceUnavailable
  | ReasonTimeout
  | ReasonServerTimeout
  | ReasonTooManyRequests
  | ReasonNoMatch
  | ReasonOther

datatype sentinel =
    ErrManagedPipelinesImageUnset
  | ErrNotFoundInTar
  | ErrWhiteout

datatype gerr =
    Api_Err api_reason string
  | Plain_Err string
  | Wrap_Err string gerr string
  | Permanent_Err gerr
  | Sentinel_Err sentinel
  | Minio_Response_Err string string
  | Url_Err string gerr
  | X509_Unknown_Authority_Err string

fun sentinel_msg :: "sentinel \<Rightarrow> string" where
  "sentinel_msg ErrManagedPipelinesImageUnset = ''managedPipelines init image not configured''"
| "sentinel_msg ErrNotFoundInTar = ''file not found in tar layer''"
| "sentinel_msg ErrWhiteout = ''file deleted by OCI whiteout''"

text \<open>The text of an error, Go's \<open>err.Error()\<close>.\<close>

fun err_msg :: "gerr \<Rightarrow> string" where
  "err_msg (Api_Err r m) = m"
| "err_msg (Plain_Err m) = m"
| "err_msg (Wrap_Err pre e post) = pre @ err_msg e @ post"
| "err_msg (Permanent_Err e) = err_msg e"
| "err_msg (Sentinel_Err s) = sentinel_msg s"
| "err_msg (Minio_Response_Err code m) = m"
| "err_msg (Url_Err pre e) = pre @ err_msg e"
| "err_msg (X509_Unknown_Authority_Err m) = m"

text \<open>The error chain that errors.Is and errors.As walk: the error, then what it unwraps to.\<close>

fun err_chain :: "gerr \<Rightarrow> gerr list" where
  "err_chain (Wrap_Err pre e post) = Wrap_Err pre e post # err_chain e"
| "err_chain (Permanent_Err e) = Permanent_Err e # err_chain e"
| "err_chain (Url_Err pre e) = Url_Err pre e # err_chain e"
| "err_chain e = [e]"

fun api_reason_of :: "gerr \<Rightarrow> api_reason option" where
  "api_reason_of (Api_Err r m) = Some r"
| "api_reason_of _ = None"

text \<open>apierrs.ReasonForError: the reason of the first StatusError of the chain.\<close>

definition reason_for_error :: "gerr \<Rightarrow> api_reason option" where
  "reason_for_error e = (case List.map_filter api_reason_of (err_chain e) of [] \<Rightarrow> None | r # _ \<Rightarrow> Some r)"

definition is_not_found :: "gerr \<Rightarrow> bool" where
  "is_not_found e = (reason_for_error e = Some ReasonNotFound)"

definition is_already_exists :: "gerr \<Rightarrow> bool" where
  "is_already_exists e = (reason_for_error e = Some ReasonAlreadyExists)"

fun is_permanent_node :: "gerr \<Rightarrow> bool" where
  "is_permanent_node (Permanent_Err e) = True"
| "is_permanent_node _ = False"

text \<open>\<open>errors.As(err, &pe)\<close> for \<open>*permanentError\<close>, and \<open>errors.Is\<close> for a sentinel.\<close>

definition as_permanent :: "gerr \<Rightarrow> bool" where
  "as_permanent e = list_ex is_permanent_node (err_chain e)"

definition is_sentinel :: "sentinel \<Rightarrow> gerr \<Rightarrow> bool" where
  "is_sentinel s e = list_ex (\<lambda>x. x = Sentinel_Err s) (err_chain e)"

lemma is_not_found_simps [simp]:
  "is_not_found (Api_Err r m) = (r = ReasonNotFound)"
  "is_not_found (Plain_Err m) = False"
  "is_not_found (Wrap_Err pre e post) = is_not_found e"
  "is_not_found (Permanent_Err e) = is_not_found e"
  by (simp_all add: is_not_found_def reason_for_error_def List.map_filter_simps)

lemma as_permanent_simps [simp]:
  "as_permanent (Api_Err r m) = False"
  "as_permanent (Plain_Err m) = False"
  "as_permanent (Wrap_Err pre e post) = as_permanent e"
  "as_permanent (Permanent_Err e)"
  "as_permanent (Sentinel_Err s) = False"
  by (simp_all add: as_permanent_def)

lemma is_sentinel_simps [simp]:
  "is_sentinel s (Sentinel_Err t) = (t = s)"
  "is_sentinel s (Plain_Err m) = False"
  "is_sentinel s (Wrap_Err pre e post) = is_sentinel s e"
  by (simp_all add: is_sentinel_def)

section \<open>Results and operations\<close>

text \<open>
  A call that may fail ends in one of three ways: with a value, with a non-nil error, or in a
  panic.  An operation passes the state explicitly.  State changed before an error or a panic
  stays changed, as it does in Go.
\<close>

datatype 'a res = Ok 'a | Err gerr | Panic string

type_synonym ('s, 'a) op = "'s \<Rightarrow> 'a res \<times> 's"

definition ret :: "'a \<Rightarrow> ('s, 'a) op" where
  "ret a = (\<lambda>s. (Ok a, s))"

definition fail :: "gerr \<Rightarrow> ('s, 'a) op" where
  "fail e = (\<lambda>s. (Err e, s))"

definition panic :: "string \<Rightarrow> ('s, 'a) op" where
  "panic m = (\<lambda>s. (Panic m, s))"

definition gets_op :: "('s \<Rightarrow> 'a) \<Rightarrow> ('s, 'a) op" where
  "gets_op f = (\<lambda>s. (Ok (f s), s))"

definition modify_op :: "('s \<Rightarrow> 's) \<Rightarrow> ('s, unit) op" where
  "modify_op f = (\<lambda>s. (Ok (), f s))"

text \<open>A computation that neither reads nor writes the state.\<close>

definition pure_op :: "'a res \<Rightarrow> ('s, 'a) op" where
  "pure_op r = (\<lambda>s. (r, s))"

text \<open>
  \<open>attempt m h k\<close>: run \<open>m\<close>; continue with \<open>h\<close> on its error and with \<open>k\<close> on its value.  A
  panic is passed on.
\<close>

definition attempt :: "('s, 'a) op \<Rightarrow> (gerr \<Rightarrow> ('s, 'b) op) \<Rightarrow> ('a \<Rightarrow> ('s, 'b) op) \<Rightarrow> ('s, 'b) op" where
  "attempt m h k =
     (\<lambda>s. case m s of
        (Ok a, s') \<Rightarrow> k a s'
      | (Err e, s') \<Rightarrow> h e s'
      | (Panic p, s') \<Rightarrow> (Panic p, s'))"

text \<open>\<open>and_then m k\<close> is Go's \<open>v, err := m(); if err != nil { return err }; k(v)\<close>.\<close>

definition and_then :: "('s, 'a) op \<Rightarrow> ('a \<Rightarrow> ('s, 'b) op) \<Rightarrow> ('s, 'b) op" where
  "and_then m k = attempt m fail k"

text \<open>\<open>wrap_err f m\<close> is \<open>if err != nil { return f(err) }\<close> around \<open>m\<close>.\<close>

definition wrap_err :: "(gerr \<Rightarrow> gerr) \<Rightarrow> ('s, 'a) op \<Rightarrow> ('s, 'a) op" where
  "wrap_err f m = attempt m (\<lambda>e. fail (f e)) ret"

text \<open>A nil check before a pointer is followed.\<close>

definition deref :: "string \<Rightarrow> 'a option \<Rightarrow> ('s, 'a) op" where
  "deref what p = (case p of None \<Rightarrow> panic what | Some a \<Rightarrow> ret a)"

text \<open>
  A deferred call: it runs when the body is left, by return or by panic, and the body's outcome
  is kept.  (A panic of the deferred call would replace that outcome; the operator's deferred
  calls do not panic.)
\<close>

definition deferring :: "('s, unit) op \<Rightarrow> ('s, 'a) op \<Rightarrow> ('s, 'a) op" where
  "deferring d m = (\<lambda>s. case m s of (r, s') \<Rightarrow>
     (case d s' of
        (Ok u, s'') \<Rightarrow> (r, s'')
      | (Err e, s'') \<Rightarrow> (r, s'')
      | (Panic p, s'') \<Rightarrow> (Panic p, s'')))"

text \<open>
  \<open>for_each f xs\<close>: the loop \<open>for _, x := range xs { if err := f(x); err != nil { return err } }\<close>.
\<close>

fun for_each :: "('x \<Rightarrow> ('s, unit) op) \<Rightarrow> 'x list \<Rightarrow> ('s, unit) op" where
  "for_each f [] = ret ()"
| "for_each f (x # xs) = and_then (f x) (\<lambda>_. for_each f xs)"

section \<open>Weakest preconditions\<close>

definition wp :: "('s, 'a) op \<Rightarrow> ('a res \<Rightarrow> 's \<Rightarrow> bool) \<Rightarrow> 's \<Rightarrow> bool" where
  "wp m Q s = (case m s of (r, s') \<Rightarrow> Q r s')"

definition res_case :: "('a \<Rightarrow> bool) \<Rightarrow> (gerr \<Rightarrow> bool) \<Rightarrow> (string \<Rightarrow> bool) \<Rightarrow> 'a res \<Rightarrow> bool" where
  "res_case f g h r = (case r of Ok a \<Rightarrow> f a | Err e \<Rightarrow> g e | Panic p \<Rightarrow> h p)"

lemma res_case_simps [simp]:
  "res_case f g h (Ok a) = f a"
  "res_case f g h (Err e) = g e"
  "res_case f g h (Panic p) = h p"
  by (simp_all add: res_case_def)

lemma wp_ret [wp_rules]: "wp (ret a) Q s = Q (Ok a) s"
  by (simp add: wp_def ret_def)

lemma wp_fail [wp_rules]: "wp (fail e) Q s = Q (Err e) s"
  by (simp add: wp_def fail_def)

lemma wp_panic [wp_rules]: "wp (panic p) Q s = Q (Panic p) s"
  by (simp add: wp_def panic_def)

lemma wp_gets [wp_rules]: "wp (gets_op f) Q s = Q (Ok (f s)) s"
  by (simp add: wp_def gets_op_def)

lemma wp_modify [wp_rules]: "wp (modify_op f) Q s = Q (Ok ()) (f s)"
  by (simp add: wp_def modify_op_def)

lemma wp_pure [wp_rules]: "wp (pure_op r) Q s = Q r s"
  by (simp add: wp_def pure_op_def)

lemma wp_attempt [wp_rules]:
  "wp (attempt m h k) Q s =
     wp m (\<lambda>r s'. res_case (\<lambda>a. wp (k a) Q s') (\<lambda>e. wp (h e) Q s') (\<lambda>p. Q (Panic p) s') r) s"
  by (simp add: wp_def attempt_def split: prod.splits res.splits)

lemma wp_and_then [wp_rules]:
  "wp (and_then m k) Q s =
     wp m (\<lambda>r s'. res_case (\<lambda>a. wp (k a) Q s') (\<lambda>e. Q (Err e) s') (\<lambda>p. Q (Panic p) s') r) s"
  by (simp add: and_then_def wp_attempt wp_fail)

lemma wp_wrap_err [wp_rules]:
  "wp (wrap_err f m) Q s =
     wp m (\<lambda>r s'. res_case (\<lambda>a. Q (Ok a) s') (\<lambda>e. Q (Err (f e)) s') (\<lambda>p. Q (Panic p) s') r) s"
  by (simp add: wrap_err_def wp_attempt wp_fail wp_ret)

lemma wp_deref [wp_rules]:
  "wp (deref what p) Q s = (case p of None \<Rightarrow> Q (Panic what) s | Some a \<Rightarrow> Q (Ok a) s)"
  by (simp add: deref_def wp_panic wp_ret split: option.splits)

lemma wp_if [wp_rules]: "wp (if b then m else n) Q s = (if b then wp m Q s else wp n Q s)"
  by simp

lemma wp_mono: "wp m P s \<Longrightarrow> (\<And>r t. P r t \<Longrightarrow> Q r t) \<Longrightarrow> wp m Q s"
  by (auto simp: wp_def split: prod.splits)

lemma wp_conj: "wp m (\<lambda>r t. P r t \<and> Q r t) s = (wp m P s \<and> wp m Q s)"
  by (simp add: wp_def split: prod.splits)

lemma wp_iff: "wp m Q s = Q (fst (m s)) (snd (m s))"
  by (simp add: wp_def split: prod.splits)

lemma wp_run: "m s = (r, t) \<Longrightarrow> wp m Q s = Q r t"
  by (simp add: wp_def)

lemma ret_and_then: "and_then (ret a) k = k a"
  by (simp add: and_then_def attempt_def ret_def)

lemma wp_seq:
  assumes "wp m P s"
    and "\<And>r t. P r t \<Longrightarrow> res_case (\<lambda>a. wp (k a) Q t) (\<lambda>e. Q (Err e) t) (\<lambda>p. Q (Panic p) t) r"
  shows "wp (and_then m k) Q s"
  unfolding wp_and_then using assms(1) by (rule wp_mono) (rule assms(2))

end
