(* ===== verification/Api_Types.thy ===== *)
theory Api_Types imports Go_Prelude begin

text \<open>
  The DataSciencePipelinesApplication custom resource (\<open>api/v1/dspipeline_types.go\<close>): one record
  per struct, with the struct's fields in its order.  A pointer field is an \<open>option\<close>, a Go map an
  association list (its order is the order a \<open>range\<close> over it happens to visit), and a
  resource.Quantity the text it prints as, the empty text for the zero value \<open>Quantity{}\<close>.  DeepCopy is the identity on
  these values; the generated copiers over a memory with pointers are in \<open>Api_Copies\<close>.

  The second half holds the Kubernetes objects the operator reads, reduced to the fields it
  looks at.
\<close>

type_synonym quantity = string
type_synonym go_map = "(string \<times> string) list"

section \<open>The custom resource\<close>

record resources =
  r_cpu :: quantity
  r_memory :: quantity

record resource_requirements =
  rr_limits :: "resources option"
  rr_requests :: "resources option"

record managed_pipeline =
  mp_name :: string

record managed_pipelines_spec =
  mps_image :: string
  mps_pipelines :: "managed_pipeline list"
  mps_resources :: "resource_requirements option"
  mps_volume_size_limit :: string

record ca_bundle =
  cab_configmap_name :: string
  cab_configmap_key :: string

record script_configmap =
  scm_name :: string
  scm_key :: string

text \<open>The claim spec is corev1's: it is kept as the JSON text it marshals to.\<close>

record api_server_workspace =
  ws_volume_claim_template_spec :: string

record api_server =
  as_deploy :: bool
  as_image :: string
  as_enable_route :: bool
  as_enable_sample_pipeline :: bool
  as_argo_launcher_image :: string
  as_argo_driver_image :: string
  as_managed_pipelines :: "managed_pipelines_spec option"
  as_resources :: "resource_requirements option"
  as_ca_bundle :: "ca_bundle option"
  as_custom_server_config :: "script_configmap option"
  as_custom_kfp_launcher_configmap :: string
  as_ca_bundle_file_mount_path :: string
  as_ca_bundle_file_name :: string
  as_artifact_signed_url_expiry_seconds :: "int option"
  as_pipeline_store :: string
  as_cache_enabled :: "bool option"
  as_workspace :: "api_server_workspace option"
  as_resource_ttl :: "int option"

record persistence_agent =
  pa_deploy :: bool
  pa_image :: string
  pa_num_workers :: int
  pa_resources :: "resource_requirements option"

record scheduled_workflow =
  sw_deploy :: bool
  sw_image :: string
  sw_cron_schedule_timezone :: string
  sw_resources :: "resource_requirements option"

record secret_key_value =
  skv_name :: string
  skv_key :: string

record maria_db =
  mdb_deploy :: bool
  mdb_image :: string
  mdb_username :: string
  mdb_password_secret :: "secret_key_value option"
  mdb_db_name :: string
  mdb_pvc_size :: quantity
  mdb_storage_class_name :: string
  mdb_resources :: "resource_requirements option"

record external_db =
  edb_host :: string
  edb_port :: string
  edb_username :: string
  edb_db_name :: string
  edb_password_secret :: "secret_key_value option"

record database =
  db_maria_db :: "maria_db option"
  db_external_db :: "external_db option"
  db_custom_extra_params :: "string option"
  db_disable_health_check :: bool

record s3_credential_secret =
  s3_secret_name :: string
  s3_access_key :: string
  s3_secret_key :: string

record minio =
  mn_deploy :: bool
  mn_bucket :: string
  mn_s3_credential_secret :: "s3_credential_secret option"
  mn_pvc_size :: quantity
  mn_storage_class_name :: string
  mn_resources :: "resource_requirements option"
  mn_image :: string

record external_storage =
  es_host :: string
  es_bucket :: string
  es_scheme :: string
  es_region :: string
  es_base_path :: string
  es_s3_credential_secret :: "s3_credential_secret option"
  es_secure :: "bool option"
  es_port :: string

record object_storage =
  os_minio :: "minio option"
  os_external_storage :: "external_storage option"
  os_disable_health_check :: bool
  os_enable_external_route :: bool

record envoy =
  en_resources :: "resource_requirements option"
  en_image :: string
  en_deploy_route :: bool

record grpc =
  gr_resources :: "resource_requirements option"
  gr_image :: string
  gr_port :: string

record mlmd =
  ml_deploy :: bool
  ml_envoy :: "envoy option"
  ml_grpc :: "grpc option"

record workflow_controller =
  wc_deploy :: bool
  wc_image :: string
  wc_argo_exec_image :: string
  wc_custom_config :: string
  wc_resources :: "resource_requirements option"

record proxy_config =
  px_http_proxy :: string
  px_https_proxy :: string
  px_no_proxy :: string

datatype integration_mode = AutoDetect | Disabled

record mlflow_config =
  mf_integration_mode :: "integration_mode option"
  mf_inject_user_env_vars :: "bool option"

record dspa_spec =
  sp_api_server :: "api_server option"
  sp_persistence_agent :: "persistence_agent option"
  sp_scheduled_workflow :: "scheduled_workflow option"
  sp_database :: "database option"
  sp_object_storage :: "object_storage option"
  sp_mlmd :: "mlmd option"
  sp_dsp_version :: string
  sp_pod_to_pod_tls :: "bool option"
  sp_workflow_controller :: "workflow_controller option"
  sp_proxy :: "proxy_config option"
  sp_mlflow :: "mlflow_config option"

text \<open>
  A status condition.  \<open>StOther\<close> stands for a status text that is none of the three of the API;
  \<open>StOther ''''\<close> is that of the zero \<open>Condition{}\<close>.
\<close>

datatype cond_status = StTrue | StFalse | StUnknown | StOther string

record condition =
  c_type :: string
  c_status :: cond_status
  c_observed_generation :: int
  c_last_transition_time :: int
  c_reason :: string
  c_message :: string

definition empty_condition :: condition where
  "empty_condition =
     \<lparr>c_type = '''', c_status = StOther '''', c_observed_generation = 0,
      c_last_transition_time = 0, c_reason = '''', c_message = ''''\<rparr>"

record component_detail_status =
  cd_url :: string
  cd_external_url :: string

record component_status =
  cs_mlmd_proxy :: component_detail_status
  cs_api_server :: component_detail_status

record dspa_status_field =
  st_components :: component_status
  st_conditions :: "condition list"

record dspa =
  d_api_version :: string
  d_kind :: string
  d_name :: string
  d_namespace :: string
  d_uid :: string
  d_generation :: int
  d_deletion_timestamp :: "int option"
  d_finalizers :: "string list"
  d_spec :: dspa_spec
  d_status :: dspa_status_field

text \<open>The zero value of \<open>&DataSciencePipelinesApplication{}\<close>, what a failed Get leaves.\<close>

definition empty_component_detail :: component_detail_status where
  "empty_component_detail = \<lparr>cd_url = '''', cd_external_url = ''''\<rparr>"

definition empty_component_status :: component_status where
  "empty_component_status =
     \<lparr>cs_mlmd_proxy = empty_component_detail, cs_api_server = empty_component_detail\<rparr>"

definition empty_spec :: dspa_spec where
  "empty_spec =
     \<lparr>sp_api_server = None, sp_persistence_agent = None, sp_scheduled_workflow = None,
      sp_database = None, sp_object_storage = None, sp_mlmd = None, sp_dsp_version = '''',
      sp_pod_to_pod_tls = None, sp_workflow_controller = None, sp_proxy = None, sp_mlflow = None\<rparr>"

definition empty_dspa :: dspa where
  "empty_dspa =
     \<lparr>d_api_version = '''', d_kind = '''', d_name = '''', d_namespace = '''', d_uid = '''',
      d_generation = 0, d_deletion_timestamp = None, d_finalizers = [], d_spec = empty_spec,
      d_status = \<lparr>st_components = empty_component_status, st_conditions = []\<rparr>\<rparr>"

section \<open>Kubernetes objects, as far as they are read\<close>

record namespaced_name =
  nn_namespace :: string
  nn_name :: string

definition nsname :: "string \<Rightarrow> string \<Rightarrow> namespaced_name" where
  "nsname ns n = \<lparr>nn_namespace = ns, nn_name = n\<rparr>"

record deployment_condition =
  dc_type :: string
  dc_status :: cond_status
  dc_reason :: string
  dc_message :: string

record deployment =
  dp_replicas :: "int option"
  dp_match_labels :: go_map
  dp_conditions :: "deployment_condition list"

record container_waiting =
  cw_reason :: string
  cw_message :: string

record pod =
  po_name :: string
  po_namespace :: string
  po_labels :: go_map
  po_phase :: string
  po_containers :: "container_waiting option list"

record owner_reference =
  or_api_version :: string
  or_kind :: string
  or_name :: string
  or_uid :: string
  or_controller :: "bool option"
  or_block_owner_deletion :: "bool option"

record config_map =
  cm_name :: string
  cm_namespace :: string
  cm_owner_references :: "owner_reference list"
  cm_data :: go_map

record secret =
  se_name :: string
  se_namespace :: string
  se_annotations :: go_map
  se_data :: go_map

record service =
  sv_name :: string
  sv_namespace :: string
  sv_labels :: go_map
  sv_ports :: "int list"

record route =
  ro_host :: string
  ro_tls :: bool

definition empty_route :: route where
  "empty_route = \<lparr>ro_host = '''', ro_tls = False\<rparr>"

record mlflow_cr =
  mlf_address_url :: "string option"

record reconcile_result =
  rq_requeue :: bool
  rq_requeue_after :: int

definition no_requeue :: reconcile_result where
  "no_requeue = \<lparr>rq_requeue = False, rq_requeue_after = 0\<rparr>"

end
