(* ===== verification/Go_Strings.thy ===== *)
theory Go_Strings imports Go_Prelude "HOL-Library.Char_ord" "HOL-Library.List_Lexorder" "HOL-Library.Sublist" begin

text \<open>
  The functions of Go's standard library on strings that the operator calls: prefix tests,
  strings.TrimSpace, strings.Trim, strings.Cut, strings.Split, strings.Join,
  strings.ReplaceAll, strings.ToLower, strings.EqualFold, the verbs \<open>%d\<close> and \<open>%q\<close> of fmt, and
  path.Dir and path.Base.

  Strings are byte lists.  TrimSpace removes the UTF-8 encodings of the Unicode white space
  characters.  ToLower and EqualFold fold the ASCII letters only and \<open>%q\<close> escapes the ASCII
  range only: the strings they are applied to in the operator are pipeline names (restricted
  to \<open>[A-Za-z0-9._-]\<close> by the CRD), registry hosts and message texts.
\<close>

section \<open>Prefixes and suffixes\<close>

fun has_prefix :: "string \<Rightarrow> string \<Rightarrow> bool" where
  "has_prefix s [] = True"
| "has_prefix [] (p # ps) = False"
| "has_prefix (c # s) (p # ps) = (c = p \<and> has_prefix s ps)"

lemma has_prefix_iff: "has_prefix s p \<longleftrightarrow> (\<exists>t. s = p @ t)"
  by (induction s p rule: has_prefix.induct) auto

lemma has_prefix_append [simp]: "has_prefix (p @ s) p"
  by (auto simp: has_prefix_iff)

lemma has_prefix_drop: "has_prefix s p \<Longrightarrow> p @ drop (length p) s = s"
  by (auto simp: has_prefix_iff)

lemma has_prefix_length: "has_prefix s p \<Longrightarrow> length p \<le> length s"
  by (auto simp: has_prefix_iff)

lemma has_prefix_mono: "has_prefix s p \<Longrightarrow> has_prefix (s @ t) p"
  by (auto simp: has_prefix_iff)

section \<open>strings.TrimSpace and strings.Trim\<close>

text \<open>
  The UTF-8 encodings of the characters for which unicode.IsSpace holds: the six ASCII ones,
  U+0085, U+00A0, U+1680, U+2000 to U+200A, U+2028, U+2029, U+202F, U+205F and U+3000.  A rune
  decoded at either end of a string is one of them exactly when the string starts (or ends)
  with its encoding.
\<close>

definition space_seqs :: "string list" where
  "space_seqs =
     [[CHR 0x09], [CHR 0x0A], [CHR 0x0B], [CHR 0x0C], [CHR 0x0D], [CHR 0x20],
      [CHR 0xC2, CHR 0x85], [CHR 0xC2, CHR 0xA0], [CHR 0xE1, CHR 0x9A, CHR 0x80],
      [CHR 0xE2, CHR 0x80, CHR 0x80], [CHR 0xE2, CHR 0x80, CHR 0x81],
      [CHR 0xE2, CHR 0x80, CHR 0x82], [CHR 0xE2, CHR 0x80, CHR 0x83],
      [CHR 0xE2, CHR 0x80, CHR 0x84], [CHR 0xE2, CHR 0x80, CHR 0x85],
      [CHR 0xE2, CHR 0x80, CHR 0x86], [CHR 0xE2, CHR 0x80, CHR 0x87],
      [CHR 0xE2, CHR 0x80, CHR 0x88], [CHR 0xE2, CHR 0x80, CHR 0x89],
      [CHR 0xE2, CHR 0x80, CHR 0x8A], [CHR 0xE2, CHR 0x80, CHR 0xA8],
      [CHR 0xE2, CHR 0x80, CHR 0xA9], [CHR 0xE2, CHR 0x80, CHR 0xAF],
      [CHR 0xE2, CHR 0x81, CHR 0x9F], [CHR 0xE3, CHR 0x80, CHR 0x80]]"

text \<open>\<open>strip_left seqs s\<close> removes members of \<open>seqs\<close> from the front of \<open>s\<close> as long as there is one.\<close>

function strip_left :: "string list \<Rightarrow> string \<Rightarrow> string" where
  "strip_left seqs s =
     (case find (\<lambda>p. p \<noteq> [] \<and> has_prefix s p) seqs of
        None \<Rightarrow> s
      | Some p \<Rightarrow> strip_left seqs (drop (length p) s))"
  by pat_completeness auto
termination
proof (relation "measure (\<lambda>(seqs, s). length s)")
  fix seqs s and p :: string
  assume "find (\<lambda>p. p \<noteq> [] \<and> has_prefix s p) seqs = Some p"
  then have "p \<noteq> []" "has_prefix s p" by (auto simp: find_Some_iff)
  then show "((seqs, drop (length p) s), (seqs, s)) \<in> measure (\<lambda>(seqs, s). length s)"
    by (cases s; cases p) (auto dest: has_prefix_length)
qed simp

declare strip_left.simps [simp del]

definition trim_left :: "string \<Rightarrow> string" where
  "trim_left s = strip_left space_seqs s"

definition trim_right :: "string \<Rightarrow> string" where
  "trim_right s = rev (strip_left (map rev space_seqs) (rev s))"

definition trim_space :: "string \<Rightarrow> string" where
  "trim_space s = trim_right (trim_left s)"

text \<open>strings.Trim with a cutset of one ASCII character.\<close>

definition trim_char :: "char \<Rightarrow> string \<Rightarrow> string" where
  "trim_char c s = rev (dropWhile (\<lambda>x. x = c) (rev (dropWhile (\<lambda>x. x = c) s)))"

lemma strip_left_suffix: "\<exists>p. s = p @ strip_left seqs s"
proof (induction seqs s rule: strip_left.induct)
  case (1 seqs s)
  show ?case
  proof (cases "find (\<lambda>p. p \<noteq> [] \<and> has_prefix s p) seqs")
    case None
    then show ?thesis by (simp add: strip_left.simps [of seqs s])
  next
    case (Some p)
    with "1" obtain q where "drop (length p) s = q @ strip_left seqs (drop (length p) s)"
      by blast
    moreover from Some have "p @ drop (length p) s = s"
      by (auto simp: find_Some_iff has_prefix_drop)
    ultimately have "s = (p @ q) @ strip_left seqs (drop (length p) s)" by simp
    then have "\<exists>r. s = r @ strip_left seqs (drop (length p) s)" by (rule exI)
    with Some show ?thesis by (simp add: strip_left.simps [of seqs s])
  qed
qed

lemma strip_left_no_prefix:
  "p \<in> set seqs \<Longrightarrow> p \<noteq> [] \<Longrightarrow> \<not> has_prefix (strip_left seqs s) p"
proof (induction seqs s rule: strip_left.induct)
  case (1 seqs s)
  show ?case
  proof (cases "find (\<lambda>p. p \<noteq> [] \<and> has_prefix s p) seqs")
    case None
    then have "strip_left seqs s = s" by (simp add: strip_left.simps [of seqs s])
    moreover from None "1.prems" have "\<not> has_prefix s p" by (auto simp: find_None_iff)
    ultimately show ?thesis by simp
  next
    case (Some q)
    with "1" show ?thesis by (simp add: strip_left.simps [of seqs s])
  qed
qed

lemma strip_left_fixed:
  "(\<And>p. p \<in> set seqs \<Longrightarrow> p \<noteq> [] \<Longrightarrow> \<not> has_prefix s p) \<Longrightarrow> strip_left seqs s = s"
  by (subst strip_left.simps) (auto split: option.splits simp: find_Some_iff)

lemma strip_left_idem [simp]: "strip_left seqs (strip_left seqs s) = strip_left seqs s"
  by (rule strip_left_fixed) (rule strip_left_no_prefix)

lemma trim_right_prefix: "\<exists>t. s = trim_right s @ t"
proof -
  obtain p where "rev s = p @ strip_left (map rev space_seqs) (rev s)"
    using strip_left_suffix by blast
  then have "s = rev (p @ strip_left (map rev space_seqs) (rev s))"
    by (metis rev_rev_ident)
  then show ?thesis by (auto simp: trim_right_def)
qed

text \<open>Trimming twice is trimming once: the image environment relies on it.\<close>

lemma trim_space_idem [simp]: "trim_space (trim_space s) = trim_space s"
proof -
  have "trim_left (trim_space s) = trim_space s"
    unfolding trim_left_def
  proof (rule strip_left_fixed, rule notI)
    fix p assume p: "p \<in> set space_seqs" "p \<noteq> []" "has_prefix (trim_space s) p"
    obtain t where "trim_left s = trim_space s @ t"
      using trim_right_prefix [of "trim_left s"] by (auto simp: trim_space_def)
    with p(3) have "has_prefix (trim_left s) p" by (metis has_prefix_mono)
    with p(1,2) show False by (simp add: trim_left_def strip_left_no_prefix)
  qed
  then show ?thesis
    by (simp add: trim_space_def [of "trim_space s"]) (simp add: trim_space_def trim_right_def)
qed

lemma trim_space_Nil [simp]: "trim_space [] = []"
proof -
  have "strip_left seqs [] = []" for seqs
    by (rule strip_left_fixed) (auto simp: has_prefix_iff)
  then show ?thesis by (simp add: trim_space_def trim_left_def trim_right_def)
qed

section \<open>Cutting, splitting and joining\<close>

text \<open>strings.Cut at a one-character separator: \<open>None\<close> when the separator is absent.\<close>

fun cut_at :: "char \<Rightarrow> string \<Rightarrow> (string \<times> string) option" where
  "cut_at c [] = None"
| "cut_at c (x # xs) =
     (if x = c then Some ([], xs)
      else map_option (\<lambda>(a, b). (x # a, b)) (cut_at c xs))"

fun split_on :: "char \<Rightarrow> string \<Rightarrow> string list" where
  "split_on c [] = [[]]"
| "split_on c (x # xs) =
     (if x = c then [] # split_on c xs
      else (case split_on c xs of [] \<Rightarrow> [[x]] | y # ys \<Rightarrow> (x # y) # ys))"

fun join :: "string \<Rightarrow> string list \<Rightarrow> string" where
  "join sep [] = []"
| "join sep [x] = x"
| "join sep (x # y # ys) = x @ sep @ join sep (y # ys)"

text \<open>strings.ReplaceAll with a one-character old string.\<close>

definition replace_all :: "char \<Rightarrow> string \<Rightarrow> string \<Rightarrow> string" where
  "replace_all c new s = concat (map (\<lambda>x. if x = c then new else [x]) s)"

lemma split_on_not_Nil [simp]: "split_on c s \<noteq> []"
  by (induction s) (auto split: list.splits)

lemma join_split_on: "join [c] (split_on c s) = s"
proof (induction s)
  case (Cons x xs)
  obtain y ys where *: "split_on c xs = y # ys" by (cases "split_on c xs") auto
  with Cons show ?case by (cases ys) auto
qed simp

lemma cut_at_Some: "cut_at c s = Some (a, b) \<Longrightarrow> s = a @ c # b \<and> c \<notin> set a"
  by (induction s arbitrary: a b) (auto split: if_splits)

lemma cut_at_None: "cut_at c s = None \<longleftrightarrow> c \<notin> set s"
  by (induction s) auto

lemma cut_at_append: "c \<notin> set a \<Longrightarrow> cut_at c (a @ c # b) = Some (a, b)"
  by (induction a) auto

section \<open>Letter case\<close>

definition lower_char :: "char \<Rightarrow> char" where
  "lower_char c = (if CHR ''A'' \<le> c \<and> c \<le> CHR ''Z'' then char_of (of_char c + 32 :: nat) else c)"

definition to_lower :: "string \<Rightarrow> string" where
  "to_lower s = map lower_char s"

definition equal_fold :: "string \<Rightarrow> string \<Rightarrow> bool" where
  "equal_fold s t = (to_lower s = to_lower t)"

lemma equal_fold_refl [simp]: "equal_fold s s"
  by (simp add: equal_fold_def)

lemma equal_fold_sym: "equal_fold s t = equal_fold t s"
  by (auto simp: equal_fold_def)

section \<open>Formatting\<close>

definition digit_char :: "nat \<Rightarrow> char" where
  "digit_char d = char_of (48 + d)"

fun nat_digits :: "nat \<Rightarrow> string" where
  "nat_digits n = (if n < 10 then [digit_char n] else nat_digits (n div 10) @ [digit_char (n mod 10)])"

declare nat_digits.simps [simp del]

text \<open>The verb \<open>%d\<close>, and strconv.Itoa.\<close>

definition itoa :: "int \<Rightarrow> string" where
  "itoa i = (if i < 0 then ''-'' @ nat_digits (nat (- i)) else nat_digits (nat i))"

definition hex_digit :: "nat \<Rightarrow> char" where
  "hex_digit d = (if d < 10 then char_of (48 + d) else char_of (87 + d))"

definition go_quote_char :: "char \<Rightarrow> string" where
  "go_quote_char c =
     (if c = CHR 0x22 then [CHR 0x5C, CHR 0x22]
      else if c = CHR 0x5C then [CHR 0x5C, CHR 0x5C]
      else if c = CHR 0x07 then [CHR 0x5C, CHR ''a'']
      else if c = CHR 0x08 then [CHR 0x5C, CHR ''b'']
      else if c = CHR 0x0C then [CHR 0x5C, CHR ''f'']
      else if c = CHR 0x0A then [CHR 0x5C, CHR ''n'']
      else if c = CHR 0x0D then [CHR 0x5C, CHR ''r'']
      else if c = CHR 0x09 then [CHR 0x5C, CHR ''t'']
      else if c = CHR 0x0B then [CHR 0x5C, CHR ''v'']
      else if c < CHR 0x20 \<or> c = CHR 0x7F
        then [CHR 0x5C, CHR ''x'', hex_digit (of_char c div 16), hex_digit (of_char c mod 16)]
      else [c])"

text \<open>The verb \<open>%q\<close>.\<close>

definition go_quote :: "string \<Rightarrow> string" where
  "go_quote s = [CHR 0x22] @ concat (map go_quote_char s) @ [CHR 0x22]"

section \<open>The path package\<close>

text \<open>
  path.Clean on the segments between the slashes, from the left: \<open>.\<close> and empty segments are
  dropped, \<open>..\<close> removes the segment before it where there is one, is dropped at the root and
  kept at the front of a relative path.  \<open>out\<close> holds the result's segments in reverse.
\<close>

fun clean_segments :: "bool \<Rightarrow> string list \<Rightarrow> string list \<Rightarrow> string list" where
  "clean_segments rooted [] out = rev out"
| "clean_segments rooted (seg # segs) out =
     (if seg = [] \<or> seg = ''.'' then clean_segments rooted segs out
      else if seg = ''..'' then
        (case out of
           [] \<Rightarrow> clean_segments rooted segs (if rooted then [] else [seg])
         | o1 # os \<Rightarrow>
             if o1 = ''..'' then clean_segments rooted segs (seg # out)
             else clean_segments rooted segs os)
      else clean_segments rooted segs (seg # out))"

definition path_clean :: "string \<Rightarrow> string" where
  "path_clean p =
     (let rooted = (case p of c # _ \<Rightarrow> c = CHR ''/'' | [] \<Rightarrow> False);
          body = join ''/'' (clean_segments rooted (split_on (CHR ''/'') p) [])
      in if rooted then ''/'' @ body else if body = [] then ''.'' else body)"

text \<open>path.Dir: what is before the last slash, cleaned.\<close>

definition path_dir :: "string \<Rightarrow> string" where
  "path_dir p = path_clean (rev (dropWhile (\<lambda>c. c \<noteq> CHR ''/'') (rev p)))"

text \<open>path.Base: the last element, trailing slashes removed first.\<close>

definition path_base :: "string \<Rightarrow> string" where
  "path_base p =
     (if p = [] then ''.''
      else (let q = rev (dropWhile (\<lambda>c. c = CHR ''/'') (rev p))
            in if q = [] then ''/''
               else rev (takeWhile (\<lambda>c. c \<noteq> CHR ''/'') (rev q))))"

lemma path_dir_app: "path_dir ''app/managed-pipelines.json'' = ''app''"
  by code_simp

lemma path_base_app: "path_base ''app/managed-pipelines.json'' = ''managed-pipelines.json''"
  by code_simp

lemma trim_space_example: "trim_space ''  quay.io/x\<newline> '' = ''quay.io/x''"
  by code_simp

end
