(* ===== verification/Go_Json.thy ===== *)
theory Go_Json imports Go_Strings Api_Types begin

text \<open>
  Go's encoding/json, as far as the operator uses it: json.Marshal of maps, structs, strings,
  numbers and booleans, with the escapes Marshal writes, and json.Unmarshal of a text into a
  map of strings, a struct with string fields, and a list of such structs.

  A JSON value keeps a number as its literal text and an object as its members in order.  The
  parser takes fuel: every call spends one unit and consumes input, so twice the length of the
  text is enough, which \<open>json_parse\<close> supplies.  The nesting bound of the Go scanner (10000) is an
  argument of its own.
\<close>

datatype json =
    JNull
  | JBool bool
  | JNum string
  | JStr string
  | JArr "json list"
  | JObj "(string \<times> json) list"

section \<open>UTF-8\<close>

definition byte :: "char \<Rightarrow> nat" where
  "byte c = of_char c"

definition is_cont :: "char \<Rightarrow> bool" where
  "is_cont c = (0x80 \<le> byte c \<and> byte c \<le> 0xBF)"

text \<open>The well-formed runes of two, three and four bytes.\<close>

definition rune2 :: "char \<Rightarrow> char \<Rightarrow> bool" where
  "rune2 a b = (0xC2 \<le> byte a \<and> byte a \<le> 0xDF \<and> is_cont b)"

definition rune3 :: "char \<Rightarrow> char \<Rightarrow> char \<Rightarrow> bool" where
  "rune3 a b c =
     ((if byte a = 0xE0 then 0xA0 \<le> byte b \<and> byte b \<le> 0xBF
       else if byte a = 0xED then 0x80 \<le> byte b \<and> byte b \<le> 0x9F
       else 0xE1 \<le> byte a \<and> byte a \<le> 0xEF \<and> is_cont b) \<and> is_cont c)"

definition rune4 :: "char \<Rightarrow> char \<Rightarrow> char \<Rightarrow> char \<Rightarrow> bool" where
  "rune4 a b c d =
     ((if byte a = 0xF0 then 0x90 \<le> byte b \<and> byte b \<le> 0xBF
       else if byte a = 0xF4 then 0x80 \<le> byte b \<and> byte b \<le> 0x8F
       else 0xF1 \<le> byte a \<and> byte a \<le> 0xF3 \<and> is_cont b) \<and> is_cont c \<and> is_cont d)"

text \<open>The length of the well-formed rune at the front of a text, 0 when there is none.\<close>

fun utf8_len :: "string \<Rightarrow> nat" where
  "utf8_len [] = 0"
| "utf8_len (a # s) =
     (if byte a < 0x80 then 1
      else case s of
        [] \<Rightarrow> 0
      | b # s1 \<Rightarrow>
          if rune2 a b then 2
          else case s1 of
            [] \<Rightarrow> 0
          | c # s2 \<Rightarrow>
              if rune3 a b c then 3
              else case s2 of
                [] \<Rightarrow> 0
              | d # s3 \<Rightarrow> if rune4 a b c d then 4 else 0)"

definition utf8_encode :: "nat \<Rightarrow> string" where
  "utf8_encode r =
     (if r < 0x80 then [char_of r]
      else if r < 0x800 then [char_of (0xC0 + r div 64), char_of (0x80 + r mod 64)]
      else if r < 0x10000
        then [char_of (0xE0 + r div 4096), char_of (0x80 + r div 64 mod 64), char_of (0x80 + r mod 64)]
      else [char_of (0xF0 + r div 262144), char_of (0x80 + r div 4096 mod 64),
            char_of (0x80 + r div 64 mod 64), char_of (0x80 + r mod 64)])"

text \<open>U+FFFD, what Go substitutes for a malformed sequence.\<close>

definition replacement :: string where
  "replacement = [CHR 0xEF, CHR 0xBF, CHR 0xBD]"

section \<open>json.Marshal\<close>

definition u_escape :: "nat \<Rightarrow> string" where
  "u_escape r =
     [CHR 0x5C, CHR ''u'', hex_digit (r div 4096), hex_digit (r div 256 mod 16),
      hex_digit (r div 16 mod 16), hex_digit (r mod 16)]"

definition escape_ascii :: "char \<Rightarrow> string" where
  "escape_ascii c =
     (if c = CHR 0x22 then [CHR 0x5C, CHR 0x22]
      else if c = CHR 0x5C then [CHR 0x5C, CHR 0x5C]
      else if c = CHR 0x08 then [CHR 0x5C, CHR ''b'']
      else if c = CHR 0x0C then [CHR 0x5C, CHR ''f'']
      else if c = CHR 0x0A then [CHR 0x5C, CHR ''n'']
      else if c = CHR 0x0D then [CHR 0x5C, CHR ''r'']
      else if c = CHR 0x09 then [CHR 0x5C, CHR ''t'']
      else if byte c < 0x20 \<or> c = CHR ''<'' \<or> c = CHR ''>'' \<or> c = CHR ''&'' then u_escape (byte c)
      else [c])"

definition escape_multi :: "string \<Rightarrow> string" where
  "escape_multi rune =
     (if rune = [CHR 0xE2, CHR 0x80, CHR 0xA8] then u_escape 0x2028
      else if rune = [CHR 0xE2, CHR 0x80, CHR 0xA9] then u_escape 0x2029
      else rune)"

text \<open>The body of a string literal, with the HTML-safe escapes Marshal uses.\<close>

function json_escape :: "string \<Rightarrow> string" where
  "json_escape [] = []"
| "json_escape (c # s) =
     (let n = utf8_len (c # s) in
      if n = 0 then u_escape 0xFFFD @ json_escape s
      else if n = 1 then escape_ascii c @ json_escape s
      else escape_multi (take n (c # s)) @ json_escape (drop (n - 1) s))"
  by pat_completeness auto
termination
  by (relation "measure length") auto

declare json_escape.simps [simp del]

definition json_string :: "string \<Rightarrow> string" where
  "json_string s = [CHR 0x22] @ json_escape s @ [CHR 0x22]"

fun json_print :: "json \<Rightarrow> string"
and json_print_elems :: "json list \<Rightarrow> string"
and json_print_members :: "(string \<times> json) list \<Rightarrow> string"
where
  "json_print JNull = ''null''"
| "json_print (JBool b) = (if b then ''true'' else ''false'')"
| "json_print (JNum n) = n"
| "json_print (JStr s) = json_string s"
| "json_print (JArr js) = ''['' @ json_print_elems js @ '']''"
| "json_print (JObj ms) = ''{'' @ json_print_members ms @ ''}''"
| "json_print_elems [] = []"
| "json_print_elems [j] = json_print j"
| "json_print_elems (j # k # js) = json_print j @ '','' @ json_print_elems (k # js)"
| "json_print_members [] = []"
| "json_print_members [(k, j)] = json_string k @ '':'' @ json_print j"
| "json_print_members ((k, j) # m # ms) =
     json_string k @ '':'' @ json_print j @ '','' @ json_print_members (m # ms)"

text \<open>Marshal of a \<open>map[string]string\<close>: the members sorted by key.\<close>

definition json_of_map :: "go_map \<Rightarrow> json" where
  "json_of_map m = JObj (map (\<lambda>(k, v). (k, JStr v)) (sort_key fst m))"

text \<open>Integers of Go marshal to their decimal text.\<close>

definition json_int :: "int \<Rightarrow> json" where
  "json_int i = JNum (itoa i)"

section \<open>json.Unmarshal: the text\<close>

definition is_ws :: "char \<Rightarrow> bool" where
  "is_ws c = (c = CHR 0x20 \<or> c = CHR 0x09 \<or> c = CHR 0x0D \<or> c = CHR 0x0A)"

definition skip_ws :: "string \<Rightarrow> string" where
  "skip_ws s = dropWhile is_ws s"

definition hex_val :: "char \<Rightarrow> nat option" where
  "hex_val c =
     (let b = byte c in
      if 48 \<le> b \<and> b \<le> 57 then Some (b - 48)
      else if 97 \<le> b \<and> b \<le> 102 then Some (b - 87)
      else if 65 \<le> b \<and> b \<le> 70 then Some (b - 55)
      else None)"

fun hex4 :: "string \<Rightarrow> (nat \<times> string) option" where
  "hex4 (a # b # c # d # s) =
     (case (hex_val a, hex_val b, hex_val c, hex_val d) of
        (Some w, Some x, Some y, Some z) \<Rightarrow> Some (w * 4096 + x * 256 + y * 16 + z, s)
      | _ \<Rightarrow> None)"
| "hex4 _ = None"

text \<open>The four hex digits of an escape, preceded by a backslash and the letter u.\<close>

fun u_hex4 :: "string \<Rightarrow> (nat \<times> string) option" where
  "u_hex4 (a # b # s) = (if a = CHR 0x5C \<and> b = CHR ''u'' then hex4 s else None)"
| "u_hex4 _ = None"

text \<open>
  The rune an escape denotes.  A surrogate is joined with the escape after it when the two make
  a pair, and otherwise reads as the replacement character.
\<close>

definition u_rune :: "nat \<Rightarrow> string \<Rightarrow> string \<times> string" where
  "u_rune r s =
     (if 0xD800 \<le> r \<and> r < 0xE000 then
        (case u_hex4 s of
           Some (r2, s2) \<Rightarrow>
             if r < 0xDC00 \<and> 0xDC00 \<le> r2 \<and> r2 < 0xE000
             then (utf8_encode ((r - 0xD800) * 1024 + (r2 - 0xDC00) + 0x10000), s2)
             else (replacement, s)
         | None \<Rightarrow> (replacement, s))
      else (utf8_encode r, s))"

definition simple_escape :: "char \<Rightarrow> char option" where
  "simple_escape c =
     (if c = CHR 0x22 then Some (CHR 0x22)
      else if c = CHR 0x5C then Some (CHR 0x5C)
      else if c = CHR ''/'' then Some (CHR ''/'')
      else if c = CHR ''b'' then Some (CHR 0x08)
      else if c = CHR ''f'' then Some (CHR 0x0C)
      else if c = CHR ''n'' then Some (CHR 0x0A)
      else if c = CHR ''r'' then Some (CHR 0x0D)
      else if c = CHR ''t'' then Some (CHR 0x09)
      else None)"

text \<open>\<open>parse_str fuel s\<close>: the string literal whose opening quote is already read.\<close>

fun parse_str :: "nat \<Rightarrow> string \<Rightarrow> (string \<times> string) option" where
  "parse_str 0 s = None"
| "parse_str (Suc fuel) [] = None"
| "parse_str (Suc fuel) (c # s) =
     (if c = CHR 0x22 then Some ([], s)
      else if c = CHR 0x5C then
        (case s of
           [] \<Rightarrow> None
         | e # s1 \<Rightarrow>
             if e = CHR ''u'' then
               (case hex4 s1 of
                  None \<Rightarrow> None
                | Some (r, s2) \<Rightarrow>
                    (case u_rune r s2 of (bytes, s3) \<Rightarrow>
                       map_option (\<lambda>(t, rest). (bytes @ t, rest)) (parse_str fuel s3)))
             else
               (case simple_escape e of
                  None \<Rightarrow> None
                | Some x \<Rightarrow> map_option (\<lambda>(t, rest). (x # t, rest)) (parse_str fuel s1)))
      else if byte c < 0x20 then None
      else (let n = utf8_len (c # s) in
            if n = 0 then map_option (\<lambda>(t, rest). (replacement @ t, rest)) (parse_str fuel s)
            else map_option (\<lambda>(t, rest). (take n (c # s) @ t, rest)) (parse_str fuel (drop (n - 1) s))))"

definition is_digit :: "char \<Rightarrow> bool" where
  "is_digit c = (48 \<le> byte c \<and> byte c \<le> 57)"

definition span_digits :: "string \<Rightarrow> string \<times> string" where
  "span_digits s = (takeWhile is_digit s, dropWhile is_digit s)"

text \<open>The integer part, the optional fraction and the optional exponent of a number literal.\<close>

definition parse_int_part :: "string \<Rightarrow> (string \<times> string) option" where
  "parse_int_part s =
     (case s of
        [] \<Rightarrow> None
      | c # t \<Rightarrow>
          if c = CHR ''0'' then Some ([c], t)
          else if is_digit c then Some (span_digits s)
          else None)"

definition parse_frac :: "string \<Rightarrow> (string \<times> string) option" where
  "parse_frac s =
     (case s of
        [] \<Rightarrow> Some ([], s)
      | c # t \<Rightarrow>
          if c = CHR ''.'' then
            (case span_digits t of (ds, rest) \<Rightarrow> if ds = [] then None else Some (c # ds, rest))
          else Some ([], s))"

definition parse_exp :: "string \<Rightarrow> (string \<times> string) option" where
  "parse_exp s =
     (case s of
        [] \<Rightarrow> Some ([], s)
      | c # t \<Rightarrow>
          if c = CHR ''e'' \<or> c = CHR ''E'' then
            (let (sgn, u) = (case t of [] \<Rightarrow> ([], t) | x # t' \<Rightarrow> if x = CHR ''+'' \<or> x = CHR ''-'' then ([x], t') else ([], t));
                 (ds, rest) = span_digits u
             in if ds = [] then None else Some (c # sgn @ ds, rest))
          else Some ([], s))"

definition parse_num :: "string \<Rightarrow> (string \<times> string) option" where
  "parse_num s =
     (let (neg, s0) = (case s of [] \<Rightarrow> ([], s) | c # t \<Rightarrow> if c = CHR ''-'' then ([c], t) else ([], s)) in
      case parse_int_part s0 of
        None \<Rightarrow> None
      | Some (i, s1) \<Rightarrow>
          (case parse_frac s1 of
             None \<Rightarrow> None
           | Some (f, s2) \<Rightarrow>
               (case parse_exp s2 of
                  None \<Rightarrow> None
                | Some (x, s3) \<Rightarrow> Some (neg @ i @ f @ x, s3))))"

text \<open>
  A value, the elements of an array after the first, and the members of an object after the
  first.  The depth is what is left of the scanner's nesting bound.
\<close>

fun parse_value :: "nat \<Rightarrow> nat \<Rightarrow> string \<Rightarrow> (json \<times> string) option"
and parse_elems :: "nat \<Rightarrow> nat \<Rightarrow> string \<Rightarrow> (json list \<times> string) option"
and parse_members :: "nat \<Rightarrow> nat \<Rightarrow> string \<Rightarrow> ((string \<times> json) list \<times> string) option"
where
  "parse_value 0 d s = None"
| "parse_value (Suc fuel) d s =
     (case skip_ws s of
        [] \<Rightarrow> None
      | c # t \<Rightarrow>
          if c = CHR 0x22 then
            map_option (\<lambda>(x, rest). (JStr x, rest)) (parse_str (Suc (length t)) t)
          else if c = CHR ''['' then
            (case d of
               0 \<Rightarrow> None
             | Suc d' \<Rightarrow>
                 (case skip_ws t of
                    [] \<Rightarrow> None
                  | x # u \<Rightarrow>
                      if x = CHR '']'' then Some (JArr [], u)
                      else map_option (\<lambda>(js, rest). (JArr js, rest)) (parse_elems fuel d' t)))
          else if c = CHR ''{'' then
            (case d of
               0 \<Rightarrow> None
             | Suc d' \<Rightarrow>
                 (case skip_ws t of
                    [] \<Rightarrow> None
                  | x # u \<Rightarrow>
                      if x = CHR ''}'' then Some (JObj [], u)
                      else map_option (\<lambda>(ms, rest). (JObj ms, rest)) (parse_members fuel d' t)))
          else if has_prefix (c # t) ''true'' then Some (JBool True, drop 4 (c # t))
          else if has_prefix (c # t) ''false'' then Some (JBool False, drop 5 (c # t))
          else if has_prefix (c # t) ''null'' then Some (JNull, drop 4 (c # t))
          else map_option (\<lambda>(n, rest). (JNum n, rest)) (parse_num (c # t)))"
| "parse_elems 0 d s = None"
| "parse_elems (Suc fuel) d s =
     (case parse_value fuel d s of
        None \<Rightarrow> None
      | Some (j, rest) \<Rightarrow>
          (case skip_ws rest of
             [] \<Rightarrow> None
           | c # t \<Rightarrow>
               if c = CHR '']'' then Some ([j], t)
               else if c = CHR '','' then
                 map_option (\<lambda>(js, rest'). (j # js, rest')) (parse_elems fuel d t)
               else None))"
| "parse_members 0 d s = None"
| "parse_members (Suc fuel) d s =
     (case skip_ws s of
        [] \<Rightarrow> None
      | q # s1 \<Rightarrow>
          if q \<noteq> CHR 0x22 then None
          else
            (case parse_str (Suc (length s1)) s1 of
               None \<Rightarrow> None
             | Some (k, s2) \<Rightarrow>
                 (case skip_ws s2 of
                    [] \<Rightarrow> None
                  | colon # s3 \<Rightarrow>
                      if colon \<noteq> CHR '':'' then None
                      else
                        (case parse_value fuel d s3 of
                           None \<Rightarrow> None
                         | Some (j, s4) \<Rightarrow>
                             (case skip_ws s4 of
                                [] \<Rightarrow> None
                              | c # t \<Rightarrow>
                                  if c = CHR ''}'' then Some ([(k, j)], t)
                                  else if c = CHR '','' then
                                    map_option (\<lambda>(ms, rest). ((k, j) # ms, rest)) (parse_members fuel d t)
                                  else None)))))"

definition max_depth :: nat where
  "max_depth = 10000"

text \<open>A whole text: one value with white space around it.\<close>

definition json_parse :: "string \<Rightarrow> json option" where
  "json_parse s =
     (case parse_value (2 * length s + 2) max_depth s of
        None \<Rightarrow> None
      | Some (j, rest) \<Rightarrow> if skip_ws rest = [] then Some j else None)"

section \<open>json.Unmarshal: the Go value\<close>

definition syntax_error :: gerr where
  "syntax_error = Plain_Err ''invalid JSON text''"

definition type_error :: gerr where
  "type_error = Plain_Err ''json: cannot unmarshal value into Go value''"

text \<open>
  Into a \<open>map[string]string\<close>.  A null document leaves the map nil; a null member stores the
  empty string; any other non-string member, or a document that is not an object, is a type
  error.  The later of two members with one key wins.
\<close>

fun string_members :: "(string \<times> json) list \<Rightarrow> (string \<rightharpoonup> string) \<Rightarrow> gerr + (string \<rightharpoonup> string)" where
  "string_members [] m = Inr m"
| "string_members ((k, JStr v) # ms) m = string_members ms (m(k \<mapsto> v))"
| "string_members ((k, JNull) # ms) m = string_members ms (m(k \<mapsto> ''''))"
| "string_members ((k, j) # ms) m = Inl type_error"

definition unmarshal_string_map :: "string \<Rightarrow> gerr + (string \<rightharpoonup> string)" where
  "unmarshal_string_map s =
     (case json_parse s of
        None \<Rightarrow> Inl syntax_error
      | Some JNull \<Rightarrow> Inr Map.empty
      | Some (JObj ms) \<Rightarrow> string_members ms Map.empty
      | Some j \<Rightarrow> Inl type_error)"

text \<open>
  Into a struct, for one of its string fields, with its other string fields: a member goes to
  the field whose tag is its key, else to the one that matches it up to case, else nowhere.
\<close>

definition field_of_key :: "string list \<Rightarrow> string \<Rightarrow> string option" where
  "field_of_key tags k =
     (if k \<in> set tags then Some k else find (\<lambda>t. equal_fold t k) tags)"

fun struct_members :: "string list \<Rightarrow> (string \<times> json) list \<Rightarrow> (string \<Rightarrow> string) \<Rightarrow> gerr + (string \<Rightarrow> string)" where
  "struct_members tags [] fs = Inr fs"
| "struct_members tags ((k, j) # ms) fs =
     (case field_of_key tags k of
        None \<Rightarrow> struct_members tags ms fs
      | Some t \<Rightarrow>
          (case j of
             JStr v \<Rightarrow> struct_members tags ms (fs(t := v))
           | JNull \<Rightarrow> struct_members tags ms fs
           | _ \<Rightarrow> Inl type_error))"

definition decode_struct :: "string list \<Rightarrow> json \<Rightarrow> gerr + (string \<Rightarrow> string)" where
  "decode_struct tags j =
     (case j of
        JNull \<Rightarrow> Inr (\<lambda>_. '''')
      | JObj ms \<Rightarrow> struct_members tags ms (\<lambda>_. '''')
      | _ \<Rightarrow> Inl type_error)"

fun decode_structs :: "string list \<Rightarrow> json list \<Rightarrow> gerr + (string \<Rightarrow> string) list" where
  "decode_structs tags [] = Inr []"
| "decode_structs tags (j # js) =
     (case decode_struct tags j of
        Inl e \<Rightarrow> Inl e
      | Inr fs \<Rightarrow> (case decode_structs tags js of Inl e \<Rightarrow> Inl e | Inr fss \<Rightarrow> Inr (fs # fss)))"

lemma unmarshal_string_map_example:
  "case unmarshal_string_map ''{\"tls\":\"true\"}'' of
     Inr m \<Rightarrow> m ''tls'' = Some ''true'' | Inl e \<Rightarrow> False"
  by code_simp

end
