(* ===== verification/Config.thy ===== *)
theory Config imports Api_Types Go_Strings Go_Json begin

text \<open>
  \<open>controllers/config/defaults.go\<close> and \<open>templating.go\<close>: the operator's constants, the default
  resource requirements and the readers of the operator configuration.  viper is a library:
  what it answers for a key is a record of functions, a parameter of every reader.  A
  duration is a number of nanoseconds, as in Go.
\<close>

named_theorems config_consts \<open>the values of the operator's constants\<close>


subsection \<open>Versions and labels\<close>

definition DSPV2VersionString :: string where [config_consts]: "DSPV2VersionString = ''v2''"
definition DSPVersionk8sLabel :: string where [config_consts]: "DSPVersionk8sLabel = ''dsp-version''"
definition DSPComponentk8sLabel :: string where [config_consts]: "DSPComponentk8sLabel = ''component''"
definition DSPComponentk8sLabelValue :: string where [config_consts]: "DSPComponentk8sLabelValue = ''data-science-pipelines''"

subsection \<open>Images, certificates and names\<close>

definition DefaultImageValue :: string where [config_consts]: "DefaultImageValue = ''MustSetInConfig''"
definition CustomCABundleRootMountPath :: string where [config_consts]: "CustomCABundleRootMountPath = ''/dsp-custom-certs''"
definition GlobalODHCaBundleConfigMapName :: string where [config_consts]: "GlobalODHCaBundleConfigMapName = ''odh-trusted-ca-bundle''"
definition GlobalODHCaBundleConfigMapSystemBundleKey :: string where [config_consts]: "GlobalODHCaBundleConfigMapSystemBundleKey = ''ca-bundle.crt''"
definition CustomDSPTrustedCAConfigMapNamePrefix :: string where [config_consts]: "CustomDSPTrustedCAConfigMapNamePrefix = ''dsp-trusted-ca''"
definition CustomDSPTrustedCAConfigMapKey :: string where [config_consts]: "CustomDSPTrustedCAConfigMapKey = ''dsp-ca.crt''"
definition OpenshiftServiceCAConfigMapName :: string where [config_consts]: "OpenshiftServiceCAConfigMapName = ''openshift-service-ca.crt''"
definition OpenshiftServiceCAConfigMapKey :: string where [config_consts]: "OpenshiftServiceCAConfigMapKey = ''service-ca.crt''"
definition DefaultSystemSSLCertFile :: string where [config_consts]: "DefaultSystemSSLCertFile = ''SSL_CERT_FILE''"
definition DefaultSystemSSLCertFilePath :: string where [config_consts]: "DefaultSystemSSLCertFilePath = ''/etc/pki/tls/certs/ca-bundle.crt''"
definition CustomServerConfigMapNamePrefix :: string where [config_consts]: "CustomServerConfigMapNamePrefix = ''ds-pipeline-server-config-''"
definition CustomServerConfigMapNameKey :: string where [config_consts]: "CustomServerConfigMapNameKey = ''config.json''"
definition DSPServicePrefix :: string where [config_consts]: "DSPServicePrefix = ''ds-pipeline''"

subsection \<open>Database, object store and MLMD defaults\<close>

definition DefaultDBSecretNamePrefix :: string where [config_consts]: "DefaultDBSecretNamePrefix = ''ds-pipeline-db-''"
definition DefaultDBSecretKey :: string where [config_consts]: "DefaultDBSecretKey = ''password''"
definition GeneratedDBPasswordLength :: int where [config_consts]: "GeneratedDBPasswordLength = 12"
definition DefaultSignedUrlExpiryTimeSeconds :: int where [config_consts]: "DefaultSignedUrlExpiryTimeSeconds = 60"
definition MariaDBName :: string where [config_consts]: "MariaDBName = ''mlpipeline''"
definition MariaDBHostPrefix :: string where [config_consts]: "MariaDBHostPrefix = ''mariadb''"
definition MariaDBHostPort :: string where [config_consts]: "MariaDBHostPort = ''3306''"
definition MariaDBUser :: string where [config_consts]: "MariaDBUser = ''mlpipeline''"
definition MariaDBNamePVCSize :: string where [config_consts]: "MariaDBNamePVCSize = ''10Gi''"
definition MinioHostPrefix :: string where [config_consts]: "MinioHostPrefix = ''minio''"
definition MinioPort :: string where [config_consts]: "MinioPort = ''9000''"
definition MinioScheme :: string where [config_consts]: "MinioScheme = ''http''"
definition MinioDefaultBucket :: string where [config_consts]: "MinioDefaultBucket = ''mlpipeline''"
definition MinioPVCSize :: string where [config_consts]: "MinioPVCSize = ''10Gi''"
definition DefaultObjectStorageSecretNamePrefix :: string where [config_consts]: "DefaultObjectStorageSecretNamePrefix = ''ds-pipeline-s3-''"
definition DefaultObjectStorageAccessKey :: string where [config_consts]: "DefaultObjectStorageAccessKey = ''accesskey''"
definition DefaultObjectStorageSecretKey :: string where [config_consts]: "DefaultObjectStorageSecretKey = ''secretkey''"
definition GeneratedObjectStorageAccessKeyLength :: int where [config_consts]: "GeneratedObjectStorageAccessKeyLength = 16"
definition GeneratedObjectStorageSecretKeyLength :: int where [config_consts]: "GeneratedObjectStorageSecretKeyLength = 24"
definition MlmdGrpcPort :: string where [config_consts]: "MlmdGrpcPort = ''8080''"
definition DefaultManagedPipelinesVolumeSizeLimit :: string where [config_consts]: "DefaultManagedPipelinesVolumeSizeLimit = ''1024Mi''"
definition ManagedPipelinesUploadTagManaged :: string where [config_consts]: "ManagedPipelinesUploadTagManaged = ''managed=true''"

subsection \<open>Keys of the operator configuration\<close>

definition APIServerImagePath :: string where [config_consts]: "APIServerImagePath = ''Images.ApiServer''"
definition PersistenceAgentImagePath :: string where [config_consts]: "PersistenceAgentImagePath = ''Images.PersistenceAgent''"
definition ScheduledWorkflowImagePath :: string where [config_consts]: "ScheduledWorkflowImagePath = ''Images.ScheduledWorkflow''"
definition MlmdEnvoyImagePath :: string where [config_consts]: "MlmdEnvoyImagePath = ''Images.MlmdEnvoy''"
definition MlmdGRPCImagePath :: string where [config_consts]: "MlmdGRPCImagePath = ''Images.MlmdGRPC''"
definition LauncherImagePath :: string where [config_consts]: "LauncherImagePath = ''Images.LauncherImage''"
definition DriverImagePath :: string where [config_consts]: "DriverImagePath = ''Images.DriverImage''"
definition ArgoExecImagePath :: string where [config_consts]: "ArgoExecImagePath = ''Images.ArgoExecImage''"
definition ArgoWorkflowControllerImagePath :: string where [config_consts]: "ArgoWorkflowControllerImagePath = ''Images.ArgoWorkflowController''"
definition MariaDBImagePath :: string where [config_consts]: "MariaDBImagePath = ''Images.MariaDB''"
definition KubeRBACProxyImagePath :: string where [config_consts]: "KubeRBACProxyImagePath = ''Images.KubeRBACProxy''"
definition PipelinesComponentsImagePath :: string where [config_consts]: "PipelinesComponentsImagePath = ''Images.PipelinesComponents''"
definition ObjStoreConnectionTimeoutConfigName :: string where [config_consts]: "ObjStoreConnectionTimeoutConfigName = ''DSPO.HealthCheck.ObjectStore.ConnectionTimeout''"
definition DBConnectionTimeoutConfigName :: string where [config_consts]: "DBConnectionTimeoutConfigName = ''DSPO.HealthCheck.Database.ConnectionTimeout''"
definition RequeueTimeConfigName :: string where [config_consts]: "RequeueTimeConfigName = ''DSPO.RequeueTime''"
definition ApiServerIncludeOwnerReferenceConfigName :: string where [config_consts]: "ApiServerIncludeOwnerReferenceConfigName = ''DSPO.ApiServer.IncludeOwnerReference''"

subsection \<open>Condition types\<close>

definition DatabaseAvailable :: string where [config_consts]: "DatabaseAvailable = ''DatabaseAvailable''"
definition ObjectStoreAvailable :: string where [config_consts]: "ObjectStoreAvailable = ''ObjectStoreAvailable''"
definition APIServerReady :: string where [config_consts]: "APIServerReady = ''APIServerReady''"
definition PersistenceAgentReady :: string where [config_consts]: "PersistenceAgentReady = ''PersistenceAgentReady''"
definition ScheduledWorkflowReady :: string where [config_consts]: "ScheduledWorkflowReady = ''ScheduledWorkflowReady''"
definition WorkflowControllerReady :: string where [config_consts]: "WorkflowControllerReady = ''WorkflowControllerReady''"
definition MLMDProxyReady :: string where [config_consts]: "MLMDProxyReady = ''MLMDProxyReady''"
definition WebhookReady :: string where [config_consts]: "WebhookReady = ''WebhookReady''"
definition ManagedPipelineValid :: string where [config_consts]: "ManagedPipelineValid = ''ManagedPipelineValid''"
definition CrReady :: string where [config_consts]: "CrReady = ''Ready''"

subsection \<open>Condition reasons\<close>

definition MinimumReplicasAvailable :: string where [config_consts]: "MinimumReplicasAvailable = ''MinimumReplicasAvailable''"
definition FailingToDeploy :: string where [config_consts]: "FailingToDeploy = ''FailingToDeploy''"
definition Deploying :: string where [config_consts]: "Deploying = ''Deploying''"
definition ComponentDeploymentNotFound :: string where [config_consts]: "ComponentDeploymentNotFound = ''ComponentDeploymentNotFound''"
definition UnsupportedVersion :: string where [config_consts]: "UnsupportedVersion = ''UnsupportedVersion''"
definition ManagedPipelineInvalid :: string where [config_consts]: "ManagedPipelineInvalid = ''ManagedPipelineInvalid''"
definition ManagedPipelinesFetchError :: string where [config_consts]: "ManagedPipelinesFetchError = ''ManagedPipelinesFetchError''"

subsection \<open>Other defaults\<close>

definition DefaultPlatformVersion :: string where [config_consts]: "DefaultPlatformVersion = ''v0.0.0''"
definition DefaultArgoWorkflowsControllersManagementState :: string where [config_consts]: "DefaultArgoWorkflowsControllersManagementState = ''Managed''"

definition DefaultArgoWorkflowsControllers :: string where [config_consts]:
  "DefaultArgoWorkflowsControllers =
     CHR 0x7B # CHR 0x22 # ''managementState'' @ CHR 0x22 # CHR 0x3A # CHR 0x22 #
     DefaultArgoWorkflowsControllersManagementState @ CHR 0x22 # CHR 0x7D # []"

definition second :: int where [config_consts]: "second = 1000000000"

definition DefaultDBConnectionTimeout :: int where [config_consts]: "DefaultDBConnectionTimeout = second * 15"
definition DefaultObjStoreConnectionTimeout :: int where [config_consts]: "DefaultObjStoreConnectionTimeout = second * 15"
definition DefaultMaxConcurrentReconciles :: int where [config_consts]: "DefaultMaxConcurrentReconciles = 10"
definition DefaultRequeueTime :: int where [config_consts]: "DefaultRequeueTime = second * 20"
definition DefaultApiServerIncludeOwnerReferenceConfigName :: bool where [config_consts]:
  "DefaultApiServerIncludeOwnerReferenceConfigName = True"

definition SupportedDSPVersions :: "string list" where
  "SupportedDSPVersions = [DSPV2VersionString]"

definition GetSupportedDSPAVersions :: "string list" where
  "GetSupportedDSPAVersions = SupportedDSPVersions"

definition requiredFields :: "string list" where
  "requiredFields =
     [APIServerImagePath, PersistenceAgentImagePath, ScheduledWorkflowImagePath,
      MariaDBImagePath, KubeRBACProxyImagePath]"

definition GetConfigRequiredFields :: "string list" where
  "GetConfigRequiredFields = requiredFields"

subsection \<open>Default resource requirements\<close>

definition createResourceRequirement ::
  "quantity \<Rightarrow> quantity \<Rightarrow> quantity \<Rightarrow> quantity \<Rightarrow> resource_requirements" where
  "createResourceRequirement requestsCPU requestsMemory limitsCPU limitsMemory =
     \<lparr>rr_limits = Some \<lparr>r_cpu = limitsCPU, r_memory = limitsMemory\<rparr>,
      rr_requests = Some \<lparr>r_cpu = requestsCPU, r_memory = requestsMemory\<rparr>\<rparr>"

definition APIServerResourceRequirements :: resource_requirements where
  "APIServerResourceRequirements =
     createResourceRequirement ''250m'' ''500Mi'' ''500m'' ''1Gi''"

definition PersistenceAgentResourceRequirements :: resource_requirements where
  "PersistenceAgentResourceRequirements =
     createResourceRequirement ''120m'' ''500Mi'' ''250m'' ''1Gi''"

definition ScheduledWorkflowResourceRequirements :: resource_requirements where
  "ScheduledWorkflowResourceRequirements =
     createResourceRequirement ''120m'' ''100Mi'' ''250m'' ''250Mi''"

definition WorkflowControllerResourceRequirements :: resource_requirements where
  "WorkflowControllerResourceRequirements =
     createResourceRequirement ''120m'' ''500Mi'' ''250m'' ''1Gi''"

definition MariaDBResourceRequirements :: resource_requirements where
  "MariaDBResourceRequirements =
     createResourceRequirement ''300m'' ''800Mi'' ''1'' ''1Gi''"

definition MinioResourceRequirements :: resource_requirements where
  "MinioResourceRequirements =
     createResourceRequirement ''200m'' ''100Mi'' ''250m'' ''1Gi''"

definition MlmdEnvoyResourceRequirements :: resource_requirements where
  "MlmdEnvoyResourceRequirements =
     createResourceRequirement ''100m'' ''256Mi'' ''100m'' ''256Mi''"

definition MlmdGRPCResourceRequirements :: resource_requirements where
  "MlmdGRPCResourceRequirements =
     createResourceRequirement ''100m'' ''256Mi'' ''100m'' ''256Mi''"

definition ManagedPipelinesInitResourceRequirements :: resource_requirements where
  "ManagedPipelinesInitResourceRequirements =
     createResourceRequirement ''250m'' ''500Mi'' ''500m'' ''1Gi''"

text \<open>Every default names both a CPU and a memory quantity, for the requests and the limits.\<close>

definition full_resources :: "resource_requirements \<Rightarrow> bool" where
  "full_resources r \<longleftrightarrow>
     (case (rr_limits r, rr_requests r) of
        (Some l, Some q) \<Rightarrow> r_cpu l \<noteq> '''' \<and> r_memory l \<noteq> '''' \<and> r_cpu q \<noteq> '''' \<and> r_memory q \<noteq> ''''
      | _ \<Rightarrow> False)"

lemmas default_resources =
  APIServerResourceRequirements_def
  PersistenceAgentResourceRequirements_def
  ScheduledWorkflowResourceRequirements_def
  WorkflowControllerResourceRequirements_def
  MariaDBResourceRequirements_def
  MinioResourceRequirements_def
  MlmdEnvoyResourceRequirements_def
  MlmdGRPCResourceRequirements_def
  ManagedPipelinesInitResourceRequirements_def

section \<open>Reading the operator configuration\<close>

record viper =
  v_is_set :: "string \<Rightarrow> bool"
  v_get_string :: "string \<Rightarrow> string"
  v_get_duration :: "string \<Rightarrow> int"
  v_get_bool :: "string \<Rightarrow> bool"

definition GetStringConfig :: "viper \<Rightarrow> string \<Rightarrow> string res" where
  "GetStringConfig v configName =
     (if \<not> v_is_set v configName
      then Err (Plain_Err (''value not set in config for configname '' @ configName))
      else Ok (v_get_string v configName))"

definition GetStringConfigWithDefault :: "viper \<Rightarrow> string \<Rightarrow> string \<Rightarrow> string" where
  "GetStringConfigWithDefault v configName dflt =
     (if \<not> v_is_set v configName then dflt else v_get_string v configName)"

definition GetDurationConfigWithDefault :: "viper \<Rightarrow> string \<Rightarrow> int \<Rightarrow> int" where
  "GetDurationConfigWithDefault v configName dflt =
     (if \<not> v_is_set v configName then dflt else v_get_duration v configName)"

definition GetBoolConfigWithDefault :: "viper \<Rightarrow> string \<Rightarrow> bool \<Rightarrow> bool" where
  "GetBoolConfigWithDefault v configName dflt =
     (if \<not> v_is_set v configName then dflt else v_get_bool v configName)"

definition ResolvedPlatformVersion :: "viper \<Rightarrow> string" where
  "ResolvedPlatformVersion v =
     trim_char (CHR 0x22) (GetStringConfigWithDefault v ''DSPO.PlatformVersion'' DefaultPlatformVersion)"

definition BuildManagedPipelinesUploadTags :: "string \<Rightarrow> string" where
  "BuildManagedPipelinesUploadTags platformVersion =
     ManagedPipelinesUploadTagManaged @ '',rhoai-version='' @ platformVersion"

definition GetCABundleFileMountPath :: string where
  "GetCABundleFileMountPath = CustomCABundleRootMountPath @ ''/'' @ CustomDSPTrustedCAConfigMapKey"

text \<open>json.Marshal of a \<open>map[string]string\<close> never fails; it sorts the keys.\<close>

definition GetDefaultDBExtraParams :: "go_map \<Rightarrow> string res" where
  "GetDefaultDBExtraParams params = Ok (json_print (json_of_map params))"

definition prefixedPath :: "string \<Rightarrow> string \<Rightarrow> string" where
  "prefixedPath pathPrefix p = (if pathPrefix \<noteq> '''' then pathPrefix @ ''/'' @ p else p)"

end
