(* ===== verification/Dspa_Status.thy ===== *)
theory Dspa_Status imports Config begin

text \<open>
  \<open>controllers/dspastatus/dspa_status.go\<close>: the status object one reconcile fills in, its setters,
  and \<open>GetConditions\<close>, which derives the overall Ready condition and stamps the result with the
  generation and the transition times.  metav1.Now() is the argument \<open>now\<close>.  The status object
  keeps a pointer to the custom resource; what it points at is the argument \<open>dspa\<close> of
  \<open>GetConditions\<close>, since the controller refreshes the resource behind that pointer.

  The \<open>GetConditionByType\<close> of \<open>controllers/util/util.go\<close>, the reader of such lists, is here too.
\<close>

section \<open>The status object\<close>

record dspa_status =
  s_databaseAvailable :: condition
  s_objStoreAvailable :: condition
  s_apiServerReady :: condition
  s_persistenceAgentReady :: condition
  s_scheduledWorkflowReady :: condition
  s_workflowControllerReady :: condition
  s_mlmdProxyReady :: condition
  s_dspaReady :: "condition option"
  s_webhookReady :: condition
  s_managedPipelineValid :: condition

definition BuildTrueCondition :: "string \<Rightarrow> string \<Rightarrow> int \<Rightarrow> condition" where
  "BuildTrueCondition conditionType message now =
     empty_condition\<lparr>c_type := conditionType, c_status := StTrue, c_reason := conditionType,
       c_message := message, c_last_transition_time := now\<rparr>"

definition BuildFalseCondition :: "string \<Rightarrow> string \<Rightarrow> string \<Rightarrow> int \<Rightarrow> condition" where
  "BuildFalseCondition conditionType reason message now =
     empty_condition\<lparr>c_type := conditionType, c_status := StFalse, c_reason := reason,
       c_message := message, c_last_transition_time := now\<rparr>"

definition BuildUnknownCondition :: "string \<Rightarrow> int \<Rightarrow> condition" where
  "BuildUnknownCondition conditionType now =
     empty_condition\<lparr>c_type := conditionType, c_status := StUnknown, c_reason := ''Unknown'',
       c_last_transition_time := now\<rparr>"

definition NewDSPAStatus :: "int \<Rightarrow> dspa_status" where
  "NewDSPAStatus now =
     \<lparr>s_databaseAvailable = BuildUnknownCondition DatabaseAvailable now,
      s_objStoreAvailable = BuildUnknownCondition ObjectStoreAvailable now,
      s_apiServerReady = BuildUnknownCondition APIServerReady now,
      s_persistenceAgentReady = BuildUnknownCondition PersistenceAgentReady now,
      s_scheduledWorkflowReady = BuildUnknownCondition ScheduledWorkflowReady now,
      s_workflowControllerReady = BuildUnknownCondition WorkflowControllerReady now,
      s_mlmdProxyReady = BuildUnknownCondition MLMDProxyReady now,
      s_dspaReady = None,
      s_webhookReady = BuildUnknownCondition WebhookReady now,
      s_managedPipelineValid = BuildUnknownCondition ManagedPipelineValid now\<rparr>"

text \<open>\<open>message := ""; if err != nil { message = err.Error() }\<close>\<close>

definition error_text :: "gerr option \<Rightarrow> string" where
  "error_text err = (case err of None \<Rightarrow> '''' | Some e \<Rightarrow> err_msg e)"

definition SetDatabaseNotReady :: "gerr option \<Rightarrow> string \<Rightarrow> int \<Rightarrow> dspa_status \<Rightarrow> dspa_status" where
  "SetDatabaseNotReady err reason now s =
     s\<lparr>s_databaseAvailable := BuildFalseCondition DatabaseAvailable reason (error_text err) now\<rparr>"

definition SetDatabaseReady :: "int \<Rightarrow> dspa_status \<Rightarrow> dspa_status" where
  "SetDatabaseReady now s =
     s\<lparr>s_databaseAvailable :=
         BuildTrueCondition DatabaseAvailable ''Database connectivity successfully verified'' now\<rparr>"

definition SetObjStoreReady :: "int \<Rightarrow> dspa_status \<Rightarrow> dspa_status" where
  "SetObjStoreReady now s =
     s\<lparr>s_objStoreAvailable :=
         BuildTrueCondition ObjectStoreAvailable ''Object Store connectivity successfully verified'' now\<rparr>"

definition SetObjStoreNotReady :: "gerr option \<Rightarrow> string \<Rightarrow> int \<Rightarrow> dspa_status \<Rightarrow> dspa_status" where
  "SetObjStoreNotReady err reason now s =
     s\<lparr>s_objStoreAvailable := BuildFalseCondition ObjectStoreAvailable reason (error_text err) now\<rparr>"

definition SetWebhookNotReady :: "gerr option \<Rightarrow> string \<Rightarrow> int \<Rightarrow> dspa_status \<Rightarrow> dspa_status" where
  "SetWebhookNotReady err reason now s =
     s\<lparr>s_webhookReady := BuildFalseCondition WebhookReady reason (error_text err) now\<rparr>"

definition SetWebhookReady :: "int \<Rightarrow> dspa_status \<Rightarrow> dspa_status" where
  "SetWebhookReady now s =
     s\<lparr>s_webhookReady :=
         BuildTrueCondition WebhookReady ''Webhook deployment successfully verified'' now\<rparr>"

definition SetWebhookNotApplicable :: "int \<Rightarrow> dspa_status \<Rightarrow> dspa_status" where
  "SetWebhookNotApplicable now s =
     s\<lparr>s_webhookReady :=
         BuildFalseCondition WebhookReady ''NotApplicable''
           (''Webhook deployment not applicable for pipeline storage other than '' @
            CHR 0x27 # ''kubernetes'' @ [CHR 0x27]) now\<rparr>"

definition SetApiServerStatus :: "condition \<Rightarrow> dspa_status \<Rightarrow> dspa_status" where
  "SetApiServerStatus c s = s\<lparr>s_apiServerReady := c\<rparr>"

definition SetPersistenceAgentStatus :: "condition \<Rightarrow> dspa_status \<Rightarrow> dspa_status" where
  "SetPersistenceAgentStatus c s = s\<lparr>s_persistenceAgentReady := c\<rparr>"

definition SetScheduledWorkflowStatus :: "condition \<Rightarrow> dspa_status \<Rightarrow> dspa_status" where
  "SetScheduledWorkflowStatus c s = s\<lparr>s_scheduledWorkflowReady := c\<rparr>"

definition SetWorkflowControllerStatus :: "condition \<Rightarrow> dspa_status \<Rightarrow> dspa_status" where
  "SetWorkflowControllerStatus c s = s\<lparr>s_workflowControllerReady := c\<rparr>"

definition SetWorkflowControllerNotReady ::
  "gerr option \<Rightarrow> string \<Rightarrow> int \<Rightarrow> dspa_status \<Rightarrow> dspa_status" where
  "SetWorkflowControllerNotReady err reason now s =
     s\<lparr>s_workflowControllerReady :=
         BuildFalseCondition WorkflowControllerReady reason (error_text err) now\<rparr>"

definition SetWorkflowControllerReady :: "int \<Rightarrow> dspa_status \<Rightarrow> dspa_status" where
  "SetWorkflowControllerReady now s =
     s\<lparr>s_workflowControllerReady :=
         BuildTrueCondition WorkflowControllerReady
           ''Argo Workflows Controller deployment successfully verified'' now\<rparr>"

definition SetWorkflowControllerNotApplicable :: "int \<Rightarrow> dspa_status \<Rightarrow> dspa_status" where
  "SetWorkflowControllerNotApplicable now s =
     s\<lparr>s_workflowControllerReady :=
         BuildFalseCondition WorkflowControllerReady ''NotApplicable''
           ''WorkflowController deployment disabled by the operator'' now\<rparr>"

definition SetMLMDProxyStatus :: "condition \<Rightarrow> dspa_status \<Rightarrow> dspa_status" where
  "SetMLMDProxyStatus c s = s\<lparr>s_mlmdProxyReady := c\<rparr>"

definition SetManagedPipelineValid :: "int \<Rightarrow> dspa_status \<Rightarrow> dspa_status" where
  "SetManagedPipelineValid now s =
     s\<lparr>s_managedPipelineValid :=
         BuildTrueCondition ManagedPipelineValid ''All managed pipeline names are valid'' now\<rparr>"

definition SetManagedPipelineInvalid ::
  "gerr option \<Rightarrow> string \<Rightarrow> int \<Rightarrow> dspa_status \<Rightarrow> dspa_status" where
  "SetManagedPipelineInvalid err reason now s =
     s\<lparr>s_managedPipelineValid :=
         BuildFalseCondition ManagedPipelineValid reason (error_text err) now\<rparr>"

definition SetManagedPipelineNotApplicable :: "int \<Rightarrow> dspa_status \<Rightarrow> dspa_status" where
  "SetManagedPipelineNotApplicable now s =
     s\<lparr>s_managedPipelineValid :=
         BuildFalseCondition ManagedPipelineValid ''NotApplicable''
           ''Managed pipelines not configured or no explicit pipeline list'' now\<rparr>"

definition SetDSPANotReady :: "gerr option \<Rightarrow> string \<Rightarrow> int \<Rightarrow> dspa_status \<Rightarrow> dspa_status" where
  "SetDSPANotReady err reason now s =
     s\<lparr>s_dspaReady := Some (BuildFalseCondition CrReady reason (error_text err) now)\<rparr>"

lemmas build_condition_defs =
  BuildTrueCondition_def BuildFalseCondition_def BuildUnknownCondition_def

lemmas status_setter_defs =
  SetDatabaseNotReady_def SetDatabaseReady_def SetObjStoreReady_def SetObjStoreNotReady_def
  SetWebhookNotReady_def SetWebhookReady_def SetWebhookNotApplicable_def SetApiServerStatus_def
  SetPersistenceAgentStatus_def SetScheduledWorkflowStatus_def SetWorkflowControllerStatus_def
  SetWorkflowControllerNotReady_def SetWorkflowControllerReady_def
  SetWorkflowControllerNotApplicable_def SetMLMDProxyStatus_def SetManagedPipelineValid_def
  SetManagedPipelineInvalid_def SetManagedPipelineNotApplicable_def SetDSPANotReady_def

section \<open>The conditions\<close>

definition isNonBlockingReason :: "string \<Rightarrow> bool" where
  "isNonBlockingReason reason \<longleftrightarrow> reason = ''NotApplicable'' \<or> reason = ManagedPipelinesFetchError"

text \<open>The test of the loop of \<open>GetConditions\<close>: a condition that degrades the overall state.\<close>

definition blocking :: "condition \<Rightarrow> bool" where
  "blocking c \<longleftrightarrow> (c_status c = StFalse \<or> c_status c = StUnknown) \<and> \<not> isNonBlockingReason (c_reason c)"

definition componentConditions :: "dspa_status \<Rightarrow> condition list" where
  "componentConditions s =
     [s_databaseAvailable s, s_objStoreAvailable s, s_apiServerReady s, s_persistenceAgentReady s,
      s_scheduledWorkflowReady s, s_workflowControllerReady s, s_mlmdProxyReady s, s_webhookReady s,
      s_managedPipelineValid s]"

text \<open>The loop: \<open>allReady\<close> and the collected failure messages.\<close>

fun ready_loop :: "condition list \<Rightarrow> bool \<times> string \<Rightarrow> bool \<times> string" where
  "ready_loop [] (allReady, failureMessages) = (allReady, failureMessages)"
| "ready_loop (c # cs) (allReady, failureMessages) =
     (if blocking c then ready_loop cs (False, failureMessages @ c_message c @ '' '' @ [CHR 0x0A])
      else ready_loop cs (allReady, failureMessages))"

definition derived_ready :: "int \<Rightarrow> bool \<times> string \<Rightarrow> condition" where
  "derived_ready now r =
     (if fst r
      then empty_condition\<lparr>c_type := CrReady, c_status := StTrue, c_reason := MinimumReplicasAvailable,
             c_message := ''All components are ready.'', c_last_transition_time := now\<rparr>
      else empty_condition\<lparr>c_type := CrReady, c_status := StFalse, c_reason := MinimumReplicasAvailable,
             c_message := snd r, c_last_transition_time := now\<rparr>)"

definition cr_ready :: "int \<Rightarrow> dspa_status \<Rightarrow> condition" where
  "cr_ready now s =
     (case s_dspaReady s of
        Some c \<Rightarrow> c
      | None \<Rightarrow> derived_ready now (ready_loop (componentConditions s) (True, '''')))"

text \<open>The map of the previous conditions by type: a later condition overwrites an earlier one.\<close>

fun previousConditions :: "condition list \<Rightarrow> (string \<rightharpoonup> condition) \<Rightarrow> (string \<rightharpoonup> condition)" where
  "previousConditions [] m = m"
| "previousConditions (c # cs) m = previousConditions cs (m(c_type c \<mapsto> c))"

definition stamp :: "int \<Rightarrow> (string \<rightharpoonup> condition) \<Rightarrow> condition \<Rightarrow> condition" where
  "stamp generation previous c =
     (let c' = c\<lparr>c_observed_generation := generation\<rparr> in
      case previous (c_type c') of
        Some prev \<Rightarrow>
          (if c_status prev = c_status c'
           then c'\<lparr>c_last_transition_time := c_last_transition_time prev\<rparr> else c')
      | None \<Rightarrow> c')"

definition GetConditions :: "dspa \<Rightarrow> int \<Rightarrow> dspa_status \<Rightarrow> condition list" where
  "GetConditions dspa now s =
     map (stamp (d_generation dspa) (previousConditions (st_conditions (d_status dspa)) Map.empty))
       (componentConditions s @ [cr_ready now s])"

text \<open>util.GetConditionByType: the first condition of the type, the zero condition if there is none.\<close>

fun GetConditionByType :: "string \<Rightarrow> condition list \<Rightarrow> condition" where
  "GetConditionByType condType [] = empty_condition"
| "GetConditionByType condType (c # cs) = (if c_type c = condType then c else GetConditionByType condType cs)"

section \<open>Lemmas\<close>

definition component_types :: "string list" where
  "component_types =
     [DatabaseAvailable, ObjectStoreAvailable, APIServerReady, PersistenceAgentReady,
      ScheduledWorkflowReady, WorkflowControllerReady, MLMDProxyReady, WebhookReady,
      ManagedPipelineValid]"

definition all_condition_types :: "string list" where
  "all_condition_types = component_types @ [CrReady]"

lemma distinct_condition_types [simp]: "distinct all_condition_types"
  by (simp add: all_condition_types_def component_types_def config_consts)

lemma ready_loop_eq:
  "ready_loop cs (a, m) =
     (a \<and> list_all (\<lambda>c. \<not> blocking c) cs,
      m @ concat (map (\<lambda>c. c_message c @ '' '' @ [CHR 0x0A]) (filter blocking cs)))"
  by (induction cs arbitrary: a m) auto

lemma find_snoc:
  "find P (xs @ [c]) = (case find P xs of Some p \<Rightarrow> Some p | None \<Rightarrow> if P c then Some c else None)"
  by (induction xs) auto

lemma previousConditions_find:
  "previousConditions cs m t =
     (case find (\<lambda>p. c_type p = t) (rev cs) of Some p \<Rightarrow> Some p | None \<Rightarrow> m t)"
  by (induction cs arbitrary: m) (auto simp: find_snoc split: option.splits)

lemma previousConditions_keep: "t \<notin> c_type ` set xs \<Longrightarrow> previousConditions xs m t = m t"
  by (induction xs arbitrary: m) auto

lemma previousConditions_distinct:
  "distinct (map c_type cs) \<Longrightarrow> c \<in> set cs \<Longrightarrow> previousConditions cs m (c_type c) = Some c"
  by (induction cs arbitrary: m) (auto simp: previousConditions_keep)

lemma stamp_fields [simp]:
  "c_type (stamp g p c) = c_type c"
  "c_status (stamp g p c) = c_status c"
  "c_reason (stamp g p c) = c_reason c"
  "c_message (stamp g p c) = c_message c"
  "c_observed_generation (stamp g p c) = g"
  by (auto simp: stamp_def Let_def split: option.splits)

lemma stamp_transition:
  "c_last_transition_time (stamp g p c) =
     (case p (c_type c) of
        Some prev \<Rightarrow> if c_status prev = c_status c then c_last_transition_time prev
                      else c_last_transition_time c
      | None \<Rightarrow> c_last_transition_time c)"
  by (auto simp: stamp_def Let_def split: option.splits)

lemma length_GetConditions [simp]: "length (GetConditions d now s) = 10"
  by (simp add: GetConditions_def componentConditions_def)

lemma GetConditions_nth:
  "i < 10 \<Longrightarrow> GetConditions d now s ! i =
     stamp (d_generation d) (previousConditions (st_conditions (d_status d)) Map.empty)
       ((componentConditions s @ [cr_ready now s]) ! i)"
  unfolding GetConditions_def by (rule nth_map) (simp add: componentConditions_def)

lemma GetConditions_map:
  assumes "\<And>g p c. f (stamp g p c) = f c"
  shows "map f (GetConditions d now s) = map f (componentConditions s @ [cr_ready now s])"
  by (simp add: GetConditions_def assms)

lemma last_GetConditions:
  "last (GetConditions d now s) =
     stamp (d_generation d) (previousConditions (st_conditions (d_status d)) Map.empty) (cr_ready now s)"
  by (simp add: GetConditions_def)

text \<open>Every condition is in its slot: what the setters keep when each is given its own type.\<close>

definition wt_status :: "dspa_status \<Rightarrow> bool" where
  "wt_status s \<longleftrightarrow>
     map c_type (componentConditions s) = component_types \<and>
     (case s_dspaReady s of None \<Rightarrow> True | Some c \<Rightarrow> c_type c = CrReady)"

lemma build_condition_fields [simp]:
  "c_type (BuildTrueCondition t m n) = t" "c_type (BuildFalseCondition t r m n) = t"
  "c_type (BuildUnknownCondition t n) = t"
  "c_status (BuildTrueCondition t m n) = StTrue" "c_status (BuildFalseCondition t r m n) = StFalse"
  "c_status (BuildUnknownCondition t n) = StUnknown"
  "c_reason (BuildTrueCondition t m n) = t" "c_reason (BuildFalseCondition t r m n) = r"
  "c_message (BuildFalseCondition t r m n) = m" "c_message (BuildTrueCondition t m n) = m"
  by (simp_all add: build_condition_defs)

lemma wt_NewDSPAStatus: "wt_status (NewDSPAStatus now)"
  by (simp add: wt_status_def NewDSPAStatus_def componentConditions_def component_types_def)

lemma cr_ready_type: "wt_status s \<Longrightarrow> c_type (cr_ready now s) = CrReady"
  by (auto simp: wt_status_def cr_ready_def derived_ready_def split: option.splits)

lemma wt_GetConditions:
  "wt_status s \<Longrightarrow> map c_type (GetConditions d now s) = all_condition_types"
  by (simp add: GetConditions_map cr_ready_type) (simp add: wt_status_def all_condition_types_def)

text \<open>
  One call of the status interface by the controller: a setter that builds its own condition, or
  one that stores the condition it is given, which then carries the slot's type.
\<close>

inductive status_step :: "dspa_status \<Rightarrow> dspa_status \<Rightarrow> bool" where
  "status_step s (SetDatabaseReady now s)"
| "status_step s (SetDatabaseNotReady err reason now s)"
| "status_step s (SetObjStoreReady now s)"
| "status_step s (SetObjStoreNotReady err reason now s)"
| "status_step s (SetWebhookReady now s)"
| "status_step s (SetWebhookNotReady err reason now s)"
| "status_step s (SetWebhookNotApplicable now s)"
| "c_type c = APIServerReady \<Longrightarrow> status_step s (SetApiServerStatus c s)"
| "c_type c = PersistenceAgentReady \<Longrightarrow> status_step s (SetPersistenceAgentStatus c s)"
| "c_type c = ScheduledWorkflowReady \<Longrightarrow> status_step s (SetScheduledWorkflowStatus c s)"
| "c_type c = WorkflowControllerReady \<Longrightarrow> status_step s (SetWorkflowControllerStatus c s)"
| "status_step s (SetWorkflowControllerNotReady err reason now s)"
| "status_step s (SetWorkflowControllerReady now s)"
| "status_step s (SetWorkflowControllerNotApplicable now s)"
| "c_type c = MLMDProxyReady \<Longrightarrow> status_step s (SetMLMDProxyStatus c s)"
| "status_step s (SetManagedPipelineValid now s)"
| "status_step s (SetManagedPipelineInvalid err reason now s)"
| "status_step s (SetManagedPipelineNotApplicable now s)"
| "status_step s (SetDSPANotReady err reason now s)"

inductive_cases status_stepE: "status_step s t"

lemma wt_status_step: "status_step s t \<Longrightarrow> wt_status s \<Longrightarrow> wt_status t"
  by (erule status_stepE)
    (auto simp: status_setter_defs wt_status_def componentConditions_def component_types_def
      split: option.splits)

lemma wt_status_reachable: "status_step\<^sup>*\<^sup>* (NewDSPAStatus t0) s \<Longrightarrow> wt_status s"
  by (induction rule: rtranclp_induct) (auto intro: wt_NewDSPAStatus wt_status_step)

lemma GetConditionByType_nth:
  assumes "distinct (map c_type cs)" "i < length cs"
  shows "GetConditionByType (c_type (cs ! i)) cs = cs ! i"
  using assms
proof (induction cs arbitrary: i)
  case (Cons c cs)
  then show ?case by (cases i) auto
qed simp

lemma GetConditionByType_type:
  "c_type (GetConditionByType t cs) = (if t \<in> c_type ` set cs then t else '''')"
  by (induction cs) (auto simp: empty_condition_def)

lemma GetConditionByType_GetConditions:
  assumes "wt_status s" "i < 10"
  shows "GetConditionByType (all_condition_types ! i) (GetConditions d now s) = GetConditions d now s ! i"
proof -
  have "all_condition_types ! i = c_type (GetConditions d now s ! i)"
    using assms by (metis length_GetConditions nth_map wt_GetConditions)
  then show ?thesis
    using assms by (simp add: GetConditionByType_nth wt_GetConditions)
qed

section \<open>The status interface\<close>

text \<open>
  What a client of the \<open>DSPAStatus\<close> interface relies on when it stores component conditions: a
  slot returns what was stored in it last, and storing in a slot leaves the others alone.
\<close>

datatype component_slot = ApiServerSlot | PersistenceAgentSlot | ScheduledWorkflowSlot
  | WorkflowControllerSlot | MLMDProxySlot

locale condition_slots =
  fixes put :: "component_slot \<Rightarrow> condition \<Rightarrow> 's \<Rightarrow> 's"
    and slot :: "component_slot \<Rightarrow> 's \<Rightarrow> condition"
  assumes slot_put_same: "slot k (put k c s) = c"
    and slot_put_other: "j \<noteq> k \<Longrightarrow> slot j (put k c s) = slot j s"
begin

text \<open>The loop that calls a setter for each slot for which a previous condition is known.\<close>

definition put_known :: "(component_slot \<Rightarrow> condition option) \<Rightarrow> component_slot list \<Rightarrow> 's \<Rightarrow> 's" where
  "put_known f ks s = fold (\<lambda>k s. case f k of Some c \<Rightarrow> put k c s | None \<Rightarrow> s) ks s"

lemma slot_put_known:
  "slot j (put_known f ks s) = (if j \<in> set ks then (case f j of Some c \<Rightarrow> c | None \<Rightarrow> slot j s) else slot j s)"
  unfolding put_known_def
proof (induction ks arbitrary: s)
  case (Cons k ks)
  then show ?case
    by (cases "j = k") (auto simp: slot_put_same slot_put_other split: option.splits)
qed simp

end

fun slot_type :: "component_slot \<Rightarrow> string" where
  "slot_type ApiServerSlot = APIServerReady"
| "slot_type PersistenceAgentSlot = PersistenceAgentReady"
| "slot_type ScheduledWorkflowSlot = ScheduledWorkflowReady"
| "slot_type WorkflowControllerSlot = WorkflowControllerReady"
| "slot_type MLMDProxySlot = MLMDProxyReady"

fun set_slot :: "component_slot \<Rightarrow> condition \<Rightarrow> dspa_status \<Rightarrow> dspa_status" where
  "set_slot ApiServerSlot = SetApiServerStatus"
| "set_slot PersistenceAgentSlot = SetPersistenceAgentStatus"
| "set_slot ScheduledWorkflowSlot = SetScheduledWorkflowStatus"
| "set_slot WorkflowControllerSlot = SetWorkflowControllerStatus"
| "set_slot MLMDProxySlot = SetMLMDProxyStatus"

fun get_slot :: "component_slot \<Rightarrow> dspa_status \<Rightarrow> condition" where
  "get_slot ApiServerSlot s = s_apiServerReady s"
| "get_slot PersistenceAgentSlot s = s_persistenceAgentReady s"
| "get_slot ScheduledWorkflowSlot s = s_scheduledWorkflowReady s"
| "get_slot WorkflowControllerSlot s = s_workflowControllerReady s"
| "get_slot MLMDProxySlot s = s_mlmdProxyReady s"

interpretation status_slots: condition_slots set_slot get_slot
proof
  fix j k c s
  show "get_slot k (set_slot k c s) = c"
    by (cases k) (simp_all add: status_setter_defs)
  show "get_slot j (set_slot k c s) = get_slot j s" if "j \<noteq> k"
    using that by (cases j; cases k) (simp_all add: status_setter_defs)
qed

section \<open>Properties\<close>



text \<open>
  C16: The overall Ready condition.  Unless it is overridden, it is True exactly when no component
  condition is False or Unknown for a blocking reason, and its message otherwise is the
  concatenation of the messages of the blocking conditions, in their order; the override is
  reported as it is.
\<close>

theorem GetConditions_ready:
  "(let r = last (GetConditions d now s); cs = componentConditions s in
     case s_dspaReady s of
       Some c \<Rightarrow> c_status r = c_status c \<and> c_reason r = c_reason c \<and> c_message r = c_message c
     | None \<Rightarrow>
         c_status r = (if list_ex blocking cs then StFalse else StTrue) \<and>
         c_reason r = MinimumReplicasAvailable \<and>
         c_message r =
           (if list_ex blocking cs
            then concat (map (\<lambda>c. c_message c @ '' '' @ [CHR 0x0A]) (filter blocking cs))
            else ''All components are ready.''))"
proof -
  have "list_ex blocking cs = (\<not> list_all (\<lambda>c. \<not> blocking c) cs)" for cs
    by (induction cs) auto
  then show ?thesis
    by (simp add: Let_def last_GetConditions cr_ready_def derived_ready_def ready_loop_eq split: option.splits)
qed

text \<open>
  The transition time of a reported condition is that of the previous condition of its type
  (the last one, should the stored list hold several) when the status did not change, and the
  time the new condition was built otherwise; type, status, reason and message are those that
  were set.
\<close>

lemma GetConditions_transition_times:
  "map c_last_transition_time (GetConditions d now s) =
     map (\<lambda>c. case find (\<lambda>p. c_type p = c_type c) (rev (st_conditions (d_status d))) of
                 Some p \<Rightarrow> if c_status p = c_status c then c_last_transition_time p
                            else c_last_transition_time c
               | None \<Rightarrow> c_last_transition_time c)
       (componentConditions s @ [cr_ready now s])
   \<and> map (\<lambda>c. (c_type c, c_status c, c_reason c, c_message c)) (GetConditions d now s) =
     map (\<lambda>c. (c_type c, c_status c, c_reason c, c_message c)) (componentConditions s @ [cr_ready now s])"
  by (simp add: GetConditions_def stamp_transition previousConditions_find split: option.splits)

text \<open>
  C17: A reconcile that finds the conditions of the previous one in the stored status, and comes to
  the same statuses, reports the same transition times, however late it runs and whatever the
  reasons and messages have become.
\<close>

theorem GetConditions_stable:
  assumes wt: "wt_status s" "wt_status s'"
    and stored: "st_conditions (d_status d') = GetConditions d now s"
    and same: "map c_status (GetConditions d' now' s') = map c_status (GetConditions d now s)"
  shows "map c_last_transition_time (GetConditions d' now' s') =
         map c_last_transition_time (GetConditions d now s)"
proof (rule nth_equalityI)
  fix i assume "i < length (map c_last_transition_time (GetConditions d' now' s'))"
  then have i: "i < 10" by simp
  let ?old = "GetConditions d now s" and ?new = "GetConditions d' now' s'"
  let ?c = "(componentConditions s' @ [cr_ready now' s']) ! i"
  have new: "?new ! i = stamp (d_generation d') (previousConditions ?old Map.empty) ?c"
    using i by (simp add: GetConditions_nth stored)
  have "map c_type ?old ! i = map c_type ?new ! i"
    by (simp add: wt_GetConditions wt)
  then have ty: "c_type (?old ! i) = c_type ?c"
    using i by (simp add: new)
  have "map c_status ?new ! i = map c_status ?old ! i"
    by (simp add: same)
  then have st: "c_status (?old ! i) = c_status ?c"
    using i by (simp add: new)
  have "previousConditions ?old Map.empty (c_type (?old ! i)) = Some (?old ! i)"
    by (rule previousConditions_distinct) (simp_all add: wt_GetConditions wt i)
  then show "map c_last_transition_time ?new ! i = map c_last_transition_time ?old ! i"
    using i by (simp add: new ty st stamp_transition)
qed simp

theorem GetConditions_stable_witness:
  "map c_last_transition_time
     (GetConditions
        (empty_dspa\<lparr>d_status := (d_status empty_dspa)
           \<lparr>st_conditions := GetConditions empty_dspa 4 (NewDSPAStatus 3)\<rparr>\<rparr>)
        60 (NewDSPAStatus 50)) =
   map c_last_transition_time (GetConditions empty_dspa 4 (NewDSPAStatus 3))"
proof (rule GetConditions_stable)
  show "map c_status (GetConditions d' 60 (NewDSPAStatus 50)) =
        map c_status (GetConditions empty_dspa 4 (NewDSPAStatus 3))" for d'
    unfolding GetConditions_map [of c_status, OF stamp_fields(2)]
    by (simp add: NewDSPAStatus_def componentConditions_def cr_ready_def derived_ready_def ready_loop_eq
        blocking_def isNonBlockingReason_def build_condition_defs config_consts)
qed (simp_all add: wt_NewDSPAStatus)

text \<open>
  A zero condition in the place of a component condition, which is what the controller stores
  when it could not read the component's deployment, does not degrade the overall state: with the
  other conditions non-blocking the resource is reported Ready.
\<close>

lemma zero_condition_reports_ready:
  assumes "list_all (\<lambda>c. \<not> blocking c) (componentConditions s)" "s_dspaReady s = None"
  shows "c_status (last (GetConditions d now (set_slot k empty_condition s))) = StTrue"
proof -
  have "\<not> blocking empty_condition"
    by (simp add: blocking_def empty_condition_def)
  then show ?thesis
    using assms by (cases k) (simp_all add: last_GetConditions cr_ready_def derived_ready_def
        ready_loop_eq status_setter_defs componentConditions_def)
qed

definition all_ready_status :: dspa_status where
  "all_ready_status =
     (let t = (\<lambda>ct. BuildTrueCondition ct '''' 1) in
      \<lparr>s_databaseAvailable = t DatabaseAvailable, s_objStoreAvailable = t ObjectStoreAvailable,
       s_apiServerReady = t APIServerReady, s_persistenceAgentReady = t PersistenceAgentReady,
       s_scheduledWorkflowReady = t ScheduledWorkflowReady,
       s_workflowControllerReady = t WorkflowControllerReady, s_mlmdProxyReady = t MLMDProxyReady,
       s_dspaReady = None, s_webhookReady = t WebhookReady,
       s_managedPipelineValid = t ManagedPipelineValid\<rparr>)"

lemma zero_condition_reports_ready_witness:
  "c_status (last (GetConditions empty_dspa 9 (set_slot ApiServerSlot empty_condition all_ready_status)))
     = StTrue"
  by (rule zero_condition_reports_ready)
    (simp_all add: all_ready_status_def Let_def componentConditions_def blocking_def build_condition_defs)

end
