(* ===== verification/Metrics.thy ===== *)
theory Metrics imports Dspa_Status "HOL-Library.Multiset" "HOL-Library.AList" begin

text \<open>
  \<open>controllers/metrics.go\<close> and \<open>PublishMetrics\<close> of \<open>controllers/dspipeline_controller.go\<close>.  The
  gauges are Prometheus library objects: the definitions below yield the calls the code makes on
  them, in order, and \<open>gauge_reading\<close> says what a series shows after a sequence of calls (the value
  last set, nothing after a deletion), which is what the properties speak about.
\<close>

section \<open>Gauges and the calls on them\<close>

datatype gauge =
    DBAvailableMetric
  | ObjectStoreAvailableMetric
  | APIServerReadyMetric
  | PersistenceAgentReadyMetric
  | ScheduledWorkflowReadyMetric
  | WorkflowControllerReadyMetric
  | MLMDProxyReadyMetric
  | ManagedPipelineValidMetric
  | CrReadyMetric

datatype gauge_op =
    Gauge_Set gauge "string list" int
  | Gauge_Delete gauge "string list"

fun gauge_labels :: "gauge \<Rightarrow> string list" where
  "gauge_labels ManagedPipelineValidMetric = [''dspa_name'', ''dspa_namespace'', ''reason'']"
| "gauge_labels _ = [''dspa_name'', ''dspa_namespace'']"

definition allDSPAMetrics :: "gauge list" where
  "allDSPAMetrics =
     [DBAvailableMetric, ObjectStoreAvailableMetric, APIServerReadyMetric, PersistenceAgentReadyMetric,
      ScheduledWorkflowReadyMetric, WorkflowControllerReadyMetric, MLMDProxyReadyMetric, CrReadyMetric]"

definition managedPipelineValidationReasons :: "string list" where
  "managedPipelineValidationReasons =
     [ManagedPipelineValid, ManagedPipelineInvalid, ManagedPipelinesFetchError,
      ''NotApplicable'', ''Unknown'', ''Other'']"

definition InitMetrics :: "gauge list" where
  "InitMetrics = allDSPAMetrics @ [ManagedPipelineValidMetric]"

definition DeleteMetrics :: "string \<Rightarrow> string \<Rightarrow> gauge_op list" where
  "DeleteMetrics dspaName dspaNamespace =
     map (\<lambda>m. Gauge_Delete m [dspaName, dspaNamespace]) allDSPAMetrics @
     map (\<lambda>reason. Gauge_Delete ManagedPipelineValidMetric [dspaName, dspaNamespace, reason])
       managedPipelineValidationReasons"

definition normalizeManagedPipelineValidationReason :: "string \<Rightarrow> string" where
  "normalizeManagedPipelineValidationReason reason =
     (if list_ex (\<lambda>r. reason = r \<and> r \<noteq> ''Other'') managedPipelineValidationReasons
      then reason else ''Other'')"

definition setManagedPipelineValidMetricByReason :: "string \<Rightarrow> string \<Rightarrow> string \<Rightarrow> gauge_op list" where
  "setManagedPipelineValidMetricByReason dspaName dspaNamespace reason =
     (let activeReason = normalizeManagedPipelineValidationReason reason in
      map (\<lambda>r. Gauge_Set ManagedPipelineValidMetric [dspaName, dspaNamespace, r]
                 (if r = activeReason then 1 else 0))
        managedPipelineValidationReasons)"

text \<open>
  One entry of the metrics map.  The branch is on the type of the condition, not on the gauge the
  map pairs it with.
\<close>

definition publish_entry :: "string \<Rightarrow> string \<Rightarrow> condition \<times> gauge \<Rightarrow> gauge_op list" where
  "publish_entry name ns e =
     (let (condition, metric) = e in
      if c_type condition = ManagedPipelineValid
      then setManagedPipelineValidMetricByReason name ns (c_reason condition)
      else [Gauge_Set metric [name, ns] (if c_status condition = StTrue then 1 else 0)])"

text \<open>The loop over the map; the list is the order in which the range visits the entries.\<close>

definition PublishMetrics :: "string \<Rightarrow> string \<Rightarrow> (condition \<times> gauge) list \<Rightarrow> gauge_op list" where
  "PublishMetrics name ns metricsMap = concat (map (publish_entry name ns) metricsMap)"

text \<open>
  The map literal of the deferred call of Reconcile: its keys are conditions, so of equal keys the
  last gauge stays.
\<close>

definition metrics_map :: "condition list \<Rightarrow> (condition \<times> gauge) list" where
  "metrics_map conditions =
     fold (\<lambda>(t, g) m. AList.update (GetConditionByType t conditions) g m)
       [(DatabaseAvailable, DBAvailableMetric), (ObjectStoreAvailable, ObjectStoreAvailableMetric),
        (APIServerReady, APIServerReadyMetric), (PersistenceAgentReady, PersistenceAgentReadyMetric),
        (ScheduledWorkflowReady, ScheduledWorkflowReadyMetric),
        (WorkflowControllerReady, WorkflowControllerReadyMetric),
        (MLMDProxyReady, MLMDProxyReadyMetric), (ManagedPipelineValid, ManagedPipelineValidMetric),
        (CrReady, CrReadyMetric)] []"

section \<open>What a series shows\<close>

fun apply_gauge_op :: "gauge_op \<Rightarrow> (gauge \<times> string list \<Rightarrow> int option) \<Rightarrow> gauge \<times> string list \<Rightarrow> int option" where
  "apply_gauge_op (Gauge_Set g ls v) m = m((g, ls) := Some v)"
| "apply_gauge_op (Gauge_Delete g ls) m = m((g, ls) := None)"

definition gauge_reading :: "gauge_op list \<Rightarrow> gauge \<times> string list \<Rightarrow> int option" where
  "gauge_reading ops = fold apply_gauge_op ops (\<lambda>_. None)"

fun op_series :: "gauge_op \<Rightarrow> gauge \<times> string list" where
  "op_series (Gauge_Set g ls v) = (g, ls)"
| "op_series (Gauge_Delete g ls) = (g, ls)"

text \<open>A call the library accepts: as many label values as the gauge has labels.\<close>

definition op_ok :: "gauge_op \<Rightarrow> bool" where
  "op_ok op = (length (snd (op_series op)) = length (gauge_labels (fst (op_series op))))"

text \<open>
  The calls of this component: those of the exposed functions.  A log of such calls only ever holds
  series whose reason is one of the known ones.
\<close>

inductive metric_log :: "gauge_op list \<Rightarrow> bool" where
  metric_log_start: "metric_log []"
| metric_log_publish:
    "metric_log log \<Longrightarrow> distinct (map fst m) \<Longrightarrow>
     list_all (\<lambda>(c, g). (c_type c = ManagedPipelineValid) = (g = ManagedPipelineValidMetric)) m \<Longrightarrow>
     metric_log (log @ PublishMetrics name ns m)"
| metric_log_delete: "metric_log log \<Longrightarrow> metric_log (log @ DeleteMetrics name ns)"

section \<open>Lemmas\<close>

lemma fold_gauge_untouched:
  "x \<notin> op_series ` set ops \<Longrightarrow> fold apply_gauge_op ops m x = m x"
proof (induction ops arbitrary: m)
  case (Cons op ops)
  then show ?case by (cases op) auto
qed simp

lemma gauge_reading_append:
  "gauge_reading (xs @ ys) = fold apply_gauge_op ys (gauge_reading xs)"
  by (simp add: gauge_reading_def)

lemma gauge_reading_untouched:
  "x \<notin> op_series ` set ys \<Longrightarrow> gauge_reading (xs @ ys) x = gauge_reading xs x"
  by (simp add: gauge_reading_append fold_gauge_untouched)

lemma fold_gauge_deletes:
  "list_all (\<lambda>op. case op of Gauge_Delete g ls \<Rightarrow> True | _ \<Rightarrow> False) ops \<Longrightarrow>
   fold apply_gauge_op ops m x = (if x \<in> op_series ` set ops then None else m x)"
proof (induction ops arbitrary: m)
  case (Cons op ops)
  then show ?case by (cases op) auto
qed simp

lemma fold_gauge_set:
  "distinct (map op_series ops) \<Longrightarrow> Gauge_Set g ls v \<in> set ops \<Longrightarrow>
   fold apply_gauge_op ops m (g, ls) = Some v"
proof (induction ops arbitrary: m)
  case (Cons op ops)
  show ?case
  proof (cases "op = Gauge_Set g ls v")
    case True
    with Cons.prems have "(g, ls) \<notin> op_series ` set ops" by simp
    with True show ?thesis by (simp add: fold_gauge_untouched)
  next
    case False
    with Cons show ?thesis by simp
  qed
qed simp

lemma distinct_reasons [simp]: "distinct managedPipelineValidationReasons"
  by (simp add: managedPipelineValidationReasons_def config_consts)

lemma normalize_in_reasons [simp]:
  "normalizeManagedPipelineValidationReason reason \<in> set managedPipelineValidationReasons"
  by (auto simp: normalizeManagedPipelineValidationReason_def managedPipelineValidationReasons_def)

lemma reason_series:
  "op_series ` set (setManagedPipelineValidMetricByReason n ns r) =
     (\<lambda>x. (ManagedPipelineValidMetric, [n, ns, x])) ` set managedPipelineValidationReasons"
  by (simp add: setManagedPipelineValidMetricByReason_def Let_def image_image)

lemma reason_series_distinct: "distinct (map op_series (setManagedPipelineValidMetricByReason n ns r))"
  by (simp add: setManagedPipelineValidMetricByReason_def Let_def comp_def distinct_map inj_on_def)

lemma DeleteMetrics_series:
  "op_series ` set (DeleteMetrics n ns) =
     (\<lambda>m. (m, [n, ns])) ` set allDSPAMetrics \<union>
     (\<lambda>x. (ManagedPipelineValidMetric, [n, ns, x])) ` set managedPipelineValidationReasons"
  by (simp add: DeleteMetrics_def image_Un image_image)

lemma gauge_reading_DeleteMetrics:
  "gauge_reading (log @ DeleteMetrics n ns) x =
     (if x \<in> op_series ` set (DeleteMetrics n ns) then None else gauge_reading log x)"
  unfolding gauge_reading_append
  by (rule fold_gauge_deletes) (auto simp: DeleteMetrics_def list_all_iff)

lemma not_mpv_in_all: "(g \<in> set allDSPAMetrics) = (g \<noteq> ManagedPipelineValidMetric)"
  by (cases g) (simp_all add: allDSPAMetrics_def)

text \<open>The series a log of this component's calls can hold.\<close>

definition known_series :: "gauge \<times> string list \<Rightarrow> bool" where
  "known_series x \<longleftrightarrow>
     (case x of
        (g, [n, ns]) \<Rightarrow> g \<noteq> ManagedPipelineValidMetric
      | (g, [n, ns, r]) \<Rightarrow> g = ManagedPipelineValidMetric \<and> r \<in> set managedPipelineValidationReasons
      | _ \<Rightarrow> False)"

lemma publish_entry_known:
  assumes "(c_type c = ManagedPipelineValid) = (g = ManagedPipelineValidMetric)"
    and "op \<in> set (publish_entry n ns (c, g))"
  shows "known_series (op_series op)"
  using assms by (auto simp: publish_entry_def known_series_def setManagedPipelineValidMetricByReason_def
      Let_def split: if_splits)

lemma metric_log_known: "metric_log log \<Longrightarrow> op \<in> set log \<Longrightarrow> known_series (op_series op)"
proof (induction arbitrary: op rule: metric_log.induct)
  case (metric_log_publish log m name ns)
  then show ?case
    by (auto simp: PublishMetrics_def list_all_iff) (use publish_entry_known in blast)
next
  case (metric_log_delete log name ns)
  have "\<forall>x\<in>op_series ` set (DeleteMetrics name ns). known_series x"
    by (auto simp: DeleteMetrics_series known_series_def not_mpv_in_all)
  with metric_log_delete show ?case by auto
qed simp

lemma metric_log_reading:
  assumes "metric_log log" "\<not> known_series x"
  shows "gauge_reading log x = None"
proof -
  have "x \<notin> op_series ` set log"
    using metric_log_known [OF assms(1)] assms(2) by auto
  then show ?thesis by (simp add: gauge_reading_def fold_gauge_untouched)
qed

section \<open>Properties\<close>

text \<open>
  The managed-pipeline gauge is one-hot.  After the reason was published, whatever was there
  before, the series of the normalised reason shows 1 and that of every other known reason shows 0;
  the normalised reason is a known one, and is the reason itself when that is a known one.
\<close>

lemma managed_pipeline_metric_one_hot:
  "map (\<lambda>r. gauge_reading (log @ setManagedPipelineValidMetricByReason name ns reason)
              (ManagedPipelineValidMetric, [name, ns, r])) managedPipelineValidationReasons =
     map (\<lambda>r. Some (if r = normalizeManagedPipelineValidationReason reason then 1 else 0))
       managedPipelineValidationReasons
   \<and> length (filter (\<lambda>r. r = normalizeManagedPipelineValidationReason reason)
       managedPipelineValidationReasons) = 1
   \<and> normalizeManagedPipelineValidationReason reason =
       (if List.member managedPipelineValidationReasons reason then reason else ''Other'')"
proof (intro conjI)
  let ?n = "normalizeManagedPipelineValidationReason reason"
  have "gauge_reading (log @ setManagedPipelineValidMetricByReason name ns reason)
          (ManagedPipelineValidMetric, [name, ns, r]) = Some (if r = ?n then 1 else 0)"
    if "r \<in> set managedPipelineValidationReasons" for r
    unfolding gauge_reading_append
    by (rule fold_gauge_set [OF reason_series_distinct])
      (simp add: setManagedPipelineValidMetricByReason_def Let_def image_iff that)
  then show "map (\<lambda>r. gauge_reading (log @ setManagedPipelineValidMetricByReason name ns reason)
              (ManagedPipelineValidMetric, [name, ns, r])) managedPipelineValidationReasons =
     map (\<lambda>r. Some (if r = ?n then 1 else 0)) managedPipelineValidationReasons"
    by simp
  show "length (filter (\<lambda>r. r = ?n) managedPipelineValidationReasons) = 1"
    using distinct_length_filter [OF distinct_reasons, of "\<lambda>r. r = ?n"]
    by (simp add: Collect_conv_if)
  show "?n = (if List.member managedPipelineValidationReasons reason then reason else ''Other'')"
    by (auto simp: normalizeManagedPipelineValidationReason_def list_ex_iff)
qed

text \<open>
  When a resource is finalised no series of it is left, and no series of another resource is
  touched: after any sequence of publications and deletions, \<open>DeleteMetrics\<close> removes exactly the
  series labelled with its name and namespace.
\<close>

lemma DeleteMetrics_exact:
  assumes "metric_log log"
  shows "gauge_reading (log @ DeleteMetrics name ns) (g, ls) =
           (if take 2 ls = [name, ns] then None else gauge_reading log (g, ls))"
proof (cases "(g, ls) \<in> op_series ` set (DeleteMetrics name ns)")
  case True
  then have "take 2 ls = [name, ns]"
    by (auto simp: DeleteMetrics_series)
  with True show ?thesis by (simp add: gauge_reading_DeleteMetrics)
next
  case False
  have "gauge_reading log (g, ls) = None" if pre: "take 2 ls = [name, ns]"
  proof -
    obtain rest where ls: "ls = name # ns # rest"
      using pre by (cases ls; cases "tl ls") auto
    have "\<not> known_series (g, ls)"
      using False by (auto simp: ls known_series_def DeleteMetrics_series not_mpv_in_all split: list.splits)
    with assms show ?thesis by (rule metric_log_reading)
  qed
  with False show ?thesis by (simp add: gauge_reading_DeleteMetrics)
qed

lemma DeleteMetrics_exact_witness:
  "gauge_reading
     (([] @ PublishMetrics ''a'' ''x'' [(empty_condition, CrReadyMetric)]) @ DeleteMetrics ''a'' ''x'')
     (CrReadyMetric, [''a'', ''x'']) = None"
proof -
  have "metric_log ([] @ PublishMetrics ''a'' ''x'' [(empty_condition, CrReadyMetric)])"
    by (rule metric_log_publish) (simp_all add: metric_log_start empty_condition_def config_consts)
  from DeleteMetrics_exact [OF this] show ?thesis by simp
qed

text \<open>
  The entries of the deferred call's map: with the ten types in place the nine keys differ, so no
  entry is lost.
\<close>

definition metric_entries :: "(string \<times> gauge) list" where
  "metric_entries =
     [(DatabaseAvailable, DBAvailableMetric), (ObjectStoreAvailable, ObjectStoreAvailableMetric),
      (APIServerReady, APIServerReadyMetric), (PersistenceAgentReady, PersistenceAgentReadyMetric),
      (ScheduledWorkflowReady, ScheduledWorkflowReadyMetric),
      (WorkflowControllerReady, WorkflowControllerReadyMetric),
      (MLMDProxyReady, MLMDProxyReadyMetric), (ManagedPipelineValid, ManagedPipelineValidMetric),
      (CrReady, CrReadyMetric)]"

lemma AList_update_new: "k \<notin> fst ` set m \<Longrightarrow> AList.update k v m = m @ [(k, v)]"
  by (induction m) auto

lemma fold_update_distinct:
  "distinct (map f kvs) \<Longrightarrow> f ` set kvs \<inter> fst ` set m = {} \<Longrightarrow>
   fold (\<lambda>x m. AList.update (f x) (g x) m) kvs m = m @ map (\<lambda>x. (f x, g x)) kvs"
  by (induction kvs arbitrary: m) (auto simp: AList_update_new)

lemma distinct_conditions_by_type:
  assumes "list_all (\<lambda>t. t \<in> c_type ` set cs) ts" "distinct ts"
  shows "distinct (map (\<lambda>t. GetConditionByType t cs) ts)"
  using assms by (induction ts) (auto simp: list_all_iff dest: arg_cong [where f = c_type] simp: GetConditionByType_type)

lemma metrics_map_eq:
  assumes "map c_type cs = all_condition_types"
  shows "metrics_map cs = map (\<lambda>(t, g). (GetConditionByType t cs, g)) metric_entries"
proof -
  have types: "c_type ` set cs = set all_condition_types"
    using arg_cong [OF assms, of set] by simp
  have "distinct (map (\<lambda>t. GetConditionByType t cs) (map fst metric_entries))"
    by (rule distinct_conditions_by_type)
      (simp_all add: types metric_entries_def all_condition_types_def component_types_def config_consts)
  then have "distinct (map (\<lambda>e. GetConditionByType (fst e) cs) metric_entries)"
    by (simp add: comp_def)
  from fold_update_distinct [OF this, of "[]" snd]
  show ?thesis
    by (simp add: metrics_map_def metric_entries_def)
qed

lemma publish_entry_gauge:
  assumes "(c_type c = ManagedPipelineValid) = (g = ManagedPipelineValidMetric)"
  shows "fst ` op_series ` set (publish_entry n ns (c, g)) = {g}"
    and "distinct (map op_series (publish_entry n ns (c, g)))"
proof -
  have "fst ` op_series ` set (setManagedPipelineValidMetricByReason n ns r) = {ManagedPipelineValidMetric}" for r
    unfolding reason_series by (auto simp: image_image managedPipelineValidationReasons_def)
  then show "fst ` op_series ` set (publish_entry n ns (c, g)) = {g}"
    using assms by (simp add: publish_entry_def)
  show "distinct (map op_series (publish_entry n ns (c, g)))"
    by (simp add: publish_entry_def reason_series_distinct)
qed

lemma PublishMetrics_distinct:
  assumes "distinct (map snd entries)"
    and "\<And>c g. (c, g) \<in> set entries \<Longrightarrow> (c_type c = ManagedPipelineValid) = (g = ManagedPipelineValidMetric)"
  shows "distinct (map op_series (PublishMetrics n ns entries)) \<and>
         fst ` op_series ` set (PublishMetrics n ns entries) = snd ` set entries"
  using assms
proof (induction entries)
  case (Cons e entries)
  obtain c g where e: "e = (c, g)" by fastforce
  note pe = publish_entry_gauge [OF Cons.prems(2) [of c g], of n ns]
  have IH: "distinct (map op_series (PublishMetrics n ns entries))"
    "fst ` op_series ` set (PublishMetrics n ns entries) = snd ` set entries"
    using Cons by auto
  have "op_series ` set (publish_entry n ns (c, g)) \<inter> op_series ` set (PublishMetrics n ns entries) = {}"
  proof (rule ccontr)
    assume "\<not> ?thesis"
    then obtain x where "x \<in> op_series ` set (publish_entry n ns (c, g))"
      "x \<in> op_series ` set (PublishMetrics n ns entries)" by blast
    then have "fst x = g" "fst x \<in> snd ` set entries"
      using pe(1) IH(2) e by auto
    with Cons.prems(1) e show False by auto
  qed
  then show ?case
    using pe IH e by (auto simp: PublishMetrics_def image_Un)
qed (simp add: PublishMetrics_def)

lemma gauge_reading_publish:
  assumes "distinct (map snd entries)"
    and "\<And>c g. (c, g) \<in> set entries \<Longrightarrow> (c_type c = ManagedPipelineValid) = (g = ManagedPipelineValidMetric)"
    and "e \<in> set entries" "Gauge_Set g ls v \<in> set (publish_entry n ns e)"
  shows "gauge_reading (log @ PublishMetrics n ns entries) (g, ls) = Some v"
  unfolding gauge_reading_append
  by (rule fold_gauge_set [OF conjunct1 [OF PublishMetrics_distinct]])
    (use assms in \<open>auto simp: PublishMetrics_def\<close>)



end
