(* ===== verification/Kube.thy ===== *)
theory Kube imports Metrics begin

text \<open>
  What the reconciler runs in: the parameters it computes (\<open>DSPAParams\<close> of
  \<open>controllers/dspipeline_params.go\<close>), the code it calls that is not part of the repository, and the
  state it works on.

  Everything the operator asks the outside for is a function in the record \<open>env\<close>, a parameter of the
  model: the controller-runtime client, manifestival and text/template, viper, the container
  registry, the MySQL and S3 clients.  The functions that talk to the cluster or the network get
  the history of the calls made so far, so that their answers may change from call to call in any
  way: a theorem for all \<open>env\<close> holds for every behaviour of the API server and of concurrent
  clients.  A call appends an event to the history; properties of what the reconciler does to the
  cluster are properties of the events.
\<close>

section \<open>The parameters\<close>

record image_env_var =
  iev_name :: string
  iev_value :: string

record db_connection =
  dbc_host :: string
  dbc_port :: string
  dbc_username :: string
  dbc_db_name :: string
  dbc_credentials_secret :: "secret_key_value option"
  dbc_password :: string
  dbc_decoded_password :: string
  dbc_extra_params :: string

record object_storage_connection =
  osc_bucket :: string
  osc_credentials_secret :: "s3_credential_secret option"
  osc_host :: string
  osc_port :: string
  osc_scheme :: string
  osc_region :: string
  osc_base_path :: string
  osc_secure :: "bool option"
  osc_endpoint :: string
  osc_access_key_id :: string
  osc_secret_access_key :: string
  osc_external_route_url :: string

record dspa_params =
  p_include_owner_reference :: bool
  p_uid :: string
  p_name :: string
  p_api_version :: string
  p_kind :: string
  p_namespace :: string
  p_owner :: "dspa option"
  p_dsp_version :: string
  p_api_server :: "api_server option"
  p_api_server_default_resource_name :: string
  p_api_server_service_name :: string
  p_api_server_config_hash :: string
  p_kube_rbac_proxy :: string
  p_sample_config_json :: string
  p_scheduled_workflow :: "scheduled_workflow option"
  p_scheduled_workflow_default_resource_name :: string
  p_persistence_agent :: "persistence_agent option"
  p_persistent_agent_default_resource_name :: string
  p_workflow_controller_default_resource_name :: string
  p_maria_db :: "maria_db option"
  p_minio :: "minio option"
  p_mlmd :: "mlmd option"
  p_mlmd_proxy_default_resource_name :: string
  p_mlmd_grpc_certificate_contents :: string
  p_mlmd_grpc_private_key_contents :: string
  p_webhook_name :: string
  p_workflow_controller :: "workflow_controller option"
  p_custom_kfp_launcher_configmap_data :: string
  p_api_server_workspace_json :: string
  p_webhook_annotations :: go_map
  p_db_connection :: db_connection
  p_object_storage_connection :: object_storage_connection
  p_custom_ca_bundle_root_mount_path :: string
  p_custom_ssl_cert_dir :: "string option"
  p_piplines_ca_bundle_mount_path :: string
  p_api_custom_pem_certs :: "string list"
  p_custom_ca_bundle :: "ca_bundle option"
  p_dspo_namespace :: string
  p_pod_to_pod_tls :: bool
  p_api_server_service_dns_name :: string
  p_mlflow :: "mlflow_config option"
  p_api_server_plugins_json :: string
  p_grant_mlflow_workload_rbac :: bool
  p_proxy_config :: "proxy_config option"
  p_compiled_pipeline_spec_patch :: string
  p_platform_version :: string
  p_managed_pipelines_upload_tags :: string
  p_managed_pipeline_image_env_vars :: "image_env_var list"
  p_mlflow_resolver_set :: bool

definition empty_db_connection :: db_connection where
  "empty_db_connection =
     \<lparr>dbc_host = '''', dbc_port = '''', dbc_username = '''', dbc_db_name = '''',
      dbc_credentials_secret = None, dbc_password = '''', dbc_decoded_password = '''',
      dbc_extra_params = ''''\<rparr>"

definition empty_object_storage_connection :: object_storage_connection where
  "empty_object_storage_connection =
     \<lparr>osc_bucket = '''', osc_credentials_secret = None, osc_host = '''', osc_port = '''',
      osc_scheme = '''', osc_region = '''', osc_base_path = '''', osc_secure = None,
      osc_endpoint = '''', osc_access_key_id = '''', osc_secret_access_key = '''',
      osc_external_route_url = ''''\<rparr>"

definition empty_params :: dspa_params where
  "empty_params =
     \<lparr>p_include_owner_reference = False, p_uid = '''', p_name = '''', p_api_version = '''',
      p_kind = '''', p_namespace = '''', p_owner = None, p_dsp_version = '''', p_api_server = None,
      p_api_server_default_resource_name = '''', p_api_server_service_name = '''',
      p_api_server_config_hash = '''', p_kube_rbac_proxy = '''', p_sample_config_json = '''',
      p_scheduled_workflow = None, p_scheduled_workflow_default_resource_name = '''',
      p_persistence_agent = None, p_persistent_agent_default_resource_name = '''',
      p_workflow_controller_default_resource_name = '''', p_maria_db = None, p_minio = None,
      p_mlmd = None, p_mlmd_proxy_default_resource_name = '''',
      p_mlmd_grpc_certificate_contents = '''', p_mlmd_grpc_private_key_contents = '''',
      p_webhook_name = '''', p_workflow_controller = None, p_custom_kfp_launcher_configmap_data = '''',
      p_api_server_workspace_json = '''', p_webhook_annotations = [],
      p_db_connection = empty_db_connection,
      p_object_storage_connection = empty_object_storage_connection,
      p_custom_ca_bundle_root_mount_path = '''', p_custom_ssl_cert_dir = None,
      p_piplines_ca_bundle_mount_path = '''', p_api_custom_pem_certs = [],
      p_custom_ca_bundle = None, p_dspo_namespace = '''', p_pod_to_pod_tls = False,
      p_api_server_service_dns_name = '''', p_mlflow = None, p_api_server_plugins_json = '''',
      p_grant_mlflow_workload_rbac = False, p_proxy_config = None,
      p_compiled_pipeline_spec_patch = '''', p_platform_version = '''',
      p_managed_pipelines_upload_tags = '''', p_managed_pipeline_image_env_vars = [],
      p_mlflow_resolver_set = False\<rparr>"

section \<open>Objects of the libraries\<close>

datatype obj_kind =
    KDeployment | KSecret | KConfigMap | KService | KRoute | KServiceAccount | KClusterRole
  | KClusterRoleBinding | KMutatingWebhook | KValidatingWebhook | KMLflow

text \<open>The owner that manifestival injects: the custom resource, or the operator's deployment.\<close>

datatype apply_owner = Owner_Dspa dspa | Owner_Deployment namespaced_name

text \<open>
  A container image as go-containerregistry hands it out: each accessor may fail, and so may every
  step of reading a layer's tar stream.  A stream is the list of what \<open>Next\<close> returns, ending in EOF.
\<close>

datatype tar_item = Tar_Entry string int "gerr + string" | Tar_Failure gerr

record oci_layer =
  ly_uncompressed :: "gerr + tar_item list"

record oci_image =
  im_digest :: "gerr + string"
  im_layers :: "gerr + oci_layer list"

record mysql_config =
  my_user :: string
  my_passwd :: string
  my_net :: string
  my_addr :: string
  my_params :: go_map
  my_db_name :: string
  my_allow_native_passwords :: bool
  my_tls_config :: string

datatype tls_client_config = Tls_Pool "string list" | Tls_Skip_Verify

datatype s3_credentials = Static_V4 string string | Provider_Chain

record s3_transport =
  tr_secure :: bool
  tr_root_cas :: "string list option"
  tr_proxy :: "proxy_config option"

record s3_options =
  so_creds :: s3_credentials
  so_secure :: bool
  so_transport :: "s3_transport option"

section \<open>Events\<close>

datatype event =
    Ev_Get_Dspa namespaced_name
  | Ev_List_Dspas
  | Ev_Get obj_kind namespaced_name
  | Ev_List_Pods go_map
  | Ev_Update_Dspa dspa bool
  | Ev_Update_Status dspa bool
  | Ev_Create_ConfigMap config_map bool
  | Ev_Update_ConfigMap config_map bool
  | Ev_Apply "apply_owner option" string "json list" bool
  | Ev_Delete_Manifest string "json list" bool
  | Ev_Delete_Object obj_kind namespaced_name bool
  | Ev_Read_File string
  | Ev_Read_Dir string
  | Ev_Register_Tls tls_client_config
  | Ev_Db_Query mysql_config bool
  | Ev_Obj_Stat string string bool
  | Ev_Pull_Image string
  | Ev_Gauge gauge_op

text \<open>The events that change the cluster.\<close>

fun cluster_write :: "event \<Rightarrow> bool" where
  "cluster_write (Ev_Update_Dspa d ok) = True"
| "cluster_write (Ev_Update_Status d ok) = True"
| "cluster_write (Ev_Create_ConfigMap c ok) = True"
| "cluster_write (Ev_Update_ConfigMap c ok) = True"
| "cluster_write (Ev_Apply ow t os ok) = True"
| "cluster_write (Ev_Delete_Manifest t os ok) = True"
| "cluster_write (Ev_Delete_Object k n ok) = True"
| "cluster_write _ = False"

section \<open>The environment\<close>

type_synonym history = "event list"

record env =
  e_viper :: viper
  e_getenv :: "string \<Rightarrow> string"
  e_environ :: "string list"
  e_templates_path :: string
  e_path_prefix :: string
  e_webhook_annotations :: go_map
  e_mlflow_cache_ttl :: int
  e_allowed_registries :: "string list"
  e_now :: "nat \<Rightarrow> int"
  e_rand :: "history \<Rightarrow> nat \<Rightarrow> nat"
  e_get_dspa :: "history \<Rightarrow> namespaced_name \<Rightarrow> gerr + dspa"
  e_update_dspa :: "history \<Rightarrow> dspa \<Rightarrow> gerr + dspa"
  e_update_status :: "history \<Rightarrow> dspa \<Rightarrow> gerr + dspa"
  e_list_dspas :: "history \<Rightarrow> gerr + dspa list"
  e_get_deployment :: "history \<Rightarrow> namespaced_name \<Rightarrow> gerr + deployment"
  e_get_secret :: "history \<Rightarrow> namespaced_name \<Rightarrow> gerr + secret"
  e_get_config_map :: "history \<Rightarrow> namespaced_name \<Rightarrow> gerr + config_map"
  e_get_service :: "history \<Rightarrow> namespaced_name \<Rightarrow> gerr + service"
  e_get_route :: "history \<Rightarrow> namespaced_name \<Rightarrow> gerr + route"
  e_get_mlflow :: "history \<Rightarrow> namespaced_name \<Rightarrow> gerr + mlflow_cr"
  e_get_object :: "history \<Rightarrow> obj_kind \<Rightarrow> namespaced_name \<Rightarrow> gerr option"
  e_delete_object :: "history \<Rightarrow> obj_kind \<Rightarrow> namespaced_name \<Rightarrow> gerr option"
  e_list_pods :: "history \<Rightarrow> go_map \<Rightarrow> gerr + pod list"
  e_create_config_map :: "history \<Rightarrow> config_map \<Rightarrow> gerr option"
  e_update_config_map :: "history \<Rightarrow> config_map \<Rightarrow> gerr option"
  e_read_file :: "history \<Rightarrow> string \<Rightarrow> gerr + string"
  e_read_dir :: "history \<Rightarrow> string \<Rightarrow> gerr + (string \<times> bool) list"
  e_execute_template :: "string \<Rightarrow> dspa_params \<Rightarrow> gerr + string"
  e_manifest_from :: "string \<Rightarrow> gerr + json list"
  e_transform :: "(json \<Rightarrow> gerr + json) list \<Rightarrow> json list \<Rightarrow> gerr + json list"
  e_inject_owner :: "apply_owner \<Rightarrow> json \<Rightarrow> gerr + json"
  e_apply_manifest :: "history \<Rightarrow> json list \<Rightarrow> gerr option"
  e_delete_manifest :: "history \<Rightarrow> json list \<Rightarrow> gerr option"
  e_get_labels :: "json \<Rightarrow> go_map option"
  e_set_labels :: "go_map \<Rightarrow> json \<Rightarrow> json"
  e_object_kind :: "json \<Rightarrow> string"
  e_nested_string_map :: "json \<Rightarrow> string list \<Rightarrow> gerr + (go_map \<times> bool)"
  e_set_nested_string_map :: "json \<Rightarrow> go_map \<Rightarrow> string list \<Rightarrow> gerr + json"
  e_parse_quantity_sign :: "string \<Rightarrow> gerr + int"
  e_marshal_claim_spec :: "string \<Rightarrow> gerr + json"
  e_parse_url :: "string \<Rightarrow> gerr + (string \<times> string)"
  e_sha256_hex :: "string \<Rightarrow> string"
  e_pem_ok :: "string \<Rightarrow> bool"
  e_register_tls :: "history \<Rightarrow> tls_client_config \<Rightarrow> gerr option"
  e_sql_open :: "mysql_config \<Rightarrow> gerr option"
  e_sql_query :: "history \<Rightarrow> mysql_config \<Rightarrow> int \<Rightarrow> gerr option"
  e_k8s_unmarshal_string_map :: "string \<Rightarrow> gerr + go_map"
  e_system_cert_pool :: "gerr + string list"
  e_default_transport :: "bool \<Rightarrow> gerr + s3_transport"
  e_minio_new :: "string \<Rightarrow> s3_options \<Rightarrow> gerr option"
  e_stat_object :: "history \<Rightarrow> string \<Rightarrow> s3_options \<Rightarrow> string \<Rightarrow> string \<Rightarrow> int \<Rightarrow> gerr option"
  e_parse_reference :: "string \<Rightarrow> gerr + string"
  e_remote_image :: "history \<Rightarrow> string \<Rightarrow> gerr + oci_image"

end
