(* ===== verification/Ttl_Cache.thy ===== *)
theory Ttl_Cache imports Config begin

text \<open>
  The two caches of the operator whose entries expire: the MLflow endpoint cache of
  \<open>controllers/dspipeline_controller.go\<close> and the per-digest cache of
  \<open>controllers/managed_pipelines_fetcher.go\<close>.  Each operation here is what one critical section of
  the code does, so a sequence of operations, each with the clock value its own goroutine read, is an
  interleaving of concurrent reconciles.

  The locale \<open>ttl_cache\<close> is the contract both keep; its lemmas say what may be served after any
  sequence of operations.
\<close>

section \<open>The contract\<close>

datatype 'v cache_op =
    Look int string
  | Drop int string
  | Put int string 'v

text \<open>\<open>peek c k\<close> is the stored value together with the last instant at which it may be served.\<close>

locale ttl_cache =
  fixes look :: "int \<Rightarrow> string \<Rightarrow> 'c \<Rightarrow> 'v option"
    and drop_expired :: "int \<Rightarrow> string \<Rightarrow> 'c \<Rightarrow> 'c"
    and put :: "int \<Rightarrow> string \<Rightarrow> 'v \<Rightarrow> 'c \<Rightarrow> 'c"
    and peek :: "'c \<Rightarrow> string \<Rightarrow> ('v \<times> int) option"
    and life :: int
  assumes look_peek:
      "look now k c = (case peek c k of Some (v, d) \<Rightarrow> if now \<le> d then Some v else None | None \<Rightarrow> None)"
    and peek_drop:
      "peek (drop_expired now k c) j =
         (case peek c j of Some (v, d) \<Rightarrow> if j = k \<and> d < now then None else Some (v, d) | None \<Rightarrow> None)"
    and peek_put:
      "peek (put now k v c) j =
         (if j = k then Some (v, now + life)
          else case peek c j of Some (u, d) \<Rightarrow> if d < now then None else Some (u, d) | None \<Rightarrow> None)"
begin

fun cache_step :: "'v cache_op \<Rightarrow> 'c \<Rightarrow> 'c" where
  "cache_step (Look now k) c = c"
| "cache_step (Drop now k) c = drop_expired now k c"
| "cache_step (Put now k v) c = put now k v c"

text \<open>What is stored was put there by one of the operations, and expires \<open>life\<close> after that.\<close>

lemma stored_was_put:
  assumes "\<And>k. peek c0 k = None"
    and "peek (fold cache_step ops c0) k = Some (v, d)"
  shows "\<exists>t. Put t k v \<in> set ops \<and> d = t + life"
  using assms(2)
proof (induction ops arbitrary: k v d rule: rev_induct)
  case (snoc op ops)
  from snoc.prems show ?case
    by (cases op) (auto simp: peek_drop peek_put split: if_splits option.splits dest!: snoc.IH)
qed (simp add: assms(1))

lemma served_was_put:
  assumes "\<And>k. peek c0 k = None"
    and "look now k (fold cache_step ops c0) = Some v"
  shows "\<exists>t. Put t k v \<in> set ops \<and> now \<le> t + life"
  using assms(2) stored_was_put [OF assms(1)]
  by (fastforce simp: look_peek split: option.splits if_splits)

fun touches :: "string \<Rightarrow> int \<Rightarrow> 'v cache_op \<Rightarrow> bool" where
  "touches k deadline (Look now j) = False"
| "touches k deadline (Drop now j) = (j = k \<and> deadline < now)"
| "touches k deadline (Put now j v) = (j = k \<or> deadline < now)"

lemma peek_untouched:
  assumes "peek c k = Some (v, d)" "\<forall>op\<in>set ops. \<not> touches k d op"
  shows "peek (fold cache_step ops c) k = Some (v, d)"
  using assms
proof (induction ops arbitrary: c)
  case (Cons op ops)
  then have "peek (cache_step op c) k = Some (v, d)"
    by (cases op) (auto simp: peek_drop peek_put)
  with Cons show ?case by simp
qed simp

text \<open>
  A value that was put is served until it expires, whatever the other goroutines do meanwhile, as
  long as none of them replaces it and none of their clocks is past its last instant.
\<close>

lemma put_is_served:
  assumes "\<forall>op\<in>set ops. \<not> touches k (t + life) op" "now \<le> t + life"
  shows "look now k (fold cache_step ops (put t k v c)) = Some v"
  using peek_untouched [OF _ assms(1), of "put t k v c" v] assms(2)
  by (simp add: peek_put look_peek)

end

section \<open>The MLflow endpoint cache\<close>

record mlflow_entry =
  mle_endpoint :: string
  mle_expires :: int

type_synonym mlflow_cache = "string \<rightharpoonup> mlflow_entry"

definition mlflow_lookup :: "int \<Rightarrow> string \<Rightarrow> mlflow_cache \<Rightarrow> string option" where
  "mlflow_lookup now ns c =
     (case c ns of
        Some entry \<Rightarrow> if now < mle_expires entry then Some (mle_endpoint entry) else None
      | None \<Rightarrow> None)"

definition mlflow_drop :: "int \<Rightarrow> string \<Rightarrow> mlflow_cache \<Rightarrow> mlflow_cache" where
  "mlflow_drop now ns c =
     (case c ns of
        Some entry \<Rightarrow> if \<not> now < mle_expires entry then c(ns := None) else c
      | None \<Rightarrow> c)"

definition removeExpiredMLflowCacheLocked :: "int \<Rightarrow> mlflow_cache \<Rightarrow> mlflow_cache" where
  "removeExpiredMLflowCacheLocked now c =
     (\<lambda>ns. case c ns of
        Some entry \<Rightarrow> if \<not> now < mle_expires entry then None else Some entry
      | None \<Rightarrow> None)"

definition mlflow_insert :: "int \<Rightarrow> int \<Rightarrow> string \<Rightarrow> string \<Rightarrow> mlflow_cache \<Rightarrow> mlflow_cache" where
  "mlflow_insert ttl now ns endpoint c =
     (removeExpiredMLflowCacheLocked now c)
       (ns \<mapsto> \<lparr>mle_endpoint = endpoint, mle_expires = now + ttl\<rparr>)"

definition mlflow_peek :: "mlflow_cache \<Rightarrow> string \<Rightarrow> (string \<times> int) option" where
  "mlflow_peek c ns = map_option (\<lambda>e. (mle_endpoint e, mle_expires e - 1)) (c ns)"

interpretation mlflow: ttl_cache mlflow_lookup mlflow_drop "mlflow_insert ttl" mlflow_peek "ttl - 1"
  for ttl
  by unfold_locales
    (auto simp: mlflow_lookup_def mlflow_drop_def mlflow_insert_def mlflow_peek_def
      removeExpiredMLflowCacheLocked_def split: option.splits)

section \<open>The cache of pipeline names\<close>

record names_entry =
  nce_names :: "string set"
  nce_fetched_at :: int

type_synonym names_cache = "string \<rightharpoonup> names_entry"

definition cacheTTL :: int where
  "cacheTTL = 10 * 60 * second"

definition getCached :: "int \<Rightarrow> string \<Rightarrow> names_cache \<Rightarrow> string set option \<times> names_cache" where
  "getCached now digest c =
     (case c digest of
        None \<Rightarrow> (None, c)
      | Some entry \<Rightarrow>
          if now - nce_fetched_at entry > cacheTTL then (None, c(digest := None))
          else (Some (nce_names entry), c))"

definition pruneExpiredLocked :: "int \<Rightarrow> names_cache \<Rightarrow> names_cache" where
  "pruneExpiredLocked now c =
     (\<lambda>digest. case c digest of
        Some entry \<Rightarrow> if now - nce_fetched_at entry > cacheTTL then None else Some entry
      | None \<Rightarrow> None)"

definition putCache :: "int \<Rightarrow> string \<Rightarrow> string set \<Rightarrow> names_cache \<Rightarrow> names_cache" where
  "putCache now digest names c =
     (pruneExpiredLocked now c)(digest \<mapsto> \<lparr>nce_names = names, nce_fetched_at = now\<rparr>)"

definition names_peek :: "names_cache \<Rightarrow> string \<Rightarrow> (string set \<times> int) option" where
  "names_peek c digest = map_option (\<lambda>e. (nce_names e, nce_fetched_at e + cacheTTL)) (c digest)"

interpretation names: ttl_cache
  "\<lambda>now k c. fst (getCached now k c)" "\<lambda>now k c. snd (getCached now k c)" putCache names_peek cacheTTL
  by unfold_locales
    (auto simp: getCached_def putCache_def names_peek_def pruneExpiredLocked_def split: option.splits)

section \<open>Properties\<close>

text \<open>
  The MLflow endpoint cache under concurrent reconciles.  After any interleaving of look-ups,
  removals and insertions, whatever clock values the goroutines use, an endpoint served at \<open>now\<close> is
  one that was inserted for that namespace less than the time-to-live before \<open>now\<close>.
\<close>

lemma mlflow_cache_sound:
  assumes "mlflow_lookup now ns (fold (mlflow.cache_step ttl) ops Map.empty) = Some endpoint"
  shows "\<exists>t. Put t ns endpoint \<in> set ops \<and> now < t + ttl"
  using mlflow.served_was_put [OF _ assms] by (force simp: mlflow_peek_def)

lemma mlflow_cache_sound_witness:
  "\<exists>t. Put t ''ns'' ''http://m'' \<in> set [Put 5 ''ns'' ''http://m'', Drop 9 ''ns'', Put 7 ''b'' ''x'']
       \<and> 14 < t + (10 :: int)"
  by (rule mlflow_cache_sound [where ttl = 10])
    (simp, simp add: mlflow_lookup_def mlflow_drop_def mlflow_insert_def removeExpiredMLflowCacheLocked_def)

text \<open>
  C25: The pipeline-names cache of the OCI fetcher: a set of names served for a digest was stored for
  that very digest at most ten minutes earlier, and conversely what was stored is served until it is
  that old, unless it is replaced, whatever the other goroutines do with clocks not past that instant.
\<close>

theorem names_cache_sound_and_complete:
  assumes before: "fst (getCached now digest (fold names.cache_step ops Map.empty)) = Some ns"
    and later: "\<forall>op\<in>set ops'. \<not> names.touches k (t + cacheTTL) op"
    and within: "now' \<le> t + cacheTTL"
  shows "(\<exists>t0. Put t0 digest ns \<in> set ops \<and> now - t0 \<le> 10 * 60 * 1000000000)
       \<and> fst (getCached now' k (fold names.cache_step ops'
                (putCache t k v (fold names.cache_step ops Map.empty)))) = Some v"
proof
  from names.served_was_put [OF _ before] obtain t0 where "Put t0 digest ns \<in> set ops" "now \<le> t0 + cacheTTL"
    by (auto simp: names_peek_def)
  then show "\<exists>t0. Put t0 digest ns \<in> set ops \<and> now - t0 \<le> 10 * 60 * 1000000000"
    by (auto simp: cacheTTL_def second_def)
qed (rule names.put_is_served [OF later within])

theorem names_cache_sound_and_complete_witness:
  "fst (getCached 600000000003 ''d'' (fold names.cache_step [Look 9 ''d'', Put 8 ''e'' {}]
      (putCache 3 ''d'' {''iris''} (fold names.cache_step [Put 1 ''d'' {''old''}] Map.empty)))) = Some {''iris''}"
proof -
  have "fst (getCached 2 ''d'' (fold names.cache_step [Put 1 ''d'' {''old''}] Map.empty)) = Some {''old''}"
    by simp (simp add: getCached_def putCache_def cacheTTL_def second_def)
  from conjunct2 [OF names_cache_sound_and_complete
      [OF this, of "[Look 9 ''d'', Put 8 ''e'' {}]" "''d''" 3 600000000003 "{''iris''}"]]
  show ?thesis by (simp add: cacheTTL_def second_def)
qed

end
