(* ===== verification/World.thy ===== *)
theory World imports Kube Ttl_Cache begin

text \<open>
  The state of one reconcile, the primitive calls of the client, and the calculus of events: which
  events an operation may emit, which parts of the state it leaves alone.

  \<open>w_dspa\<close> is the resource behind the pointer that Reconcile allocates and that the deferred status
  update and the status object hold.  When the Kind is empty Reconcile goes on with a deep copy:
  \<open>w_copy\<close>, if it is there, is what the variable \<open>dspa\<close> of the body points at from then on.
\<close>

named_theorems emits_intros \<open>events an operation may emit\<close>
named_theorems keeps_intros \<open>state components an operation leaves alone\<close>

section \<open>The state\<close>

record world =
  w_history :: history
  w_ticks :: nat
  w_dspa :: dspa
  w_copy :: "dspa option"
  w_params :: dspa_params
  w_status :: dspa_status
  w_mlflow_cache :: mlflow_cache
  w_names_cache :: names_cache

type_synonym 'a action = "(world, 'a) op"

definition cur_dspa :: "world \<Rightarrow> dspa" where
  "cur_dspa w = (case w_copy w of Some d \<Rightarrow> d | None \<Rightarrow> w_dspa w)"

definition set_cur_dspa :: "dspa \<Rightarrow> world \<Rightarrow> world" where
  "set_cur_dspa d w = (case w_copy w of Some c \<Rightarrow> w\<lparr>w_copy := Some d\<rparr> | None \<Rightarrow> w\<lparr>w_dspa := d\<rparr>)"

definition log_event :: "event \<Rightarrow> world \<Rightarrow> world" where
  "log_event e w = w\<lparr>w_history := w_history w @ [e]\<rparr>"

definition emit :: "event \<Rightarrow> unit action" where
  "emit e = modify_op (log_event e)"

text \<open>A call that yields a value or an error, and a call that yields only an error.\<close>

definition call :: "(history \<Rightarrow> gerr + 'a) \<Rightarrow> (bool \<Rightarrow> event) \<Rightarrow> 'a action" where
  "call f ev =
     (\<lambda>w. case f (w_history w) of
        Inl e \<Rightarrow> (Err e, log_event (ev False) w)
      | Inr a \<Rightarrow> (Ok a, log_event (ev True) w))"

definition call_opt :: "(history \<Rightarrow> gerr option) \<Rightarrow> (bool \<Rightarrow> event) \<Rightarrow> unit action" where
  "call_opt f ev = call (\<lambda>h. case f h of Some e \<Rightarrow> Inl e | None \<Rightarrow> Inr ()) ev"

definition of_sum :: "gerr + 'a \<Rightarrow> 'a action" where
  "of_sum r = (case r of Inl e \<Rightarrow> fail e | Inr a \<Rightarrow> ret a)"

definition read_clock :: "env \<Rightarrow> int action" where
  "read_clock env = (\<lambda>w. (Ok (e_now env (w_ticks w)), w\<lparr>w_ticks := w_ticks w + 1\<rparr>))"

definition get_params :: "dspa_params action" where
  "get_params = gets_op w_params"

definition mod_params :: "(dspa_params \<Rightarrow> dspa_params) \<Rightarrow> unit action" where
  "mod_params f = modify_op (\<lambda>w. w\<lparr>w_params := f (w_params w)\<rparr>)"

definition get_cur :: "dspa action" where
  "get_cur = gets_op cur_dspa"

definition mod_cur :: "(dspa \<Rightarrow> dspa) \<Rightarrow> unit action" where
  "mod_cur f = modify_op (\<lambda>w. set_cur_dspa (f (cur_dspa w)) w)"

text \<open>A setter of the status object; each reads the clock once.\<close>

definition set_status :: "env \<Rightarrow> (int \<Rightarrow> dspa_status \<Rightarrow> dspa_status) \<Rightarrow> unit action" where
  "set_status env f =
     and_then (read_clock env) (\<lambda>now. modify_op (\<lambda>w. w\<lparr>w_status := f now (w_status w)\<rparr>))"

definition store_status :: "(dspa_status \<Rightarrow> dspa_status) \<Rightarrow> unit action" where
  "store_status f = modify_op (\<lambda>w. w\<lparr>w_status := f (w_status w)\<rparr>)"

subsection \<open>Calls of the client\<close>

definition get_deployment :: "env \<Rightarrow> namespaced_name \<Rightarrow> deployment action" where
  "get_deployment env nn = call (\<lambda>h. e_get_deployment env h nn) (\<lambda>ok. Ev_Get KDeployment nn)"

definition get_secret :: "env \<Rightarrow> namespaced_name \<Rightarrow> secret action" where
  "get_secret env nn = call (\<lambda>h. e_get_secret env h nn) (\<lambda>ok. Ev_Get KSecret nn)"

definition get_config_map :: "env \<Rightarrow> namespaced_name \<Rightarrow> config_map action" where
  "get_config_map env nn = call (\<lambda>h. e_get_config_map env h nn) (\<lambda>ok. Ev_Get KConfigMap nn)"

definition get_service :: "env \<Rightarrow> namespaced_name \<Rightarrow> service action" where
  "get_service env nn = call (\<lambda>h. e_get_service env h nn) (\<lambda>ok. Ev_Get KService nn)"

definition get_route :: "env \<Rightarrow> namespaced_name \<Rightarrow> route action" where
  "get_route env nn = call (\<lambda>h. e_get_route env h nn) (\<lambda>ok. Ev_Get KRoute nn)"

definition get_mlflow :: "env \<Rightarrow> namespaced_name \<Rightarrow> mlflow_cr action" where
  "get_mlflow env nn = call (\<lambda>h. e_get_mlflow env h nn) (\<lambda>ok. Ev_Get KMLflow nn)"

definition get_dspa :: "env \<Rightarrow> namespaced_name \<Rightarrow> dspa action" where
  "get_dspa env nn = call (\<lambda>h. e_get_dspa env h nn) (\<lambda>ok. Ev_Get_Dspa nn)"

definition list_dspas :: "env \<Rightarrow> dspa list action" where
  "list_dspas env = call (\<lambda>h. e_list_dspas env h) (\<lambda>ok. Ev_List_Dspas)"

definition list_pods :: "env \<Rightarrow> go_map \<Rightarrow> pod list action" where
  "list_pods env labels = call (\<lambda>h. e_list_pods env h labels) (\<lambda>ok. Ev_List_Pods labels)"

definition create_config_map :: "env \<Rightarrow> config_map \<Rightarrow> unit action" where
  "create_config_map env c = call_opt (\<lambda>h. e_create_config_map env h c) (Ev_Create_ConfigMap c)"

definition update_config_map :: "env \<Rightarrow> config_map \<Rightarrow> unit action" where
  "update_config_map env c = call_opt (\<lambda>h. e_update_config_map env h c) (Ev_Update_ConfigMap c)"

text \<open>\<open>r.Update(ctx, dspa)\<close>: the server's answer replaces the object.\<close>

definition update_dspa :: "env \<Rightarrow> unit action" where
  "update_dspa env =
     and_then get_cur (\<lambda>d.
     and_then (call (\<lambda>h. e_update_dspa env h d) (Ev_Update_Dspa d)) (\<lambda>d'. mod_cur (\<lambda>_. d')))"

section \<open>Which events an operation emits\<close>

definition emits :: "(event \<Rightarrow> bool) \<Rightarrow> 'a action \<Rightarrow> bool" where
  "emits P m \<longleftrightarrow> (\<forall>w. \<exists>evs. w_history (snd (m w)) = w_history w @ evs \<and> list_all P evs)"

definition silent :: "'a action \<Rightarrow> bool" where
  "silent m \<longleftrightarrow> (\<forall>w. w_history (snd (m w)) = w_history w)"

lemma emitsI: "(\<And>w. \<exists>evs. w_history (snd (m w)) = w_history w @ evs \<and> list_all P evs) \<Longrightarrow> emits P m"
  by (simp add: emits_def)

lemma emitsD: "emits P m \<Longrightarrow> m w = (r, w') \<Longrightarrow> \<exists>evs. w_history w' = w_history w @ evs \<and> list_all P evs"
  unfolding emits_def by (drule spec [of _ w]) simp

lemma silent_emits: "silent m \<Longrightarrow> emits P m"
  by (auto simp: silent_def emits_def)

lemma emits_mono: "emits P m \<Longrightarrow> (\<And>e. P e \<Longrightarrow> Q e) \<Longrightarrow> emits Q m"
  unfolding emits_def by (metis list.pred_mono_strong)

lemma emits_attempt [emits_intros]:
  assumes "emits P m" "\<And>e. emits P (h e)" "\<And>a. emits P (k a)"
  shows "emits P (attempt m h k)"
proof (rule emitsI)
  fix w
  obtain r w1 where m: "m w = (r, w1)" by fastforce
  from emitsD [OF assms(1) m] obtain e1 where e1: "w_history w1 = w_history w @ e1" "list_all P e1" by blast
  show "\<exists>evs. w_history (snd (attempt m h k w)) = w_history w @ evs \<and> list_all P evs"
  proof (cases r)
    case (Ok a)
    obtain r2 w2 where k: "k a w1 = (r2, w2)" by fastforce
    from emitsD [OF assms(3) k] e1 m Ok k show ?thesis by (auto simp: attempt_def)
  next
    case (Err e)
    obtain r2 w2 where k: "h e w1 = (r2, w2)" by fastforce
    from emitsD [OF assms(2) k] e1 m Err k show ?thesis by (auto simp: attempt_def)
  qed (use e1 m in \<open>auto simp: attempt_def\<close>)
qed

lemma silent_simps [simp]:
  "silent (ret a)" "silent (fail e)" "silent (panic p)" "silent (gets_op h)" "silent (pure_op r)"
  "silent (deref p x)" "silent (of_sum s)" "silent (read_clock env)" "silent get_params"
  "silent (mod_params f)" "silent get_cur" "silent (mod_cur g)" "silent (store_status u)"
  by (auto simp: silent_def ret_def fail_def panic_def gets_op_def pure_op_def deref_def of_sum_def
      read_clock_def get_params_def mod_params_def modify_op_def get_cur_def mod_cur_def
      set_cur_dspa_def store_status_def split: option.splits sum.splits)

lemma emits_basic [emits_intros]:
  "emits P (ret a)" "emits P (fail e)" "emits P (panic p)" "emits P (gets_op h)" "emits P (pure_op r)"
  "emits P (deref p x)" "emits P (of_sum s)" "emits P (read_clock env)" "emits P get_params"
  "emits P (mod_params f)" "emits P get_cur" "emits P (mod_cur g)" "emits P (store_status u)"
  by (auto intro: silent_emits)

lemma emits_and_then [emits_intros]:
  "emits P m \<Longrightarrow> (\<And>a. emits P (k a)) \<Longrightarrow> emits P (and_then m k)"
  unfolding and_then_def by (intro emits_intros)

lemma emits_wrap_err [emits_intros]: "emits P m \<Longrightarrow> emits P (wrap_err f m)"
  unfolding wrap_err_def by (intro emits_intros)

lemma emits_for_each [emits_intros]: "(\<And>x. x \<in> set xs \<Longrightarrow> emits P (f x)) \<Longrightarrow> emits P (for_each f xs)"
  by (induction xs) (auto intro!: emits_intros)

lemma emits_if [emits_intros]:
  "(b \<Longrightarrow> emits P m) \<Longrightarrow> (\<not> b \<Longrightarrow> emits P n) \<Longrightarrow> emits P (if b then m else n)"
  by simp

lemma emits_option [emits_intros]:
  "(x = None \<Longrightarrow> emits P m) \<Longrightarrow> (\<And>a. x = Some a \<Longrightarrow> emits P (f a)) \<Longrightarrow>
   emits P (case x of None \<Rightarrow> m | Some a \<Rightarrow> f a)"
  by (cases x) auto

lemma emits_prod [emits_intros]:
  "(\<And>a b. x = (a, b) \<Longrightarrow> emits P (f a b)) \<Longrightarrow> emits P (case x of (a, b) \<Rightarrow> f a b)"
  by (cases x) auto

lemma emits_let [emits_intros]: "(\<And>x. x = v \<Longrightarrow> emits P (f x)) \<Longrightarrow> emits P (let x = v in f x)"
  by simp

lemma emits_call [emits_intros]: "P (ev True) \<Longrightarrow> P (ev False) \<Longrightarrow> emits P (call f ev)"
  by (auto simp: emits_def call_def log_event_def split: sum.splits)

lemma emits_call_opt [emits_intros]: "P (ev True) \<Longrightarrow> P (ev False) \<Longrightarrow> emits P (call_opt f ev)"
  unfolding call_opt_def by (intro emits_intros)

lemma emits_emit [emits_intros]: "P e \<Longrightarrow> emits P (emit e)"
  by (auto simp: emits_def emit_def modify_op_def log_event_def)

lemma emits_set_status [emits_intros]: "emits P (set_status env f)"
proof -
  have "emits P (modify_op (\<lambda>w. w\<lparr>w_status := f now (w_status w)\<rparr>))" for now
    by (simp add: emits_def modify_op_def)
  then show ?thesis unfolding set_status_def by (intro emits_intros)
qed

lemma emits_deferring [emits_intros]:
  assumes "emits P d" "emits P m"
  shows "emits P (deferring d m)"
proof (rule emitsI)
  fix w
  obtain r w1 where m: "m w = (r, w1)" by fastforce
  obtain r2 w2 where d: "d w1 = (r2, w2)" by fastforce
  from emitsD [OF assms(2) m] emitsD [OF assms(1) d] m d
  show "\<exists>evs. w_history (snd (deferring d m w)) = w_history w @ evs \<and> list_all P evs"
    by (auto simp: deferring_def split: res.splits)
qed

lemma emits_client [emits_intros]:
  "P (Ev_Get KDeployment nn) \<Longrightarrow> emits P (get_deployment env nn)"
  "P (Ev_Get KSecret nn) \<Longrightarrow> emits P (get_secret env nn)"
  "P (Ev_Get KConfigMap nn) \<Longrightarrow> emits P (get_config_map env nn)"
  "P (Ev_Get KService nn) \<Longrightarrow> emits P (get_service env nn)"
  "P (Ev_Get KRoute nn) \<Longrightarrow> emits P (get_route env nn)"
  "P (Ev_Get KMLflow nn) \<Longrightarrow> emits P (get_mlflow env nn)"
  "P (Ev_Get_Dspa nn) \<Longrightarrow> emits P (get_dspa env nn)"
  "P Ev_List_Dspas \<Longrightarrow> emits P (list_dspas env)"
  "P (Ev_List_Pods ls) \<Longrightarrow> emits P (list_pods env ls)"
  "P (Ev_Create_ConfigMap c True) \<Longrightarrow> P (Ev_Create_ConfigMap c False) \<Longrightarrow> emits P (create_config_map env c)"
  "P (Ev_Update_ConfigMap c True) \<Longrightarrow> P (Ev_Update_ConfigMap c False) \<Longrightarrow> emits P (update_config_map env c)"
  unfolding get_deployment_def get_secret_def get_config_map_def get_service_def get_route_def
    get_mlflow_def get_dspa_def list_dspas_def list_pods_def create_config_map_def update_config_map_def
  by (auto intro!: emits_intros)

lemma emits_update_dspa [emits_intros]:
  "(\<And>d ok. P (Ev_Update_Dspa d ok)) \<Longrightarrow> emits P (update_dspa env)"
  unfolding update_dspa_def by (intro emits_intros)

section \<open>Operations that only talk to the outside\<close>

text \<open>
  An operation of this kind adds events and reads the clock, and leaves the resource, the
  parameters, the status and the caches as they are.
\<close>

named_theorems reads_intros \<open>operations that only add events\<close>

definition reads :: "'a action \<Rightarrow> bool" where
  "reads m \<longleftrightarrow> (\<forall>w. \<exists>h t. snd (m w) = w\<lparr>w_history := h, w_ticks := t\<rparr>)"

lemma readsD: "reads m \<Longrightarrow> m w = (r, w') \<Longrightarrow> \<exists>h t. w' = w\<lparr>w_history := h, w_ticks := t\<rparr>"
  unfolding reads_def by (drule spec [of _ w]) simp

lemma reads_attempt [reads_intros]:
  assumes "reads m" "\<And>e. reads (h e)" "\<And>a. reads (k a)"
  shows "reads (attempt m h k)"
  unfolding reads_def
proof
  fix w
  obtain r w1 where m: "m w = (r, w1)" by fastforce
  from readsD [OF assms(1) m] obtain h1 t1 where w1: "w1 = w\<lparr>w_history := h1, w_ticks := t1\<rparr>" by blast
  show "\<exists>h' t. snd (attempt m h k w) = w\<lparr>w_history := h', w_ticks := t\<rparr>"
  proof (cases r)
    case (Ok a)
    obtain r2 w2 where k: "k a w1 = (r2, w2)" by fastforce
    from readsD [OF assms(3) k] m Ok k w1 show ?thesis by (auto simp: attempt_def)
  next
    case (Err e)
    obtain r2 w2 where k: "h e w1 = (r2, w2)" by fastforce
    from readsD [OF assms(2) k] m Err k w1 show ?thesis by (auto simp: attempt_def)
  qed (use m w1 in \<open>auto simp: attempt_def\<close>)
qed

lemma world_id: "\<exists>h t. w = w\<lparr>w_history := h, w_ticks := t\<rparr>"
  by (rule exI [of _ "w_history w"], rule exI [of _ "w_ticks w"]) simp

lemma reads_basic [reads_intros]:
  "reads (ret a)" "reads (fail e)" "reads (panic p)" "reads (gets_op f)" "reads (pure_op r)"
  "reads (deref p x)" "reads (of_sum s)" "reads get_params" "reads get_cur"
  by (auto simp: reads_def ret_def fail_def panic_def gets_op_def pure_op_def deref_def of_sum_def
      get_params_def get_cur_def world_id split: option.splits sum.splits)

lemma reads_clock [reads_intros]: "reads (read_clock env)"
  unfolding reads_def read_clock_def
proof
  fix w
  show "\<exists>h t. snd (Ok (e_now env (w_ticks w)), w\<lparr>w_ticks := w_ticks w + 1\<rparr>) = w\<lparr>w_history := h, w_ticks := t\<rparr>"
    by (rule exI [of _ "w_history w"], rule exI [of _ "w_ticks w + 1"]) simp
qed

lemma world_log: "\<exists>h t. log_event e w = w\<lparr>w_history := h, w_ticks := t\<rparr>"
  unfolding log_event_def
  by (rule exI [of _ "w_history w @ [e]"], rule exI [of _ "w_ticks w"]) simp

lemma reads_call [reads_intros]: "reads (call f ev)"
  unfolding reads_def call_def using world_log by (auto split: sum.splits)

lemma reads_call_opt [reads_intros]: "reads (call_opt f ev)"
  unfolding call_opt_def by (intro reads_intros)

lemma reads_emit [reads_intros]: "reads (emit e)"
  unfolding reads_def emit_def modify_op_def using world_log by auto

lemma reads_and_then [reads_intros]: "reads m \<Longrightarrow> (\<And>a. reads (k a)) \<Longrightarrow> reads (and_then m k)"
  unfolding and_then_def by (intro reads_intros)

lemma reads_wrap_err [reads_intros]: "reads m \<Longrightarrow> reads (wrap_err f m)"
  unfolding wrap_err_def by (intro reads_intros)

lemma reads_for_each [reads_intros]: "(\<And>x. reads (f x)) \<Longrightarrow> reads (for_each f xs)"
  by (induction xs) (auto intro!: reads_intros)

lemma reads_if [reads_intros]: "reads m \<Longrightarrow> reads n \<Longrightarrow> reads (if b then m else n)"
  by simp

lemma reads_option [reads_intros]:
  "reads m \<Longrightarrow> (\<And>a. reads (f a)) \<Longrightarrow> reads (case x of None \<Rightarrow> m | Some a \<Rightarrow> f a)"
  by (cases x) auto

lemma reads_sum [reads_intros]:
  "(\<And>e. reads (f e)) \<Longrightarrow> (\<And>a. reads (g a)) \<Longrightarrow> reads (case x of Inl e \<Rightarrow> f e | Inr a \<Rightarrow> g a)"
  by (cases x) auto

lemma reads_prod [reads_intros]: "(\<And>a b. reads (f a b)) \<Longrightarrow> reads (case x of (a, b) \<Rightarrow> f a b)"
  by (cases x) auto

lemma reads_let [reads_intros]: "(\<And>x. reads (f x)) \<Longrightarrow> reads (let x = v in f x)"
  by simp

lemma reads_client [reads_intros]:
  "reads (get_deployment env nn)" "reads (get_secret env nn)" "reads (get_config_map env nn)"
  "reads (get_service env nn)" "reads (get_route env nn)" "reads (get_mlflow env nn)"
  "reads (get_dspa env nn)" "reads (list_dspas env)" "reads (list_pods env ls)"
  "reads (create_config_map env c)" "reads (update_config_map env c)"
  unfolding get_deployment_def get_secret_def get_config_map_def get_service_def get_route_def
    get_mlflow_def get_dspa_def list_dspas_def list_pods_def create_config_map_def update_config_map_def
  by (intro reads_intros)+

lemma emits_sum [emits_intros]:
  "(\<And>e. x = Inl e \<Longrightarrow> emits P (f e)) \<Longrightarrow> (\<And>a. x = Inr a \<Longrightarrow> emits P (g a)) \<Longrightarrow>
   emits P (case x of Inl e \<Rightarrow> f e | Inr a \<Rightarrow> g a)"
  by (cases x) auto

lemma wp_reads: "reads m \<Longrightarrow> (\<And>r h t. Q r (w\<lparr>w_history := h, w_ticks := t\<rparr>)) \<Longrightarrow> wp m Q w"
  using readsD [of m w] by (cases "m w") (fastforce simp: wp_def)

lemma wp_state [wp_rules]:
  "wp get_params Q w = Q (Ok (w_params w)) w"
  "wp (mod_params f) R w = R (Ok ()) (w\<lparr>w_params := f (w_params w)\<rparr>)"
  "wp get_cur S w = S (Ok (cur_dspa w)) w"
  "wp (mod_cur g) R w = R (Ok ()) (set_cur_dspa (g (cur_dspa w)) w)"
  "wp (store_status u) R w = R (Ok ()) (w\<lparr>w_status := u (w_status w)\<rparr>)"
  "wp (read_clock env) T w = T (Ok (e_now env (w_ticks w))) (w\<lparr>w_ticks := w_ticks w + 1\<rparr>)"
  by (simp_all add: wp_def get_params_def gets_op_def mod_params_def modify_op_def get_cur_def mod_cur_def
      store_status_def read_clock_def)

lemma wp_of_sum [wp_rules]:
  "wp (of_sum s) Q w = (case s of Inl e \<Rightarrow> Q (Err e) w | Inr a \<Rightarrow> Q (Ok a) w)"
  by (simp add: wp_def of_sum_def fail_def ret_def split: sum.splits)

lemma wp_call [wp_rules]:
  "wp (call f ev) Q w =
     (case f (w_history w) of
        Inl e \<Rightarrow> Q (Err e) (log_event (ev False) w)
      | Inr a \<Rightarrow> Q (Ok a) (log_event (ev True) w))"
  by (simp add: wp_def call_def split: sum.splits)

lemma cur_dspa_simps [simp]:
  "cur_dspa (set_cur_dspa d w) = d"
  "cur_dspa (w\<lparr>w_history := h\<rparr>) = cur_dspa w" "cur_dspa (w\<lparr>w_ticks := t\<rparr>) = cur_dspa w"
  "cur_dspa (w\<lparr>w_params := p\<rparr>) = cur_dspa w" "cur_dspa (w\<lparr>w_status := s\<rparr>) = cur_dspa w"
  "cur_dspa (w\<lparr>w_mlflow_cache := c\<rparr>) = cur_dspa w" "cur_dspa (w\<lparr>w_names_cache := n\<rparr>) = cur_dspa w"
  by (auto simp: cur_dspa_def set_cur_dspa_def split: option.splits)

lemma set_cur_dspa_simps [simp]:
  "w_params (set_cur_dspa d w) = w_params w" "w_status (set_cur_dspa d w) = w_status w"
  "w_history (set_cur_dspa d w) = w_history w" "w_ticks (set_cur_dspa d w) = w_ticks w"
  by (auto simp: set_cur_dspa_def split: option.splits)

end
