(* ===== verification/Util.thy ===== *)
theory Util imports World begin

text \<open>
  \<open>controllers/util/util.go\<close>: reading cluster objects and templates directories, host names of
  services and routes, the supported-version checks and the two label transformers.  A map read from
  the API server or built here is an association list; a lookup is \<open>map_of\<close>.
\<close>

section \<open>Conditions and versions\<close>

definition GetDeploymentCondition :: "deployment_condition list \<Rightarrow> string \<Rightarrow> deployment_condition option" where
  "GetDeploymentCondition conditions condType = find (\<lambda>c. dc_type c = condType) conditions"

definition DSPAWithSupportedDSPVersion :: "dspa \<Rightarrow> bool" where
  "DSPAWithSupportedDSPVersion d =
     fold (\<lambda>supportedVersion isSupported.
             if sp_dsp_version (d_spec d) = supportedVersion then True else isSupported)
       GetSupportedDSPAVersions False"

definition HasSupportedDSPVersionLabel :: "go_map \<Rightarrow> bool" where
  "HasSupportedDSPVersionLabel labels =
     (case map_of labels DSPVersionk8sLabel of
        None \<Rightarrow> False
      | Some version \<Rightarrow> list_ex (\<lambda>supportedVersion. version = supportedVersion) GetSupportedDSPAVersions)"

section \<open>Reading objects\<close>

text \<open>\<open>filepath.Join(componentSubdirectory, f.Name())\<close> of a relative directory and a plain name.\<close>

definition filepath_join :: "string \<Rightarrow> string \<Rightarrow> string" where
  "filepath_join dir name = (if dir = '''' then path_clean name else path_clean (dir @ ''/'' @ name))"

definition GetTemplatesInDir :: "env \<Rightarrow> string \<Rightarrow> string \<Rightarrow> string list action" where
  "GetTemplatesInDir env templatesDirectory componentSubdirectory =
     and_then (call (\<lambda>h. e_read_dir env h (templatesDirectory @ componentSubdirectory))
                 (\<lambda>ok. Ev_Read_Dir (templatesDirectory @ componentSubdirectory))) (\<lambda>files.
     ret (map (\<lambda>f. filepath_join componentSubdirectory (fst f)) (filter (\<lambda>f. \<not> snd f) files)))"

text \<open>Only an unwrapped url.Error around an unknown-authority error counts.\<close>

fun IsX509UnknownAuthorityError :: "gerr \<Rightarrow> bool" where
  "IsX509UnknownAuthorityError (Url_Err pre (X509_Unknown_Authority_Err m)) = True"
| "IsX509UnknownAuthorityError _ = False"

definition GetConfigMap :: "env \<Rightarrow> string \<Rightarrow> string \<Rightarrow> config_map action" where
  "GetConfigMap env cfgName ns = get_config_map env (nsname ns cfgName)"

definition GetConfigMapValue :: "string \<Rightarrow> config_map \<Rightarrow> string" where
  "GetConfigMapValue cfgKey cfgMap = (case map_of (cm_data cfgMap) cfgKey of Some v \<Rightarrow> v | None \<Rightarrow> '''')"

text \<open>The values in the order in which the range over the map visits the keys.\<close>

definition GetConfigMapValues :: "config_map \<Rightarrow> string list" where
  "GetConfigMapValues cfgMap = map snd (cm_data cfgMap)"

definition GetSystemCerts :: "env \<Rightarrow> string action" where
  "GetSystemCerts env =
     (let sslCertFile = (if e_getenv env DefaultSystemSSLCertFile = '''' then DefaultSystemSSLCertFilePath
                         else e_getenv env DefaultSystemSSLCertFile) in
      call (\<lambda>h. e_read_file env h sslCertFile) (\<lambda>ok. Ev_Read_File sslCertFile))"

definition GetSecret :: "env \<Rightarrow> string \<Rightarrow> string \<Rightarrow> secret action" where
  "GetSecret env secretName ns = get_secret env (nsname ns secretName)"

definition GetServiceIfAvailable :: "env \<Rightarrow> string \<Rightarrow> string \<Rightarrow> service option action" where
  "GetServiceIfAvailable env svcName ns =
     attempt (get_service env (nsname ns svcName))
       (\<lambda>err. if is_not_found err then ret None else fail err)
       (\<lambda>service. ret (Some service))"

definition GetRouteIfAvailable :: "env \<Rightarrow> string \<Rightarrow> string \<Rightarrow> route option action" where
  "GetRouteIfAvailable env routeName ns =
     attempt (get_route env (nsname ns routeName))
       (\<lambda>err. if is_not_found err then ret None else fail err)
       (\<lambda>route. ret (Some route))"

text \<open>The port loop: it stops at the first secured port, else it ends with the last one.\<close>

fun service_port :: "int list \<Rightarrow> string \<Rightarrow> string \<times> string" where
  "service_port [] servicePort = (''http'', servicePort)"
| "service_port (port # ports) servicePort =
     (if itoa port = ''8443'' \<or> itoa port = ''443'' then (''https'', itoa port)
      else service_port ports (itoa port))"

definition GetServiceHostname :: "env \<Rightarrow> string \<Rightarrow> string \<Rightarrow> string action" where
  "GetServiceHostname env svcName ns =
     and_then (GetServiceIfAvailable env svcName ns) (\<lambda>service.
     ret (case service of
            None \<Rightarrow> ''''
          | Some sv \<Rightarrow>
              (let (scheme, servicePort) = service_port (sv_ports sv) '''' in
               scheme @ ''://'' @ sv_name sv @ ''.'' @ sv_namespace sv @ ''.svc.cluster.local:'' @ servicePort)))"

definition GetRouteHostname :: "env \<Rightarrow> string \<Rightarrow> string \<Rightarrow> string action" where
  "GetRouteHostname env routeName ns =
     and_then (GetRouteIfAvailable env routeName ns) (\<lambda>route.
     ret (case route of
            None \<Rightarrow> ''''
          | Some ro \<Rightarrow> (if ro_tls ro then ''https'' else ''http'') @ ''://'' @ ro_host ro))"

section \<open>Label transformers\<close>

text \<open>\<open>labels[labelKey] = labelValue\<close> on a Go map.\<close>

definition map_put :: "string \<Rightarrow> string \<Rightarrow> go_map \<Rightarrow> go_map" where
  "map_put k v m = AList.update k v m"

definition AddLabelTransformer :: "env \<Rightarrow> string \<Rightarrow> string \<Rightarrow> json \<Rightarrow> gerr + json" where
  "AddLabelTransformer env labelKey labelValue mfObj =
     (let labels = (case e_get_labels env mfObj of None \<Rightarrow> [] | Some ls \<Rightarrow> ls) in
      Inr (e_set_labels env (map_put labelKey labelValue labels) mfObj))"

definition pod_labels_path :: "string list" where
  "pod_labels_path = [''spec'', ''template'', ''metadata'', ''labels'']"

definition AddDeploymentPodLabelTransformer :: "env \<Rightarrow> string \<Rightarrow> string \<Rightarrow> json \<Rightarrow> gerr + json" where
  "AddDeploymentPodLabelTransformer env labelKey labelValue mfObj =
     (if e_object_kind env mfObj = ''Deployment''
      then case e_nested_string_map env mfObj pod_labels_path of
             Inl err \<Rightarrow> Inl err
           | Inr (podLabels, found) \<Rightarrow>
               (case e_set_nested_string_map env mfObj
                       (map_put labelKey labelValue (if found then podLabels else [])) pod_labels_path of
                  Inl err \<Rightarrow> Inl (Wrap_Err ''failed to set pod labels: '' err '''')
                | Inr obj \<Rightarrow> Inr obj)
      else Inr mfObj)"

section \<open>Lemmas\<close>

lemma map_put_lookup [simp]: "map_of (map_put k v m) j = (if j = k then Some v else map_of m j)"
  by (simp add: map_put_def update_conv)

lemma supported_version [simp]: "DSPAWithSupportedDSPVersion d = (sp_dsp_version (d_spec d) = ''v2'')"
  by (simp add: DSPAWithSupportedDSPVersion_def GetSupportedDSPAVersions_def SupportedDSPVersions_def
      config_consts)

lemma service_port_eq:
  "service_port ports p =
     (case find (\<lambda>x. itoa x = ''8443'' \<or> itoa x = ''443'') ports of
        Some x \<Rightarrow> (''https'', itoa x)
      | None \<Rightarrow> (''http'', if ports = [] then p else itoa (last ports)))"
  by (induction ports arbitrary: p) (auto split: option.splits)

lemma emits_util [emits_intros]:
  "P (Ev_Get KConfigMap (nsname ns n)) \<Longrightarrow> emits P (GetConfigMap env n ns)"
  "P (Ev_Get KSecret (nsname ns n)) \<Longrightarrow> emits P (GetSecret env n ns)"
  "P (Ev_Get KService (nsname ns n)) \<Longrightarrow> emits P (GetServiceHostname env n ns)"
  "P (Ev_Get KRoute (nsname ns n)) \<Longrightarrow> emits P (GetRouteHostname env n ns)"
  "P (Ev_Read_Dir (td @ sd)) \<Longrightarrow> emits P (GetTemplatesInDir env td sd)"
  "(\<And>f. P (Ev_Read_File f)) \<Longrightarrow> emits P (GetSystemCerts env)"
  unfolding GetConfigMap_def GetSecret_def GetServiceHostname_def GetRouteHostname_def
    GetServiceIfAvailable_def GetRouteIfAvailable_def GetTemplatesInDir_def GetSystemCerts_def
  by (auto intro!: emits_intros)

lemma reads_util [reads_intros]:
  "reads (GetConfigMap env n ns)" "reads (GetSecret env n ns)" "reads (GetServiceIfAvailable env n ns)"
  "reads (GetRouteIfAvailable env n ns)" "reads (GetServiceHostname env n ns)"
  "reads (GetRouteHostname env n ns)" "reads (GetTemplatesInDir env td sd)" "reads (GetSystemCerts env)"
  unfolding GetConfigMap_def GetSecret_def GetServiceHostname_def GetRouteHostname_def
    GetServiceIfAvailable_def GetRouteIfAvailable_def GetTemplatesInDir_def GetSystemCerts_def
  by (intro reads_intros)+

end
