(* ===== verification/Sample_Env.thy ===== *)
theory Sample_Env imports World begin

text \<open>
  A concrete environment, in which the hypotheses of the properties are shown to hold together: an
  API server that knows one resource, accepts every write and serves fixed objects, and a manifest
  library over JSON objects.  It is used by the witnesses only.
\<close>

section \<open>Reading and setting a field of a JSON object\<close>

fun json_fields :: "json \<Rightarrow> (string \<times> json) list" where
  "json_fields (JObj kvs) = kvs"
| "json_fields _ = []"

fun json_at :: "string list \<Rightarrow> json \<Rightarrow> json option" where
  "json_at [] j = Some j"
| "json_at (k # ks) j = (case map_of (json_fields j) k of None \<Rightarrow> None | Some x \<Rightarrow> json_at ks x)"

fun json_put :: "string list \<Rightarrow> json \<Rightarrow> json \<Rightarrow> json" where
  "json_put [] v j = v"
| "json_put (k # ks) v j =
     JObj (AList.update k (json_put ks v (case map_of (json_fields j) k of Some x \<Rightarrow> x | None \<Rightarrow> JNull))
             (json_fields j))"

lemma json_at_put [simp]: "json_at p (json_put p v j) = Some v"
  by (induction p arbitrary: j) (simp_all add: update_conv)

lemma json_at_put_other: "k \<noteq> k' \<Longrightarrow> json_at (k # ks) (json_put (k' # ks') v j) = json_at (k # ks) j"
  by (simp add: update_conv)

definition json_string_map :: "json \<Rightarrow> go_map" where
  "json_string_map j = map (\<lambda>(k, v). (k, case v of JStr s \<Rightarrow> s | _ \<Rightarrow> '''')) (json_fields j)"

definition string_map_json :: "go_map \<Rightarrow> json" where
  "string_map_json m = JObj (map (\<lambda>(k, v). (k, JStr v)) m)"

lemma json_string_map_inverse [simp]: "json_string_map (string_map_json m) = m"
  by (induction m) (auto simp: json_string_map_def string_map_json_def)

section \<open>The environment\<close>

definition sample_transform :: "(json \<Rightarrow> gerr + json) list \<Rightarrow> json list \<Rightarrow> gerr + json list" where
  "sample_transform fns objs =
     foldr (\<lambda>obj acc.
        case fold (\<lambda>f r. case r of Inl e \<Rightarrow> Inl e | Inr x \<Rightarrow> f x) fns (Inr obj) of
          Inl e \<Rightarrow> Inl e
        | Inr x \<Rightarrow> (case acc of Inl e \<Rightarrow> Inl e | Inr xs \<Rightarrow> Inr (x # xs))) objs (Inr [])"

definition not_found_err :: gerr where
  "not_found_err = Api_Err ReasonNotFound ''not found''"

definition sample_viper :: viper where
  "sample_viper =
     \<lparr>v_is_set = (\<lambda>k. take 7 k = ''Images.''), v_get_string = (\<lambda>k. ''quay.io/'' @ k),
      v_get_duration = (\<lambda>_. 0), v_get_bool = (\<lambda>_. False)\<rparr>"

text \<open>A resource with MariaDB, Minio and every component at its defaults.\<close>

definition sample_maria_db :: maria_db where
  "sample_maria_db =
     \<lparr>mdb_deploy = True, mdb_image = '''', mdb_username = '''', mdb_password_secret = None,
      mdb_db_name = '''', mdb_pvc_size = ''10Gi'', mdb_storage_class_name = '''', mdb_resources = None\<rparr>"

definition sample_minio :: minio where
  "sample_minio =
     \<lparr>mn_deploy = True, mn_bucket = ''mine'', mn_s3_credential_secret = None, mn_pvc_size = ''10Gi'',
      mn_storage_class_name = '''', mn_resources = None, mn_image = ''quay.io/minio''\<rparr>"

definition sample_api_server :: api_server where
  "sample_api_server =
     \<lparr>as_deploy = True, as_image = '''', as_enable_route = True, as_enable_sample_pipeline = False,
      as_argo_launcher_image = '''', as_argo_driver_image = '''', as_managed_pipelines = None,
      as_resources = None, as_ca_bundle = None, as_custom_server_config = None,
      as_custom_kfp_launcher_configmap = '''', as_ca_bundle_file_mount_path = '''',
      as_ca_bundle_file_name = '''', as_artifact_signed_url_expiry_seconds = None,
      as_pipeline_store = ''database'', as_cache_enabled = None, as_workspace = None,
      as_resource_ttl = None\<rparr>"

definition sample_spec :: dspa_spec where
  "sample_spec =
     \<lparr>sp_api_server = Some sample_api_server,
      sp_persistence_agent = Some \<lparr>pa_deploy = True, pa_image = '''', pa_num_workers = 2, pa_resources = None\<rparr>,
      sp_scheduled_workflow =
        Some \<lparr>sw_deploy = True, sw_image = '''', sw_cron_schedule_timezone = ''UTC'', sw_resources = None\<rparr>,
      sp_database =
        Some \<lparr>db_maria_db = Some sample_maria_db, db_external_db = None,
              db_custom_extra_params = None, db_disable_health_check = False\<rparr>,
      sp_object_storage =
        Some \<lparr>os_minio = Some sample_minio, os_external_storage = None,
              os_disable_health_check = False, os_enable_external_route = False\<rparr>,
      sp_mlmd = None, sp_dsp_version = ''v2'', sp_pod_to_pod_tls = Some False,
      sp_workflow_controller = None, sp_proxy = None, sp_mlflow = None\<rparr>"

definition sample_dspa :: dspa where
  "sample_dspa =
     empty_dspa\<lparr>d_api_version := ''datasciencepipelinesapplications.opendatahub.io/v1'',
       d_kind := ''DataSciencePipelinesApplication'', d_name := ''sample'', d_namespace := ''ns'',
       d_uid := ''uid'', d_generation := 3, d_spec := sample_spec\<rparr>"

definition sample_env :: env where
  "sample_env =
     \<lparr>e_viper = sample_viper,
      e_getenv = (\<lambda>n. if n = ''DSPO_NAMESPACE'' then ''dspo'' else ''''),
      e_environ = [], e_templates_path = ''config/internal/'', e_path_prefix = '''',
      e_webhook_annotations = [], e_mlflow_cache_ttl = 0, e_allowed_registries = [],
      e_now = (\<lambda>n. int n), e_rand = (\<lambda>h i. length h + i),
      e_get_dspa = (\<lambda>h nn. if nn = nsname ''ns'' ''sample'' then Inr sample_dspa else Inl not_found_err),
      e_update_dspa = (\<lambda>h d. Inr d), e_update_status = (\<lambda>h d. Inr d),
      e_list_dspas = (\<lambda>h. Inr [sample_dspa]),
      e_get_deployment = (\<lambda>h nn. Inl not_found_err),
      e_get_secret = (\<lambda>h nn. Inl not_found_err),
      e_get_config_map = (\<lambda>h nn. Inl not_found_err),
      e_get_service = (\<lambda>h nn. Inl not_found_err),
      e_get_route = (\<lambda>h nn. Inl not_found_err),
      e_get_mlflow = (\<lambda>h nn. Inl not_found_err),
      e_get_object = (\<lambda>h k nn. None), e_delete_object = (\<lambda>h k nn. None),
      e_list_pods = (\<lambda>h ls. Inr []),
      e_create_config_map = (\<lambda>h c. None), e_update_config_map = (\<lambda>h c. None),
      e_read_file = (\<lambda>h f. Inr f), e_read_dir = (\<lambda>h d. Inr [(''deployment.yaml.tmpl'', False)]),
      e_execute_template = (\<lambda>src p. Inr src),
      e_manifest_from = (\<lambda>txt. Inr [JObj [(''kind'', JStr ''Deployment'')]]),
      e_transform = sample_transform,
      e_inject_owner = (\<lambda>ow j. Inr j),
      e_apply_manifest = (\<lambda>h os. None), e_delete_manifest = (\<lambda>h os. None),
      e_get_labels = (\<lambda>j. map_option json_string_map (json_at [''metadata'', ''labels''] j)),
      e_set_labels = (\<lambda>ls j. json_put [''metadata'', ''labels''] (string_map_json ls) j),
      e_object_kind = (\<lambda>j. case json_at [''kind''] j of Some (JStr k) \<Rightarrow> k | _ \<Rightarrow> ''''),
      e_nested_string_map =
        (\<lambda>j p. Inr (case json_at p j of Some m \<Rightarrow> (json_string_map m, True) | None \<Rightarrow> ([], False))),
      e_set_nested_string_map = (\<lambda>j m p. Inr (json_put p (string_map_json m) j)),
      e_parse_quantity_sign = (\<lambda>q. Inr 1),
      e_marshal_claim_spec = (\<lambda>s. Inr JNull),
      e_parse_url = (\<lambda>u. Inr (''https'', u)),
      e_sha256_hex = (\<lambda>s. ''00''), e_pem_ok = (\<lambda>p. True),
      e_register_tls = (\<lambda>h t. None), e_sql_open = (\<lambda>c. None), e_sql_query = (\<lambda>h c t. None),
      e_k8s_unmarshal_string_map = (\<lambda>s. Inr [(''tls'', ''false'')]),
      e_system_cert_pool = Inr [], e_default_transport =
        (\<lambda>s. Inr \<lparr>tr_secure = s, tr_root_cas = None, tr_proxy = None\<rparr>),
      e_minio_new = (\<lambda>ep opts. None), e_stat_object = (\<lambda>h ep opts b ob t. None),
      e_parse_reference = (\<lambda>r. if r = '''' then Inl (Plain_Err ''could not parse reference'') else Inr ''quay.io''),
      e_remote_image = (\<lambda>h r. Inl (Plain_Err ''no registry''))\<rparr>"

definition sample_world :: world where
  "sample_world =
     \<lparr>w_history = [], w_ticks = 0, w_dspa = sample_dspa, w_copy = None,
      w_params = empty_params\<lparr>p_dsp_version := ''v2''\<rparr>, w_status = NewDSPAStatus 0,
      w_mlflow_cache = Map.empty, w_names_cache = Map.empty\<rparr>"

end
