(* ===== verification/Mlflow.thy ===== *)
theory Mlflow imports Util Sample_Env begin

text \<open>
  The MLflow integration: the endpoint lookup and its cache in
  \<open>controllers/dspipeline_controller.go\<close>, the endpoint check and the plugin configuration in
  \<open>controllers/dspipeline_params.go\<close>.  url.Parse is a parameter (the scheme and the host, or an
  error); the cache operations are those of \<open>Ttl_Cache\<close>.
\<close>

definition mlflowCRName :: string where
  "mlflowCRName = ''mlflow''"

definition DefaultMLflowEndpointCacheTTL :: int where
  "DefaultMLflowEndpointCacheTTL = 45 * second"

definition validateMLflowEndpointURL :: "env \<Rightarrow> string \<Rightarrow> gerr option" where
  "validateMLflowEndpointURL env raw =
     (let invalid = Some (Plain_Err (''invalid MLflow endpoint '' @ go_quote raw @
                            '': must be http/https with non-empty host'')) in
      case e_parse_url env (trim_space raw) of
        Inl err \<Rightarrow> invalid
      | Inr (scheme, host) \<Rightarrow>
          if host = '''' \<or> (scheme \<noteq> ''http'' \<and> scheme \<noteq> ''https'') then invalid else None)"

definition lookupMLflowEndpoint :: "env \<Rightarrow> string \<Rightarrow> string action" where
  "lookupMLflowEndpoint env ns =
     (if ns = '''' then fail (Plain_Err ''namespace must be set for MLflow endpoint lookup'')
      else
        and_then (get_mlflow env (nsname ns mlflowCRName)) (\<lambda>mlflowObj.
        case mlf_address_url mlflowObj of
          None \<Rightarrow> fail (Plain_Err ''MLflow resource missing Status.Address.URL field. Unable to resolve endpoint'')
        | Some endpoint \<Rightarrow>
            if endpoint = ''''
            then fail (Plain_Err ''MLflow resource missing Status.Address.URL field. Unable to resolve endpoint'')
            else
              (case validateMLflowEndpointURL env endpoint of
                 Some err \<Rightarrow> fail (Wrap_Err ''MLflow resource has invalid Status.Address.URL: '' err '''')
               | None \<Rightarrow> ret endpoint)))"

definition mlflow_ttl :: "env \<Rightarrow> int" where
  "mlflow_ttl env =
     (if e_mlflow_cache_ttl env \<le> 0 then DefaultMLflowEndpointCacheTTL else e_mlflow_cache_ttl env)"

definition mod_mlflow_cache :: "(mlflow_cache \<Rightarrow> mlflow_cache) \<Rightarrow> unit action" where
  "mod_mlflow_cache f = modify_op (\<lambda>w. w\<lparr>w_mlflow_cache := f (w_mlflow_cache w)\<rparr>)"

definition retrieveMLflowEndpointCached :: "env \<Rightarrow> string \<Rightarrow> string action" where
  "retrieveMLflowEndpointCached env ns =
     and_then (read_clock env) (\<lambda>now.
     and_then (gets_op w_mlflow_cache) (\<lambda>cache.
     case mlflow_lookup now ns cache of
       Some endpoint \<Rightarrow> ret endpoint
     | None \<Rightarrow>
         and_then (if cache ns \<noteq> None then mod_mlflow_cache (mlflow_drop now ns) else ret ()) (\<lambda>_.
         and_then (lookupMLflowEndpoint env ns) (\<lambda>endpoint.
         and_then (mod_mlflow_cache (mlflow_insert (mlflow_ttl env) now ns endpoint)) (\<lambda>_.
         ret endpoint)))))"

text \<open>A struct field with \<open>omitempty\<close>, and one without.\<close>

definition omit_empty :: "string \<Rightarrow> string \<Rightarrow> (string \<times> json) list" where
  "omit_empty k v = (if v = '''' then [] else [(k, JStr v)])"

definition mlflow_settings :: "string \<Rightarrow> bool \<Rightarrow> json" where
  "mlflow_settings kfpBaseURL injectUserEnvVars =
     JObj ([(''workspacesEnabled'', JBool True),
            (''experimentDescription'', JStr ''Created by AI Pipelines.''),
            (''defaultExperimentName'', JStr ''AIP-default'')] @
           omit_empty ''kfpBaseURL'' kfpBaseURL @
           [(''kfpRunURLPathTemplate'', JStr ''/develop-train/pipelines/runs/{namespace}/runs/{run_id}'')] @
           omit_empty ''mlflowBaseURL'' kfpBaseURL @
           [(''mlflowUIPathPrefix'', JStr ''/mlflow''),
            (''injectUserEnvVars'', JBool injectUserEnvVars)])"

definition BuildMLflowPluginConfigJson :: "string \<Rightarrow> string \<Rightarrow> bool \<Rightarrow> string \<Rightarrow> string res" where
  "BuildMLflowPluginConfigJson mlflowEndpoint caBundlePath injectUserEnvVars kfpBaseURL =
     Ok (json_print (JObj
       (omit_empty ''endpoint'' mlflowEndpoint @
        [(''timeout'', JStr ''30s''),
         (''tls'', JObj ((''insecureSkipVerify'', JBool False) # omit_empty ''caBundlePath'' caBundlePath)),
         (''settings'', mlflow_settings kfpBaseURL injectUserEnvVars)])))"

section \<open>Lemmas\<close>

lemma silent_mlflow [simp]: "silent (mod_mlflow_cache f)"
  by (simp add: silent_def mod_mlflow_cache_def modify_op_def)

lemma emits_mlflow [emits_intros]:
  "P (Ev_Get KMLflow (nsname ns mlflowCRName)) \<Longrightarrow> emits P (lookupMLflowEndpoint env ns)"
  "P (Ev_Get KMLflow (nsname ns mlflowCRName)) \<Longrightarrow> emits P (retrieveMLflowEndpointCached env ns)"
proof -
  assume P: "P (Ev_Get KMLflow (nsname ns mlflowCRName))"
  have look: "emits P (lookupMLflowEndpoint env ns)"
    unfolding lookupMLflowEndpoint_def using P by (intro emits_intros)
  have cache: "emits P (mod_mlflow_cache f)" for f
    by (rule silent_emits) simp
  show "emits P (lookupMLflowEndpoint env ns)" by (rule look)
  show "emits P (retrieveMLflowEndpointCached env ns)"
    unfolding retrieveMLflowEndpointCached_def by (intro emits_intros look cache)
qed

definition valid_endpoint :: "env \<Rightarrow> string \<Rightarrow> bool" where
  "valid_endpoint env e \<longleftrightarrow> e \<noteq> '''' \<and> validateMLflowEndpointURL env e = None"

definition mlflow_cache_valid :: "env \<Rightarrow> mlflow_cache \<Rightarrow> bool" where
  "mlflow_cache_valid env c \<longleftrightarrow> (\<forall>ns e. c ns = Some e \<longrightarrow> valid_endpoint env (mle_endpoint e))"

lemma mlflow_cache_valid_ops:
  "mlflow_cache_valid env c \<Longrightarrow> mlflow_cache_valid env (mlflow_drop now ns c)"
  "mlflow_cache_valid env c \<Longrightarrow> valid_endpoint env e \<Longrightarrow> mlflow_cache_valid env (mlflow_insert ttl now ns e c)"
  by (auto simp: mlflow_cache_valid_def mlflow_drop_def mlflow_insert_def removeExpiredMLflowCacheLocked_def
      split: option.splits if_splits)

lemma lookup_valid:
  assumes "lookupMLflowEndpoint env ns w = (r, w')"
  shows "w_mlflow_cache w' = w_mlflow_cache w \<and> (\<forall>e. r = Ok e \<longrightarrow> valid_endpoint env e)"
  using assms
  by (auto simp: lookupMLflowEndpoint_def and_then_def attempt_def get_mlflow_def call_def fail_def ret_def
      log_event_def valid_endpoint_def split: if_splits sum.splits option.splits)

section \<open>Properties\<close>

text \<open>
  Only checked endpoints are used.  If every cached endpoint is an absolute http or https URL with
  a host, then so is the endpoint a retrieval returns, and the cache keeps that property whatever the
  API server answers.
\<close>

lemma mlflow_endpoint_valid:
  assumes cache: "mlflow_cache_valid env (w_mlflow_cache w)"
    and run: "retrieveMLflowEndpointCached env ns w = (r, w')"
  shows "mlflow_cache_valid env (w_mlflow_cache w') \<and>
         (case r of
            Ok e \<Rightarrow> (\<exists>scheme host. e_parse_url env (trim_space e) = Inr (scheme, host) \<and> host \<noteq> '''' \<and>
                       (scheme = ''http'' \<or> scheme = ''https''))
          | _ \<Rightarrow> True)"
proof -
  let ?now = "e_now env (w_ticks w)" and ?w1 = "w\<lparr>w_ticks := w_ticks w + 1\<rparr>"
  have valid: "\<exists>scheme host. e_parse_url env (trim_space e) = Inr (scheme, host) \<and> host \<noteq> '''' \<and>
      (scheme = ''http'' \<or> scheme = ''https'')" if "valid_endpoint env e" for e
    using that by (auto simp: valid_endpoint_def validateMLflowEndpointURL_def Let_def split: sum.splits if_splits)
  show ?thesis
  proof (cases "mlflow_lookup ?now ns (w_mlflow_cache w)")
    case (Some e)
    with cache have "valid_endpoint env e"
      by (auto simp: mlflow_lookup_def mlflow_cache_valid_def split: option.splits if_splits)
    with Some run cache show ?thesis
      by (auto simp: retrieveMLflowEndpointCached_def and_then_def attempt_def read_clock_def gets_op_def
          ret_def dest: valid)
  next
    case None
    define w2 where "w2 = (if w_mlflow_cache w ns \<noteq> None
        then ?w1\<lparr>w_mlflow_cache := mlflow_drop ?now ns (w_mlflow_cache w)\<rparr> else ?w1)"
    have c2: "mlflow_cache_valid env (w_mlflow_cache w2)"
      using cache by (simp add: w2_def mlflow_cache_valid_ops)
    obtain r3 w3 where look: "lookupMLflowEndpoint env ns w2 = (r3, w3)" by fastforce
    note lv = lookup_valid [OF look]
    have out: "(r, w') = (case r3 of
        Ok e \<Rightarrow> (Ok e, w3\<lparr>w_mlflow_cache := mlflow_insert (mlflow_ttl env) ?now ns e (w_mlflow_cache w3)\<rparr>)
      | Err e \<Rightarrow> (Err e, w3) | Panic p \<Rightarrow> (Panic p, w3))"
      using run None look
      by (auto simp: retrieveMLflowEndpointCached_def and_then_def attempt_def read_clock_def gets_op_def
          ret_def fail_def mod_mlflow_cache_def modify_op_def w2_def split: res.splits if_splits)
    show ?thesis
      using out lv c2 by (auto simp: mlflow_cache_valid_ops dest: valid split: res.splits)
  qed
qed

lemma mlflow_endpoint_valid_witness:
  "case retrieveMLflowEndpointCached
          (sample_env\<lparr>e_get_mlflow := (\<lambda>h nn. Inr \<lparr>mlf_address_url = Some ''m''\<rparr>)\<rparr>) ''ns'' sample_world of
     (r, w') \<Rightarrow> mlflow_cache_valid (sample_env\<lparr>e_get_mlflow := (\<lambda>h nn. Inr \<lparr>mlf_address_url = Some ''m''\<rparr>)\<rparr>)
                  (w_mlflow_cache w')"
proof -
  let ?env = "sample_env\<lparr>e_get_mlflow := (\<lambda>h nn. Inr \<lparr>mlf_address_url = Some ''m''\<rparr>)\<rparr>"
  have "mlflow_cache_valid ?env (w_mlflow_cache sample_world)"
    by (simp add: mlflow_cache_valid_def sample_world_def)
  from mlflow_endpoint_valid [OF this] show ?thesis
    by (cases "retrieveMLflowEndpointCached ?env ''ns'' sample_world") simp
qed

end
