(* ===== verification/Managed_Pipelines.thy ===== *)
theory Managed_Pipelines imports Sample_Env begin

text \<open>
  \<open>controllers/managed_pipelines_validation.go\<close> and \<open>controllers/managed_pipeline_image_env.go\<close>:
  the names a managed-pipelines manifest offers, the check of the names a resource asks for, and the
  RELATED_IMAGE variables taken over from the operator's environment.  A \<open>map[string]bool\<close> that only
  ever holds true is the set of its keys.
\<close>

section \<open>The manifest\<close>

definition manifest_entry_tags :: "string list" where
  "manifest_entry_tags = [''name'', ''description'', ''path'', ''stability'']"

definition unmarshal_entries :: "string \<Rightarrow> gerr + (string \<Rightarrow> string) list" where
  "unmarshal_entries s =
     (case json_parse s of
        None \<Rightarrow> Inl syntax_error
      | Some JNull \<Rightarrow> Inr []
      | Some (JArr js) \<Rightarrow> decode_structs manifest_entry_tags js
      | Some j \<Rightarrow> Inl type_error)"

definition ParseManagedPipelinesManifest :: "string \<Rightarrow> gerr + string set" where
  "ParseManagedPipelinesManifest data =
     (if length data = 0 then Inl (Plain_Err ''managed-pipelines.json content is empty'')
      else
        (case unmarshal_entries data of
           Inl err \<Rightarrow> Inl (Wrap_Err ''failed to parse managed-pipelines.json: '' err '''')
         | Inr entries \<Rightarrow>
             Inr (fold (\<lambda>e names.
                    let trimmed = trim_space (e ''name'') in
                    if trimmed \<noteq> '''' then insert trimmed names else names) entries {})))"

definition ValidateManagedPipelineNames :: "managed_pipeline list \<Rightarrow> string set \<Rightarrow> gerr option" where
  "ValidateManagedPipelineNames crPipelines manifestNames =
     (if length crPipelines = 0 then None
      else
        (let invalid = filter (\<lambda>n. n \<notin> manifestNames) (map mp_name crPipelines) in
         if length invalid > 0
         then Some (Plain_Err (''pipeline(s) not found in managed-pipelines.json: '' @ join '', '' invalid))
         else None))"

section \<open>Image variables\<close>

definition relatedImageEnvPrefix :: string where
  "relatedImageEnvPrefix = ''RELATED_IMAGE_''"

definition valid_name_char :: "char \<Rightarrow> bool" where
  "valid_name_char c \<longleftrightarrow>
     (CHR ''A'' \<le> c \<and> c \<le> CHR ''Z'') \<or> (CHR ''0'' \<le> c \<and> c \<le> CHR ''9'') \<or> c = CHR ''_''"

definition isValidEnvVarName :: "string \<Rightarrow> bool" where
  "isValidEnvVarName name \<longleftrightarrow> list_all valid_name_char name \<and> length name > 0"

definition invalid_name_error :: "string \<Rightarrow> gerr" where
  "invalid_name_error key =
     Plain_Err (''invalid RELATED_IMAGE_* env var name '' @ go_quote key @
       '': must contain only [A-Z0-9_] with a non-empty suffix after the prefix'')"

text \<open>The loop over the environment; \<open>cleaned\<close> is the Go map.\<close>

fun clean_environ :: "string list \<Rightarrow> go_map \<Rightarrow> gerr + go_map" where
  "clean_environ [] cleaned = Inr cleaned"
| "clean_environ (raw # environ) cleaned =
     (case cut_at (CHR ''='') raw of
        None \<Rightarrow> clean_environ environ cleaned
      | Some (key0, value0) \<Rightarrow>
          (let key = trim_space key0 in
           if \<not> has_prefix key relatedImageEnvPrefix then clean_environ environ cleaned
           else if length key = length relatedImageEnvPrefix \<or> \<not> isValidEnvVarName key
           then Inl (invalid_name_error key)
           else
             (let value0' = trim_space value0 in
              if value0' = '''' then clean_environ environ cleaned
              else clean_environ environ (AList.update key value0' cleaned))))"

definition ManagedPipelineImageEnvFromEnviron :: "string list \<Rightarrow> gerr + image_env_var list" where
  "ManagedPipelineImageEnvFromEnviron environ =
     (case clean_environ environ [] of
        Inl err \<Rightarrow> Inl err
      | Inr cleaned \<Rightarrow>
          Inr (sort_key iev_name (map (\<lambda>(key, v). \<lparr>iev_name = key, iev_value = v\<rparr>) cleaned)))"

section \<open>Lemmas\<close>

lemma fold_insert_names:
  "fold (\<lambda>e names. let trimmed = trim_space (e ''name'') in
           if trimmed \<noteq> '''' then insert trimmed names else names) entries S =
   S \<union> (((\<lambda>e. trim_space (e ''name'')) ` set entries) - {''''})"
  by (induction entries arbitrary: S) (auto simp: Let_def)

lemma ParseManagedPipelinesManifest_eq:
  "ParseManagedPipelinesManifest data =
     (if data = [] then Inl (Plain_Err ''managed-pipelines.json content is empty'')
      else case unmarshal_entries data of
             Inl err \<Rightarrow> Inl (Wrap_Err ''failed to parse managed-pipelines.json: '' err '''')
           | Inr entries \<Rightarrow> Inr (((\<lambda>e. trim_space (e ''name'')) ` set entries) - {''''}))"
  unfolding ParseManagedPipelinesManifest_def fold_insert_names Un_empty_left by simp

text \<open>An environment entry that counts: its trimmed key has the prefix, its trimmed value is not empty.\<close>

definition related_entry :: "string \<Rightarrow> (string \<times> string) option" where
  "related_entry raw =
     (case cut_at (CHR ''='') raw of
        None \<Rightarrow> None
      | Some (k, v) \<Rightarrow>
          if has_prefix (trim_space k) relatedImageEnvPrefix \<and> trim_space v \<noteq> ''''
          then Some (trim_space k, trim_space v) else None)"

text \<open>An entry that makes the whole call fail, whatever its value.\<close>

definition bad_entry :: "string \<Rightarrow> bool" where
  "bad_entry raw \<longleftrightarrow>
     (case cut_at (CHR ''='') raw of
        None \<Rightarrow> False
      | Some (k, v) \<Rightarrow>
          has_prefix (trim_space k) relatedImageEnvPrefix \<and>
          (trim_space k = relatedImageEnvPrefix \<or> \<not> list_all valid_name_char (trim_space k)))"

lemma prefix_len: "has_prefix s p \<Longrightarrow> (length s = length p) = (s = p)"
  by (auto simp: has_prefix_iff)

lemma valid_related:
  "has_prefix k relatedImageEnvPrefix \<Longrightarrow> isValidEnvVarName k = list_all valid_name_char k"
  by (auto simp: isValidEnvVarName_def relatedImageEnvPrefix_def has_prefix_iff)

lemma clean_environ_good:
  "\<not> bad_entry raw \<Longrightarrow> clean_environ (raw # environ) cleaned =
     clean_environ environ
       (case related_entry raw of None \<Rightarrow> cleaned | Some (k, v) \<Rightarrow> AList.update k v cleaned)"
  by (auto simp: bad_entry_def related_entry_def Let_def prefix_len valid_related split: option.splits)

lemma clean_environ_bad:
  "bad_entry raw \<Longrightarrow> \<exists>e. clean_environ (raw # environ) cleaned = Inl e"
  by (auto simp: bad_entry_def Let_def prefix_len valid_related split: option.splits)

lemma clean_environ_spec:
  "(case clean_environ environ cleaned of
      Inl e \<Rightarrow> list_ex bad_entry environ
    | Inr m \<Rightarrow>
        \<not> list_ex bad_entry environ \<and>
        map_of m = (map_of cleaned ++ map_of (rev (List.map_filter related_entry environ))) \<and>
        (distinct (map fst cleaned) \<longrightarrow> distinct (map fst m)))"
proof (induction environ arbitrary: cleaned)
  case (Cons raw environ)
  show ?case
  proof (cases "bad_entry raw")
    case True
    with clean_environ_bad obtain e where "clean_environ (raw # environ) cleaned = Inl e" by blast
    with True show ?thesis by (simp del: clean_environ.simps)
  next
    case False
    show ?thesis
    proof (cases "related_entry raw")
      case None
      with Cons [of cleaned] False show ?thesis
        by (simp add: clean_environ_good map_filter_simps del: clean_environ.simps split: sum.splits)
    next
      case (Some kv)
      obtain k v where kv: "kv = (k, v)" by fastforce
      have upd: "(\<lambda>a. if a = k then Some v else map_of cleaned a) = (map_of cleaned)(k \<mapsto> v)"
        by (simp add: fun_upd_def)
      from Cons [of "AList.update k v cleaned", unfolded update_conv'] False Some kv show ?thesis
        by (auto simp: clean_environ_good map_filter_simps distinct_update upd
            simp del: clean_environ.simps split: sum.splits)
    qed
  qed
qed (simp add: map_filter_simps)

lemma in_map_filter: "y \<in> set (List.map_filter f xs) \<longleftrightarrow> (\<exists>x\<in>set xs. f x = Some y)"
  by (induction xs) (auto simp: map_filter_simps split: option.splits)

lemma related_valid:
  assumes "related_entry raw = Some (k, v)" "\<not> bad_entry raw"
  shows "isValidEnvVarName k \<and> has_prefix k ''RELATED_IMAGE_'' \<and> k \<noteq> ''RELATED_IMAGE_'' \<and>
         v \<noteq> '''' \<and> trim_space v = v"
  using assms unfolding relatedImageEnvPrefix_def [symmetric]
  by (auto simp: related_entry_def bad_entry_def valid_related split: option.splits if_splits)

text \<open>Sorting the variables by name keeps the map they stand for.\<close>

lemma image_env_sorted:
  fixes m :: "(string \<times> string) list"
  defines "out \<equiv> sort_key iev_name (map (\<lambda>(key, v). \<lparr>iev_name = key, iev_value = v\<rparr>) m)"
  assumes keys: "distinct (map fst m)"
  shows "sorted_wrt (<) (map iev_name out)"
    and "map_of (map (\<lambda>v. (iev_name v, iev_value v)) out) = map_of m"
    and "distinct (map fst (map (\<lambda>v. (iev_name v, iev_value v)) out))"
proof -
  let ?vars = "map (\<lambda>(key, v). \<lparr>iev_name = key, iev_value = v\<rparr>) m"
  have names: "map iev_name ?vars = map fst m" and pairs: "map (\<lambda>v. (iev_name v, iev_value v)) ?vars = m"
    by (simp_all add: comp_def case_prod_beta)
  have perm: "mset (map f (sort_key iev_name vs)) = mset (map f vs)" for f :: "image_env_var \<Rightarrow> 'x" and vs
    by simp
  have "mset (map iev_name out) = mset (map fst m)"
    unfolding out_def perm names ..
  with keys have dist: "distinct (map iev_name out)"
    by (metis mset_eq_imp_distinct_iff)
  then show "sorted_wrt (<) (map iev_name out)"
    by (simp add: strict_sorted_iff out_def)
  show keys': "distinct (map fst (map (\<lambda>v. (iev_name v, iev_value v)) out))"
    using dist by (simp add: comp_def)
  have "mset (map (\<lambda>v. (iev_name v, iev_value v)) out) = mset m"
    unfolding out_def perm pairs ..
  with keys keys' show "map_of (map (\<lambda>v. (iev_name v, iev_value v)) out) = map_of m"
    by (metis map_of_inject_set mset_eq_setD)
qed

section \<open>Properties\<close>

text \<open>
  C21: Forwarding the image variables.  The call fails exactly when some entry of the environment has
  a trimmed key with the prefix that is the bare prefix or has a character outside \<open>[A-Z0-9_]\<close>;
  otherwise the result is strictly sorted by name, holds for each name the last non-empty trimmed
  value the environment gives it and no other names, and every name is valid and every value
  non-empty and free of surrounding white space.
\<close>

theorem image_env_spec:
  "(case ManagedPipelineImageEnvFromEnviron environ of
      Inl e \<Rightarrow> list_ex bad_entry environ
    | Inr out \<Rightarrow>
        \<not> list_ex bad_entry environ \<and>
        sorted_wrt (<) (map iev_name out) \<and>
        map_of (map (\<lambda>v. (iev_name v, iev_value v)) out) =
          map_of (rev (List.map_filter related_entry environ)) \<and>
        list_all (\<lambda>v. isValidEnvVarName (iev_name v) \<and> has_prefix (iev_name v) ''RELATED_IMAGE_'' \<and>
                        iev_name v \<noteq> ''RELATED_IMAGE_'' \<and> iev_value v \<noteq> '''' \<and>
                        trim_space (iev_value v) = iev_value v) out)"
proof (cases "clean_environ environ []")
  case (Inl e)
  with clean_environ_spec [of environ "[]"] show ?thesis
    by (simp add: ManagedPipelineImageEnvFromEnviron_def)
next
  case (Inr m)
  define out where "out = sort_key iev_name (map (\<lambda>(key, v). \<lparr>iev_name = key, iev_value = v\<rparr>) m)"
  let ?rel = "List.map_filter related_entry environ"
  from Inr clean_environ_spec [of environ "[]"]
  have good: "\<not> list_ex bad_entry environ" and m: "map_of m = map_of (rev ?rel)" "distinct (map fst m)"
    by auto
  note out = image_env_sorted [OF m(2), folded out_def]
  have valid: "isValidEnvVarName k \<and> has_prefix k ''RELATED_IMAGE_'' \<and> k \<noteq> ''RELATED_IMAGE_'' \<and>
      v \<noteq> '''' \<and> trim_space v = v" if "(k, v) \<in> set ?rel" for k v
    using that good related_valid by (auto simp: in_map_filter list_ex_iff)
  have "(iev_name x, iev_value x) \<in> set ?rel" if "x \<in> set out" for x
  proof -
    have "(iev_name x, iev_value x) \<in> set (map (\<lambda>v. (iev_name v, iev_value v)) out)"
      using that by auto
    with out(3) have "map_of (rev ?rel) (iev_name x) = Some (iev_value x)"
      by (metis map_of_is_SomeI out(2) m(1))
    from map_of_SomeD [OF this] show ?thesis by simp
  qed
  with valid have "list_all (\<lambda>v. isValidEnvVarName (iev_name v) \<and> has_prefix (iev_name v) ''RELATED_IMAGE_'' \<and>
                        iev_name v \<noteq> ''RELATED_IMAGE_'' \<and> iev_value v \<noteq> '''' \<and>
                        trim_space (iev_value v) = iev_value v) out"
    unfolding list_all_iff by blast
  with Inr good out(1,2) m(1) show ?thesis
    by (simp add: ManagedPipelineImageEnvFromEnviron_def out_def)
qed

text \<open>
  C19: The check of the pipeline names.  It passes exactly when every name asked for is, letter by
  letter, the trimmed non-empty name of an entry of the manifest; otherwise the error lists exactly
  the names that are not, in the order and multiplicity of the resource.
\<close>

theorem managed_pipeline_names_checked:
  assumes "data \<noteq> []" "unmarshal_entries data = Inr entries"
  shows "\<exists>names. ParseManagedPipelinesManifest data = Inr names \<and>
           names = ((\<lambda>e. trim_space (e ''name'')) ` set entries) - {''''} \<and>
           ValidateManagedPipelineNames ps names =
             (if mp_name ` set ps \<subseteq> names then None
              else Some (Plain_Err (''pipeline(s) not found in managed-pipelines.json: '' @
                     join '', '' (filter (\<lambda>n. n \<notin> names) (map mp_name ps)))))"
  using assms
  by (auto simp: ParseManagedPipelinesManifest_eq ValidateManagedPipelineNames_def Let_def filter_empty_conv)

theorem managed_pipeline_names_checked_witness:
  "\<exists>names. ParseManagedPipelinesManifest ''[{\"name\":\" iris \"}]'' = Inr names \<and>
     ValidateManagedPipelineNames [\<lparr>mp_name = ''iris''\<rparr>] names = None \<and>
     ValidateManagedPipelineNames [\<lparr>mp_name = ''iris''\<rparr>, \<lparr>mp_name = ''b''\<rparr>] names \<noteq> None"
proof -
  let ?d = "''[{\"name\":\" iris \"}]''"
  have js: "json_parse ?d = Some (JArr [JObj [(''name'', JStr '' iris '')]])"
    by code_simp
  have en: "unmarshal_entries ?d = Inr [(\<lambda>_. '''')(''name'' := '' iris '')]"
    by (simp add: unmarshal_entries_def js decode_struct_def manifest_entry_tags_def field_of_key_def)
  have tr: "trim_space '' iris '' = ''iris''"
    by code_simp
  from managed_pipeline_names_checked [OF _ en, of "[\<lparr>mp_name = ''iris''\<rparr>]"]
  obtain names where "ParseManagedPipelinesManifest ?d = Inr names" "names = {''iris''}"
    by (auto simp: tr)
  then show ?thesis
    by (simp add: ValidateManagedPipelineNames_def)
qed

end
