(* ===== verification/Go_Base64.thy ===== *)
theory Go_Base64 imports Go_Strings begin

text \<open>
  Go's \<open>base64.StdEncoding\<close>: encoding, and the decoder with its two results, the bytes decoded and
  whether there was an error.  The decoder skips carriage returns and line feeds, demands padding,
  does not check the unused low bits, and returns the bytes before the place it failed at: the
  operator drops the error and keeps those bytes.
\<close>

definition b64_alphabet :: string where
  "b64_alphabet = ''ABCDEFGHIJKLMNOPQRSTUVWXYZabcdefghijklmnopqrstuvwxyz0123456789+/''"

definition b64_char :: "nat \<Rightarrow> char" where
  "b64_char n = b64_alphabet ! n"

definition b64_value :: "char \<Rightarrow> nat option" where
  "b64_value c = map_of (zip b64_alphabet [0..<64]) c"

abbreviation code :: "char \<Rightarrow> nat" where
  "code c \<equiv> of_char c"

fun b64_encode :: "string \<Rightarrow> string" where
  "b64_encode [] = []"
| "b64_encode [a] = [b64_char (code a div 4), b64_char ((code a mod 4) * 16), CHR ''='', CHR ''='']"
| "b64_encode [a, b] =
     [b64_char (code a div 4), b64_char ((code a mod 4) * 16 + code b div 16),
      b64_char ((code b mod 16) * 4), CHR ''='']"
| "b64_encode (a # b # c # rest) =
     b64_char (code a div 4) # b64_char ((code a mod 4) * 16 + code b div 16) #
     b64_char ((code b mod 16) * 4 + code c div 64) # b64_char (code c mod 64) # b64_encode rest"

fun b64_quanta :: "string \<Rightarrow> string \<times> bool" where
  "b64_quanta [] = ([], False)"
| "b64_quanta (a # b # c # d # rest) =
     (case (b64_value a, b64_value b) of
        (Some x, Some y) \<Rightarrow>
          if c = CHR ''='' then
            (if d = CHR ''='' then ([char_of (x * 4 + y div 16)], rest \<noteq> []) else ([], True))
          else
            (case b64_value c of
               None \<Rightarrow> ([], True)
             | Some z \<Rightarrow>
                 if d = CHR ''='' then
                   ([char_of (x * 4 + y div 16), char_of ((y mod 16) * 16 + z div 4)], rest \<noteq> [])
                 else
                   (case b64_value d of
                      None \<Rightarrow> ([], True)
                    | Some u \<Rightarrow>
                        (let (bs, e) = b64_quanta rest in
                         (char_of (x * 4 + y div 16) # char_of ((y mod 16) * 16 + z div 4) #
                          char_of ((z mod 4) * 64 + u) # bs, e))))
      | _ \<Rightarrow> ([], True))"
| "b64_quanta s = ([], True)"

definition b64_decode :: "string \<Rightarrow> string \<times> bool" where
  "b64_decode s = b64_quanta (filter (\<lambda>c. c \<noteq> CHR 0x0D \<and> c \<noteq> CHR 0x0A) s)"

section \<open>Lemmas\<close>

lemma b64_table:
  "list_all (\<lambda>n. b64_value (b64_char n) = Some n \<and> b64_char n \<noteq> CHR ''='' \<and>
              b64_char n \<noteq> CHR 0x0D \<and> b64_char n \<noteq> CHR 0x0A) [0..<64]"
  by code_simp

lemma b64_char_facts [simp]:
  assumes "n < 64"
  shows "b64_value (b64_char n) = Some n" "b64_char n \<noteq> CHR ''=''"
    "b64_char n \<noteq> CHR 0x0D" "b64_char n \<noteq> CHR 0x0A"
  using b64_table assms by (auto simp: list_all_iff)

lemma code_bound: "code c < 256"
  by (rule nat_of_char_less_256)

lemma sextets [simp]:
  "code a div 4 < 64" "(code a mod 4) * 16 < 64" "(code a mod 4) * 16 + code b div 16 < 64"
  "(code b mod 16) * 4 < 64" "(code b mod 16) * 4 + code c div 64 < 64" "code c mod 64 < 64"
  using code_bound [of a] code_bound [of b] code_bound [of c] by linarith+

lemma octets:
  "code b div 16 div 16 = 0" "code b div 16 mod 16 = code b div 16"
  "code c div 64 div 4 = 0" "code c div 64 mod 4 = code c div 64"
proof -
  have "code b div 16 < 16" "code c div 64 < 4"
    by (rule less_mult_imp_div_less, use code_bound [of b] code_bound [of c] in simp)+
  then show "code b div 16 div 16 = 0" "code b div 16 mod 16 = code b div 16"
    "code c div 64 div 4 = 0" "code c div 64 mod 4 = code c div 64"
    by simp_all
qed

lemma b64_quanta_encode: "b64_quanta (b64_encode s) = (s, False)"
  by (induction s rule: b64_encode.induct) (simp_all add: octets Let_def)

lemma b64_encode_no_newline:
  "c \<in> set (b64_encode s) \<Longrightarrow> c \<noteq> CHR 0x0D \<and> c \<noteq> CHR 0x0A"
  by (induction s rule: b64_encode.induct) auto

text \<open>What was encoded is decoded, without an error; only the empty string encodes to the empty string.\<close>

lemma b64_round_trip [simp]: "b64_decode (b64_encode s) = (s, False)"
proof -
  have "filter (\<lambda>c. c \<noteq> CHR 0x0D \<and> c \<noteq> CHR 0x0A) (b64_encode s) = b64_encode s"
    using b64_encode_no_newline by (auto simp: filter_id_conv)
  then show ?thesis by (simp add: b64_decode_def b64_quanta_encode)
qed

lemma b64_encode_Nil [simp]: "(b64_encode s = []) = (s = [])"
  by (cases s rule: b64_encode.cases) simp_all

lemma b64_decode_Nil [simp]: "b64_decode [] = ([], False)"
  by (simp add: b64_decode_def)

end
