(* ===== verification/Params.thy ===== *)
theory Params imports Mlflow Managed_Pipelines Go_Base64 begin

text \<open>
  \<open>controllers/dspipeline_params.go\<close>, the parts \<open>ExtractParams\<close> is made of: defaults, secrets and
  generated passwords, the database, object store and MLMD parameters.  A method of \<open>DSPAParams\<close>
  acts on the parameters of the state (\<open>w_params\<close>); the resource it is given is the current one.
\<close>

section \<open>Defaults\<close>

definition setStringDefault :: "string \<Rightarrow> string \<Rightarrow> string" where
  "setStringDefault defaultValue v = (if v = '''' then defaultValue else v)"

definition setResourcesDefault ::
  "resource_requirements \<Rightarrow> resource_requirements option \<Rightarrow> resource_requirements option" where
  "setResourcesDefault defaultValue v = (case v of None \<Rightarrow> Some defaultValue | Some r \<Rightarrow> Some r)"

text \<open>\<open>IsZero\<close> of a quantity: it prints as nothing, or as zero.\<close>

definition quantity_is_zero :: "quantity \<Rightarrow> bool" where
  "quantity_is_zero q \<longleftrightarrow> q = '''' \<or> q = ''0''"

definition fill_resources :: "resources \<Rightarrow> resources option \<Rightarrow> resources option" where
  "fill_resources def r =
     (case r of
        None \<Rightarrow> Some def
      | Some x \<Rightarrow>
          Some \<lparr>r_cpu = (if quantity_is_zero (r_cpu x) then r_cpu def else r_cpu x),
                r_memory = (if quantity_is_zero (r_memory x) then r_memory def else r_memory x)\<rparr>)"

definition default_init_requests :: resources where
  "default_init_requests = the (rr_requests ManagedPipelinesInitResourceRequirements)"

definition default_init_limits :: resources where
  "default_init_limits = the (rr_limits ManagedPipelinesInitResourceRequirements)"

definition ensureManagedPipelinesInitResourceDefaults :: "managed_pipelines_spec \<Rightarrow> managed_pipelines_spec" where
  "ensureManagedPipelinesInitResourceDefaults mp =
     (case mps_resources mp of
        None \<Rightarrow> mp\<lparr>mps_resources := Some ManagedPipelinesInitResourceRequirements\<rparr>
      | Some r \<Rightarrow>
          if rr_requests r = None \<and> rr_limits r = None
          then mp\<lparr>mps_resources := Some ManagedPipelinesInitResourceRequirements\<rparr>
          else mp\<lparr>mps_resources := Some
                 \<lparr>rr_limits = fill_resources default_init_limits (rr_limits r),
                  rr_requests = fill_resources default_init_requests (rr_requests r)\<rparr>\<rparr>)"

definition ensureManagedPipelinesVolumeSizeLimit ::
  "env \<Rightarrow> managed_pipelines_spec \<Rightarrow> gerr + managed_pipelines_spec" where
  "ensureManagedPipelinesVolumeSizeLimit env mp =
     (if mps_volume_size_limit mp = ''''
      then Inr (mp\<lparr>mps_volume_size_limit := DefaultManagedPipelinesVolumeSizeLimit\<rparr>)
      else
        (case e_parse_quantity_sign env (mps_volume_size_limit mp) of
           Inl err \<Rightarrow>
             Inl (Wrap_Err ''managedPipelines.volumeSizeLimit must be a valid Kubernetes quantity: '' err '''')
         | Inr sign \<Rightarrow>
             if sign \<le> 0
             then Inl (Plain_Err (''managedPipelines.volumeSizeLimit must be a positive quantity, got '' @
                    go_quote (mps_volume_size_limit mp)))
             else Inr mp))"

section \<open>What the resource asks for\<close>

definition UsingExternalDB :: "dspa \<Rightarrow> bool" where
  "UsingExternalDB dsp =
     (case sp_database (d_spec dsp) of None \<Rightarrow> False | Some db \<Rightarrow> db_external_db db \<noteq> None)"

definition DatabaseHealthCheckDisabled :: "dspa \<Rightarrow> bool" where
  "DatabaseHealthCheckDisabled dsp =
     (case sp_database (d_spec dsp) of None \<Rightarrow> False | Some db \<Rightarrow> db_disable_health_check db)"

definition UsingExternalStorage :: "dspa \<Rightarrow> bool" where
  "UsingExternalStorage dsp =
     (case sp_object_storage (d_spec dsp) of None \<Rightarrow> False | Some os \<Rightarrow> os_external_storage os \<noteq> None)"

definition ObjectStorageHealthCheckDisabled :: "dspa \<Rightarrow> bool" where
  "ObjectStorageHealthCheckDisabled dsp =
     (case sp_object_storage (d_spec dsp) of None \<Rightarrow> False | Some os \<Rightarrow> os_disable_health_check os)"

definition ExternalRouteEnabled :: "dspa \<Rightarrow> bool" where
  "ExternalRouteEnabled dsp =
     (case sp_object_storage (d_spec dsp) of None \<Rightarrow> False | Some os \<Rightarrow> os_enable_external_route os)"

section \<open>Secrets\<close>

definition password_chars :: string where
  "password_chars = ''abcdefghijklmnopqrstuvwxyzABCDEFGHIJKLMNOPQRSTUVWXYZ1234567890''"

text \<open>\<open>rand.Intn(len(chars))\<close> draws below the number of characters.\<close>

definition passwordGen :: "env \<Rightarrow> nat \<Rightarrow> string action" where
  "passwordGen env n =
     gets_op (\<lambda>w. map (\<lambda>i. password_chars ! (e_rand env (w_history w) i mod length password_chars)) [0..<n])"

definition RetrieveSecret :: "env \<Rightarrow> string \<Rightarrow> string \<Rightarrow> string action" where
  "RetrieveSecret env secretName secretKey =
     and_then get_params (\<lambda>p.
     and_then (get_secret env (nsname (p_namespace p) secretName)) (\<lambda>secret.
     ret (b64_encode (case map_of (se_data secret) secretKey of Some v \<Rightarrow> v | None \<Rightarrow> ''''))))"

definition RetrieveOrCreateSecret :: "env \<Rightarrow> string \<Rightarrow> string \<Rightarrow> int \<Rightarrow> string action" where
  "RetrieveOrCreateSecret env secretName secretKey generatedPasswordLength =
     attempt (RetrieveSecret env secretName secretKey)
       (\<lambda>err. if is_not_found err
               then and_then (passwordGen env (nat generatedPasswordLength)) (\<lambda>generatedPass. ret (b64_encode generatedPass))
               else fail err)
       ret"

definition RetrieveOrCreateDBSecret :: "env \<Rightarrow> secret_key_value \<Rightarrow> string action" where
  "RetrieveOrCreateDBSecret env secret =
     RetrieveOrCreateSecret env (skv_name secret) (skv_key secret) GeneratedDBPasswordLength"

definition RetrieveOrCreateObjectStoreSecret :: "env \<Rightarrow> s3_credential_secret \<Rightarrow> (string \<times> string) action" where
  "RetrieveOrCreateObjectStoreSecret env secret =
     and_then (RetrieveOrCreateSecret env (s3_secret_name secret) (s3_access_key secret)
                 GeneratedObjectStorageAccessKeyLength) (\<lambda>accessKey.
     and_then (RetrieveOrCreateSecret env (s3_secret_name secret) (s3_secret_key secret)
                 GeneratedObjectStorageSecretKeyLength) (\<lambda>secretKey.
     ret (accessKey, secretKey)))"

text \<open>An error that says the secret does not exist is passed over; the value is then empty.\<close>

definition retrieve_if_present :: "env \<Rightarrow> string \<Rightarrow> string \<Rightarrow> string action" where
  "retrieve_if_present env secretName secretKey =
     attempt (RetrieveSecret env secretName secretKey)
       (\<lambda>err. if \<not> is_not_found err then fail err else ret '''') ret"

definition IsAPIServerDeploymentReady :: "env \<Rightarrow> bool action" where
  "IsAPIServerDeploymentReady env =
     and_then get_params (\<lambda>p.
     attempt (get_deployment env (nsname (p_namespace p) (p_api_server_default_resource_name p)))
       (\<lambda>err. if is_not_found err then ret False else fail err)
       (\<lambda>deployment.
          ret (case GetDeploymentCondition (dp_conditions deployment) ''Available'' of
                 None \<Rightarrow> False
               | Some availableCondition \<Rightarrow> dc_status availableCondition = StTrue)))"

section \<open>The database\<close>

definition mod_db :: "(db_connection \<Rightarrow> db_connection) \<Rightarrow> unit action" where
  "mod_db f = mod_params (\<lambda>p. p\<lparr>p_db_connection := f (p_db_connection p)\<rparr>)"

definition setup_external_db :: "env \<Rightarrow> external_db \<Rightarrow> unit action" where
  "setup_external_db env ext =
     and_then (mod_db (\<lambda>c. c\<lparr>dbc_host := edb_host ext, dbc_port := edb_port ext,
                 dbc_username := edb_username ext, dbc_db_name := edb_db_name ext,
                 dbc_credentials_secret := edb_password_secret ext\<rparr>)) (\<lambda>_.
     and_then (pure_op (GetDefaultDBExtraParams [(''tls'', ''true'')])) (\<lambda>dbExtraParams.
     and_then (mod_db (\<lambda>c. c\<lparr>dbc_extra_params := dbExtraParams\<rparr>)) (\<lambda>_.
     and_then (deref ''DBConnection.CredentialsSecret'' (edb_password_secret ext)) (\<lambda>secret.
     and_then (retrieve_if_present env (skv_name secret) (skv_key secret)) (\<lambda>password.
     mod_db (\<lambda>c. c\<lparr>dbc_password := password, dbc_decoded_password := fst (b64_decode password)\<rparr>))))))"

definition default_maria_db :: "env \<Rightarrow> maria_db" where
  "default_maria_db env =
     \<lparr>mdb_deploy = True,
      mdb_image = GetStringConfigWithDefault (e_viper env) MariaDBImagePath DefaultImageValue,
      mdb_username = MariaDBUser, mdb_password_secret = None, mdb_db_name = MariaDBName,
      mdb_pvc_size = MariaDBNamePVCSize, mdb_storage_class_name = '''',
      mdb_resources = Some MariaDBResourceRequirements\<rparr>"

definition fill_maria_db :: "env \<Rightarrow> maria_db \<Rightarrow> maria_db" where
  "fill_maria_db env m =
     m\<lparr>mdb_image := (if mdb_image m = ''''
         then GetStringConfigWithDefault (e_viper env) MariaDBImagePath DefaultImageValue else mdb_image m),
       mdb_username := setStringDefault MariaDBUser (mdb_username m),
       mdb_db_name := setStringDefault MariaDBName (mdb_db_name m),
       mdb_resources := setResourcesDefault MariaDBResourceRequirements (mdb_resources m)\<rparr>"

definition setup_maria_db :: "env \<Rightarrow> unit action" where
  "setup_maria_db env =
     and_then (mod_params (\<lambda>p. p\<lparr>p_maria_db := Some (fill_maria_db env
                 (case p_maria_db p of None \<Rightarrow> default_maria_db env | Some m \<Rightarrow> m))\<rparr>)) (\<lambda>_.
     and_then get_params (\<lambda>p.
     and_then (deref ''MariaDB'' (p_maria_db p)) (\<lambda>m.
     and_then (mod_db (\<lambda>c. c\<lparr>
         dbc_host := MariaDBHostPrefix @ ''-'' @ p_name p @ ''.'' @ p_namespace p @ ''.svc.cluster.local'',
         dbc_port := MariaDBHostPort, dbc_username := mdb_username m, dbc_db_name := mdb_db_name m\<rparr>)) (\<lambda>_.
     and_then (pure_op (GetDefaultDBExtraParams
                 [(''tls'', if p_pod_to_pod_tls p then ''true'' else ''false'')])) (\<lambda>dbExtraParams.
     (let secret = (case mdb_password_secret m of
                      Some s \<Rightarrow> s
                    | None \<Rightarrow> \<lparr>skv_name = DefaultDBSecretNamePrefix @ p_name p, skv_key = DefaultDBSecretKey\<rparr>) in
      and_then (mod_db (\<lambda>c. c\<lparr>dbc_extra_params := dbExtraParams, dbc_credentials_secret := Some secret\<rparr>)) (\<lambda>_.
      and_then (RetrieveOrCreateDBSecret env secret) (\<lambda>dbPassword.
      mod_db (\<lambda>c. c\<lparr>dbc_password := dbPassword, dbc_decoded_password := fst (b64_decode dbPassword)\<rparr>)))))))))"

definition apply_custom_extra_params :: "database \<Rightarrow> unit action" where
  "apply_custom_extra_params db =
     (case db_custom_extra_params db of
        None \<Rightarrow> ret ()
      | Some custom \<Rightarrow>
          and_then (of_sum (unmarshal_string_map custom)) (\<lambda>_.
          mod_db (\<lambda>c. c\<lparr>dbc_extra_params := custom\<rparr>)))"

definition check_db_password :: "unit action" where
  "check_db_password =
     and_then get_params (\<lambda>p.
     (let c = p_db_connection p in
      if dbc_password c = '''' then
        and_then (deref ''DBConnection.CredentialsSecret'' (dbc_credentials_secret c)) (\<lambda>secret.
        fail (Plain_Err (''db password from secret ['' @ skv_name secret @ ''] for key ['' @ skv_key secret @
          ''] was not successfully retrieved, ensure that the secret with this key exist'')))
      else ret ()))"

definition SetupDBParams :: "env \<Rightarrow> unit action" where
  "SetupDBParams env =
     and_then get_cur (\<lambda>dsp.
     and_then
       (case sp_database (d_spec dsp) of
          None \<Rightarrow> setup_maria_db env
        | Some db \<Rightarrow> (case db_external_db db of Some ext \<Rightarrow> setup_external_db env ext | None \<Rightarrow> setup_maria_db env)) (\<lambda>_.
     and_then (deref ''Spec.Database'' (sp_database (d_spec dsp))) (\<lambda>db.
     and_then (apply_custom_extra_params db) (\<lambda>_.
     check_db_password))))"

section \<open>The object store\<close>

definition mod_os :: "(object_storage_connection \<Rightarrow> object_storage_connection) \<Rightarrow> unit action" where
  "mod_os f = mod_params (\<lambda>p. p\<lparr>p_object_storage_connection := f (p_object_storage_connection p)\<rparr>)"

definition setup_external_storage :: "env \<Rightarrow> external_storage \<Rightarrow> unit action" where
  "setup_external_storage env ext =
     and_then (mod_os (\<lambda>c. c\<lparr>osc_bucket := es_bucket ext, osc_host := es_host ext, osc_scheme := es_scheme ext,
         osc_base_path := es_base_path ext,
         osc_region := (if es_region ext = '''' then ''auto'' else es_region ext),
         osc_secure := (case es_secure ext of None \<Rightarrow> Some (es_scheme ext = ''https'') | Some b \<Rightarrow> Some b),
         osc_port := es_port ext, osc_credentials_secret := es_s3_credential_secret ext\<rparr>)) (\<lambda>_.
     and_then (deref ''ObjectStorageConnection.CredentialsSecret'' (es_s3_credential_secret ext)) (\<lambda>secret.
     and_then (retrieve_if_present env (s3_secret_name secret) (s3_access_key secret)) (\<lambda>accesskey.
     and_then (retrieve_if_present env (s3_secret_name secret) (s3_secret_key secret)) (\<lambda>secretkey.
     mod_os (\<lambda>c. c\<lparr>osc_access_key_id := accesskey, osc_secret_access_key := secretkey\<rparr>)))))"

definition setup_minio :: "env \<Rightarrow> dspa \<Rightarrow> unit action" where
  "setup_minio env dsp =
     and_then get_params (\<lambda>p.
     case p_minio p of
       None \<Rightarrow> fail (Plain_Err (''either [spec.objectStorage.minio] or [spec.objectStorage.externalStorage] '' @
                 ''need to be specified in DSPA spec''))
     | Some m \<Rightarrow>
         if mn_image m = '''' then fail (Plain_Err ''minio specified, but no image provided in the DSPA CR Spec'')
         else
           and_then (deref ''Spec.ObjectStorage'' (sp_object_storage (d_spec dsp))) (\<lambda>os.
           and_then (deref ''Spec.ObjectStorage.Minio'' (os_minio os)) (\<lambda>spec_minio.
           and_then (mod_params (\<lambda>p. p\<lparr>p_minio := Some (m\<lparr>mn_image := mn_image spec_minio,
               mn_bucket := setStringDefault MinioDefaultBucket (mn_bucket m),
               mn_resources := setResourcesDefault MinioResourceRequirements (mn_resources m)\<rparr>)\<rparr>)) (\<lambda>_.
           (let secret = (case mn_s3_credential_secret m of
                            Some s \<Rightarrow> s
                          | None \<Rightarrow> \<lparr>s3_secret_name = DefaultObjectStorageSecretNamePrefix @ p_name p,
                                     s3_access_key = DefaultObjectStorageAccessKey,
                                     s3_secret_key = DefaultObjectStorageSecretKey\<rparr>) in
            and_then (mod_os (\<lambda>c. c\<lparr>osc_bucket := MinioDefaultBucket,
                osc_host := MinioHostPrefix @ ''-'' @ p_name p @ ''.'' @ p_namespace p @ ''.svc.cluster.local'',
                osc_port := MinioPort, osc_scheme := MinioScheme, osc_secure := Some False,
                osc_region := ''minio'', osc_credentials_secret := Some secret\<rparr>)) (\<lambda>_.
            and_then (RetrieveOrCreateObjectStoreSecret env secret) (\<lambda>(accessKey, secretKey).
            mod_os (\<lambda>c. c\<lparr>osc_access_key_id := accessKey, osc_secret_access_key := secretKey\<rparr>))))))))"

text \<open>A route that cannot be read is logged, and the empty route is used.\<close>

definition RetrieveAndSetExternalRoute :: "env \<Rightarrow> route action" where
  "RetrieveAndSetExternalRoute env =
     and_then get_params (\<lambda>p.
     attempt (get_route env (nsname (p_namespace p) (''minio-'' @ p_name p))) (\<lambda>err. ret empty_route) ret)"

definition setup_external_route :: "env \<Rightarrow> dspa \<Rightarrow> unit action" where
  "setup_external_route env dsp =
     (if ExternalRouteEnabled dsp then
        and_then (RetrieveAndSetExternalRoute env) (\<lambda>route.
        mod_os (\<lambda>c. c\<lparr>osc_external_route_url := ro_host route, osc_endpoint := ro_host route,
          osc_secure := Some True, osc_host := ro_host route, osc_scheme := ''https'', osc_port := ''''\<rparr>))
      else ret ())"

definition object_endpoint :: "object_storage_connection \<Rightarrow> string" where
  "object_endpoint c =
     osc_scheme c @ ''://'' @ osc_host c @ (if osc_port c \<noteq> '''' then '':'' @ osc_port c else '''')"

definition check_object_credentials :: "unit action" where
  "check_object_credentials =
     and_then get_params (\<lambda>p.
     (let c = p_object_storage_connection p in
      if osc_access_key_id c = '''' \<or> osc_secret_access_key c = '''' then
        and_then (deref ''ObjectStorageConnection.CredentialsSecret'' (osc_credentials_secret c)) (\<lambda>secret.
        fail (Plain_Err (''object storage password from secret ['' @ s3_secret_name secret @ ''] for keys ['' @
          s3_access_key secret @ '', '' @ s3_secret_key secret @
          ''] was not successfully retrieved, ensure that the secret with this key exist'')))
      else ret ()))"

definition SetupObjectParams :: "env \<Rightarrow> unit action" where
  "SetupObjectParams env =
     and_then get_cur (\<lambda>dsp.
     and_then
       (case sp_object_storage (d_spec dsp) of
          None \<Rightarrow> setup_minio env dsp
        | Some os \<Rightarrow>
            (case os_external_storage os of
               Some ext \<Rightarrow> setup_external_storage env ext
             | None \<Rightarrow> setup_minio env dsp)) (\<lambda>_.
     and_then (setup_external_route env dsp) (\<lambda>_.
     and_then (mod_os (\<lambda>c. c\<lparr>osc_endpoint := object_endpoint c\<rparr>)) (\<lambda>_.
     check_object_credentials))))"

section \<open>MLMD, the owner, the patch of compiled pipelines\<close>

definition MlmdIsRequired :: string where
  "MlmdIsRequired = ''MLMD explicitly disabled in DSPA, but is a required component for DSP''"

definition default_mlmd :: mlmd where
  "default_mlmd =
     \<lparr>ml_deploy = True,
      ml_envoy = Some \<lparr>en_resources = None, en_image = '''', en_deploy_route = True\<rparr>, ml_grpc = None\<rparr>"

definition fill_mlmd :: "env \<Rightarrow> mlmd \<Rightarrow> mlmd" where
  "fill_mlmd env m =
     (let envoyImage = GetStringConfigWithDefault (e_viper env) MlmdEnvoyImagePath DefaultImageValue;
          grpcImage = GetStringConfigWithDefault (e_viper env) MlmdGRPCImagePath DefaultImageValue;
          en = (case ml_envoy m of
                  None \<Rightarrow> \<lparr>en_resources = None, en_image = envoyImage, en_deploy_route = True\<rparr> | Some e \<Rightarrow> e);
          gr = (case ml_grpc m of
                  None \<Rightarrow> \<lparr>gr_resources = None, gr_image = grpcImage, gr_port = ''''\<rparr> | Some g \<Rightarrow> g) in
      m\<lparr>ml_envoy := Some (en\<lparr>en_image := setStringDefault envoyImage (en_image en),
           en_resources := setResourcesDefault MlmdEnvoyResourceRequirements (en_resources en)\<rparr>),
        ml_grpc := Some (gr\<lparr>gr_image := setStringDefault grpcImage (gr_image gr),
           gr_resources := setResourcesDefault MlmdGRPCResourceRequirements (gr_resources gr),
           gr_port := setStringDefault MlmdGrpcPort (gr_port gr)\<rparr>)\<rparr>)"

definition SetupMLMD :: "env \<Rightarrow> unit action" where
  "SetupMLMD env =
     and_then get_params (\<lambda>p.
     case p_mlmd p of
       None \<Rightarrow> mod_params (\<lambda>p. p\<lparr>p_mlmd := Some (fill_mlmd env default_mlmd)\<rparr>)
     | Some m \<Rightarrow>
         if \<not> ml_deploy m then fail (Plain_Err MlmdIsRequired)
         else mod_params (\<lambda>p. p\<lparr>p_mlmd := Some (fill_mlmd env m)\<rparr>))"

definition SetupOwner :: "env \<Rightarrow> unit action" where
  "SetupOwner env =
     and_then get_cur (\<lambda>dsp.
     (let inc = GetBoolConfigWithDefault (e_viper env) ApiServerIncludeOwnerReferenceConfigName
                  DefaultApiServerIncludeOwnerReferenceConfigName in
      mod_params (\<lambda>p.
        if inc
        then p\<lparr>p_include_owner_reference := inc, p_uid := d_uid dsp, p_name := d_name dsp,
               p_api_version := d_api_version dsp, p_kind := d_kind dsp\<rparr>
        else p\<lparr>p_include_owner_reference := inc\<rparr>)))"

text \<open>
  \<open>int32(d.Seconds())\<close> for a duration in nanoseconds: the whole seconds, rounded towards zero.  (The
  float64 in between is exact for whole seconds, and for all durations below \<open>2 ^ 23\<close> seconds; a
  value that does not fit the int32 is left to the processor by Go, and wraps here.)
\<close>

definition duration_seconds_int32 :: "int \<Rightarrow> int" where
  "duration_seconds_int32 d =
     (let s = (if d < 0 then - ((- d) div second) else d div second) in
      (s + 2147483648) mod 4294967296 - 2147483648)"

definition SetupCompiledPipelineSpecPatch :: "dspa_params \<Rightarrow> dspa_params" where
  "SetupCompiledPipelineSpecPatch p =
     p\<lparr>p_compiled_pipeline_spec_patch :=
        (case p_api_server p of
           None \<Rightarrow> ''''
         | Some api \<Rightarrow>
             (case as_resource_ttl api of
                None \<Rightarrow> ''''
              | Some ttl \<Rightarrow>
                  json_print (JObj [(''ttlStrategy'',
                    JObj [(''secondsAfterCompletion'', json_int (duration_seconds_int32 ttl))])])))\<rparr>"

definition LoadMlmdCertificates :: "env \<Rightarrow> bool action" where
  "LoadMlmdCertificates env =
     and_then get_params (\<lambda>p.
     attempt (GetSecret env (''ds-pipeline-metadata-grpc-tls-certs-'' @ p_name p) (p_namespace p))
       (\<lambda>err. if is_not_found err then ret False else fail err)
       (\<lambda>secret.
          (let field = (\<lambda>k. case map_of (se_data secret) k of Some v \<Rightarrow> v | None \<Rightarrow> '''');
               escape_newlines = replace_all (CHR 0x0A) [CHR 0x5C, CHR ''n''] in
           and_then (mod_params (\<lambda>p. p\<lparr>p_mlmd_grpc_certificate_contents := escape_newlines (field ''tls.crt''),
                       p_mlmd_grpc_private_key_contents := escape_newlines (field ''tls.key'')\<rparr>)) (\<lambda>_.
           ret True))))"

section \<open>Lemmas\<close>

lemma reads_secrets [reads_intros]:
  "reads (passwordGen env n)" "reads (RetrieveSecret env sn sk)" "reads (RetrieveOrCreateSecret env sn sk l)"
  "reads (RetrieveOrCreateDBSecret env s)" "reads (RetrieveOrCreateObjectStoreSecret env os)"
  "reads (retrieve_if_present env sn sk)" "reads (IsAPIServerDeploymentReady env)"
  unfolding passwordGen_def RetrieveSecret_def RetrieveOrCreateSecret_def RetrieveOrCreateDBSecret_def
    RetrieveOrCreateObjectStoreSecret_def retrieve_if_present_def IsAPIServerDeploymentReady_def
  by (intro reads_intros)+

lemma wp_mod_db [wp_rules]:
  "wp (mod_db f) Q w =
     Q (Ok ()) (w\<lparr>w_params := (w_params w)\<lparr>p_db_connection := f (p_db_connection (w_params w))\<rparr>\<rparr>)"
  by (simp add: mod_db_def wp_rules)

text \<open>A retrieved or generated password is the encoding of some bytes.\<close>

definition encoded :: "string \<Rightarrow> bool" where
  "encoded s \<longleftrightarrow> (\<exists>bs. s = b64_encode bs)"

lemma encoded_Nil [simp]: "encoded ''''"
  unfolding encoded_def by (rule exI [of _ "''''"]) simp

lemma encoded_encode [simp]: "encoded (b64_encode bs)"
  by (auto simp: encoded_def)

lemma wp_RetrieveSecret:
  assumes "\<And>r h. (\<And>s. r = Ok s \<Longrightarrow> encoded s) \<Longrightarrow> (\<And>q. r \<noteq> Panic q) \<Longrightarrow> Q r (w\<lparr>w_history := h\<rparr>)"
  shows "wp (RetrieveSecret env sn sk) Q w"
  unfolding RetrieveSecret_def
  by (auto simp: wp_rules get_secret_def log_event_def split: sum.splits intro!: assms)

lemma wp_RetrieveOrCreateSecret:
  assumes "\<And>r h. (\<And>s. r = Ok s \<Longrightarrow> encoded s) \<Longrightarrow> (\<And>q. r \<noteq> Panic q) \<Longrightarrow> Q r (w\<lparr>w_history := h\<rparr>)"
  shows "wp (RetrieveOrCreateSecret env sn sk n) Q w"
  unfolding RetrieveOrCreateSecret_def
  by (simp only: wp_attempt, rule wp_RetrieveSecret)
    (auto simp: res_case_def wp_rules passwordGen_def split: res.splits intro!: assms)

lemma wp_retrieve_if_present:
  assumes "\<And>r h. (\<And>s. r = Ok s \<Longrightarrow> encoded s) \<Longrightarrow> (\<And>q. r \<noteq> Panic q) \<Longrightarrow> Q r (w\<lparr>w_history := h\<rparr>)"
  shows "wp (retrieve_if_present env sn sk) Q w"
  unfolding retrieve_if_present_def
  by (simp only: wp_attempt, rule wp_RetrieveSecret)
    (auto simp: res_case_def wp_rules split: res.splits intro!: assms)

text \<open>What a successful set-up of the database leaves in the parameters.\<close>

definition tls_json :: "bool \<Rightarrow> string" where
  "tls_json b = json_print (json_of_map [(''tls'', if b then ''true'' else ''false'')])"

definition db_extra_ok :: "database option \<Rightarrow> bool \<Rightarrow> string \<Rightarrow> bool" where
  "db_extra_ok db p2p extra \<longleftrightarrow>
     (case db of
        None \<Rightarrow> False
      | Some d \<Rightarrow>
          (case db_custom_extra_params d of
             Some custom \<Rightarrow> extra = custom \<and> (\<exists>m. unmarshal_string_map custom = Inr m)
           | None \<Rightarrow> extra = tls_json (db_external_db d \<noteq> None \<or> p2p)))"

definition db_endpoint_ok :: "dspa \<Rightarrow> dspa_params \<Rightarrow> db_connection \<Rightarrow> bool" where
  "db_endpoint_ok dsp p c \<longleftrightarrow>
     (case sp_database (d_spec dsp) of
        None \<Rightarrow> False
      | Some d \<Rightarrow>
          (case db_external_db d of
             Some ext \<Rightarrow> dbc_host c = edb_host ext \<and> dbc_port c = edb_port ext \<and>
               dbc_username c = edb_username ext \<and> dbc_db_name c = edb_db_name ext
           | None \<Rightarrow>
               dbc_host c = ''mariadb-'' @ p_name p @ ''.'' @ p_namespace p @ ''.svc.cluster.local'' \<and>
               dbc_port c = ''3306'' \<and> dbc_username c \<noteq> '''' \<and> dbc_db_name c \<noteq> ''''))"

definition db_setup_post :: "dspa \<Rightarrow> dspa_params \<Rightarrow> 'a res \<Rightarrow> world \<Rightarrow> bool" where
  "db_setup_post dsp p r w \<longleftrightarrow>
     (case r of
        Ok _ \<Rightarrow>
          (let c = p_db_connection (w_params w) in
           dbc_password c \<noteq> '''' \<and>
           (\<exists>bs. bs \<noteq> '''' \<and> dbc_password c = b64_encode bs \<and> dbc_decoded_password c = bs) \<and>
           dbc_credentials_secret c \<noteq> None \<and>
           db_extra_ok (sp_database (d_spec dsp)) (p_pod_to_pod_tls p) (dbc_extra_params c) \<and>
           db_endpoint_ok dsp p c)
      | _ \<Rightarrow> True)"

text \<open>What the two branches leave for the common rest.\<close>

definition db_mid :: "dspa \<Rightarrow> dspa_params \<Rightarrow> dspa_params \<Rightarrow> bool" where
  "db_mid dsp p q \<longleftrightarrow>
     (let c = p_db_connection q in
      encoded (dbc_password c) \<and> dbc_decoded_password c = fst (b64_decode (dbc_password c)) \<and>
      dbc_credentials_secret c \<noteq> None \<and>
      (\<forall>d. sp_database (d_spec dsp) = Some d \<longrightarrow>
         dbc_extra_params c = tls_json (db_external_db d \<noteq> None \<or> p_pod_to_pod_tls p) \<and> db_endpoint_ok dsp p c))"

lemma setStringDefault_nonempty: "d \<noteq> '''' \<Longrightarrow> setStringDefault d v \<noteq> ''''"
  by (simp add: setStringDefault_def)

lemma setup_external_db_mid:
  assumes "sp_database (d_spec dsp) = Some d" "db_external_db d = Some ext"
  shows "wp (setup_external_db env ext)
           (\<lambda>r w'. res_case (\<lambda>_. db_mid dsp (w_params w) (w_params w') \<and> cur_dspa w' = cur_dspa w) (\<lambda>_. True) (\<lambda>_. True) r) w"
  unfolding setup_external_db_def
  by (auto simp: wp_rules GetDefaultDBExtraParams_def split: option.splits intro!: wp_retrieve_if_present)
    (auto simp: res_case_def wp_rules db_mid_def Let_def assms tls_json_def db_endpoint_ok_def split: res.splits)

lemma setup_maria_db_mid:
  assumes "\<And>d. sp_database (d_spec dsp) = Some d \<Longrightarrow> db_external_db d = None"
  shows "wp (setup_maria_db env)
           (\<lambda>r w'. res_case (\<lambda>_. db_mid dsp (w_params w) (w_params w') \<and> cur_dspa w' = cur_dspa w) (\<lambda>_. True) (\<lambda>_. True) r) w"
  unfolding setup_maria_db_def RetrieveOrCreateDBSecret_def Let_def
  by (auto simp: wp_rules GetDefaultDBExtraParams_def intro!: wp_RetrieveOrCreateSecret)
    (auto simp: res_case_def wp_rules db_mid_def Let_def assms tls_json_def db_endpoint_ok_def
       fill_maria_db_def setStringDefault_nonempty config_consts split: res.splits)

lemma SetupDBParams_post:
  "wp (SetupDBParams env) (db_setup_post (cur_dspa w) (w_params w)) w"
proof -
  let ?dsp = "cur_dspa w" and ?p = "w_params w"
  let ?rest = "\<lambda>_. and_then (deref ''Spec.Database'' (sp_database (d_spec ?dsp))) (\<lambda>db.
     and_then (apply_custom_extra_params db) (\<lambda>_. check_db_password))"
  have rest: "wp (?rest u) (db_setup_post ?dsp ?p) w'" if "db_mid ?dsp ?p (w_params w')" for u w'
    using that
    by (auto simp: wp_rules apply_custom_extra_params_def check_db_password_def Let_def db_setup_post_def
        db_mid_def db_extra_ok_def db_endpoint_ok_def encoded_def split: option.splits sum.splits)
  have "wp (case sp_database (d_spec ?dsp) of
          None \<Rightarrow> setup_maria_db env
        | Some db \<Rightarrow> (case db_external_db db of Some ext \<Rightarrow> setup_external_db env ext | None \<Rightarrow> setup_maria_db env))
      (\<lambda>r w'. res_case (\<lambda>_. db_mid ?dsp ?p (w_params w') \<and> cur_dspa w' = cur_dspa w) (\<lambda>_. True) (\<lambda>_. True) r) w"
    by (auto split: option.splits intro!: setup_external_db_mid setup_maria_db_mid)
  then show ?thesis
    unfolding SetupDBParams_def
    by (simp add: wp_and_then [of get_cur] wp_state)
      (subst wp_and_then, erule wp_mono, auto simp: res_case_def db_setup_post_def intro: rest [simplified] split: res.splits)
qed

section \<open>Properties\<close>



section \<open>The object store's parameters\<close>

lemma wp_mod_os [wp_rules]:
  "wp (mod_os f) Q w =
     Q (Ok ()) (w\<lparr>w_params := (w_params w)\<lparr>p_object_storage_connection := f (p_object_storage_connection (w_params w))\<rparr>\<rparr>)"
  by (simp add: mod_os_def wp_rules)

lemma wp_RetrieveOrCreateObjectStoreSecret:
  assumes "\<And>r h. (\<And>a s. r = Ok (a, s) \<Longrightarrow> encoded a \<and> encoded s) \<Longrightarrow> (\<And>q. r \<noteq> Panic q) \<Longrightarrow> Q r (w\<lparr>w_history := h\<rparr>)"
  shows "wp (RetrieveOrCreateObjectStoreSecret env s) Q w"
  unfolding RetrieveOrCreateObjectStoreSecret_def
  by (simp only: wp_and_then, rule wp_RetrieveOrCreateSecret)
    (auto simp: res_case_def wp_rules split: res.splits intro!: assms wp_RetrieveOrCreateSecret)

text \<open>
  Where the artifacts go: the external store of the resource, else the in-cluster Minio, whose bucket
  is always the default one; over both, the external route when it is enabled.
\<close>

definition store_ok :: "dspa \<Rightarrow> dspa_params \<Rightarrow> object_storage_connection \<Rightarrow> bool" where
  "store_ok dsp p c \<longleftrightarrow>
     (case sp_object_storage (d_spec dsp) of
        None \<Rightarrow> False
      | Some os \<Rightarrow>
          (case os_external_storage os of
             Some ext \<Rightarrow> osc_bucket c = es_bucket ext \<and> osc_region c = (if es_region ext = '''' then ''auto'' else es_region ext)
               \<and> osc_credentials_secret c = es_s3_credential_secret ext \<and> osc_base_path c = es_base_path ext
           | None \<Rightarrow> osc_bucket c = ''mlpipeline'' \<and> osc_region c = ''minio'') \<and>
          (if os_enable_external_route os
           then osc_scheme c = ''https'' \<and> osc_port c = '''' \<and> osc_secure c = Some True \<and>
                osc_external_route_url c = osc_host c
           else
             (case os_external_storage os of
                Some ext \<Rightarrow> osc_host c = es_host ext \<and> osc_port c = es_port ext \<and> osc_scheme c = es_scheme ext \<and>
                  osc_secure c = Some (case es_secure ext of None \<Rightarrow> es_scheme ext = ''https'' | Some b \<Rightarrow> b)
              | None \<Rightarrow> osc_host c = ''minio-'' @ p_name p @ ''.'' @ p_namespace p @ ''.svc.cluster.local'' \<and>
                  osc_port c = ''9000'' \<and> osc_scheme c = ''http'' \<and> osc_secure c = Some False)))"

definition secret_text :: "string \<Rightarrow> bool" where
  "secret_text s \<longleftrightarrow> (\<exists>bs. bs \<noteq> '''' \<and> s = b64_encode bs)"

lemma encoded_secret_text: "encoded s \<Longrightarrow> s \<noteq> '''' \<Longrightarrow> secret_text s"
  by (auto simp: encoded_def secret_text_def)

definition os_setup_post :: "dspa \<Rightarrow> dspa_params \<Rightarrow> 'a res \<Rightarrow> world \<Rightarrow> bool" where
  "os_setup_post dsp p r w \<longleftrightarrow>
     (case r of
        Ok _ \<Rightarrow>
          (let c = p_object_storage_connection (w_params w) in
           secret_text (osc_access_key_id c) \<and> secret_text (osc_secret_access_key c) \<and>
           osc_credentials_secret c \<noteq> None \<and>
           osc_endpoint c = osc_scheme c @ ''://'' @ osc_host c @ (if osc_port c \<noteq> '''' then '':'' @ osc_port c else '''') \<and>
           store_ok dsp p c)
      | _ \<Rightarrow> True)"

text \<open>What the two branches leave, before the route.\<close>

definition os_mid :: "dspa \<Rightarrow> dspa_params \<Rightarrow> object_storage_connection \<Rightarrow> bool" where
  "os_mid dsp p c \<longleftrightarrow>
     encoded (osc_access_key_id c) \<and> encoded (osc_secret_access_key c) \<and> osc_credentials_secret c \<noteq> None \<and>
     (\<exists>os. sp_object_storage (d_spec dsp) = Some os \<and>
        store_ok (dsp\<lparr>d_spec := (d_spec dsp)\<lparr>sp_object_storage := Some (os\<lparr>os_enable_external_route := False\<rparr>)\<rparr>\<rparr>) p c)"

lemma setup_external_storage_mid:
  assumes "sp_object_storage (d_spec dsp) = Some os" "os_external_storage os = Some ext"
  shows "wp (setup_external_storage env ext)
           (\<lambda>r w'. res_case (\<lambda>_. os_mid dsp (w_params w) (p_object_storage_connection (w_params w')) \<and> cur_dspa w' = cur_dspa w)
              (\<lambda>_. True) (\<lambda>_. True) r) w"
  unfolding setup_external_storage_def
  by (auto simp: wp_rules split: option.splits intro!: wp_retrieve_if_present)
    (auto simp: res_case_def wp_rules os_mid_def store_ok_def Let_def assms split: res.splits option.splits
       intro!: wp_retrieve_if_present)

lemma setup_minio_mid:
  assumes "\<And>os. sp_object_storage (d_spec dsp) = Some os \<Longrightarrow> os_external_storage os = None"
  shows "wp (setup_minio env dsp)
           (\<lambda>r w'. res_case (\<lambda>_. os_mid dsp (w_params w) (p_object_storage_connection (w_params w')) \<and> cur_dspa w' = cur_dspa w)
              (\<lambda>_. True) (\<lambda>_. True) r) w"
  unfolding setup_minio_def Let_def
  by (auto simp: wp_rules split: option.splits intro!: wp_RetrieveOrCreateObjectStoreSecret)
    (auto simp: res_case_def wp_rules os_mid_def store_ok_def Let_def assms config_consts split: res.splits option.splits)

lemma os_mid_route:
  assumes "os_mid dsp p c" "ExternalRouteEnabled dsp"
  shows "store_ok dsp p (c\<lparr>osc_external_route_url := host, osc_endpoint := host, osc_secure := Some True,
           osc_host := host, osc_scheme := ''https'', osc_port := ''''\<rparr>)"
  using assms by (auto simp: os_mid_def store_ok_def ExternalRouteEnabled_def split: option.splits)

lemma os_mid_no_route: "os_mid dsp p c \<Longrightarrow> \<not> ExternalRouteEnabled dsp \<Longrightarrow> store_ok dsp p c"
  by (auto simp: os_mid_def store_ok_def ExternalRouteEnabled_def split: option.splits)

lemma store_ok_endpoint: "store_ok dsp p (c\<lparr>osc_endpoint := x\<rparr>) = store_ok dsp p c"
  by (simp add: store_ok_def split: option.split)

lemma RetrieveAndSetExternalRoute_total:
  "wp (RetrieveAndSetExternalRoute env) (\<lambda>r w'. \<exists>ro h. r = Ok ro \<and> w' = w\<lparr>w_history := h\<rparr>) w"
  unfolding RetrieveAndSetExternalRoute_def
  by (auto simp: wp_rules get_route_def log_event_def split: sum.splits)

lemma SetupObjectParams_post:
  "wp (SetupObjectParams env) (os_setup_post (cur_dspa w) (w_params w)) w"
proof -
  let ?dsp = "cur_dspa w" and ?p = "w_params w"
  let ?rest = "\<lambda>_. and_then (setup_external_route env ?dsp) (\<lambda>_.
     and_then (mod_os (\<lambda>c. c\<lparr>osc_endpoint := object_endpoint c\<rparr>)) (\<lambda>_. check_object_credentials))"
  have fin: "wp (and_then (mod_os (\<lambda>c. c\<lparr>osc_endpoint := object_endpoint c\<rparr>)) (\<lambda>_. check_object_credentials))
      (os_setup_post ?dsp ?p) w'"
    if "encoded (osc_access_key_id (p_object_storage_connection (w_params w')))"
      "encoded (osc_secret_access_key (p_object_storage_connection (w_params w')))"
      "osc_credentials_secret (p_object_storage_connection (w_params w')) \<noteq> None"
      "store_ok ?dsp ?p (p_object_storage_connection (w_params w'))" for w'
    using that
    by (auto simp: wp_and_then wp_mod_os wp_state wp_if wp_ret wp_deref wp_fail check_object_credentials_def Let_def
        os_setup_post_def object_endpoint_def store_ok_endpoint encoded_secret_text)
  have rest: "wp (?rest u) (os_setup_post ?dsp ?p) w'"
    if "os_mid ?dsp ?p (p_object_storage_connection (w_params w'))" for u w'
  proof (cases "ExternalRouteEnabled ?dsp")
    case True
    have "wp (setup_external_route env ?dsp) (\<lambda>r w2. r = Ok () \<and>
        (\<exists>host h. w2 = w'\<lparr>w_history := h, w_params := (w_params w')\<lparr>p_object_storage_connection :=
           (p_object_storage_connection (w_params w'))\<lparr>osc_external_route_url := host, osc_endpoint := host,
             osc_secure := Some True, osc_host := host, osc_scheme := ''https'', osc_port := ''''\<rparr>\<rparr>\<rparr>)) w'"
      unfolding setup_external_route_def if_P [OF True]
      by (rule wp_seq [OF RetrieveAndSetExternalRoute_total], elim exE conjE, simp add: wp_mod_os) blast
    then show ?thesis
      by (rule wp_seq, elim conjE exE)
        (use that os_mid_route [OF that True] in \<open>simp add: fin os_mid_def\<close>)
  next
    case False
    show ?thesis
      using that os_mid_no_route [OF that False] by (simp add: setup_external_route_def ret_and_then fin os_mid_def False)
  qed
  have "wp (case sp_object_storage (d_spec ?dsp) of
          None \<Rightarrow> setup_minio env ?dsp
        | Some os \<Rightarrow> (case os_external_storage os of Some ext \<Rightarrow> setup_external_storage env ext | None \<Rightarrow> setup_minio env ?dsp))
      (\<lambda>r w'. res_case (\<lambda>_. os_mid ?dsp ?p (p_object_storage_connection (w_params w')) \<and> cur_dspa w' = cur_dspa w)
         (\<lambda>_. True) (\<lambda>_. True) r) w"
    by (auto split: option.splits intro!: setup_external_storage_mid setup_minio_mid)
  then show ?thesis
    unfolding SetupObjectParams_def
    by (simp add: wp_and_then [of get_cur] wp_state)
      (subst wp_and_then, erule wp_mono, auto simp: res_case_def os_setup_post_def intro: rest [simplified] split: res.splits)
qed


section \<open>MLMD and the init container\<close>

text \<open>Both containers are there with resources, the server with a port, and a value of \<open>m0\<close> is kept.\<close>

definition mlmd_complete :: "mlmd \<Rightarrow> mlmd \<Rightarrow> bool" where
  "mlmd_complete m0 m \<longleftrightarrow>
     ml_deploy m \<and>
     (case (ml_envoy m, ml_grpc m) of
        (Some en, Some gr) \<Rightarrow>
          en_resources en \<noteq> None \<and> gr_resources gr \<noteq> None \<and> gr_port gr \<noteq> '''' \<and>
          (case ml_envoy m0 of
             None \<Rightarrow> en_deploy_route en
           | Some en0 \<Rightarrow> en_deploy_route en = en_deploy_route en0 \<and> (en_image en0 = '''' \<or> en_image en = en_image en0) \<and>
               (en_resources en0 = None \<or> en_resources en = en_resources en0)) \<and>
          (case ml_grpc m0 of
             None \<Rightarrow> gr_port gr = ''8080''
           | Some gr0 \<Rightarrow> (gr_port gr0 = '''' \<or> gr_port gr = gr_port gr0) \<and> (gr_image gr0 = '''' \<or> gr_image gr = gr_image gr0) \<and>
               (gr_resources gr0 = None \<or> gr_resources gr = gr_resources gr0))
      | _ \<Rightarrow> False)"

lemma fill_mlmd_complete: "ml_deploy m \<Longrightarrow> mlmd_complete m (fill_mlmd env m)"
  by (cases "ml_envoy m"; cases "ml_grpc m")
    (simp_all add: mlmd_complete_def fill_mlmd_def Let_def setResourcesDefault_def setStringDefault_def config_consts
       split: option.split)

text \<open>
  C28: MLMD is always deployed completely.  \<open>SetupMLMD\<close> fails exactly when the resource disables MLMD,
  and then changes nothing; otherwise both containers end up with resources and the gRPC server with a
  port, each the resource's own value where it gives one, also for the images.
\<close>

theorem SetupMLMD_complete:
  "case SetupMLMD env w of
     (r, w') \<Rightarrow>
       (case p_mlmd (w_params w) of
          None \<Rightarrow> r = Ok () \<and> (\<exists>m'. p_mlmd (w_params w') = Some m' \<and> mlmd_complete default_mlmd m')
        | Some m \<Rightarrow>
            (if ml_deploy m
             then r = Ok () \<and> (\<exists>m'. p_mlmd (w_params w') = Some m' \<and> mlmd_complete m m')
             else r = Err (Plain_Err MlmdIsRequired) \<and> w' = w))"
proof -
  have "mlmd_complete default_mlmd (fill_mlmd env default_mlmd)"
    by (rule fill_mlmd_complete) (simp add: default_mlmd_def)
  then show ?thesis
    by (simp add: SetupMLMD_def and_then_def attempt_def get_params_def gets_op_def mod_params_def modify_op_def
        fail_def fill_mlmd_complete split: option.split)
qed

text \<open>
  The managed-pipelines init container is never unbounded.  After the defaulting its requests and
  limits both give CPU and memory, a non-zero quantity of the resource is kept, and defaulting again
  changes nothing.
\<close>

lemma init_resources_bounded:
  "(\<exists>r. mps_resources (ensureManagedPipelinesInitResourceDefaults mp) = Some r \<and> full_resources r) \<and>
   ensureManagedPipelinesInitResourceDefaults (ensureManagedPipelinesInitResourceDefaults mp) =
     ensureManagedPipelinesInitResourceDefaults mp"
proof -
  have full: "full_resources ManagedPipelinesInitResourceRequirements"
    by (simp add: full_resources_def default_resources createResourceRequirement_def)
  then obtain l q where lq: "rr_limits ManagedPipelinesInitResourceRequirements = Some l"
      "rr_requests ManagedPipelinesInitResourceRequirements = Some q"
      "r_cpu l \<noteq> ''''" "r_memory l \<noteq> ''''" "r_cpu q \<noteq> ''''" "r_memory q \<noteq> ''''"
    by (auto simp: full_resources_def split: option.splits)
  show ?thesis
    using full lq
    by (cases "mps_resources mp")
      (auto simp: ensureManagedPipelinesInitResourceDefaults_def full_resources_def fill_resources_def
         default_init_requests_def default_init_limits_def quantity_is_zero_def split: option.splits)
qed


lemma passwordGen_run:
  "passwordGen env n w = (Ok (map (\<lambda>i. password_chars ! (e_rand env (w_history w) i mod length password_chars)) [0..<n]), w)"
  by (simp add: passwordGen_def gets_op_def)

lemma password_chars_nth: "password_chars ! (k mod length password_chars) \<in> set password_chars"
  by (rule nth_mem) (simp add: password_chars_def)

text \<open>
  Credentials survive the encoding.  What is put into the parameters for a secret decodes, without an
  error, to the bytes the secret holds under the key (to nothing if it lacks the key), or, when there is
  no such secret, to a password of the requested length over letters and digits; any other error of
  reading the secret is passed on.
\<close>

lemma secret_round_trip:
  "case RetrieveOrCreateSecret env secretName secretKey n w of
     (r, w') \<Rightarrow>
       (case e_get_secret env (w_history w) (nsname (p_namespace (w_params w)) secretName) of
          Inr s \<Rightarrow>
            (case r of
               Ok v \<Rightarrow> b64_decode v = (case map_of (se_data s) secretKey of Some x \<Rightarrow> x | None \<Rightarrow> '''', False)
             | _ \<Rightarrow> False)
        | Inl e \<Rightarrow>
            if is_not_found e then
              (case r of
                 Ok v \<Rightarrow> \<exists>pw. b64_decode v = (pw, False) \<and> length pw = nat n \<and> set pw \<subseteq> set password_chars
               | _ \<Rightarrow> False)
            else r = Err e)"
proof (cases "e_get_secret env (w_history w) (nsname (p_namespace (w_params w)) secretName)")
  case (Inl e)
  then show ?thesis
    by (auto simp: RetrieveOrCreateSecret_def RetrieveSecret_def and_then_def attempt_def get_params_def gets_op_def
        get_secret_def call_def log_event_def fail_def ret_def passwordGen_run password_chars_nth)
next
  case (Inr s)
  then show ?thesis
    by (simp add: RetrieveOrCreateSecret_def RetrieveSecret_def and_then_def attempt_def get_params_def gets_op_def
        get_secret_def call_def log_event_def fail_def ret_def)
qed

end
