(* ===== verification/Frame_Rules.thy ===== *)
theory Frame_Rules imports World begin

text \<open>
  Invariants of the resource and the parameters along an operation, together with the events it
  emits.  \<open>within J P m\<close>: from a state whose resource and parameters satisfy \<open>J\<close>, whatever the
  outcome, the operation ends in such a state and every event it adds satisfies \<open>P\<close>.  The rules follow
  the combinators, so that a proof about a whole operation is one call of \<open>intro\<close> that leaves the
  assignments to the parameters.  With \<open>J\<close> an equation this is a frame condition.
\<close>

named_theorems within_intros \<open>invariants of the resource and the parameters\<close>

definition within :: "(dspa \<Rightarrow> dspa_params \<Rightarrow> bool) \<Rightarrow> (event \<Rightarrow> bool) \<Rightarrow> 'a action \<Rightarrow> bool" where
  "within J P m \<longleftrightarrow>
     (\<forall>w. J (cur_dspa w) (w_params w) \<longrightarrow>
        J (cur_dspa (snd (m w))) (w_params (snd (m w))) \<and>
        (\<exists>evs. w_history (snd (m w)) = w_history w @ evs \<and> list_all P evs))"

lemma withinI:
  assumes "\<And>w. J (cur_dspa w) (w_params w) \<Longrightarrow>
      J (cur_dspa (snd (m w))) (w_params (snd (m w))) \<and>
      (\<exists>evs. w_history (snd (m w)) = w_history w @ evs \<and> list_all P evs)"
  shows "within J P m"
  using assms by (simp add: within_def)

lemma withinD:
  "within J P m \<Longrightarrow> J (cur_dspa w) (w_params w) \<Longrightarrow> m w = (r, w') \<Longrightarrow>
   J (cur_dspa w') (w_params w') \<and> (\<exists>evs. w_history w' = w_history w @ evs \<and> list_all P evs)"
  unfolding within_def by (drule spec [of _ w]) simp

lemma within_attempt [within_intros]:
  assumes "within J P m" "\<And>e. within J P (h e)" "\<And>a. within J P (k a)"
  shows "within J P (attempt m h k)"
proof (rule withinI)
  fix w assume J: "J (cur_dspa w) (w_params w)"
  obtain r w1 where m: "m w = (r, w1)" by fastforce
  from withinD [OF assms(1) J m] obtain e1
    where 1: "J (cur_dspa w1) (w_params w1)" "w_history w1 = w_history w @ e1" "list_all P e1" by blast
  show "J (cur_dspa (snd (attempt m h k w))) (w_params (snd (attempt m h k w))) \<and>
      (\<exists>evs. w_history (snd (attempt m h k w)) = w_history w @ evs \<and> list_all P evs)"
  proof (cases r)
    case (Ok a)
    obtain r2 w2 where k: "k a w1 = (r2, w2)" by fastforce
    from withinD [OF assms(3) 1(1) k] 1 m Ok k show ?thesis by (auto simp: attempt_def)
  next
    case (Err e)
    obtain r2 w2 where k: "h e w1 = (r2, w2)" by fastforce
    from withinD [OF assms(2) 1(1) k] 1 m Err k show ?thesis by (auto simp: attempt_def)
  qed (use 1 m in \<open>auto simp: attempt_def\<close>)
qed

lemma within_fail [within_intros]: "within J P (fail e)"
  by (simp add: within_def fail_def)

lemma within_and_then: "within J P m \<Longrightarrow> (\<And>a. within J P (k a)) \<Longrightarrow> within J P (and_then m k)"
  unfolding and_then_def by (intro within_intros)

text \<open>What is read from the parameters or the resource satisfies the invariant with them.\<close>

lemma within_get_params [within_intros]:
  assumes "\<And>d p. J d p \<Longrightarrow> within J P (k p)"
  shows "within J P (and_then get_params k)"
proof (rule withinI)
  fix w assume "J (cur_dspa w) (w_params w)"
  with assms [OF this] show "J (cur_dspa (snd (and_then get_params k w))) (w_params (snd (and_then get_params k w))) \<and>
      (\<exists>evs. w_history (snd (and_then get_params k w)) = w_history w @ evs \<and> list_all P evs)"
    by (simp add: within_def and_then_def attempt_def get_params_def gets_op_def)
qed

lemma within_get_cur [within_intros]:
  assumes "\<And>d p. J d p \<Longrightarrow> within J P (k d)"
  shows "within J P (and_then get_cur k)"
proof (rule withinI)
  fix w assume "J (cur_dspa w) (w_params w)"
  with assms [OF this] show "J (cur_dspa (snd (and_then get_cur k w))) (w_params (snd (and_then get_cur k w))) \<and>
      (\<exists>evs. w_history (snd (and_then get_cur k w)) = w_history w @ evs \<and> list_all P evs)"
    by (simp add: within_def and_then_def attempt_def get_cur_def gets_op_def)
qed

lemma and_then_get:
  "and_then get_cur k w = k (cur_dspa w) w" "and_then get_params h w = h (w_params w) w"
  by (simp_all add: and_then_def attempt_def get_cur_def get_params_def gets_op_def)

lemma and_then_mod:
  "and_then (mod_params f) k w = k () (w\<lparr>w_params := f (w_params w)\<rparr>)"
  "and_then (mod_cur g) h w = h () (set_cur_dspa (g (cur_dspa w)) w)"
  by (simp_all add: and_then_def attempt_def mod_params_def mod_cur_def modify_op_def)

lemma and_then_run:
  "m w = (r, w1) \<Longrightarrow>
   and_then m k w = (case r of Ok a \<Rightarrow> k a w1 | Err e \<Rightarrow> (Err e, w1) | Panic q \<Rightarrow> (Panic q, w1))"
  by (simp add: and_then_def attempt_def fail_def split: res.split)

text \<open>The general rule for sequencing comes after the two above, so that they are tried first.\<close>

declare within_and_then [within_intros]

lemma within_wrap_err [within_intros]: "within J P m \<Longrightarrow> within J P (wrap_err f m)"
  unfolding wrap_err_def by (intro within_attempt within_fail) (auto simp: within_def ret_def)

lemma within_basic [within_intros]:
  "within J P (ret a)" "within J P (panic q)" "within J P (gets_op f)" "within J P (pure_op r)"
  "within J P (deref s x)" "within J P (of_sum v)" "within J P (read_clock env)"
  "within J P get_params" "within J P get_cur" "within J P (store_status u)"
  by (auto simp: within_def ret_def fail_def panic_def gets_op_def pure_op_def deref_def of_sum_def
      read_clock_def get_params_def get_cur_def store_status_def modify_op_def
      split: option.splits sum.splits)

lemma within_set_status [within_intros]: "within J P (set_status env f)"
  by (simp add: within_def set_status_def and_then_def attempt_def read_clock_def modify_op_def)

lemma within_if [within_intros]:
  "(b \<Longrightarrow> within J P m) \<Longrightarrow> (\<not> b \<Longrightarrow> within J P n) \<Longrightarrow> within J P (if b then m else n)"
  by simp

lemma within_option [within_intros]:
  "(x = None \<Longrightarrow> within J P m) \<Longrightarrow> (\<And>a. x = Some a \<Longrightarrow> within J P (f a)) \<Longrightarrow>
   within J P (case x of None \<Rightarrow> m | Some a \<Rightarrow> f a)"
  by (cases x) auto

lemma within_prod [within_intros]:
  "(\<And>a b. x = (a, b) \<Longrightarrow> within J P (f a b)) \<Longrightarrow> within J P (case x of (a, b) \<Rightarrow> f a b)"
  by (cases x) auto

lemma within_let [within_intros]: "(\<And>x. x = v \<Longrightarrow> within J P (f x)) \<Longrightarrow> within J P (let x = v in f x)"
  by simp

lemma within_for_each [within_intros]: "(\<And>x. x \<in> set xs \<Longrightarrow> within J P (f x)) \<Longrightarrow> within J P (for_each f xs)"
  by (induction xs) (auto intro!: within_intros)

lemma cur_dspa_log [simp]:
  "cur_dspa (log_event e w) = cur_dspa w" "w_params (log_event e w) = w_params w"
  by (simp_all add: log_event_def)

lemma within_call [within_intros]: "P (ev True) \<Longrightarrow> P (ev False) \<Longrightarrow> within J P (call f ev)"
  by (auto simp: within_def call_def) (auto simp: log_event_def split: sum.splits)

lemma within_call_opt [within_intros]: "P (ev True) \<Longrightarrow> P (ev False) \<Longrightarrow> within J P (call_opt f ev)"
  unfolding call_opt_def by (rule within_call)

lemma within_emit [within_intros]: "P e \<Longrightarrow> within J P (emit e)"
  by (simp add: within_def emit_def modify_op_def) (simp add: log_event_def)

lemma within_mod_params [within_intros]:
  "(\<And>d p. J d p \<Longrightarrow> J d (f p)) \<Longrightarrow> within J P (mod_params f)"
  by (simp add: within_def mod_params_def modify_op_def)

lemma within_mod_cur [within_intros]:
  "(\<And>d p. J d p \<Longrightarrow> J (f d) p) \<Longrightarrow> within J P (mod_cur f)"
  by (simp add: within_def mod_cur_def modify_op_def)

lemma within_client [within_intros]:
  "P (Ev_Get KDeployment nn) \<Longrightarrow> within J P (get_deployment env nn)"
  "P (Ev_Get KSecret nn) \<Longrightarrow> within J P (get_secret env nn)"
  "P (Ev_Get KConfigMap nn) \<Longrightarrow> within J P (get_config_map env nn)"
  "P (Ev_Get KService nn) \<Longrightarrow> within J P (get_service env nn)"
  "P (Ev_Get KRoute nn) \<Longrightarrow> within J P (get_route env nn)"
  "P (Ev_Get KMLflow nn) \<Longrightarrow> within J P (get_mlflow env nn)"
  "P (Ev_Create_ConfigMap c True) \<Longrightarrow> P (Ev_Create_ConfigMap c False) \<Longrightarrow> within J P (create_config_map env c)"
  "P (Ev_Update_ConfigMap c True) \<Longrightarrow> P (Ev_Update_ConfigMap c False) \<Longrightarrow> within J P (update_config_map env c)"
  unfolding get_deployment_def get_secret_def get_config_map_def get_service_def get_route_def
    get_mlflow_def create_config_map_def update_config_map_def
  by (auto intro!: within_call within_call_opt)

text \<open>An operation that only talks to the outside keeps every invariant.\<close>

lemma within_reads:
  assumes "reads m" "emits P m"
  shows "within J P m"
proof (rule withinI)
  fix w assume J: "J (cur_dspa w) (w_params w)"
  obtain r w' where m: "m w = (r, w')" by fastforce
  from readsD [OF assms(1) m] obtain h t where "w' = w\<lparr>w_history := h, w_ticks := t\<rparr>" by blast
  with emitsD [OF assms(2) m] m J
  show "J (cur_dspa (snd (m w))) (w_params (snd (m w))) \<and>
      (\<exists>evs. w_history (snd (m w)) = w_history w @ evs \<and> list_all P evs)" by simp
qed

lemma emits_within: "within (\<lambda>_ _. True) P m \<Longrightarrow> emits P m"
  by (simp add: within_def emits_def)

text \<open>A frame condition and a postcondition together.\<close>

lemma wp_within:
  assumes "within J P m" "J (cur_dspa w) (w_params w)" "wp m Q w"
  shows "wp m (\<lambda>r w'. Q r w' \<and> J (cur_dspa w') (w_params w')) w"
  using withinD [OF assms(1,2)] assms(3) by (cases "m w") (auto simp: wp_def)

end
