(* ===== verification/Extract_Params.thy ===== *)
theory Extract_Params imports Params Frame_Rules begin

text \<open>
  \<open>DSPAParams.ExtractParams\<close> of \<open>controllers/dspipeline_params.go\<close>: everything the templates are
  filled with, computed from the resource, the operator configuration and the cluster.  The method is
  one function of four hundred lines; its blocks are definitions of their own here, run in its order.
  The resource is the current one, and one block changes it: a resource without a workflow
  controller gets one.
\<close>

section \<open>Prefixes of resource names\<close>

definition apiServerDefaultResourceNamePrefix :: string where
  "apiServerDefaultResourceNamePrefix = ''ds-pipeline-''"

definition persistenceAgentDefaultResourceNamePrefix :: string where
  "persistenceAgentDefaultResourceNamePrefix = ''ds-pipeline-persistenceagent-''"

definition scheduledWorkflowDefaultResourceNamePrefix :: string where
  "scheduledWorkflowDefaultResourceNamePrefix = ''ds-pipeline-scheduledworkflow-''"

definition workflowControllerDefaultResourceNamePrefix :: string where
  "workflowControllerDefaultResourceNamePrefix = ''ds-pipeline-workflow-controller-''"

definition mlmdProxyDefaultResourceNamePrefix :: string where
  "mlmdProxyDefaultResourceNamePrefix = ''ds-pipeline-scheduledworkflow-''"

section \<open>Names and copied fields\<close>

definition extract_names :: "env \<Rightarrow> dspa \<Rightarrow> unit action" where
  "extract_names env dsp =
     (let v = e_viper env; svc = DSPServicePrefix @ ''-'' @ d_name dsp in
      and_then (mod_params (\<lambda>p. p\<lparr>p_name := d_name dsp, p_namespace := d_namespace dsp,
          p_dspo_namespace := e_getenv env ''DSPO_NAMESPACE'', p_dsp_version := sp_dsp_version (d_spec dsp),
          p_owner := Some dsp, p_api_server := sp_api_server (d_spec dsp),
          p_platform_version := ResolvedPlatformVersion v,
          p_api_server_default_resource_name := apiServerDefaultResourceNamePrefix @ d_name dsp,
          p_api_server_service_name := svc,
          p_api_server_service_dns_name := svc @ ''.'' @ d_namespace dsp @ ''.svc.cluster.local'',
          p_scheduled_workflow := sp_scheduled_workflow (d_spec dsp),
          p_scheduled_workflow_default_resource_name := scheduledWorkflowDefaultResourceNamePrefix @ d_name dsp,
          p_workflow_controller := sp_workflow_controller (d_spec dsp),
          p_workflow_controller_default_resource_name := workflowControllerDefaultResourceNamePrefix @ d_name dsp,
          p_persistence_agent := sp_persistence_agent (d_spec dsp),
          p_persistent_agent_default_resource_name := persistenceAgentDefaultResourceNamePrefix @ d_name dsp\<rparr>)) (\<lambda>_.
      and_then (deref ''Spec.Database'' (sp_database (d_spec dsp))) (\<lambda>db.
      and_then (mod_params (\<lambda>p. p\<lparr>p_maria_db := db_maria_db db\<rparr>)) (\<lambda>_.
      and_then (deref ''Spec.ObjectStorage'' (sp_object_storage (d_spec dsp))) (\<lambda>os.
      mod_params (\<lambda>p. p\<lparr>p_minio := os_minio os,
          p_kube_rbac_proxy := GetStringConfigWithDefault v KubeRBACProxyImagePath DefaultImageValue,
          p_mlmd := sp_mlmd (d_spec dsp),
          p_mlmd_proxy_default_resource_name := mlmdProxyDefaultResourceNamePrefix @ d_name dsp,
          p_custom_ca_bundle_root_mount_path := CustomCABundleRootMountPath,
          p_piplines_ca_bundle_mount_path := GetCABundleFileMountPath,
          p_pod_to_pod_tls := (case sp_pod_to_pod_tls (d_spec dsp) of None \<Rightarrow> True | Some b \<Rightarrow> b),
          p_webhook_name := ''ds-pipelines-webhook''\<rparr>))))))"

definition extract_mlflow :: "dspa \<Rightarrow> mlflow_config" where
  "extract_mlflow dsp =
     (case sp_mlflow (d_spec dsp) of
        None \<Rightarrow> \<lparr>mf_integration_mode = Some AutoDetect, mf_inject_user_env_vars = Some False\<rparr>
      | Some m \<Rightarrow>
          \<lparr>mf_integration_mode = Some (case mf_integration_mode m of Some x \<Rightarrow> x | None \<Rightarrow> AutoDetect),
           mf_inject_user_env_vars = Some (case mf_inject_user_env_vars m of Some b \<Rightarrow> b | None \<Rightarrow> False)\<rparr>)"

section \<open>The API server\<close>

definition mod_api :: "(api_server \<Rightarrow> api_server) \<Rightarrow> unit action" where
  "mod_api f = mod_params (\<lambda>p. p\<lparr>p_api_server := map_option f (p_api_server p)\<rparr>)"

definition extract_api_images :: "env \<Rightarrow> unit action" where
  "extract_api_images env =
     (let cfg = (\<lambda>k. GetStringConfigWithDefault (e_viper env) k DefaultImageValue) in
      mod_api (\<lambda>a. a\<lparr>as_image := setStringDefault (cfg APIServerImagePath) (as_image a),
        as_argo_launcher_image := setStringDefault (cfg LauncherImagePath) (as_argo_launcher_image a),
        as_argo_driver_image := setStringDefault (cfg DriverImagePath) (as_argo_driver_image a)\<rparr>))"

definition managed_image_unset :: gerr where
  "managed_image_unset =
     Wrap_Err '''' (Sentinel_Err ErrManagedPipelinesImageUnset)
       ('': specify spec.apiServer.managedPipelines.image or configure operator Images.PipelinesComponents '' @
        ''(IMAGES_PIPELINES_COMPONENTS in DSPO params/config)'')"

text \<open>The managed pipelines of the API server: image, resources, size limit and the init environment.\<close>

definition managed_pipelines_image :: "env \<Rightarrow> managed_pipelines_spec \<Rightarrow> string" where
  "managed_pipelines_image env mp =
     setStringDefault (GetStringConfigWithDefault (e_viper env) PipelinesComponentsImagePath DefaultImageValue)
       (trim_space (mps_image mp))"

definition extract_managed_pipelines :: "env \<Rightarrow> managed_pipelines_spec \<Rightarrow> unit action" where
  "extract_managed_pipelines env mp =
     (let image = managed_pipelines_image env mp;
          put_mp = (\<lambda>m. mod_api (\<lambda>a. a\<lparr>as_managed_pipelines := Some m\<rparr>)) in
      and_then (put_mp (mp\<lparr>mps_image := image\<rparr>)) (\<lambda>_.
      if image = DefaultImageValue \<or> image = '''' then fail managed_image_unset
      else
        (let mp1 = ensureManagedPipelinesInitResourceDefaults (mp\<lparr>mps_image := image\<rparr>) in
         and_then (put_mp mp1) (\<lambda>_.
         and_then (of_sum (ensureManagedPipelinesVolumeSizeLimit env mp1)) (\<lambda>mp2.
         and_then (put_mp mp2) (\<lambda>_.
         and_then (mod_params (\<lambda>p. p\<lparr>p_managed_pipelines_upload_tags :=
                     BuildManagedPipelinesUploadTags (p_platform_version p)\<rparr>)) (\<lambda>_.
         and_then (of_sum (ManagedPipelineImageEnvFromEnviron (e_environ env))) (\<lambda>vars.
         mod_params (\<lambda>p. p\<lparr>p_managed_pipeline_image_env_vars := vars\<rparr>)))))))))"

subsection \<open>The MLflow plugin\<close>

text \<open>An error on the way to the API server's host name is logged; the name is then empty.\<close>

definition api_server_external_url :: "env \<Rightarrow> string action" where
  "api_server_external_url env =
     and_then get_params (\<lambda>p.
     and_then (attempt (GetRouteHostname env (p_api_server_service_name p) (p_namespace p)) (\<lambda>_. ret '''') ret) (\<lambda>url.
     if url = ''''
     then attempt (GetServiceHostname env (p_api_server_service_name p) (p_namespace p)) (\<lambda>_. ret '''') ret
     else ret url))"

definition effective_ca_path :: "dspa_params \<Rightarrow> api_server \<Rightarrow> string" where
  "effective_ca_path p a =
     (if as_ca_bundle_file_mount_path a \<noteq> '''' then as_ca_bundle_file_mount_path a
      else p_custom_ca_bundle_root_mount_path p) @ ''/'' @
     (if as_ca_bundle_file_name a \<noteq> '''' then as_ca_bundle_file_name a else CustomDSPTrustedCAConfigMapKey)"

definition build_mlflow_plugin :: "env \<Rightarrow> api_server \<Rightarrow> string \<Rightarrow> unit action" where
  "build_mlflow_plugin env a mlflowEndpoint =
     and_then (api_server_external_url env) (\<lambda>url.
     if url = '''' then ret ()
     else
       and_then get_params (\<lambda>p.
       and_then (deref ''MLflow'' (p_mlflow p)) (\<lambda>m.
       and_then (deref ''MLflow.InjectUserEnvVars'' (mf_inject_user_env_vars m)) (\<lambda>inject.
       attempt (pure_op (BuildMLflowPluginConfigJson mlflowEndpoint (effective_ca_path p a) inject url))
         (\<lambda>_. ret ())
         (\<lambda>cfg. mod_params (\<lambda>q. q\<lparr>p_api_server_plugins_json := cfg\<rparr>))))))"

definition extract_mlflow_plugin :: "env \<Rightarrow> api_server \<Rightarrow> unit action" where
  "extract_mlflow_plugin env a =
     and_then get_params (\<lambda>p.
     and_then (deref ''MLflow'' (p_mlflow p)) (\<lambda>m.
     and_then (deref ''MLflow.IntegrationMode'' (mf_integration_mode m)) (\<lambda>mode.
     and_then
       (if mode = AutoDetect then
          attempt (IsAPIServerDeploymentReady env)
            (\<lambda>_. ret ())
            (\<lambda>ready.
               if \<not> ready then ret ()
               else if \<not> p_mlflow_resolver_set p then ret ()
               else if p_dspo_namespace p = '''' then ret ()
               else attempt (retrieveMLflowEndpointCached env (p_dspo_namespace p)) (\<lambda>_. ret ())
                      (build_mlflow_plugin env a))
        else ret ()) (\<lambda>_.
     mod_params (\<lambda>q. q\<lparr>p_grant_mlflow_workload_rbac := p_api_server_plugins_json q \<noteq> ''''\<rparr>)))))"

subsection \<open>Config maps of the API server\<close>

definition extract_server_config :: "dspa \<Rightarrow> unit action" where
  "extract_server_config dsp =
     mod_api (\<lambda>a. a\<lparr>as_custom_server_config :=
       (case as_custom_server_config a of
          None \<Rightarrow> Some \<lparr>scm_name = CustomServerConfigMapNamePrefix @ d_name dsp, scm_key = CustomServerConfigMapNameKey\<rparr>
        | Some c \<Rightarrow> Some c)\<rparr>)"

text \<open>A config map without data has a nil map, which marshals to \<open>null\<close>.\<close>

definition marshal_data :: "go_map \<Rightarrow> string" where
  "marshal_data m = (if m = [] then ''null'' else json_print (json_of_map m))"

definition extract_launcher_config :: "env \<Rightarrow> api_server \<Rightarrow> unit action" where
  "extract_launcher_config env a =
     (if as_custom_kfp_launcher_configmap a \<noteq> '''' then
        and_then get_params (\<lambda>p.
        and_then (GetConfigMap env (as_custom_kfp_launcher_configmap a) (p_namespace p)) (\<lambda>cm.
        mod_params (\<lambda>q. q\<lparr>p_custom_kfp_launcher_configmap_data := marshal_data (cm_data cm)\<rparr>)))
      else ret ())"

subsection \<open>Trusted certificates\<close>

definition add_pem :: "string \<Rightarrow> unit action" where
  "add_pem cert = mod_params (\<lambda>p. p\<lparr>p_api_custom_pem_certs := p_api_custom_pem_certs p @ [cert]\<rparr>)"

text \<open>The platform's bundle; the result says whether it holds the system certificates.\<close>

definition extract_global_ca :: "env \<Rightarrow> bool action" where
  "extract_global_ca env =
     and_then get_params (\<lambda>p.
     attempt (GetConfigMap env GlobalODHCaBundleConfigMapName (p_namespace p))
       (\<lambda>err. if \<not> is_not_found err then fail err else ret False)
       (\<lambda>cm.
          and_then (for_each add_pem (filter (\<lambda>val. trim_space val \<noteq> '''') (GetConfigMapValues cm))) (\<lambda>_.
          ret (map_of (cm_data cm) GlobalODHCaBundleConfigMapSystemBundleKey \<noteq> None))))"

definition extract_user_ca :: "env \<Rightarrow> api_server \<Rightarrow> unit action" where
  "extract_user_ca env a =
     (case as_ca_bundle a of
        None \<Rightarrow> ret ()
      | Some bundle \<Rightarrow>
          and_then get_params (\<lambda>p.
          and_then (GetConfigMap env (cab_configmap_name bundle) (p_namespace p)) (\<lambda>cm.
          (let provided = GetConfigMapValue (cab_configmap_key bundle) cm in
           if trim_space provided \<noteq> '''' then add_pem provided else ret ()))))"

definition extract_service_ca :: "env \<Rightarrow> unit action" where
  "extract_service_ca env =
     and_then get_params (\<lambda>p.
     if p_pod_to_pod_tls p then
       and_then (GetConfigMap env OpenshiftServiceCAConfigMapName (p_namespace p)) (\<lambda>cm.
       (let bundle = GetConfigMapValue OpenshiftServiceCAConfigMapKey cm in
        if trim_space bundle = '''' then
          fail (Plain_Err (''expected key '' @ OpenshiftServiceCAConfigMapKey @ '' from configmap '' @
            OpenshiftServiceCAConfigMapName @ '' not found''))
        else add_pem bundle))
     else ret ())"

definition ca_file_name :: "api_server \<Rightarrow> string" where
  "ca_file_name a =
     (if as_ca_bundle_file_name a \<noteq> '''' then as_ca_bundle_file_name a else CustomDSPTrustedCAConfigMapKey)"

definition extract_ca_paths :: "api_server \<Rightarrow> unit action" where
  "extract_ca_paths a =
     mod_params (\<lambda>p.
       let root = (if as_ca_bundle_file_mount_path a \<noteq> '''' then as_ca_bundle_file_mount_path a
                   else p_custom_ca_bundle_root_mount_path p) in
       p\<lparr>p_custom_ca_bundle_root_mount_path := root,
         p_piplines_ca_bundle_mount_path := root @ ''/'' @ ca_file_name a\<rparr>)"

definition ca_configmap :: "dspa \<Rightarrow> dspa_params \<Rightarrow> ca_bundle \<Rightarrow> config_map" where
  "ca_configmap dsp p bundle =
     \<lparr>cm_name = cab_configmap_name bundle, cm_namespace = p_namespace p,
      cm_owner_references =
        [\<lparr>or_api_version = d_api_version dsp, or_kind = d_kind dsp, or_name = d_name dsp, or_uid = d_uid dsp,
          or_controller = Some True, or_block_owner_deletion = Some True\<rparr>],
      cm_data = [(cab_configmap_key bundle, join [CHR 0x0A] (p_api_custom_pem_certs p))]\<rparr>"

definition create_or_update_configmap :: "env \<Rightarrow> config_map \<Rightarrow> unit action" where
  "create_or_update_configmap env cm =
     attempt (create_config_map env cm)
       (\<lambda>err. if is_already_exists err then update_config_map env cm else fail err)
       ret"

definition add_system_certs :: "env \<Rightarrow> bool \<Rightarrow> unit action" where
  "add_system_certs env wellKnownCABundleAdded =
     (if wellKnownCABundleAdded then ret ()
      else and_then (GetSystemCerts env) (\<lambda>certs. if trim_space certs \<noteq> '''' then add_pem certs else ret ()))"

definition write_ca_bundle :: "env \<Rightarrow> dspa \<Rightarrow> ca_bundle \<Rightarrow> unit action" where
  "write_ca_bundle env dsp bundle =
     and_then (mod_params (\<lambda>p. p\<lparr>p_custom_ca_bundle := Some bundle\<rparr>)) (\<lambda>_.
     and_then get_params (\<lambda>p.
     and_then (create_or_update_configmap env (ca_configmap dsp p bundle)) (\<lambda>_.
     mod_params (\<lambda>q. q\<lparr>p_custom_ssl_cert_dir :=
       Some (join '':'' [p_custom_ca_bundle_root_mount_path q, ''/etc/ssl/certs'', ''/etc/pki/tls/certs''])\<rparr>))))"

definition publish_ca_bundle :: "env \<Rightarrow> dspa \<Rightarrow> api_server \<Rightarrow> bool \<Rightarrow> unit action" where
  "publish_ca_bundle env dsp a wellKnownCABundleAdded =
     and_then get_params (\<lambda>p.
     if p_api_custom_pem_certs p = [] then ret ()
     else
       and_then (add_system_certs env wellKnownCABundleAdded) (\<lambda>_.
       write_ca_bundle env dsp \<lparr>cab_configmap_name = CustomDSPTrustedCAConfigMapNamePrefix @ ''-'' @ p_name p,
         cab_configmap_key = ca_file_name a\<rparr>))"

subsection \<open>Expiry, cache and workspace\<close>

definition extract_workspace :: "env \<Rightarrow> api_server \<Rightarrow> unit action" where
  "extract_workspace env a =
     (case as_workspace a of
        None \<Rightarrow> ret ()
      | Some ws \<Rightarrow>
          and_then (wrap_err (\<lambda>e. Wrap_Err ''unable to marshal workspace configuration: '' e '''')
                      (of_sum (e_marshal_claim_spec env (ws_volume_claim_template_spec ws)))) (\<lambda>j.
          mod_params (\<lambda>p. p\<lparr>p_api_server_workspace_json :=
            json_print (JObj [(''VolumeClaimTemplateSpec'', j)])\<rparr>)))"

definition extract_api_rest :: "env \<Rightarrow> dspa \<Rightarrow> api_server \<Rightarrow> unit action" where
  "extract_api_rest env dsp a =
     and_then (mod_api (\<lambda>b. b\<lparr>as_artifact_signed_url_expiry_seconds :=
         (case as_artifact_signed_url_expiry_seconds b of
            None \<Rightarrow> Some DefaultSignedUrlExpiryTimeSeconds | Some s \<Rightarrow> Some s)\<rparr>)) (\<lambda>_.
     and_then (deref ''Spec.APIServer'' (sp_api_server (d_spec dsp))) (\<lambda>spec_api.
     and_then (mod_api (\<lambda>b. b\<lparr>as_cache_enabled :=
         (if as_cache_enabled spec_api \<noteq> None then as_cache_enabled spec_api else as_cache_enabled b)\<rparr>)) (\<lambda>_.
     extract_workspace env a)))"

text \<open>The block under \<open>if p.APIServer != nil\<close>; the fields that steer it are not changed on the way.\<close>

definition extract_api_server :: "env \<Rightarrow> dspa \<Rightarrow> api_server \<Rightarrow> unit action" where
  "extract_api_server env dsp a =
     and_then (extract_api_images env) (\<lambda>_.
     and_then (case as_managed_pipelines a of None \<Rightarrow> ret () | Some mp \<Rightarrow> extract_managed_pipelines env mp) (\<lambda>_.
     and_then (mod_api (\<lambda>b. b\<lparr>as_resources := setResourcesDefault APIServerResourceRequirements (as_resources b)\<rparr>)) (\<lambda>_.
     and_then (extract_mlflow_plugin env a) (\<lambda>_.
     and_then (extract_server_config dsp) (\<lambda>_.
     and_then (extract_launcher_config env a) (\<lambda>_.
     and_then (extract_global_ca env) (\<lambda>wellKnownCABundleAdded.
     and_then (extract_user_ca env a) (\<lambda>_.
     and_then (extract_service_ca env) (\<lambda>_.
     and_then (extract_ca_paths a) (\<lambda>_.
     and_then (publish_ca_bundle env dsp a wellKnownCABundleAdded) (\<lambda>_.
     extract_api_rest env dsp a)))))))))))"

section \<open>The other components\<close>

definition extract_agents :: "env \<Rightarrow> unit action" where
  "extract_agents env =
     (let cfg = (\<lambda>k. GetStringConfigWithDefault (e_viper env) k DefaultImageValue) in
      mod_params (\<lambda>p. p\<lparr>
        p_persistence_agent := map_option (\<lambda>a. a\<lparr>
            pa_image := setStringDefault (cfg PersistenceAgentImagePath) (pa_image a),
            pa_resources := setResourcesDefault PersistenceAgentResourceRequirements (pa_resources a)\<rparr>)
          (p_persistence_agent p),
        p_scheduled_workflow := map_option (\<lambda>s. s\<lparr>
            sw_image := setStringDefault (cfg ScheduledWorkflowImagePath) (sw_image s),
            sw_resources := setResourcesDefault ScheduledWorkflowResourceRequirements (sw_resources s)\<rparr>)
          (p_scheduled_workflow p)\<rparr>))"

definition default_workflow_controller :: workflow_controller where
  "default_workflow_controller =
     \<lparr>wc_deploy = True, wc_image = '''', wc_argo_exec_image = '''', wc_custom_config = '''', wc_resources = None\<rparr>"

text \<open>The resource itself is changed; the parameter Owner is the same pointer and sees the change.\<close>

definition with_workflow_controller :: "dspa \<Rightarrow> dspa" where
  "with_workflow_controller dsp =
     (case sp_workflow_controller (d_spec dsp) of
        None \<Rightarrow> dsp\<lparr>d_spec := (d_spec dsp)\<lparr>sp_workflow_controller := Some default_workflow_controller\<rparr>\<rparr>
      | Some _ \<Rightarrow> dsp)"

definition extract_workflow_controller :: "env \<Rightarrow> unit action" where
  "extract_workflow_controller env =
     (let cfg = (\<lambda>k. GetStringConfigWithDefault (e_viper env) k DefaultImageValue) in
      and_then (mod_cur with_workflow_controller) (\<lambda>_.
      and_then get_cur (\<lambda>dsp.
      mod_params (\<lambda>p. p\<lparr>p_owner := Some dsp,
        p_workflow_controller := map_option (\<lambda>c. c\<lparr>
            wc_image := setStringDefault (cfg ArgoWorkflowControllerImagePath) (wc_image c),
            wc_argo_exec_image := setStringDefault (cfg ArgoExecImagePath) (wc_argo_exec_image c),
            wc_resources := setResourcesDefault WorkflowControllerResourceRequirements (wc_resources c)\<rparr>)
          (sp_workflow_controller (d_spec dsp))\<rparr>))))"

section \<open>The whole\<close>

definition ExtractParams :: "env \<Rightarrow> unit action" where
  "ExtractParams env =
     and_then get_cur (\<lambda>dsp.
     and_then (extract_names env dsp) (\<lambda>_.
     and_then (mod_params (\<lambda>p. SetupCompiledPipelineSpecPatch
         (p\<lparr>p_mlflow := Some (extract_mlflow dsp), p_proxy_config := sp_proxy (d_spec dsp)\<rparr>))) (\<lambda>_.
     and_then (case sp_api_server (d_spec dsp) of None \<Rightarrow> ret () | Some a \<Rightarrow> extract_api_server env dsp a) (\<lambda>_.
     and_then (extract_agents env) (\<lambda>_.
     and_then (extract_workflow_controller env) (\<lambda>_.
     and_then (SetupMLMD env) (\<lambda>_.
     and_then (SetupDBParams env) (\<lambda>_.
     and_then (SetupObjectParams env) (\<lambda>_.
     SetupOwner env)))))))))"


section \<open>What it does to the outside\<close>

text \<open>The one config map that is written: named after the resource, in its namespace, owned by it.\<close>

definition own_ca_configmap :: "dspa \<Rightarrow> config_map \<Rightarrow> bool" where
  "own_ca_configmap d c \<longleftrightarrow>
     cm_name c = ''dsp-trusted-ca-'' @ d_name d \<and> cm_namespace c = d_namespace d \<and>
     cm_owner_references c =
       [\<lparr>or_api_version = d_api_version d, or_kind = d_kind d, or_name = d_name d, or_uid = d_uid d,
         or_controller = Some True, or_block_owner_deletion = Some True\<rparr>] \<and>
     (\<exists>k v. cm_data c = [(k, v)])"

fun extract_event :: "dspa \<Rightarrow> event \<Rightarrow> bool" where
  "extract_event d (Ev_Get k nn) = (k = KMLflow \<or> nn_namespace nn = d_namespace d)"
| "extract_event d (Ev_Read_File f) = True"
| "extract_event d (Ev_Create_ConfigMap c ok) = own_ca_configmap d c"
| "extract_event d (Ev_Update_ConfigMap c ok) = own_ca_configmap d c"
| "extract_event d _ = False"

text \<open>From the names on, the parameters carry the resource's name and namespace.\<close>

definition named_for :: "dspa \<Rightarrow> dspa \<Rightarrow> dspa_params \<Rightarrow> bool" where
  "named_for d0 d p \<longleftrightarrow>
     p_name p = d_name d0 \<and> p_namespace p = d_namespace d0 \<and> (d = d0 \<or> d = with_workflow_controller d0)"

lemma named_forD:
  "named_for d0 d p \<Longrightarrow> p_name p = d_name d0" "named_for d0 d p \<Longrightarrow> p_namespace p = d_namespace d0"
  by (simp_all add: named_for_def)

lemma named_for_upd:
  assumes "named_for d0 d p" "p_name q = p_name p" "p_namespace q = p_namespace p"
  shows "named_for d0 d q"
  using assms by (simp add: named_for_def)

lemma with_workflow_controller_idem [simp]:
  "with_workflow_controller (with_workflow_controller d) = with_workflow_controller d"
  by (auto simp: with_workflow_controller_def split: option.splits)

lemma with_workflow_controller_same [simp]:
  "d_name (with_workflow_controller d) = d_name d" "d_namespace (with_workflow_controller d) = d_namespace d"
  by (auto simp: with_workflow_controller_def split: option.splits)

lemma emits_nsname:
  "extract_event d (Ev_Get k (nsname (d_namespace d) n))"
  by (simp add: nsname_def)

abbreviation ex_within :: "dspa \<Rightarrow> 'a action \<Rightarrow> bool" where
  "ex_within d0 \<equiv> within (named_for d0) (extract_event d0)"

lemma within_mod_db [within_intros]:
  "(\<And>d p. J d p \<Longrightarrow> J d (p\<lparr>p_db_connection := f (p_db_connection p)\<rparr>)) \<Longrightarrow> within J P (mod_db f)"
  unfolding mod_db_def by (rule within_mod_params)

lemma within_mod_os [within_intros]:
  "(\<And>d p. J d p \<Longrightarrow> J d (p\<lparr>p_object_storage_connection := f (p_object_storage_connection p)\<rparr>)) \<Longrightarrow>
   within J P (mod_os f)"
  unfolding mod_os_def by (rule within_mod_params)

lemma ex_within_secrets [within_intros]:
  "ex_within d0 (RetrieveSecret env sn sk)"
  "ex_within d0 (RetrieveOrCreateSecret env sn sk l)"
  "ex_within d0 (RetrieveOrCreateDBSecret env s)"
  "ex_within d0 (RetrieveOrCreateObjectStoreSecret env os)"
  "ex_within d0 (retrieve_if_present env sn sk)"
proof -
  show 1: "ex_within d0 (RetrieveSecret env sn sk)" for sn sk
    unfolding RetrieveSecret_def by (intro within_intros) (simp add: nsname_def named_forD)
  show 2: "ex_within d0 (RetrieveOrCreateSecret env sn sk l)" for sn sk l
    unfolding RetrieveOrCreateSecret_def passwordGen_def by (intro within_intros 1)
  show "ex_within d0 (RetrieveOrCreateDBSecret env s)"
    unfolding RetrieveOrCreateDBSecret_def by (rule 2)
  show "ex_within d0 (RetrieveOrCreateObjectStoreSecret env os)"
    unfolding RetrieveOrCreateObjectStoreSecret_def by (intro within_intros 2)
  show "ex_within d0 (retrieve_if_present env sn sk)"
    unfolding retrieve_if_present_def by (intro within_intros 1)
qed


text \<open>Set-up of the database, the object store, MLMD and the owner.\<close>

lemma ex_within_setup [within_intros]:
  "ex_within d0 (setup_external_db env ext)" "ex_within d0 (setup_maria_db env)"
  "ex_within d0 (SetupDBParams env)"
proof -
  show 1: "ex_within d0 (setup_external_db env ext)" for ext
    unfolding setup_external_db_def by (intro within_intros; erule named_for_upd; simp)
  show 2: "ex_within d0 (setup_maria_db env)"
    unfolding setup_maria_db_def by (intro within_intros; erule named_for_upd; simp)
  show "ex_within d0 (SetupDBParams env)"
    unfolding SetupDBParams_def apply_custom_extra_params_def check_db_password_def
    by (intro within_intros 1 2; erule named_for_upd; simp)
qed

lemma ex_within_objects [within_intros]:
  "ex_within d0 (setup_external_storage env e)" "ex_within d0 (setup_minio env dsp)"
  "ex_within d0 (setup_external_route env dsp)" "ex_within d0 (SetupObjectParams env)"
proof -
  show 1: "ex_within d0 (setup_external_storage env e)" for e
    unfolding setup_external_storage_def by (intro within_intros; erule named_for_upd; simp)
  show 2: "ex_within d0 (setup_minio env dsp)" for dsp
    unfolding setup_minio_def by (intro within_intros; (erule named_for_upd; simp)?)
  show 3: "ex_within d0 (setup_external_route env dsp)" for dsp
    unfolding setup_external_route_def RetrieveAndSetExternalRoute_def
    by (intro within_intros; (erule named_for_upd; simp)?) (simp add: nsname_def named_forD)
  show "ex_within d0 (SetupObjectParams env)"
    unfolding SetupObjectParams_def check_object_credentials_def
    by (intro within_intros 1 2 3; erule named_for_upd; simp)
qed

lemma ex_within_rest [within_intros]:
  "ex_within d0 (SetupMLMD env)" "ex_within d0 (extract_agents env)"
  "ex_within d0 (extract_workflow_controller env)"
proof -
  show "ex_within d0 (SetupMLMD env)"
    unfolding SetupMLMD_def by (intro within_intros; erule named_for_upd; simp)
  show "ex_within d0 (extract_agents env)"
    unfolding extract_agents_def by (intro within_intros; erule named_for_upd; simp)
  show "ex_within d0 (extract_workflow_controller env)"
    unfolding extract_workflow_controller_def by (intro within_intros) (auto simp: named_for_def)
qed

text \<open>The resource keeps its name, so that the owner's fields are those of the resource.\<close>

lemma ex_within_owner: "ex_within d0 (SetupOwner env)"
  unfolding SetupOwner_def by (intro within_intros) (auto simp: named_for_def)

lemma ex_within_mod_api [within_intros]: "ex_within d0 (mod_api f)"
  unfolding mod_api_def by (intro within_intros; erule named_for_upd; simp)

lemma ex_within_mlflow_cache: "within J P (mod_mlflow_cache f)"
  by (auto simp: within_def mod_mlflow_cache_def modify_op_def cur_dspa_def split: option.splits)

lemma ex_within_mlflow [within_intros]:
  "ex_within d0 (retrieveMLflowEndpointCached env ns)"
  "ex_within d0 (build_mlflow_plugin env a e)" "ex_within d0 (extract_mlflow_plugin env a)"
proof -
  show 1: "ex_within d0 (retrieveMLflowEndpointCached env ns)" for ns
    unfolding retrieveMLflowEndpointCached_def lookupMLflowEndpoint_def
    by (intro within_intros ex_within_mlflow_cache) simp
  show 2: "ex_within d0 (build_mlflow_plugin env a e)" for e
    unfolding build_mlflow_plugin_def api_server_external_url_def GetRouteHostname_def GetServiceHostname_def
      GetRouteIfAvailable_def GetServiceIfAvailable_def
    by (intro within_intros; (erule named_for_upd; simp)?; simp add: nsname_def named_forD)
  show "ex_within d0 (extract_mlflow_plugin env a)"
    unfolding extract_mlflow_plugin_def IsAPIServerDeploymentReady_def
    by (intro within_intros 1 2; (erule named_for_upd; simp)?; simp add: nsname_def named_forD)
qed

lemma ex_within_configs [within_intros]:
  "ex_within d0 (extract_managed_pipelines env mp)" "ex_within d0 (extract_launcher_config env a)"
  "ex_within d0 (extract_global_ca env)" "ex_within d0 (extract_user_ca env a)"
  "ex_within d0 (extract_service_ca env)" "ex_within d0 (extract_ca_paths a)"
proof -
  show "ex_within d0 (extract_managed_pipelines env mp)"
    unfolding extract_managed_pipelines_def Let_def by (intro within_intros; erule named_for_upd; simp)
  show "ex_within d0 (extract_launcher_config env a)"
    unfolding extract_launcher_config_def GetConfigMap_def
    by (intro within_intros; (erule named_for_upd; simp)?; simp add: nsname_def named_forD)
  show "ex_within d0 (extract_global_ca env)"
    unfolding extract_global_ca_def GetConfigMap_def add_pem_def
    by (intro within_intros; (erule named_for_upd; simp)?; simp add: nsname_def named_forD)
  show "ex_within d0 (extract_user_ca env a)"
    unfolding extract_user_ca_def GetConfigMap_def add_pem_def
    by (intro within_intros; (erule named_for_upd; simp)?; simp add: nsname_def named_forD)
  show "ex_within d0 (extract_service_ca env)"
    unfolding extract_service_ca_def GetConfigMap_def add_pem_def
    by (intro within_intros; (erule named_for_upd; simp)?; simp add: nsname_def named_forD)
  show "ex_within d0 (extract_ca_paths a)"
    unfolding extract_ca_paths_def by (intro within_intros; erule named_for_upd; simp add: Let_def)
qed

lemma ex_within_publish [within_intros]: "ex_within d0 (publish_ca_bundle env d0 a b)"
  unfolding publish_ca_bundle_def add_system_certs_def write_ca_bundle_def Let_def create_or_update_configmap_def add_pem_def GetSystemCerts_def
  by (intro within_intros; (erule named_for_upd; simp)?; simp add: named_forD own_ca_configmap_def ca_configmap_def config_consts)

lemma ex_within_api_rest [within_intros]: "ex_within d0 (extract_api_rest env d0 a)"
  unfolding extract_api_rest_def extract_workspace_def
  by (intro within_intros; erule named_for_upd; simp)

lemma ex_within_api_server [within_intros]: "ex_within d0 (extract_api_server env d0 a)"
  unfolding extract_api_server_def extract_api_images_def extract_server_config_def
  by (intro within_intros)


lemma extract_names_run:
  assumes "extract_names env dsp w = (r, w')"
  shows "w_history w' = w_history w" "cur_dspa w' = cur_dspa w"
    "r = Ok () \<Longrightarrow> p_name (w_params w') = d_name dsp \<and> p_namespace (w_params w') = d_namespace dsp"
  using assms
  by (auto simp: extract_names_def Let_def and_then_def attempt_def mod_params_def modify_op_def deref_def
      panic_def ret_def fail_def split: option.splits)

lemma wp_create_or_update:
  assumes "\<And>r h. (r = Ok () \<Longrightarrow> h = [Ev_Create_ConfigMap c True] \<or>
      h = [Ev_Create_ConfigMap c False, Ev_Update_ConfigMap c True]) \<Longrightarrow> Q r (w\<lparr>w_history := w_history w @ h\<rparr>)"
  shows "wp (create_or_update_configmap env c) Q w"
  unfolding create_or_update_configmap_def
  by (auto simp: wp_rules create_config_map_def update_config_map_def call_opt_def log_event_def
      split: sum.splits option.splits intro!: assms)

text \<open>What publishing leaves: the state, the certificates in all and the events.\<close>

lemma wp_GetSystemCerts:
  assumes "\<And>r h. Q r (w\<lparr>w_history := w_history w @ h\<rparr>)"
  shows "wp (GetSystemCerts env) Q w"
  by (simp add: GetSystemCerts_def Let_def wp_call log_event_def assms split: sum.split)

lemma add_system_certs_run:
  "wp (add_system_certs env known)
     (\<lambda>r w1. \<exists>extra h. (if known then extra = [] else length extra \<le> 1) \<and>
        w1 = w\<lparr>w_history := w_history w @ h,
          w_params := (w_params w)\<lparr>p_api_custom_pem_certs := p_api_custom_pem_certs (w_params w) @ extra\<rparr>\<rparr>) w"
proof (cases known)
  case True
  then show ?thesis by (auto simp: add_system_certs_def wp_rules intro!: exI [of _ "[]"])
next
  case False
  let ?P = "\<lambda>w1. \<exists>extra h. length extra \<le> 1 \<and>
      w1 = w\<lparr>w_history := w_history w @ h,
        w_params := (w_params w)\<lparr>p_api_custom_pem_certs := p_api_custom_pem_certs (w_params w) @ extra\<rparr>\<rparr>"
  have none: "?P (w\<lparr>w_history := w_history w @ h\<rparr>)" for h
    by (rule exI [of _ "[]"], rule exI [of _ h]) simp
  have one: "?P (w\<lparr>w_history := w_history w @ h,
        w_params := (w_params w)\<lparr>p_api_custom_pem_certs := p_api_custom_pem_certs (w_params w) @ [c]\<rparr>\<rparr>)" for h c
    by (rule exI [of _ "[c]"], rule exI [of _ h]) simp
  show ?thesis
    unfolding add_system_certs_def if_not_P [OF False] wp_and_then using none one
    by (intro wp_GetSystemCerts) (auto simp: res_case_def wp_rules add_pem_def split: res.split)
qed

lemma write_ca_bundle_run:
  "wp (write_ca_bundle env d b)
     (\<lambda>r w'. res_case (\<lambda>_. (\<exists>cm. cm = ca_configmap d (w_params w) b \<and>
          (w_history w' = w_history w @ [Ev_Create_ConfigMap cm True] \<or>
           w_history w' = w_history w @ [Ev_Create_ConfigMap cm False, Ev_Update_ConfigMap cm True])) \<and>
        w_params w' = (w_params w)\<lparr>p_custom_ca_bundle := Some b,
          p_custom_ssl_cert_dir := Some (p_custom_ca_bundle_root_mount_path (w_params w) @
            '':/etc/ssl/certs:/etc/pki/tls/certs'')\<rparr>) (\<lambda>_. True) (\<lambda>_. True) r) w"
  unfolding write_ca_bundle_def
  by (simp add: wp_and_then wp_state, rule wp_create_or_update)
    (auto simp: res_case_def wp_state ca_configmap_def split: res.split)

lemma ExtractParams_frame:
  "case ExtractParams env w of
     (r, w') \<Rightarrow>
       (\<exists>evs. w_history w' = w_history w @ evs \<and> list_all (extract_event (cur_dspa w)) evs) \<and>
       cur_dspa w' \<in> {cur_dspa w, with_workflow_controller (cur_dspa w)}"
proof -
  let ?d = "cur_dspa w"
  let ?rest = "and_then (mod_params (\<lambda>p. SetupCompiledPipelineSpecPatch
         (p\<lparr>p_mlflow := Some (extract_mlflow ?d), p_proxy_config := sp_proxy (d_spec ?d)\<rparr>))) (\<lambda>_.
     and_then (case sp_api_server (d_spec ?d) of None \<Rightarrow> ret () | Some a \<Rightarrow> extract_api_server env ?d a) (\<lambda>_.
     and_then (extract_agents env) (\<lambda>_.
     and_then (extract_workflow_controller env) (\<lambda>_.
     and_then (SetupMLMD env) (\<lambda>_.
     and_then (SetupDBParams env) (\<lambda>_.
     and_then (SetupObjectParams env) (\<lambda>_.
     SetupOwner env)))))))"
  define rest where "rest = ?rest"
  have within: "ex_within ?d rest" unfolding rest_def
    by (intro within_intros ex_within_owner) (erule named_for_upd; simp add: SetupCompiledPipelineSpecPatch_def)
  have run: "ExtractParams env w = and_then (extract_names env ?d) (\<lambda>_. rest) w"
    unfolding rest_def by (simp only: ExtractParams_def and_then_get)
  obtain r1 w1 where names: "extract_names env ?d w = (r1, w1)" by fastforce
  note n = extract_names_run [OF names]
  show ?thesis
  proof (cases r1)
    case (Ok u)
    obtain r w' where fin: "rest w1 = (r, w')" by fastforce
    have "named_for ?d (cur_dspa w1) (w_params w1)"
      using n Ok by (simp add: named_for_def)
    from withinD [OF within this fin] have post: "\<exists>evs. w_history w' = w_history w1 @ evs \<and> list_all (extract_event ?d) evs"
      "named_for ?d (cur_dspa w') (w_params w')" by auto
    have "ExtractParams env w = (r, w')"
      unfolding run by (simp add: and_then_run [of "extract_names env ?d" w, OF names] Ok fin)
    with post n(1) show ?thesis by (simp add: named_for_def)
  next
    case (Err e)
    have "ExtractParams env w = (Err e, w1)" unfolding run by (simp add: and_then_run [of "extract_names env ?d" w, OF names] Err)
    with n show ?thesis by simp
  next
    case (Panic q)
    have "ExtractParams env w = (Panic q, w1)" unfolding run by (simp add: and_then_run [of "extract_names env ?d" w, OF names] Panic)
    with n show ?thesis by simp
  qed
qed

section \<open>Properties\<close>

text \<open>
  C29: What computing the parameters does to the cluster.  \<open>ExtractParams\<close> reads secrets, config maps,
  services, routes and deployments of the resource's own namespace only (and the MLflow resource), and
  the only objects it writes are the \<open>dsp-trusted-ca-<name>\<close> config map of that namespace, with the
  resource as its owner.  The resource itself is left as it is, up to the workflow controller a
  resource without one gets.
\<close>

theorem ExtractParams_writes:
  "case ExtractParams env w of
     (r, w') \<Rightarrow>
       (\<exists>evs. w_history w' = w_history w @ evs \<and> list_all (extract_event (cur_dspa w)) evs) \<and>
       cur_dspa w' \<in> {cur_dspa w, with_workflow_controller (cur_dspa w)}"
  by (rule ExtractParams_frame)


text \<open>
  The image of the managed-pipelines init container.  Defaulting succeeds only with an image that
  is neither empty nor the placeholder: the resource's own, without surrounding white space, or the
  operator's.  When there is none the error is the one that stands for a missing image; and there is
  never a panic.  The pipelines are kept and the volume has a size limit.
\<close>

lemma managed_pipelines_image_resolved:
  "case extract_managed_pipelines env mp w of
     (r, w') \<Rightarrow>
       (let image = (if trim_space (mps_image mp) = ''''
                     then GetStringConfigWithDefault (e_viper env) ''Images.PipelinesComponents'' ''MustSetInConfig''
                     else trim_space (mps_image mp)) in
        (if image = '''' \<or> image = ''MustSetInConfig''
         then (\<exists>e. r = Err e \<and> is_sentinel ErrManagedPipelinesImageUnset e)
         else
           (case r of
              Ok _ \<Rightarrow>
                (case p_api_server (w_params w') of
                   None \<Rightarrow> p_api_server (w_params w) = None
                 | Some a \<Rightarrow>
                     (case as_managed_pipelines a of
                        None \<Rightarrow> False
                      | Some m \<Rightarrow> mps_image m = image \<and> mps_pipelines m = mps_pipelines mp \<and>
                          mps_volume_size_limit m \<noteq> ''''))
            | Err e \<Rightarrow> True
            | Panic s \<Rightarrow> False)))"
proof -
  have keep: "mps_image (ensureManagedPipelinesInitResourceDefaults m) = mps_image m"
    "mps_pipelines (ensureManagedPipelinesInitResourceDefaults m) = mps_pipelines m"
    "ensureManagedPipelinesVolumeSizeLimit env m = Inr m' \<Longrightarrow>
       mps_image m' = mps_image m \<and> mps_pipelines m' = mps_pipelines m \<and> mps_volume_size_limit m' \<noteq> ''''" for m m'
    by (auto simp: ensureManagedPipelinesInitResourceDefaults_def ensureManagedPipelinesVolumeSizeLimit_def config_consts
        split: option.splits if_splits sum.splits)
  define image where "image = managed_pipelines_image env mp"
  define mp1 where "mp1 = ensureManagedPipelinesInitResourceDefaults (mp\<lparr>mps_image := image\<rparr>)"
  have spec: "(if trim_space (mps_image mp) = ''''
      then GetStringConfigWithDefault (e_viper env) ''Images.PipelinesComponents'' ''MustSetInConfig''
      else trim_space (mps_image mp)) = image"
    by (simp add: image_def managed_pipelines_image_def setStringDefault_def config_consts)
  note run = extract_managed_pipelines_def Let_def image_def [symmetric] mp1_def [symmetric] DefaultImageValue_def
  have mp1: "mps_image mp1 = image" "mps_pipelines mp1 = mps_pipelines mp"
    by (simp_all add: mp1_def keep)
  show ?thesis
    unfolding spec Let_def wp_def [symmetric]
  proof (cases "image = '''' \<or> image = ''MustSetInConfig''", goal_cases)
    case 1
    then show ?case by (auto simp: run wp_rules mod_api_def managed_image_unset_def)
  next
    case 2
    show ?case
    proof (cases "ensureManagedPipelinesVolumeSizeLimit env mp1")
      case (Inl e)
      with 2 show ?thesis by (simp add: run wp_rules mod_api_def)
    next
      case (Inr mp2)
      note k = keep(3) [OF this]
      show ?thesis
        by (cases "ManagedPipelineImageEnvFromEnviron (e_environ env)"; cases "p_api_server (w_params w)")
          (use 2 Inr k mp1 in \<open>simp_all add: run wp_and_then wp_ret wp_if wp_of_sum wp_state mod_api_def\<close>)
    qed
  qed
qed

end
