(* ===== verification/Manifests.thy ===== *)
theory Manifests imports Util Sample_Env begin

text \<open>
  Loading, applying and deleting manifest templates: \<open>Manifest\<close> and \<open>PathTemplateSource\<close> of
  \<open>controllers/config\<close>, and the \<open>Apply*\<close> and \<open>Delete*\<close> methods of
  \<open>controllers/dspipeline_controller.go\<close>.  Reading files, executing a template, parsing the result,
  manifestival's Transform, Apply and Delete are parameters; the order of the steps, the
  transformers and the error handling are the code's.
\<close>

definition PathTemplateSource :: "env \<Rightarrow> string \<Rightarrow> dspa_params \<Rightarrow> string action" where
  "PathTemplateSource env path context =
     and_then (call (\<lambda>h. e_read_file env h (prefixedPath (e_path_prefix env) path))
                 (\<lambda>ok. Ev_Read_File (prefixedPath (e_path_prefix env) path))) (\<lambda>src.
     of_sum (e_execute_template env src context))"

definition Manifest :: "env \<Rightarrow> string \<Rightarrow> dspa_params \<Rightarrow> json list action" where
  "Manifest env templatePath context =
     and_then (PathTemplateSource env templatePath context) (\<lambda>pathTmplSrc.
     of_sum (e_manifest_from env pathTmplSrc))"

definition loading_error :: "string \<Rightarrow> gerr \<Rightarrow> gerr" where
  "loading_error template err = Wrap_Err (''error loading template ('' @ template @ '') yaml: '') err ''''"

definition owner_transformers :: "env \<Rightarrow> apply_owner \<Rightarrow> string \<Rightarrow> (json \<Rightarrow> gerr + json) list" where
  "owner_transformers env ow dspVersion =
     [e_inject_owner env ow,
      AddLabelTransformer env DSPVersionk8sLabel dspVersion,
      AddDeploymentPodLabelTransformer env DSPVersionk8sLabel dspVersion]"

definition Apply :: "env \<Rightarrow> apply_owner \<Rightarrow> string \<Rightarrow> (json \<Rightarrow> gerr + json) list \<Rightarrow> unit action" where
  "Apply env ow template fns =
     and_then get_params (\<lambda>params.
     and_then (wrap_err (loading_error template) (Manifest env (e_templates_path env @ template) params)) (\<lambda>m.
     and_then (of_sum (e_transform env (owner_transformers env ow (p_dsp_version params)) m)) (\<lambda>m1.
     and_then (of_sum (e_transform env fns m1)) (\<lambda>m2.
     call_opt (\<lambda>h. e_apply_manifest env h m2) (Ev_Apply (Some ow) template m2)))))"

fun ApplyAll :: "env \<Rightarrow> apply_owner \<Rightarrow> string list \<Rightarrow> unit action" where
  "ApplyAll env ow [] = ret ()"
| "ApplyAll env ow (template # templates) =
     and_then (Apply env ow template []) (\<lambda>_. ApplyAll env ow templates)"

definition ApplyDir :: "env \<Rightarrow> apply_owner \<Rightarrow> string \<Rightarrow> unit action" where
  "ApplyDir env ow directory =
     and_then (GetTemplatesInDir env (e_templates_path env) directory) (ApplyAll env ow)"

definition ApplyWithoutOwner :: "env \<Rightarrow> string \<Rightarrow> (json \<Rightarrow> gerr + json) list \<Rightarrow> unit action" where
  "ApplyWithoutOwner env template fns =
     and_then get_params (\<lambda>params.
     and_then (wrap_err (loading_error template) (Manifest env (e_templates_path env @ template) params)) (\<lambda>m.
     and_then (of_sum (e_transform env fns m)) (\<lambda>m1.
     call_opt (\<lambda>h. e_apply_manifest env h m1) (Ev_Apply None template m1))))"

definition DeleteResource :: "env \<Rightarrow> string \<Rightarrow> (json \<Rightarrow> gerr + json) list \<Rightarrow> unit action" where
  "DeleteResource env template fns =
     and_then get_params (\<lambda>params.
     and_then (wrap_err (loading_error template) (Manifest env (e_templates_path env @ template) params)) (\<lambda>m.
     and_then (of_sum (e_transform env fns m)) (\<lambda>m1.
     call_opt (\<lambda>h. e_delete_manifest env h m1) (Ev_Delete_Manifest template m1))))"

fun DeleteResourceAll :: "env \<Rightarrow> string list \<Rightarrow> unit action" where
  "DeleteResourceAll env [] = ret ()"
| "DeleteResourceAll env (template # templates) =
     attempt (DeleteResource env template [])
       (\<lambda>err. if \<not> is_not_found err then fail err else DeleteResourceAll env templates)
       (\<lambda>_. DeleteResourceAll env templates)"

definition DeleteResourceDir :: "env \<Rightarrow> string \<Rightarrow> unit action" where
  "DeleteResourceDir env directory =
     and_then (GetTemplatesInDir env (e_templates_path env) directory) (DeleteResourceAll env)"

definition DeleteResourceIfItExists :: "env \<Rightarrow> obj_kind \<Rightarrow> namespaced_name \<Rightarrow> unit action" where
  "DeleteResourceIfItExists env k nn =
     attempt (call_opt (\<lambda>h. e_get_object env h k nn) (\<lambda>ok. Ev_Get k nn))
       (\<lambda>err. if is_not_found err then ret () else fail err)
       (\<lambda>_. call_opt (\<lambda>h. e_delete_object env h k nn) (Ev_Delete_Object k nn))"

section \<open>Running a list of templates\<close>

text \<open>
  Both loops over templates stop at the first error they do not tolerate; they differ in what they
  tolerate.  The lemmas are proved once, for the shared contract.
\<close>

locale template_runner =
  fixes run :: "string \<Rightarrow> unit action"
    and tolerated :: "gerr \<Rightarrow> bool"
    and run_all :: "string list \<Rightarrow> unit action"
  assumes run_all_nil: "run_all [] = ret ()"
    and run_all_cons:
      "run_all (t # ts) =
         attempt (run t) (\<lambda>e. if tolerated e then run_all ts else fail e) (\<lambda>_. run_all ts)"
begin

lemma emits_run_all: "(\<And>t. t \<in> set ts \<Longrightarrow> emits P (run t)) \<Longrightarrow> emits P (run_all ts)"
  by (induction ts) (auto simp: run_all_nil run_all_cons intro!: emits_intros)

lemma run_all_append: "run_all (ts @ us) = and_then (run_all ts) (\<lambda>_. run_all us)"
  by (induction ts)
    (auto simp: run_all_nil run_all_cons and_then_def attempt_def ret_def fail_def fun_eq_iff
      split: prod.splits res.splits)

text \<open>An error that comes out was not tolerated, and the templates after it were not run.\<close>

lemma run_all_error:
  assumes "run_all ts w = (Err e, w')"
  shows "\<not> tolerated e \<and> (\<exists>us t vs w1. ts = us @ t # vs \<and> run_all us w = (Ok (), w1) \<and> run t w1 = (Err e, w'))"
  using assms
proof (induction ts arbitrary: w)
  case (Cons t ts)
  obtain r w1 where run: "run t w = (r, w1)" by fastforce
  have skip: "\<exists>us t' vs w2. t # ts = us @ t' # vs \<and> run_all us w = (Ok (), w2) \<and> run t' w2 = (Err e, w')"
    if go: "\<And>us. run_all (t # us) w = run_all us w1" and rest: "run_all ts w1 = (Err e, w')"
  proof -
    from Cons.IH [OF rest] obtain us t' vs w2 where
      "ts = us @ t' # vs" "run_all us w1 = (Ok (), w2)" "run t' w2 = (Err e, w')" by blast
    then show ?thesis
      by (intro exI [of _ "t # us"] exI [of _ t'] exI [of _ vs] exI [of _ w2]) (simp add: go)
  qed
  show ?case
  proof (cases r)
    case (Ok a)
    with run have go: "run_all (t # us) w = run_all us w1" for us
      by (simp add: run_all_cons attempt_def)
    with Cons.prems have "run_all ts w1 = (Err e, w')" by simp
    with skip [OF go] Cons.IH show ?thesis by blast
  next
    case (Err e1)
    show ?thesis
    proof (cases "tolerated e1")
      case True
      with Err run have go: "run_all (t # us) w = run_all us w1" for us
        by (simp add: run_all_cons attempt_def)
      with Cons.prems have "run_all ts w1 = (Err e, w')" by simp
      with skip [OF go] Cons.IH show ?thesis by blast
    next
      case False
      with Err run Cons.prems have "e = e1 \<and> w' = w1"
        by (simp add: run_all_cons attempt_def fail_def)
      moreover have "run_all [] w = (Ok (), w)" "t # ts = [] @ t # ts"
        by (simp_all add: run_all_nil ret_def)
      ultimately show ?thesis using False Err run by blast
    qed
  next
    case (Panic p)
    with run Cons.prems show ?thesis by (simp add: run_all_cons attempt_def)
  qed
qed (simp add: run_all_nil ret_def)

end

interpretation apply_all: template_runner "\<lambda>t. Apply env ow t []" "\<lambda>_. False" "ApplyAll env ow"
  for env ow
  by unfold_locales (simp_all add: and_then_def)

interpretation delete_all: template_runner "\<lambda>t. DeleteResource env t []" is_not_found "DeleteResourceAll env"
  for env
proof unfold_locales
  fix t ts
  have "(\<lambda>e. if \<not> is_not_found e then fail e else DeleteResourceAll env ts) =
        (\<lambda>e. if is_not_found e then DeleteResourceAll env ts else fail e)"
    by (rule ext) simp
  then show "DeleteResourceAll env (t # ts) =
      attempt (DeleteResource env t []) (\<lambda>e. if is_not_found e then DeleteResourceAll env ts else fail e)
        (\<lambda>_. DeleteResourceAll env ts)"
    by simp
qed simp

section \<open>Lemmas\<close>

text \<open>The events of a manifest call: template and directory reads, and the write itself.\<close>

fun manifest_event :: "(string \<Rightarrow> bool) \<Rightarrow> apply_owner option \<Rightarrow> event \<Rightarrow> bool" where
  "manifest_event T ow (Ev_Read_File f) = True"
| "manifest_event T ow (Ev_Read_Dir f) = True"
| "manifest_event T ow (Ev_Apply ow' t os ok) = (ow' = ow \<and> T t)"
| "manifest_event T ow _ = False"

lemma emits_Manifest [emits_intros]: "(\<And>f. P (Ev_Read_File f)) \<Longrightarrow> emits P (Manifest env t p)"
  unfolding Manifest_def PathTemplateSource_def by (intro emits_intros)

lemma emits_Apply [emits_intros]:
  "(\<And>f. P (Ev_Read_File f)) \<Longrightarrow> (\<And>os ok. P (Ev_Apply (Some ow) t os ok)) \<Longrightarrow> emits P (Apply env ow t fns)"
  unfolding Apply_def by (intro emits_intros)

lemma emits_ApplyWithoutOwner [emits_intros]:
  "(\<And>f. P (Ev_Read_File f)) \<Longrightarrow> (\<And>os ok. P (Ev_Apply None t os ok)) \<Longrightarrow> emits P (ApplyWithoutOwner env t fns)"
  unfolding ApplyWithoutOwner_def by (intro emits_intros)

lemma emits_DeleteResource [emits_intros]:
  "(\<And>f. P (Ev_Read_File f)) \<Longrightarrow> (\<And>os ok. P (Ev_Delete_Manifest t os ok)) \<Longrightarrow> emits P (DeleteResource env t fns)"
  unfolding DeleteResource_def by (intro emits_intros)

lemma emits_ApplyAll [emits_intros]:
  assumes "\<And>f. P (Ev_Read_File f)" "\<And>t os ok. P (Ev_Apply (Some ow) t os ok)"
  shows "emits P (ApplyAll env ow ts)"
  by (rule apply_all.emits_run_all) (intro emits_intros assms)

lemma emits_ApplyDir [emits_intros]:
  assumes "\<And>f. P (Ev_Read_File f)" "\<And>f. P (Ev_Read_Dir f)" "\<And>t os ok. P (Ev_Apply (Some ow) t os ok)"
  shows "emits P (ApplyDir env ow dir)"
  unfolding ApplyDir_def by (intro emits_intros assms)

lemma emits_DeleteResourceDir [emits_intros]:
  assumes "\<And>f. P (Ev_Read_File f)" "\<And>f. P (Ev_Read_Dir f)" "\<And>t os ok. P (Ev_Delete_Manifest t os ok)"
  shows "emits P (DeleteResourceDir env dir)"
  unfolding DeleteResourceDir_def
  by (intro emits_intros assms delete_all.emits_run_all)

lemma emits_DeleteResourceIfItExists [emits_intros]:
  "P (Ev_Get k nn) \<Longrightarrow> (\<And>ok. P (Ev_Delete_Object k nn ok)) \<Longrightarrow> emits P (DeleteResourceIfItExists env k nn)"
  unfolding DeleteResourceIfItExists_def by (intro emits_intros)

lemma reads_manifest [reads_intros]:
  "reads (Manifest env t p)" "reads (Apply env ow t fns)" "reads (ApplyWithoutOwner env t fns)"
  "reads (DeleteResource env t fns)" "reads (DeleteResourceIfItExists env k nn)"
  unfolding Manifest_def PathTemplateSource_def Apply_def ApplyWithoutOwner_def DeleteResource_def
    DeleteResourceIfItExists_def
  by (intro reads_intros)+

lemma reads_ApplyAll [reads_intros]: "reads (ApplyAll env ow ts)"
  by (induction ts) (auto intro!: reads_intros)

lemma reads_DeleteResourceAll [reads_intros]: "reads (DeleteResourceAll env ts)"
  by (induction ts) (auto intro!: reads_intros)

lemma reads_dirs [reads_intros]: "reads (ApplyDir env ow dir)" "reads (DeleteResourceDir env dir)"
  unfolding ApplyDir_def DeleteResourceDir_def by (intro reads_intros)+

section \<open>Labels of applied objects\<close>

definition run_transformers :: "(json \<Rightarrow> gerr + json) list \<Rightarrow> json \<Rightarrow> gerr + json" where
  "run_transformers fns obj = fold (\<lambda>f r. case r of Inl e \<Rightarrow> Inl e | Inr ob \<Rightarrow> f ob) fns (Inr obj)"

text \<open>
  What is documented of the libraries here: Transform passes every object through the transformers
  in turn and fails if one does; an accessor returns what was set, and setting the labels of an
  object or of its pod template changes neither its kind nor the other labels.
\<close>

definition manifest_library :: "env \<Rightarrow> bool" where
  "manifest_library env \<longleftrightarrow>
     (\<forall>fns objs out. e_transform env fns objs = Inr out \<longrightarrow>
        list_all2 (\<lambda>ob o'. run_transformers fns ob = Inr o') objs out) \<and>
     (\<forall>ls ob. e_get_labels env (e_set_labels env ls ob) = Some ls) \<and>
     (\<forall>ob m o'. e_set_nested_string_map env ob m pod_labels_path = Inr o' \<longrightarrow>
        e_get_labels env o' = e_get_labels env ob \<and> e_object_kind env o' = e_object_kind env ob \<and>
        e_nested_string_map env o' pod_labels_path = Inr (m, True))"

text \<open>The label on an object, and for a Deployment also on its pods.\<close>

definition has_version_label :: "env \<Rightarrow> string \<Rightarrow> json \<Rightarrow> bool" where
  "has_version_label env v ob \<longleftrightarrow>
     (case e_get_labels env ob of None \<Rightarrow> False | Some ls \<Rightarrow> map_of ls DSPVersionk8sLabel = Some v) \<and>
     (e_object_kind env ob \<noteq> ''Deployment'' \<or>
       (case e_nested_string_map env ob pod_labels_path of
          Inl e \<Rightarrow> False
        | Inr (ls, found) \<Rightarrow> found \<and> map_of ls DSPVersionk8sLabel = Some v))"

fun labelled :: "env \<Rightarrow> string \<Rightarrow> event \<Rightarrow> bool" where
  "labelled env v (Ev_Apply (Some ow) t objs ok) = list_all (has_version_label env v) objs"
| "labelled env v _ = True"

lemma owner_transformers_label:
  assumes lib: "manifest_library env"
    and run: "run_transformers (owner_transformers env ow v) obj = Inr obj'"
  shows "has_version_label env v obj'"
proof -
  obtain o1 where "e_inject_owner env ow obj = Inr o1"
    using run by (auto simp: run_transformers_def owner_transformers_def split: sum.splits)
  then obtain ls where lab: "AddDeploymentPodLabelTransformer env DSPVersionk8sLabel v
      (e_set_labels env (map_put DSPVersionk8sLabel v ls) o1) = Inr obj'"
    using run by (auto simp: run_transformers_def owner_transformers_def AddLabelTransformer_def Let_def)
  let ?o = "e_set_labels env (map_put DSPVersionk8sLabel v ls) o1"
  have get: "e_get_labels env ?o = Some (map_put DSPVersionk8sLabel v ls)"
    using lib by (simp add: manifest_library_def)
  show ?thesis
  proof (cases "e_object_kind env ?o = ''Deployment''")
    case True
    with lab obtain m where "e_set_nested_string_map env ?o (map_put DSPVersionk8sLabel v m) pod_labels_path = Inr obj'"
      by (auto simp: AddDeploymentPodLabelTransformer_def split: sum.splits prod.splits if_splits)
    with lib have "e_get_labels env obj' = e_get_labels env ?o"
      "e_nested_string_map env obj' pod_labels_path = Inr (map_put DSPVersionk8sLabel v m, True)"
      unfolding manifest_library_def by blast+
    with get show ?thesis by (simp add: has_version_label_def)
  next
    case False
    with lab have "obj' = ?o" by (simp add: AddDeploymentPodLabelTransformer_def)
    with get False show ?thesis by (simp add: has_version_label_def)
  qed
qed

lemma transform_labels:
  assumes lib: "manifest_library env"
    and "e_transform env (owner_transformers env ow v) m = Inr m1" "e_transform env [] m1 = Inr m2"
  shows "list_all (has_version_label env v) m2"
proof -
  have "list_all2 (\<lambda>ob o'. run_transformers (owner_transformers env ow v) ob = Inr o') m m1"
    "list_all2 (\<lambda>ob o'. run_transformers [] ob = Inr o') m1 m2"
    using assms unfolding manifest_library_def by blast+
  moreover have "m2 = m1"
    using calculation(2) by (simp add: run_transformers_def flip: list_all2_eq)
  ultimately show ?thesis
    using owner_transformers_label [OF lib]
    by (auto simp: list_all_length list_all2_conv_all_nth)
qed

section \<open>What an application labels\<close>

text \<open>
  Every object the operator applies for an owner carries the label \<open>dsp-version\<close> with the
  version of the parameters, a Deployment also on its pod template, whether the call succeeds or
  fails half way.
\<close>

lemma Apply_labelled:
  assumes "manifest_library env"
  shows "\<exists>evs. w_history (snd (Apply env ow template [] w)) = w_history w @ evs
             \<and> list_all (labelled env (p_dsp_version (w_params w))) evs"
proof -
  let ?v = "p_dsp_version (w_params w)"
  let ?load = "wrap_err (loading_error template) (Manifest env (e_templates_path env @ template) (w_params w))"
  obtain r w1 where load: "?load w = (r, w1)" by fastforce
  have "emits (labelled env ?v) ?load"
    by (intro emits_intros) simp
  from emitsD [OF this load] obtain evs where
    evs: "w_history w1 = w_history w @ evs" "list_all (labelled env ?v) evs" by blast
  show ?thesis
  proof (cases "\<exists>m m1 m2. r = Ok m \<and> e_transform env (owner_transformers env ow ?v) m = Inr m1
                       \<and> e_transform env [] m1 = Inr m2")
    case True
    then obtain m m1 m2 where ok: "r = Ok m" "e_transform env (owner_transformers env ow ?v) m = Inr m1"
      "e_transform env [] m1 = Inr m2" by blast
    with transform_labels [OF assms] have lab: "list_all (has_version_label env ?v) m2" by blast
    show ?thesis
      using load evs ok lab
      by (auto simp: Apply_def and_then_def attempt_def get_params_def gets_op_def of_sum_def ret_def
          call_opt_def call_def log_event_def split: option.splits)
  next
    case False
    then have "snd (Apply env ow template [] w) = w1"
      using load
      by (auto simp: Apply_def and_then_def attempt_def get_params_def gets_op_def of_sum_def ret_def
          fail_def split: res.splits sum.splits)
    with evs show ?thesis by auto
  qed
qed

lemma sample_transform_all2:
  "sample_transform fns objs = Inr out \<Longrightarrow> list_all2 (\<lambda>ob o'. run_transformers fns ob = Inr o') objs out"
proof (induction objs arbitrary: out)
  case (Cons obj objs)
  then obtain x xs where "run_transformers fns obj = Inr x" "sample_transform fns objs = Inr xs" "out = x # xs"
    by (auto simp: sample_transform_def run_transformers_def split: sum.splits)
  with Cons.IH show ?case by simp
qed (simp add: sample_transform_def)

lemma manifest_library_sample: "manifest_library sample_env"
  unfolding manifest_library_def
  by (auto simp: sample_env_def sample_transform_all2 pod_labels_path_def json_at_put_other
      simp del: json_at.simps json_put.simps)

end
