(* ===== verification/Applied.thy ===== *)
theory Applied imports Manifests Frame_Rules begin

text \<open>
  Which templates an operation has applied when it succeeds, and the rules to compute that list along
  the combinators: the contract between the controller and the components it deploys.
\<close>

named_theorems applies_intros \<open>templates applied by a successful operation\<close>

text \<open>The templates applied with success in a history, in order.\<close>

fun applied_template :: "event \<Rightarrow> string option" where
  "applied_template (Ev_Apply ow t os ok) = (if ok then Some t else None)"
| "applied_template _ = None"

definition applied :: "history \<Rightarrow> string list" where
  "applied h = List.map_filter applied_template h"

lemma applied_simps [simp]:
  "applied [] = []"
  "applied (h @ h') = applied h @ applied h'"
  "applied (e # h) = (case applied_template e of None \<Rightarrow> applied h | Some t \<Rightarrow> t # applied h)"
  by (simp_all add: applied_def List.map_filter_def split: option.split)

definition applies :: "string list \<Rightarrow> 'a action \<Rightarrow> bool" where
  "applies ts m \<longleftrightarrow>
     (\<forall>w a w'. m w = (Ok a, w') \<longrightarrow> applied (w_history w') = applied (w_history w) @ ts)"

text \<open>An operation none of whose events is an application.\<close>

definition no_apply :: "event \<Rightarrow> bool" where
  "no_apply e \<longleftrightarrow> applied_template e = None"

lemma no_apply_simps [simp]:
  "no_apply (Ev_Get_Dspa n)" "no_apply Ev_List_Dspas" "no_apply (Ev_Get k n)" "no_apply (Ev_List_Pods ls)"
  "no_apply (Ev_Update_Dspa d ok)" "no_apply (Ev_Update_Status d ok)" "no_apply (Ev_Create_ConfigMap c ok)"
  "no_apply (Ev_Update_ConfigMap c ok)" "no_apply (Ev_Delete_Manifest t os ok)" "no_apply (Ev_Delete_Object k n ok)"
  "no_apply (Ev_Read_File f)" "no_apply (Ev_Read_Dir f)" "no_apply (Ev_Register_Tls tc)" "no_apply (Ev_Db_Query q ok)"
  "no_apply (Ev_Obj_Stat ep b ok)" "no_apply (Ev_Pull_Image i)" "no_apply (Ev_Gauge g)"
  "no_apply (Ev_Apply ow t os ok) = (\<not> ok)"
  by (simp_all add: no_apply_def)

lemma applied_none: "list_all no_apply evs \<Longrightarrow> applied evs = []"
  by (induction evs) (simp_all add: no_apply_def)

lemma applies_none: "emits no_apply m \<Longrightarrow> applies [] m"
  unfolding applies_def using emitsD [of no_apply m] applied_none by fastforce

lemma applies_and_then [applies_intros]:
  assumes "applies ts m" "\<And>a. applies us (k a)"
  shows "applies (ts @ us) (and_then m k)"
  unfolding applies_def
proof (intro allI impI)
  fix w b w' assume run: "and_then m k w = (Ok b, w')"
  obtain r w1 where m: "m w = (r, w1)" by fastforce
  with run obtain a where r: "r = Ok a" and k: "k a w1 = (Ok b, w')"
    by (cases r) (simp_all add: and_then_def attempt_def fail_def)
  from assms(1) m r have "applied (w_history w1) = applied (w_history w) @ ts" by (simp add: applies_def)
  moreover from assms(2) k have "applied (w_history w') = applied (w_history w1) @ us" by (simp add: applies_def)
  ultimately show "applied (w_history w') = applied (w_history w) @ ts @ us" by simp
qed

lemma applies_eq: "applies ts m \<Longrightarrow> ts = us \<Longrightarrow> applies us m"
  by simp

text \<open>Steps that apply nothing may be skipped over.\<close>

lemma applies_skip: "emits no_apply m \<Longrightarrow> (\<And>a. applies us (k a)) \<Longrightarrow> applies us (and_then m k)"
  using applies_and_then [OF applies_none, of m us k] by simp

lemma applies_fail [applies_intros]: "applies ts (fail e)"
  by (simp add: applies_def fail_def)

lemma applies_deref: "(\<And>a. x = Some a \<Longrightarrow> applies ts (k a)) \<Longrightarrow> applies ts (and_then (deref s x) k)"
  by (cases x) (auto simp: applies_def and_then_def attempt_def deref_def panic_def ret_def)

lemma emits_load: "emits no_apply (wrap_err f (Manifest env t p))"
  by (intro emits_intros) simp

lemma applies_call: "applies [t] (call_opt f (Ev_Apply ow t os))"
  by (auto simp: applies_def call_opt_def call_def log_event_def split: sum.splits option.splits)

lemma applies_Apply [applies_intros]: "applies [t] (Apply env ow t fns)"
  unfolding Apply_def by (intro applies_skip applies_call emits_load emits_intros)

lemma applies_ApplyWithoutOwner [applies_intros]: "applies [t] (ApplyWithoutOwner env t fns)"
  unfolding ApplyWithoutOwner_def by (intro applies_skip applies_call emits_load emits_intros)

lemma applies_ApplyAll [applies_intros]: "applies ts (ApplyAll env ow ts)"
proof (induction ts)
  case Nil
  then show ?case by (simp add: applies_def ret_def)
next
  case (Cons t ts)
  have "applies ([t] @ ts) (ApplyAll env ow (t # ts))"
    unfolding ApplyAll.simps by (intro applies_and_then applies_Apply Cons.IH)
  then show ?case by simp
qed

lemma no_apply_updates [emits_intros]:
  "emits no_apply (DeleteResourceDir env dir)" "emits no_apply (DeleteResourceIfItExists env k nn)"
  by (intro emits_intros; simp)+


lemma for_each_Apply: "for_each (\<lambda>t. Apply env ow t []) ts = ApplyAll env ow ts"
  by (induction ts) simp_all

lemma applies_if: "(b \<Longrightarrow> applies ts m) \<Longrightarrow> (\<not> b \<Longrightarrow> applies us n) \<Longrightarrow> applies (if b then ts else us) (if b then m else n)"
  by simp

lemma applies_ret: "applies [] (ret a)"
  by (simp add: applies_def ret_def)

lemma appliesD: "applies ts m \<Longrightarrow> m w = (Ok a, w') \<Longrightarrow> applied (w_history w') = applied (w_history w) @ ts"
  by (simp add: applies_def)


lemma and_then_OkE:
  assumes "and_then m k w = (Ok b, w')"
  obtains a w1 where "m w = (Ok a, w1)" "k a w1 = (Ok b, w')"
proof -
  obtain r w1 where m: "m w = (r, w1)" by fastforce
  with assms that show thesis by (cases r) (simp_all add: and_then_def attempt_def fail_def)
qed

end
