(* ===== verification/Database.thy ===== *)
theory Database imports Extract_Params Applied begin

text \<open>
  \<open>controllers/database.go\<close>: the TLS configuration and the connection configuration of the health
  check, the check itself and the deployment of the in-cluster MariaDB.  The MySQL driver and the
  certificate parser are parameters: a pool is the list of the PEM texts put into it.
\<close>

definition dbSecret :: string where
  "dbSecret = ''mariadb/generated-secret/secret.yaml.tmpl''"

definition mariadbTemplates :: "string list" where
  "mariadbTemplates =
     [''mariadb/default/deployment.yaml.tmpl'', ''mariadb/default/pvc.yaml.tmpl'',
      ''mariadb/default/service.yaml.tmpl'', ''mariadb/default/mariadb-sa.yaml.tmpl'',
      ''mariadb/default/networkpolicy.yaml.tmpl'', ''mariadb/default/tls-config.yaml.tmpl'']"

section \<open>The health check\<close>

definition bad_pem :: gerr where
  "bad_pem = Plain_Err ''error parsing CA Certificate, ensure provided certs are in valid PEM format''"

definition tLSClientConfig :: "env \<Rightarrow> string list \<Rightarrow> tls_client_config action" where
  "tLSClientConfig env pems =
     (let f = e_getenv env ''SSL_CERT_FILE'' in
      and_then
        (if f \<noteq> ''''
         then attempt (call (\<lambda>h. e_read_file env h f) (\<lambda>ok. Ev_Read_File f)) (\<lambda>_. ret []) (\<lambda>data. ret [data])
         else ret []) (\<lambda>base.
      if list_all (e_pem_ok env) pems then ret (Tls_Pool (base @ pems)) else fail bad_pem))"

definition createMySQLConfig :: "string \<Rightarrow> string \<Rightarrow> string \<Rightarrow> string \<Rightarrow> string \<Rightarrow> go_map \<Rightarrow> mysql_config" where
  "createMySQLConfig user password mysqlServiceHost mysqlServicePort dbName mysqlExtraParams =
     \<lparr>my_user = user, my_passwd = password, my_net = ''tcp'',
      my_addr = mysqlServiceHost @ '':'' @ mysqlServicePort,
      my_params = fold (\<lambda>(k, v) m. map_put k v m) mysqlExtraParams
        [(''charset'', ''utf8''), (''parseTime'', ''True''), (''loc'', ''Local'')],
      my_db_name = dbName, my_allow_native_passwords = True, my_tls_config = ''''\<rparr>"

text \<open>The configuration that is registered for a value of the \<open>tls\<close> parameter, if any.\<close>

definition tls_for :: "env \<Rightarrow> string \<Rightarrow> string list \<Rightarrow> tls_client_config option action" where
  "tls_for env tls pemCerts =
     (if tls = ''false'' \<or> tls = '''' then ret None
      else if tls = ''true'' then and_then (tLSClientConfig env pemCerts) (\<lambda>c. ret (Some c))
      else if tls = ''skip-verify'' \<or> tls = ''preferred'' then ret (Some Tls_Skip_Verify)
      else ret None)"

definition use_custom_tls :: "mysql_config \<Rightarrow> mysql_config" where
  "use_custom_tls c =
     c\<lparr>my_params := (if map_of (my_params c) ''tls'' \<noteq> None then map_put ''tls'' ''custom'' (my_params c) else my_params c),
       my_tls_config := ''custom''\<rparr>"

definition ConnectAndQueryDatabase ::
  "env \<Rightarrow> string \<Rightarrow> string \<Rightarrow> string \<Rightarrow> string \<Rightarrow> string \<Rightarrow> string \<Rightarrow> int \<Rightarrow> string list \<Rightarrow> go_map \<Rightarrow> bool action" where
  "ConnectAndQueryDatabase env host port username password dbname tls dbConnectionTimeout pemCerts extraParams =
     (let mysqlConfig = createMySQLConfig username password host port '''' extraParams in
      and_then (tls_for env tls pemCerts) (\<lambda>tlsConfig.
      and_then
        (case tlsConfig of
           None \<Rightarrow> ret mysqlConfig
         | Some t \<Rightarrow>
             and_then (call_opt (\<lambda>h. e_register_tls env h t) (\<lambda>ok. Ev_Register_Tls t)) (\<lambda>_.
             ret (use_custom_tls mysqlConfig))) (\<lambda>c.
      and_then (of_sum (case e_sql_open env c of Some e \<Rightarrow> Inl e | None \<Rightarrow> Inr ())) (\<lambda>_.
      and_then (call_opt (\<lambda>h. e_sql_query env h c dbConnectionTimeout) (Ev_Db_Query c)) (\<lambda>_.
      ret True)))))"

definition usingMariaDB :: "dspa \<Rightarrow> bool" where
  "usingMariaDB dsp = (case sp_database (d_spec dsp) of None \<Rightarrow> True | Some db \<Rightarrow> db_maria_db db \<noteq> None)"

text \<open>The value of \<open>tls\<close>: on for an external database, off otherwise, unless the extra parameters say.\<close>

definition db_tls :: "dspa \<Rightarrow> go_map \<Rightarrow> string" where
  "db_tls dsp extra =
     (case map_of extra ''tls'' of Some val \<Rightarrow> val | None \<Rightarrow> (if UsingExternalDB dsp then ''true'' else ''false''))"

definition isDatabaseAccessible :: "env \<Rightarrow> bool action" where
  "isDatabaseAccessible env =
     and_then get_cur (\<lambda>dsp.
     and_then get_params (\<lambda>params.
     (let c = p_db_connection params in
      if DatabaseHealthCheckDisabled dsp then ret True
      else if \<not> usingMariaDB dsp \<and> \<not> UsingExternalDB dsp
      then fail (Plain_Err ''could not connect to database: unsupported type'')
      else
        and_then (of_sum (e_k8s_unmarshal_string_map env (dbc_extra_params c))) (\<lambda>extra.
        ConnectAndQueryDatabase env (dbc_host c) (dbc_port c) (dbc_username c) (fst (b64_decode (dbc_password c)))
          (dbc_db_name c) (db_tls dsp extra)
          (GetDurationConfigWithDefault (e_viper env) DBConnectionTimeoutConfigName DefaultDBConnectionTimeout)
          (p_api_custom_pem_certs params) extra))))"

section \<open>The deployment\<close>

definition own :: "dspa \<Rightarrow> apply_owner" where
  "own dsp = Owner_Dspa dsp"

text \<open>The resource is given the MariaDB it now has, and updated.\<close>

definition record_maria_db :: "env \<Rightarrow> unit action" where
  "record_maria_db env =
     and_then get_params (\<lambda>params.
     and_then (deref ''Spec.Database.MariaDB'' (p_maria_db params)) (\<lambda>m.
     and_then (mod_cur (\<lambda>d. d\<lparr>d_spec := (d_spec d)\<lparr>sp_database :=
         map_option (\<lambda>db. db\<lparr>db_maria_db := Some (m\<lparr>mdb_deploy := True\<rparr>)\<rparr>) (sp_database (d_spec d))\<rparr>\<rparr>)) (\<lambda>_.
     update_dspa env)))"

definition deploy_maria_db :: "env \<Rightarrow> dspa \<Rightarrow> bool \<Rightarrow> bool \<Rightarrow> unit action" where
  "deploy_maria_db env dsp databaseCredentialsProvided defaultDBRequired =
     and_then (if \<not> databaseCredentialsProvided then Apply env (own dsp) dbSecret [] else ret ()) (\<lambda>_.
     and_then (for_each (\<lambda>template. Apply env (own dsp) template []) mariadbTemplates) (\<lambda>_.
     if defaultDBRequired then record_maria_db env else ret ()))"

definition ReconcileDatabase :: "env \<Rightarrow> unit action" where
  "ReconcileDatabase env =
     and_then get_cur (\<lambda>dsp.
     and_then (deref ''Spec.Database'' (sp_database (d_spec dsp))) (\<lambda>db.
     (let externalDBSpecified = UsingExternalDB dsp;
          mariaDBSpecified = (db_maria_db db \<noteq> None);
          defaultDBRequired = (\<not> externalDBSpecified \<and> \<not> mariaDBSpecified);
          deployMariaDB = (case db_maria_db db of None \<Rightarrow> False | Some m \<Rightarrow> mdb_deploy m);
          externalDBCredentialsProvided =
            (case db_external_db db of None \<Rightarrow> False | Some x \<Rightarrow> edb_password_secret x \<noteq> None);
          mariaDBCredentialsProvided =
            (case db_maria_db db of None \<Rightarrow> False | Some m \<Rightarrow> mdb_password_secret m \<noteq> None);
          databaseCredentialsProvided = (externalDBCredentialsProvided \<or> mariaDBCredentialsProvided) in
      if externalDBSpecified then ret ()
      else if deployMariaDB \<or> defaultDBRequired then
        deploy_maria_db env dsp databaseCredentialsProvided defaultDBRequired
      else ret ())))"


section \<open>Lemmas\<close>

text \<open>What a query of the health check must look like for the parameters.\<close>

definition db_query_ok :: "db_connection \<Rightarrow> string \<Rightarrow> mysql_config \<Rightarrow> bool" where
  "db_query_ok c tls q \<longleftrightarrow>
     my_user q = dbc_username c \<and> my_passwd q = fst (b64_decode (dbc_password c)) \<and>
     my_addr q = dbc_host c @ '':'' @ dbc_port c \<and>
     (if tls \<in> {''true'', ''skip-verify'', ''preferred''}
      then my_tls_config q = ''custom'' \<and> map_of (my_params q) ''tls'' \<in> {None, Some ''custom''}
      else my_tls_config q = '''')"

lemma map_put_update [simp]: "map_of (map_put k v m) = (map_of m)(k \<mapsto> v)"
  by (simp add: map_put_def update_conv')

lemma emits_tls_for [emits_intros]: "(\<And>f. P (Ev_Read_File f)) \<Longrightarrow> emits P (tls_for env tls pems)"
  unfolding tls_for_def tLSClientConfig_def by (intro emits_intros)

lemma reads_tls_for [reads_intros]: "reads (tls_for env tls pems)"
  unfolding tls_for_def tLSClientConfig_def by (intro reads_intros)

lemma tls_for_some:
  "tls_for env tls pems w = (Ok t, w') \<Longrightarrow> t \<noteq> None \<longleftrightarrow> tls \<in> {''true'', ''skip-verify'', ''preferred''}"
  by (auto simp: tls_for_def and_then_def attempt_def ret_def fail_def split: if_splits prod.splits res.splits)

lemma reads_query [reads_intros]: "reads (ConnectAndQueryDatabase env h p u pw n tls t pems extra)"
  unfolding ConnectAndQueryDatabase_def by (intro reads_intros)

lemma tls_for_no_panic: "tls_for env tls pems w \<noteq> (Panic q, w')"
  by (auto simp: tls_for_def tLSClientConfig_def and_then_def attempt_def ret_def fail_def call_def Let_def
      split: if_splits prod.splits res.splits sum.splits)

lemma ConnectAndQueryDatabase_run:
  assumes "ConnectAndQueryDatabase env host port user pw name tls t pems extra w = (r, w')"
    and "dbc_host c = host" "dbc_port c = port" "dbc_username c = user" "fst (b64_decode (dbc_password c)) = pw"
  shows "(\<forall>q. r \<noteq> Panic q) \<and>
    (\<forall>b. r = Ok b \<longrightarrow> b \<and> (\<exists>h q. w_history w' = w_history w @ h @ [Ev_Db_Query q True] \<and> db_query_ok c tls q))"
proof -
  obtain rt w1 where tls: "tls_for env tls pems w = (rt, w1)" by fastforce
  from emitsD [OF emits_tls_for [of "\<lambda>_. True"] tls] obtain h1 where h1: "w_history w1 = w_history w @ h1" by auto
  note run = assms(1) [unfolded ConnectAndQueryDatabase_def Let_def and_then_run [of "tls_for env tls pems" w, OF tls]]
  show ?thesis
  proof (cases rt)
    case (Panic q)
    with tls tls_for_no_panic show ?thesis by blast
  next
    case (Err e)
    with run show ?thesis by auto
  next
    case (Ok tc)
    note some = tls_for_some [OF tls [unfolded Ok]]
    show ?thesis
      using run Ok some h1 assms(2-)
      by (cases tc)
        (auto simp: and_then_def attempt_def ret_def fail_def call_opt_def call_def of_sum_def log_event_def
           db_query_ok_def createMySQLConfig_def use_custom_tls_def split: option.splits sum.splits)
  qed
qed

section \<open>Properties\<close>

lemma isDatabaseAccessible_run:
  "case isDatabaseAccessible env w of
     (r, w') \<Rightarrow>
       (let d = cur_dspa w; c = p_db_connection (w_params w) in
        case r of
          Ok b \<Rightarrow>
            b \<and> (if DatabaseHealthCheckDisabled d then w' = w
                  else (\<exists>extra h q. e_k8s_unmarshal_string_map env (dbc_extra_params c) = Inr extra \<and>
                          w_history w' = w_history w @ h @ [Ev_Db_Query q True] \<and> db_query_ok c (db_tls d extra) q))
        | Err e \<Rightarrow> \<not> DatabaseHealthCheckDisabled d
        | Panic s \<Rightarrow> False)"
proof -
  let ?d = "cur_dspa w" and ?c = "p_db_connection (w_params w)"
  show ?thesis
  proof (cases "DatabaseHealthCheckDisabled ?d \<or> (\<not> usingMariaDB ?d \<and> \<not> UsingExternalDB ?d)")
    case True
    then show ?thesis by (auto simp: isDatabaseAccessible_def and_then_get Let_def ret_def fail_def)
  next
    case False
    show ?thesis
    proof (cases "e_k8s_unmarshal_string_map env (dbc_extra_params ?c)")
      case (Inl e)
      with False show ?thesis
        by (auto simp: isDatabaseAccessible_def and_then_get Let_def)
          (auto simp: and_then_def attempt_def of_sum_def fail_def)
    next
      case (Inr extra)
      obtain r w' where run: "isDatabaseAccessible env w = (r, w')" by fastforce
      have q: "ConnectAndQueryDatabase env (dbc_host ?c) (dbc_port ?c) (dbc_username ?c) (fst (b64_decode (dbc_password ?c)))
          (dbc_db_name ?c) (db_tls ?d extra)
          (GetDurationConfigWithDefault (e_viper env) DBConnectionTimeoutConfigName DefaultDBConnectionTimeout)
          (p_api_custom_pem_certs (w_params w)) extra w = (r, w')"
        using run False Inr
        by (simp add: isDatabaseAccessible_def and_then_get Let_def) (simp add: of_sum_def ret_and_then split: if_splits)
      from ConnectAndQueryDatabase_run [OF q refl refl refl refl] run False Inr show ?thesis
        by (cases r) auto
    qed
  qed
qed

text \<open>
  C31: The database health check.  It never panics.  It reports the database available only if the check
  is disabled (and then it does nothing), or if a statement has just been executed at the configured
  address with the configured user and the decoded password, over the custom TLS configuration exactly
  when the \<open>tls\<close> parameter asks for TLS; that parameter defaults to on for an external database.
\<close>

theorem database_check_queries:
  "case isDatabaseAccessible env w of
     (r, w') \<Rightarrow>
       (let d = cur_dspa w; c = p_db_connection (w_params w) in
        case r of
          Ok b \<Rightarrow>
            b \<and> (if DatabaseHealthCheckDisabled d then w' = w
                  else (\<exists>extra h q. e_k8s_unmarshal_string_map env (dbc_extra_params c) = Inr extra \<and>
                          w_history w' = w_history w @ h @ [Ev_Db_Query q True] \<and> db_query_ok c (db_tls d extra) q))
        | Err e \<Rightarrow> \<not> DatabaseHealthCheckDisabled d
        | Panic s \<Rightarrow> False)"
  by (rule isDatabaseAccessible_run)

text \<open>The templates of the in-cluster database.\<close>

definition db_templates :: "dspa \<Rightarrow> string list" where
  "db_templates dsp =
     (case sp_database (d_spec dsp) of
        None \<Rightarrow> []
      | Some db \<Rightarrow>
          (case db_external_db db of
             Some _ \<Rightarrow> []
           | None \<Rightarrow>
               (case db_maria_db db of
                  None \<Rightarrow> dbSecret # mariadbTemplates
                | Some m \<Rightarrow>
                    if \<not> mdb_deploy m then []
                    else (if mdb_password_secret m = None then [dbSecret] else []) @ mariadbTemplates)))"

lemma emits_record_maria_db [emits_intros]: "(\<And>d ok. P (Ev_Update_Dspa d ok)) \<Longrightarrow> emits P (record_maria_db env)"
  unfolding record_maria_db_def by (intro emits_intros)

lemma applies_deploy_maria_db:
  "applies ((if c then [] else [dbSecret]) @ mariadbTemplates) (deploy_maria_db env d c b)"
proof -
  have "applies ((if c then [] else [dbSecret]) @ mariadbTemplates @ []) (deploy_maria_db env d c b)"
    unfolding deploy_maria_db_def for_each_Apply
    by (intro applies_and_then applies_ApplyAll applies_none [of "if b then _ else _"] emits_intros)
      (auto intro: applies_Apply applies_ret)
  then show ?thesis by simp
qed

text \<open>
  C32: What is deployed for the database.  A successful \<open>ReconcileDatabase\<close> has applied exactly the
  MariaDB templates, after the generated secret unless the resource names one, when no external
  database is given and MariaDB is wanted or nothing is said; and nothing at all otherwise.  It panics
  if the resource has no \<open>spec.database\<close>.
\<close>

theorem ReconcileDatabase_applies:
  "case ReconcileDatabase env w of
     (r, w') \<Rightarrow>
       (case r of
          Ok _ \<Rightarrow> sp_database (d_spec (cur_dspa w)) \<noteq> None \<and>
            applied (w_history w') = applied (w_history w) @ db_templates (cur_dspa w)
        | Err e \<Rightarrow> sp_database (d_spec (cur_dspa w)) \<noteq> None
        | Panic s \<Rightarrow> True)"
proof (cases "sp_database (d_spec (cur_dspa w))")
  case None
  then show ?thesis
    by (simp add: ReconcileDatabase_def and_then_get) (simp add: and_then_def attempt_def deref_def panic_def)
next
  case (Some db)
  obtain r w' where run: "ReconcileDatabase env w = (r, w')" by fastforce
  show ?thesis
  proof (cases r)
    case (Ok u)
    have "applied (w_history w') = applied (w_history w) @ db_templates (cur_dspa w)"
    proof (cases "db_external_db db = None \<and> (case db_maria_db db of None \<Rightarrow> True | Some m \<Rightarrow> mdb_deploy m)")
      case True
      let ?creds = "case db_maria_db db of None \<Rightarrow> False | Some m \<Rightarrow> mdb_password_secret m \<noteq> None"
      from True run Some have "deploy_maria_db env (cur_dspa w) ?creds (db_maria_db db = None) w = (Ok u, w')"
        by (cases "db_maria_db db")
          (simp_all add: ReconcileDatabase_def and_then_get Let_def UsingExternalDB_def deref_def ret_and_then Ok)
      from appliesD [OF applies_deploy_maria_db this] True Some show ?thesis
        by (cases "db_maria_db db") (simp_all add: db_templates_def)
    next
      case False
      with run Some have "ret () w = (Ok u, w')"
        by (cases "db_external_db db"; cases "db_maria_db db")
          (simp_all add: ReconcileDatabase_def and_then_get Let_def UsingExternalDB_def deref_def ret_and_then Ok)
      with False Some show ?thesis
        by (cases "db_external_db db"; cases "db_maria_db db") (simp_all add: db_templates_def ret_def)
    qed
    with run Some Ok show ?thesis by simp
  qed (use run Some in simp_all)
qed

end
