(* ===== verification/Api_Server.thy ===== *)
theory Api_Server imports Extract_Params Applied Database begin

text \<open>
  \<open>controllers/apiserver.go\<close>: the sample configuration of the API server, the hash that makes its pods
  roll over when the configuration changes, and its deployment.
\<close>

definition apiServerTemplatesDir :: string where
  "apiServerTemplatesDir = ''apiserver/default''"

definition apiServerServerConfigTemplate :: string where
  "apiServerServerConfigTemplate = ''apiserver/default/server-config.yaml.tmpl''"

definition serverRoute :: string where
  "serverRoute = ''apiserver/route/route.yaml.tmpl''"

text \<open>A Go map of two entries: a range over it visits them in either order.\<close>

definition samplePipelineTemplates :: "env \<Rightarrow> history \<Rightarrow> string list" where
  "samplePipelineTemplates env h =
     (if even (e_rand env h 0)
      then [''apiserver/sample-pipeline/sample-pipeline.yaml.tmpl'', ''apiserver/sample-pipeline/sample-config.yaml.tmpl'']
      else [''apiserver/sample-pipeline/sample-config.yaml.tmpl'', ''apiserver/sample-pipeline/sample-pipeline.yaml.tmpl''])"

section \<open>The sample configuration\<close>

definition metadata_key :: "string \<Rightarrow> string \<Rightarrow> string" where
  "metadata_key pipeline field = ''ManagedPipelinesMetadata.'' @ pipeline @ ''.'' @ field"

definition sample_item :: "string \<Rightarrow> string \<Rightarrow> string \<Rightarrow> string \<Rightarrow> string \<Rightarrow> go_map" where
  "sample_item name file description versionName versionDescription =
     [(''name'', name), (''file'', file), (''description'', description), (''versionName'', versionName),
      (''versionDescription'', versionDescription)]"

definition GenerateSamplePipelineMetadataBlock :: "viper \<Rightarrow> string \<Rightarrow> string \<Rightarrow> go_map res" where
  "GenerateSamplePipelineMetadataBlock v pipeline platformVersion =
     (case GetStringConfig v (metadata_key pipeline ''Name'') of
        Err e \<Rightarrow> Err e
      | Panic s \<Rightarrow> Panic s
      | Ok pName \<Rightarrow>
          (case GetStringConfig v (metadata_key pipeline ''Filepath'') of
             Err e \<Rightarrow> Err e
           | Panic s \<Rightarrow> Panic s
           | Ok pFile \<Rightarrow>
               (let pDesc = GetStringConfigWithDefault v (metadata_key pipeline ''Description'') '''';
                    pVerName = GetStringConfigWithDefault v (metadata_key pipeline ''VersionName'') pName;
                    pVerDesc = GetStringConfigWithDefault v (metadata_key pipeline ''VersionDescription'') '''' in
                Ok (sample_item pName pFile pDesc (pVerName @ '' - '' @ platformVersion) pVerDesc))))"

definition managedPipelineSampleEntry :: "viper \<Rightarrow> string \<Rightarrow> string \<Rightarrow> go_map" where
  "managedPipelineSampleEntry v pipelineName platformVersion =
     (case GenerateSamplePipelineMetadataBlock v pipelineName platformVersion of
        Ok item \<Rightarrow> map_put ''versionName'' platformVersion item
      | _ \<Rightarrow> sample_item pipelineName (''/config/managed-pipelines/'' @ pipelineName @ ''.yaml'') '''' platformVersion '''')"

text \<open>The loop over the listed pipelines; \<open>seen\<close> holds the lower-case names met so far.\<close>

fun managed_entries ::
  "viper \<Rightarrow> bool \<Rightarrow> string \<Rightarrow> managed_pipeline list \<Rightarrow> string list \<Rightarrow> gerr + go_map list" where
  "managed_entries v iris platformVersion [] seen = Inr []"
| "managed_entries v iris platformVersion (p # ps) seen =
     (let key = to_lower (mp_name p) in
      if key \<in> set seen then Inl (Plain_Err (''duplicate managed pipeline name '' @ go_quote (mp_name p)))
      else
        (case managed_entries v iris platformVersion ps (key # seen) of
           Inl e \<Rightarrow> Inl e
         | Inr items \<Rightarrow>
             Inr (if iris \<and> equal_fold (mp_name p) ''iris'' then items
                  else managedPipelineSampleEntry v (mp_name p) platformVersion # items)))"

definition sample_entries :: "viper \<Rightarrow> api_server \<Rightarrow> string \<Rightarrow> gerr + go_map list" where
  "sample_entries v a platformVersion =
     (case (if as_enable_sample_pipeline a
            then (case GenerateSamplePipelineMetadataBlock v ''iris'' platformVersion of
                    Ok item \<Rightarrow> Inr [item] | Err e \<Rightarrow> Inl e | Panic s \<Rightarrow> Inl (Plain_Err s))
            else Inr []) of
        Inl e \<Rightarrow> Inl e
      | Inr iris \<Rightarrow>
          (case managed_entries v (as_enable_sample_pipeline a) platformVersion
                  (case as_managed_pipelines a of None \<Rightarrow> [] | Some mp \<Rightarrow> mps_pipelines mp) [] of
             Inl e \<Rightarrow> Inl e
           | Inr items \<Rightarrow> Inr (iris @ items)))"

definition generateSampleConfigJSON :: "viper \<Rightarrow> api_server \<Rightarrow> string \<Rightarrow> gerr + string" where
  "generateSampleConfigJSON v a platformVersion =
     (case sample_entries v a platformVersion of
        Inl e \<Rightarrow> Inl e
      | Inr items \<Rightarrow>
          Inr (json_print (JObj [(''loadSamplesOnRestart'', JBool True), (''pipelines'', JArr (map json_of_map items))])))"

section \<open>The configuration hash\<close>

text \<open>A quantity marshals to its text, the zero value to \<open>0\<close>; a struct is never empty for \<open>omitempty\<close>.\<close>

definition marshal_resources :: "resources \<Rightarrow> json" where
  "marshal_resources r =
     (let q = (\<lambda>x. JStr (if x = '''' then ''0'' else x)) in
      JObj [(''cpu'', q (r_cpu r)), (''memory'', q (r_memory r))])"

definition omit_none :: "string \<Rightarrow> ('a \<Rightarrow> json) \<Rightarrow> 'a option \<Rightarrow> (string \<times> json) list" where
  "omit_none k f x = (case x of None \<Rightarrow> [] | Some a \<Rightarrow> [(k, f a)])"

definition marshal_requirements :: "resource_requirements \<Rightarrow> json" where
  "marshal_requirements r =
     JObj (omit_none ''limits'' marshal_resources (rr_limits r) @ omit_none ''requests'' marshal_resources (rr_requests r))"

definition marshal_managed_pipelines :: "managed_pipelines_spec \<Rightarrow> string" where
  "marshal_managed_pipelines mp =
     json_print (JObj
       (omit_empty ''image'' (mps_image mp) @
        (if mps_pipelines mp = [] then []
         else [(''pipelines'', JArr (map (\<lambda>p. JObj [(''name'', JStr (mp_name p))]) (mps_pipelines mp)))]) @
        omit_none ''resources'' marshal_requirements (mps_resources mp) @
        omit_empty ''volumeSizeLimit'' (mps_volume_size_limit mp)))"

definition marshal_image_env :: "image_env_var list \<Rightarrow> string" where
  "marshal_image_env vs =
     json_print (JArr (map (\<lambda>v. JObj [(''Name'', JStr (iev_name v)), (''Value'', JStr (iev_value v))]) vs))"

definition config_hash_input :: "dspa_params \<Rightarrow> string \<Rightarrow> string" where
  "config_hash_input params sampleConfigJSON =
     sampleConfigJSON @ p_api_server_workspace_json params @ p_api_server_plugins_json params @
     p_platform_version params @
     (case p_api_server params of
        None \<Rightarrow> ''''
      | Some a \<Rightarrow>
          (case as_managed_pipelines a of
             None \<Rightarrow> ''''
           | Some mp \<Rightarrow> marshal_managed_pipelines mp @ marshal_image_env (p_managed_pipeline_image_env_vars params)))"

section \<open>The deployment\<close>

definition server_route :: "env \<Rightarrow> dspa \<Rightarrow> api_server \<Rightarrow> unit action" where
  "server_route env dsp a =
     (if as_enable_route a then Apply env (own dsp) serverRoute []
      else DeleteResourceIfItExists env KRoute (nsname (d_namespace dsp) (''ds-pipeline-'' @ d_name dsp)))"

definition apply_samples :: "env \<Rightarrow> dspa \<Rightarrow> unit action" where
  "apply_samples env dsp =
     and_then (gets_op (\<lambda>w. samplePipelineTemplates env (w_history w))) (\<lambda>templates.
     for_each (\<lambda>template. Apply env (own dsp) template []) templates)"

definition apply_api_templates :: "env \<Rightarrow> dspa \<Rightarrow> unit action" where
  "apply_api_templates env dsp =
     and_then (Apply env (own dsp) apiServerServerConfigTemplate []) (\<lambda>_.
     and_then (GetTemplatesInDir env (e_templates_path env) apiServerTemplatesDir) (\<lambda>templates.
     ApplyAll env (own dsp) (filter (\<lambda>template. template \<noteq> apiServerServerConfigTemplate) templates)))"

definition ReconcileAPIServer :: "env \<Rightarrow> unit action" where
  "ReconcileAPIServer env =
     and_then get_cur (\<lambda>dsp.
     and_then (deref ''Spec.APIServer'' (sp_api_server (d_spec dsp))) (\<lambda>a.
     if \<not> as_deploy a then ret ()
     else
       and_then get_params (\<lambda>params.
       and_then (of_sum (generateSampleConfigJSON (e_viper env) a (p_platform_version params))) (\<lambda>sampleConfigJSON.
       and_then (mod_params (\<lambda>p. p\<lparr>p_sample_config_json := sampleConfigJSON,
           p_api_server_config_hash := e_sha256_hex env (config_hash_input p sampleConfigJSON)\<rparr>)) (\<lambda>_.
       and_then (apply_api_templates env dsp) (\<lambda>_.
       and_then (server_route env dsp a) (\<lambda>_.
       apply_samples env dsp)))))))"


section \<open>Properties\<close>

definition lower_names :: "managed_pipeline list \<Rightarrow> string list" where
  "lower_names ps = map (\<lambda>p. to_lower (mp_name p)) ps"

lemma managed_entries_spec:
  "case managed_entries v iris pv ps seen of
     Inr items \<Rightarrow> distinct (lower_names ps) \<and> set (lower_names ps) \<inter> set seen = {} \<and>
       items = map (\<lambda>p. managedPipelineSampleEntry v (mp_name p) pv)
                 (filter (\<lambda>p. \<not> (iris \<and> equal_fold (mp_name p) ''iris'')) ps)
   | Inl e \<Rightarrow> \<not> (distinct (lower_names ps) \<and> set (lower_names ps) \<inter> set seen = {})"
proof (induction ps arbitrary: seen)
  case Nil
  then show ?case by (simp add: lower_names_def)
next
  case (Cons p ps)
  let ?key = "to_lower (mp_name p)"
  from Cons.IH [of "?key # seen"] show ?case
    by (cases "?key \<in> set seen"; cases "managed_entries v iris pv ps (?key # seen)")
      (auto simp: Let_def lower_names_def)
qed

text \<open>
  C34: The sample configuration.  If it is generated, the listed managed pipelines have pairwise
  different names up to case, and the entries are the Iris sample, when it is enabled, followed by
  exactly one entry per listed pipeline in their order, without a second Iris.  With such names the only way to fail
  is an enabled sample without its name or file in the operator configuration.
\<close>

theorem sample_entries_exact:
  "let ps = (case as_managed_pipelines a of None \<Rightarrow> [] | Some mp \<Rightarrow> mps_pipelines mp);
       iris = as_enable_sample_pipeline a in
   case sample_entries v a pv of
     Inr items \<Rightarrow>
       distinct (lower_names ps) \<and>
       (\<exists>first. (if iris then (\<exists>i. first = [i] \<and> GenerateSamplePipelineMetadataBlock v ''iris'' pv = Ok i) else first = []) \<and>
          items = first @ map (\<lambda>p. managedPipelineSampleEntry v (mp_name p) pv)
                            (filter (\<lambda>p. \<not> (iris \<and> equal_fold (mp_name p) ''iris'')) ps))
   | Inl e \<Rightarrow>
       (if distinct (lower_names ps)
        then iris \<and> \<not> (v_is_set v ''ManagedPipelinesMetadata.iris.Name'' \<and> v_is_set v ''ManagedPipelinesMetadata.iris.Filepath'')
        else True)"
proof -
  define ps where "ps = (case as_managed_pipelines a of None \<Rightarrow> [] | Some mp \<Rightarrow> mps_pipelines mp)"
  define iris where "iris = as_enable_sample_pipeline a"
  have block: "(\<exists>i. GenerateSamplePipelineMetadataBlock v ''iris'' pv = Ok i) \<longleftrightarrow>
      v_is_set v ''ManagedPipelinesMetadata.iris.Name'' \<and> v_is_set v ''ManagedPipelinesMetadata.iris.Filepath''"
    by (simp add: GenerateSamplePipelineMetadataBlock_def GetStringConfig_def metadata_key_def Let_def)
  show ?thesis
    using managed_entries_spec [where v = v and iris = iris and pv = pv and ps = ps and seen = "[]"] block
    by (cases iris; cases "GenerateSamplePipelineMetadataBlock v ''iris'' pv"; cases "managed_entries v iris pv ps []")
      (auto simp: sample_entries_def Let_def ps_def [symmetric] iris_def [symmetric])
qed

lemma apply_api_templates_run:
  assumes "apply_api_templates env d w = (Ok u, w')"
  shows "\<exists>listing. applied (w_history w') = applied (w_history w) @
    apiServerServerConfigTemplate # filter (\<lambda>t. t \<noteq> apiServerServerConfigTemplate) listing"
proof -
  from assms obtain w1 w2 ts where
    1: "Apply env (own d) apiServerServerConfigTemplate [] w = (Ok (), w1)" and
    2: "GetTemplatesInDir env (e_templates_path env) apiServerTemplatesDir w1 = (Ok ts, w2)" and
    3: "ApplyAll env (own d) (filter (\<lambda>t. t \<noteq> apiServerServerConfigTemplate) ts) w2 = (Ok u, w')"
    unfolding apply_api_templates_def by (elim and_then_OkE) simp
  have "applies [] (GetTemplatesInDir env (e_templates_path env) apiServerTemplatesDir)"
    unfolding GetTemplatesInDir_def by (intro applies_none emits_intros) simp_all
  from appliesD [OF applies_Apply 1] appliesD [OF this 2] appliesD [OF applies_ApplyAll 3] show ?thesis
    by auto
qed

lemma apply_samples_run:
  assumes "apply_samples env d w = (Ok u, w')"
  shows "\<exists>h. applied (w_history w') = applied (w_history w) @ samplePipelineTemplates env h"
  using assms appliesD [OF applies_ApplyAll, of env "own d" "samplePipelineTemplates env (w_history w)" w u w']
  by (auto simp: apply_samples_def and_then_def attempt_def gets_op_def for_each_Apply)

lemma reads_api [reads_intros]:
  "reads (apply_api_templates env d)" "reads (server_route env d a)" "reads (apply_samples env d)"
  unfolding apply_api_templates_def server_route_def apply_samples_def GetTemplatesInDir_def
  by (intro reads_intros)+


end
