(* ===== verification/Components.thy ===== *)
theory Components imports Api_Server begin

text \<open>
  The other deployed components: \<open>common.go\<close>, \<open>persistence_agent.go\<close>, \<open>scheduled_workflow.go\<close>,
  \<open>workflow_controller.go\<close>, \<open>mlmd.go\<close> and \<open>webhook.go\<close> under \<open>controllers/\<close>.
\<close>

section \<open>Common resources\<close>

definition commonTemplatesDir :: string where
  "commonTemplatesDir = ''common/default''"

definition commonCusterRolebindingTemplate :: string where
  "commonCusterRolebindingTemplate = ''common/no-owner/clusterrolebinding.yaml.tmpl''"

definition ReconcileCommon :: "env \<Rightarrow> unit action" where
  "ReconcileCommon env =
     and_then get_cur (\<lambda>dsp.
     and_then (ApplyDir env (own dsp) commonTemplatesDir) (\<lambda>_.
     ApplyWithoutOwner env commonCusterRolebindingTemplate []))"

definition CleanUpCommon :: "env \<Rightarrow> unit action" where
  "CleanUpCommon env = DeleteResource env commonCusterRolebindingTemplate []"

section \<open>Persistence agent and scheduled workflows\<close>

definition persistenceAgentTemplatesDir :: string where
  "persistenceAgentTemplatesDir = ''persistence-agent''"

definition ReconcilePersistenceAgent :: "env \<Rightarrow> unit action" where
  "ReconcilePersistenceAgent env =
     and_then get_cur (\<lambda>dsp.
     and_then (deref ''Spec.PersistenceAgent'' (sp_persistence_agent (d_spec dsp))) (\<lambda>pa.
     if \<not> pa_deploy pa then ret () else ApplyDir env (own dsp) persistenceAgentTemplatesDir))"

definition scheduledWorkflowTemplatesDir :: string where
  "scheduledWorkflowTemplatesDir = ''scheduled-workflow''"

definition ReconcileScheduledWorkflow :: "env \<Rightarrow> unit action" where
  "ReconcileScheduledWorkflow env =
     and_then get_cur (\<lambda>dsp.
     and_then (deref ''Spec.ScheduledWorkflow'' (sp_scheduled_workflow (d_spec dsp))) (\<lambda>sw.
     if \<not> sw_deploy sw then ret () else ApplyDir env (own dsp) scheduledWorkflowTemplatesDir))"

section \<open>Workflow controller\<close>

definition workflowControllerTemplatesDir :: string where
  "workflowControllerTemplatesDir = ''workflow-controller''"

definition GetManagementState :: "string \<Rightarrow> string" where
  "GetManagementState managementState =
     (if managementState = '''' then DefaultArgoWorkflowsControllersManagementState else managementState)"

text \<open>The configured state; a configuration that does not parse counts as the default.\<close>

definition argo_management_state :: "viper \<Rightarrow> string" where
  "argo_management_state v =
     (let txt = trim_char (CHR 0x22) (GetStringConfigWithDefault v ''DSPO.ArgoWorkflowsControllers''
                  DefaultArgoWorkflowsControllers) in
      case json_parse txt of
        None \<Rightarrow> DefaultArgoWorkflowsControllersManagementState
      | Some j \<Rightarrow>
          (case decode_struct [''managementState''] j of
             Inl e \<Rightarrow> DefaultArgoWorkflowsControllersManagementState
           | Inr fs \<Rightarrow> fs ''managementState''))"

text \<open>The result says whether the controller is deployed, also when applying it fails.\<close>

definition ReconcileWorkflowController :: "env \<Rightarrow> bool action" where
  "ReconcileWorkflowController env =
     and_then get_cur (\<lambda>dsp.
     (let state = GetManagementState (argo_management_state (e_viper env)) in
      if state = ''Managed'' \<or> state = '''' then
        (case sp_workflow_controller (d_spec dsp) of
           None \<Rightarrow> ret False
         | Some wc \<Rightarrow>
             if \<not> wc_deploy wc then ret False
             else and_then (ApplyDir env (own dsp) workflowControllerTemplatesDir) (\<lambda>_. ret True))
      else if state = ''Removed'' then
        and_then (DeleteResourceDir env workflowControllerTemplatesDir) (\<lambda>_. ret False)
      else fail (Plain_Err (''invalid management state for WorkflowController Resources: '' @ state))))"

section \<open>ML metadata\<close>

definition mlmdTemplatesDir :: string where
  "mlmdTemplatesDir = ''ml-metadata''"

definition mlmdEnvoyRoute :: string where
  "mlmdEnvoyRoute = mlmdTemplatesDir @ ''/route/metadata-envoy.route.yaml.tmpl''"

definition mlmdGrpcService :: string where
  "mlmdGrpcService = ''grpc-service''"

definition mlmd_wanted :: "mlmd option \<Rightarrow> bool" where
  "mlmd_wanted m = (case m of None \<Rightarrow> False | Some x \<Rightarrow> ml_deploy x)"

definition mlmd_route_wanted :: "dspa \<Rightarrow> bool" where
  "mlmd_route_wanted dsp =
     (case sp_mlmd (d_spec dsp) of
        None \<Rightarrow> True
      | Some m \<Rightarrow> (case ml_envoy m of None \<Rightarrow> True | Some en \<Rightarrow> en_deploy_route en))"

definition mlmd_certificates :: "env \<Rightarrow> unit action" where
  "mlmd_certificates env =
     and_then get_params (\<lambda>params.
     if p_pod_to_pod_tls params then
       and_then (LoadMlmdCertificates env) (\<lambda>certificatesExist.
       if \<not> certificatesExist
       then fail (Plain_Err ''secret containing the certificate for MLMD gRPC Server was not created yet'')
       else ret ())
     else ret ())"

definition ReconcileMLMD :: "env \<Rightarrow> unit action" where
  "ReconcileMLMD env =
     and_then get_cur (\<lambda>dsp.
     and_then get_params (\<lambda>params.
     if \<not> mlmd_wanted (p_mlmd params) \<and> \<not> mlmd_wanted (sp_mlmd (d_spec dsp)) then ret ()
     else
       and_then (ApplyDir env (own dsp) (mlmdTemplatesDir @ ''/'' @ mlmdGrpcService)) (\<lambda>_.
       and_then (mlmd_certificates env) (\<lambda>_.
       and_then (ApplyDir env (own dsp) mlmdTemplatesDir) (\<lambda>_.
       if mlmd_route_wanted dsp then Apply env (own dsp) mlmdEnvoyRoute [] else ret ())))))"

section \<open>Webhook\<close>

definition webhookTemplatesDir :: string where
  "webhookTemplatesDir = ''webhook/''"

definition operatorName :: string where
  "operatorName = ''data-science-pipelines-operator-controller-manager''"

definition k8sWebhookName :: string where
  "k8sWebhookName = ''ds-pipelines-webhook''"

definition ReconcileWebhook :: "env \<Rightarrow> unit action" where
  "ReconcileWebhook env =
     and_then get_params (\<lambda>params.
     and_then (get_deployment env (nsname (p_dspo_namespace params) operatorName)) (\<lambda>_.
     ApplyDir env (Owner_Deployment (nsname (p_dspo_namespace params) operatorName)) webhookTemplatesDir))"

definition uses_kubernetes_store :: "dspa \<Rightarrow> bool" where
  "uses_kubernetes_store d =
     (case sp_api_server (d_spec d) of None \<Rightarrow> False | Some a \<Rightarrow> as_pipeline_store a = ''kubernetes'')"

definition checkAvailableKubernetesDSPAs :: "env \<Rightarrow> string \<Rightarrow> string \<Rightarrow> bool action" where
  "checkAvailableKubernetesDSPAs env excludeName excludeNamespace =
     and_then (list_dspas env) (\<lambda>items.
     ret (list_ex (\<lambda>d. \<not> (d_name d = excludeName \<and> d_namespace d = excludeNamespace) \<and> uses_kubernetes_store d) items))"

definition webhookConfigName :: string where
  "webhookConfigName = ''pipelineversions.pipelines.kubeflow.org''"

text \<open>What belongs to the webhook; cluster-scoped objects have no namespace.\<close>

definition webhook_objects :: "string \<Rightarrow> (obj_kind \<times> namespaced_name) list" where
  "webhook_objects ns =
     [(KMutatingWebhook, nsname '''' webhookConfigName), (KValidatingWebhook, nsname '''' webhookConfigName),
      (KDeployment, nsname ns k8sWebhookName), (KClusterRole, nsname '''' k8sWebhookName),
      (KClusterRoleBinding, nsname '''' k8sWebhookName), (KService, nsname ns k8sWebhookName),
      (KServiceAccount, nsname ns k8sWebhookName)]"

definition cleanupWebhookResources :: "env \<Rightarrow> string \<Rightarrow> unit action" where
  "cleanupWebhookResources env ns =
     for_each (\<lambda>(k, nn). DeleteResourceIfItExists env k nn) (webhook_objects ns)"

definition CleanUpWebhookIfUnused :: "env \<Rightarrow> unit action" where
  "CleanUpWebhookIfUnused env =
     and_then get_cur (\<lambda>dspa.
     and_then get_params (\<lambda>params.
     and_then (checkAvailableKubernetesDSPAs env (d_name dspa) (d_namespace dspa)) (\<lambda>hasK8sDSPAs.
     if \<not> hasK8sDSPAs then cleanupWebhookResources env (p_dspo_namespace params) else ret ())))"


section \<open>Events of the components\<close>

text \<open>What deploying a component may do to the cluster: apply manifests for an owner, or remove them.\<close>

fun deploy_event :: "event \<Rightarrow> bool" where
  "deploy_event (Ev_Apply ow t os ok) = True"
| "deploy_event (Ev_Delete_Manifest t os ok) = True"
| "deploy_event (Ev_Delete_Object k nn ok) = (k = KRoute)"
| "deploy_event e = (\<not> cluster_write e)"

lemma emits_components [emits_intros]:
  "emits deploy_event (ReconcileCommon env)" "emits deploy_event (ReconcilePersistenceAgent env)"
  "emits deploy_event (ReconcileScheduledWorkflow env)" "emits deploy_event (ReconcileWorkflowController env)"
  "emits deploy_event (ReconcileWebhook env)"
  unfolding ReconcileCommon_def ReconcilePersistenceAgent_def ReconcileScheduledWorkflow_def
    ReconcileWorkflowController_def ReconcileWebhook_def Let_def
  by (intro emits_intros; simp)+

lemma emits_mlmd [emits_intros]: "emits deploy_event (ReconcileMLMD env)"
  unfolding ReconcileMLMD_def mlmd_certificates_def LoadMlmdCertificates_def GetSecret_def Let_def
  by (intro emits_intros; simp)

lemma emits_api_server [emits_intros]: "emits deploy_event (ReconcileAPIServer env)"
  unfolding ReconcileAPIServer_def apply_api_templates_def GetTemplatesInDir_def server_route_def apply_samples_def
  by (intro emits_intros; simp)

lemma emits_webhook_cleanup:
  assumes "\<And>k nn ok. (k, nn) \<in> set (webhook_objects ns) \<Longrightarrow> P (Ev_Get k nn) \<and> P (Ev_Delete_Object k nn ok)"
  shows "emits P (cleanupWebhookResources env ns)"
  unfolding cleanupWebhookResources_def
  by (intro emits_intros) (auto dest: assms)

section \<open>Properties\<close>

text \<open>What the list of resources says about the webhook.\<close>

definition webhook_unused :: "env \<Rightarrow> world \<Rightarrow> bool" where
  "webhook_unused env w \<longleftrightarrow>
     (case e_list_dspas env (w_history w) of
        Inl e \<Rightarrow> False
      | Inr items \<Rightarrow>
          list_all (\<lambda>d. (d_name d = d_name (cur_dspa w) \<and> d_namespace d = d_namespace (cur_dspa w)) \<or>
             (case sp_api_server (d_spec d) of None \<Rightarrow> True | Some a \<Rightarrow> as_pipeline_store a \<noteq> ''kubernetes'')) items)"

text \<open>
  C37: The shared webhook is removed only when nobody needs it.  Cleaning up after a resource deletes
  objects of the webhook only, and only if the list of resources just read holds no other one with the
  pipeline store \<open>kubernetes\<close>.
\<close>

theorem webhook_cleanup_safe:
  "case CleanUpWebhookIfUnused env w of
     (r, w') \<Rightarrow>
       \<exists>evs. w_history w' = w_history w @ evs \<and>
         list_all (\<lambda>e. case e of
             Ev_Delete_Object k nn ok \<Rightarrow>
               webhook_unused env w \<and> (k, nn) \<in> set (webhook_objects (p_dspo_namespace (w_params w)))
           | _ \<Rightarrow> \<not> cluster_write e) evs"
proof -
  let ?ns = "p_dspo_namespace (w_params w)"
  let ?P = "\<lambda>e. case e of
      Ev_Delete_Object k nn ok \<Rightarrow> webhook_unused env w \<and> (k, nn) \<in> set (webhook_objects ?ns)
    | _ \<Rightarrow> \<not> cluster_write e"
  have clean: "emits ?P (cleanupWebhookResources env ?ns)" if "webhook_unused env w"
    by (rule emits_webhook_cleanup) (use that in simp)
  show ?thesis
  proof (cases "e_list_dspas env (w_history w)")
    case (Inl e)
    then show ?thesis
      by (simp add: CleanUpWebhookIfUnused_def and_then_get)
        (simp add: checkAvailableKubernetesDSPAs_def list_dspas_def and_then_def attempt_def call_def fail_def log_event_def)
  next
    case (Inr items)
    let ?w1 = "log_event Ev_List_Dspas w"
    have run: "CleanUpWebhookIfUnused env w =
        (if webhook_unused env w then cleanupWebhookResources env ?ns ?w1 else ret () ?w1)"
      using Inr
      by (simp add: CleanUpWebhookIfUnused_def and_then_get)
        (auto simp: checkAvailableKubernetesDSPAs_def list_dspas_def and_then_def attempt_def call_def ret_def
           webhook_unused_def list_ex_iff list_all_iff uses_kubernetes_store_def split: option.splits)
    show ?thesis
    proof (cases "webhook_unused env w")
      case True
      obtain r w' where fin: "cleanupWebhookResources env ?ns ?w1 = (r, w')" by fastforce
      from emitsD [OF clean [OF True] fin] obtain evs where
        "w_history w' = w_history ?w1 @ evs" "list_all ?P evs" by blast
      with run True fin show ?thesis by (simp add: log_event_def)
    next
      case False
      with run show ?thesis by (simp add: ret_def log_event_def)
    qed
  qed
qed

text \<open>
  The management state of the workflow controllers decides.  \<open>Managed\<close>, or nothing, deploys the
  controller if the resource wants it and says so; \<open>Removed\<close> applies nothing and says that there is no
  controller; any other state is an error and nothing is done.  A configuration that is not JSON counts
  as \<open>Managed\<close>.
\<close>

lemma workflow_controller_decision:
  "case ReconcileWorkflowController env w of
     (r, w') \<Rightarrow>
       (let state = argo_management_state (e_viper env);
            wanted = (case sp_workflow_controller (d_spec (cur_dspa w)) of None \<Rightarrow> False | Some wc \<Rightarrow> wc_deploy wc) in
        if state \<in> {'''', ''Managed''} then
          (if wanted then (case r of Ok b \<Rightarrow> b | _ \<Rightarrow> True) else r = Ok False \<and> w' = w)
        else if state = ''Removed'' then
          applied (w_history w') = applied (w_history w) \<and> (case r of Ok b \<Rightarrow> \<not> b | _ \<Rightarrow> True)
        else (\<exists>e. r = Err e) \<and> w' = w)"
proof -
  let ?state = "argo_management_state (e_viper env)"
  obtain r1 w1 where del: "DeleteResourceDir env workflowControllerTemplatesDir w = (r1, w1)" by fastforce
  from emitsD [OF no_apply_updates(1) del] have quiet: "applied (w_history w1) = applied (w_history w)"
    by (auto simp: applied_none)
  show ?thesis
    using quiet
    by (cases "?state = ''''"; cases "?state = ''Managed''"; cases "?state = ''Removed''";
        cases "sp_workflow_controller (d_spec (cur_dspa w))")
      (auto simp: ReconcileWorkflowController_def and_then_get GetManagementState_def config_consts ret_def fail_def,
       auto simp: and_then_def attempt_def ret_def fail_def del split: prod.splits res.splits)
qed

end
