(* ===== verification/Conditions.thy ===== *)
theory Conditions imports Components begin

text \<open>
  How the controller comes to the conditions of a reconcile
  (\<open>controllers/dspipeline_controller.go\<close>): the readiness of a deployment (\<open>evaluateCondition\<close>), of the
  webhook, the validation of managed pipelines and the carry-over of conditions when deployment is
  blocked.  The fetcher of pipeline names is the interface \<open>PipelineNamesFetcher\<close> of the source: an
  argument here.
\<close>

section \<open>Readiness of a deployment\<close>

definition quoted :: "string \<Rightarrow> string" where
  "quoted s = [CHR 0x22] @ s @ [CHR 0x22]"

text \<open>The three assignments with which a branch of \<open>evaluateCondition\<close> turns its condition False.\<close>

definition false_condition :: "condition \<Rightarrow> string \<Rightarrow> string \<Rightarrow> condition" where
  "false_condition c reason message = c\<lparr>c_reason := reason, c_status := StFalse, c_message := message\<rparr>"

definition missing_condition :: "string \<Rightarrow> condition \<Rightarrow> condition" where
  "missing_condition component condition =
     false_condition condition ComponentDeploymentNotFound
       (''Deployment for component '' @ quoted component @
        '' is missing - pre-requisite component may not yet be available.'')"

text \<open>The verdict the deployment's own status gives, if it gives one.\<close>

definition progress_failed :: "deployment_condition option \<Rightarrow> bool" where
  "progress_failed c =
     (case c of
        None \<Rightarrow> False
      | Some x \<Rightarrow> dc_status x = StFalse \<and>
          (dc_reason x = ''ProgressDeadlineExceeded'' \<or> dc_reason x = ''ReplicaSetCreateError''))"

definition holds_true :: "deployment_condition option \<Rightarrow> bool" where
  "holds_true c = (case c of None \<Rightarrow> False | Some x \<Rightarrow> dc_status x = StTrue)"

definition failure_text :: "deployment_condition option \<Rightarrow> string" where
  "failure_text c =
     (case c of
        None \<Rightarrow> ''''
      | Some x \<Rightarrow> ''Reason: ['' @ dc_reason x @ '']. '' @ ''Message: ['' @ dc_message x @ '']'')"

definition deployment_verdict :: "string \<Rightarrow> deployment \<Rightarrow> condition \<Rightarrow> condition option" where
  "deployment_verdict component deployment condition =
     (let progressingCond = GetDeploymentCondition (dp_conditions deployment) ''Progressing'';
          availableCond = GetDeploymentCondition (dp_conditions deployment) ''Available'';
          replicaFailureCond = GetDeploymentCondition (dp_conditions deployment) ''ReplicaFailure'' in
      if dp_replicas deployment = Some 0 then
        Some (false_condition condition MinimumReplicasAvailable
                (''Deployment for component '' @ quoted component @ '' is scaled down.''))
      else if holds_true availableCond then
        Some (condition\<lparr>c_reason := MinimumReplicasAvailable, c_status := StTrue,
                c_message := ''Component ['' @ component @ ''] is minimally available.''\<rparr>)
      else if progress_failed progressingCond then
        Some (false_condition condition FailingToDeploy
                (''Component ['' @ component @ ''] has failed to progress. '' @ failure_text progressingCond))
      else if holds_true replicaFailureCond then
        Some (false_condition condition FailingToDeploy
                (''Component'' @ CHR 0x27 # ''s replica ['' @ component @ ''] has failed to create. '' @
                 failure_text replicaFailureCond))
      else None)"

text \<open>The loop over the pods: a container that crashes ends it, a failed pod is noted.\<close>

definition crash_looping :: "container_waiting option \<Rightarrow> bool" where
  "crash_looping c = (case c of None \<Rightarrow> False | Some x \<Rightarrow> cw_reason x = ''CrashLoopBackOff'')"

fun scan_pods :: "string \<Rightarrow> condition \<Rightarrow> pod list \<Rightarrow> bool \<Rightarrow> string \<Rightarrow> condition" where
  "scan_pods component condition [] hasPodFailures podFailureMessage =
     (if hasPodFailures then false_condition condition FailingToDeploy podFailureMessage
      else false_condition condition Deploying (''Component ['' @ component @ ''] is deploying.''))"
| "scan_pods component condition (p # ps) hasPodFailures podFailureMessage =
     (case find crash_looping (po_containers p) of
        Some (Some waiting) \<Rightarrow>
          false_condition condition FailingToDeploy
            (''Component ['' @ component @ ''] is in CrashLoopBackOff. '' @
             ''Message from pod: ['' @ cw_message waiting @ '']'')
      | _ \<Rightarrow>
          (if po_phase p = ''Failed''
           then scan_pods component condition ps True
             (podFailureMessage @ ''Pod named ['' @ po_name p @ ''] that is associated with this component ['' @
              component @ ''] is in failed phase.'')
           else scan_pods component condition ps hasPodFailures podFailureMessage))"

definition evaluateCondition :: "env \<Rightarrow> string \<Rightarrow> string \<Rightarrow> condition action" where
  "evaluateCondition env component conditionType =
     and_then get_cur (\<lambda>dspa.
     and_then (read_clock env) (\<lambda>now.
     (let condition = BuildUnknownCondition conditionType now in
      attempt (get_deployment env (nsname (d_namespace dspa) component))
        (\<lambda>err. if is_not_found err then ret (missing_condition component condition) else fail err)
        (\<lambda>deployment.
           case deployment_verdict component deployment condition of
             Some c \<Rightarrow> ret c
           | None \<Rightarrow>
               and_then (list_pods env (dp_match_labels deployment)) (\<lambda>items.
               ret (scan_pods component condition items False ''''))))))"

section \<open>Storing conditions\<close>

text \<open>
  \<open>setStatus\<close>: when the condition could not be evaluated, what \<open>evaluateCondition\<close> returns beside the
  error, the zero condition, is stored all the same, and the error is logged.
\<close>

definition setStatus :: "env \<Rightarrow> string \<Rightarrow> component_slot \<Rightarrow> unit action" where
  "setStatus env resourceName k =
     attempt (evaluateCondition env resourceName (slot_type k))
       (\<lambda>err. store_status (set_slot k empty_condition))
       (\<lambda>condition. store_status (set_slot k condition))"

definition setStatusAsNotReady :: "env \<Rightarrow> component_slot \<Rightarrow> gerr \<Rightarrow> unit action" where
  "setStatusAsNotReady env k err =
     set_status env (\<lambda>now. set_slot k (BuildFalseCondition (slot_type k) FailingToDeploy (err_msg err) now))"

definition setStatusAsUnsupported :: "env \<Rightarrow> component_slot \<Rightarrow> gerr \<Rightarrow> unit action" where
  "setStatusAsUnsupported env k err =
     set_status env (\<lambda>now. set_slot k (BuildFalseCondition (slot_type k) UnsupportedVersion (err_msg err) now))"

text \<open>Whether the webhook runs, and the reason if not.\<close>

definition checkWebhookStatus :: "env \<Rightarrow> (bool \<times> string) action" where
  "checkWebhookStatus env =
     and_then get_params (\<lambda>params.
     attempt (get_deployment env (nsname (p_dspo_namespace params) (p_webhook_name params)))
       (\<lambda>err. ret (False, if is_not_found err then ComponentDeploymentNotFound else FailingToDeploy))
       (\<lambda>deployment.
          if holds_true (GetDeploymentCondition (dp_conditions deployment) ''Available'')
          then ret (True, '''') else ret (False, MinimumReplicasAvailable)))"

text \<open>The conditions of the components that are reconciled after the validation, from the stored status.\<close>

definition conditionSetters :: "component_slot list" where
  "conditionSetters =
     [ApiServerSlot, PersistenceAgentSlot, ScheduledWorkflowSlot, WorkflowControllerSlot, MLMDProxySlot]"

definition preservePostValidationConditions :: "dspa \<Rightarrow> dspa_status \<Rightarrow> dspa_status" where
  "preservePostValidationConditions dspa dspaStatus =
     fold (\<lambda>k s.
        (let prev = GetConditionByType (slot_type k) (st_conditions (d_status dspa)) in
         if c_type prev = slot_type k then set_slot k prev s else s))
       conditionSetters dspaStatus"

section \<open>Validation of managed pipelines\<close>

text \<open>The result: whether to go on with the deployment, and whether to come back later.\<close>

definition validateManagedPipelines ::
  "env \<Rightarrow> (string \<Rightarrow> string set action) \<Rightarrow> (bool \<times> bool) action" where
  "validateManagedPipelines env fetch =
     and_then get_cur (\<lambda>dspa.
     case sp_api_server (d_spec dspa) of
       None \<Rightarrow> and_then (set_status env SetManagedPipelineNotApplicable) (\<lambda>_. ret (True, False))
     | Some a \<Rightarrow>
         (case as_managed_pipelines a of
            None \<Rightarrow> and_then (set_status env SetManagedPipelineNotApplicable) (\<lambda>_. ret (True, False))
          | Some mp \<Rightarrow>
              if mps_pipelines mp = [] then
                and_then (set_status env SetManagedPipelineNotApplicable) (\<lambda>_. ret (True, False))
              else
                attempt (fetch (mps_image mp))
                  (\<lambda>err.
                     if as_permanent err then
                       and_then (set_status env (SetManagedPipelineInvalid (Some err) ManagedPipelineInvalid))
                         (\<lambda>_. ret (False, False))
                     else
                       and_then (set_status env (SetManagedPipelineInvalid (Some err) ManagedPipelinesFetchError))
                         (\<lambda>_. ret (True, True)))
                  (\<lambda>manifestNames.
                     case ValidateManagedPipelineNames (mps_pipelines mp) manifestNames of
                       Some err \<Rightarrow>
                         and_then (set_status env (SetManagedPipelineInvalid (Some err) ManagedPipelineInvalid))
                           (\<lambda>_. ret (False, False))
                     | None \<Rightarrow> and_then (set_status env SetManagedPipelineValid) (\<lambda>_. ret (True, False)))))"

section \<open>Lemmas\<close>

lemma false_condition_fields [simp]:
  "c_type (false_condition c r m) = c_type c" "c_status (false_condition c r m) = StFalse"
  "c_reason (false_condition c r m) = r" "c_message (false_condition c r m) = m"
  by (simp_all add: false_condition_def)

lemma missing_condition_fields [simp]:
  "c_type (missing_condition n c) = c_type c" "c_status (missing_condition n c) = StFalse"
  "c_reason (missing_condition n c) = ComponentDeploymentNotFound"
  by (simp_all add: missing_condition_def)

text \<open>A pod that counts as failed, and a deployment whose status says so.\<close>

definition pod_failing :: "pod \<Rightarrow> bool" where
  "pod_failing p \<longleftrightarrow> po_phase p = ''Failed'' \<or> list_ex crash_looping (po_containers p)"

definition deployment_ready :: "deployment \<Rightarrow> bool" where
  "deployment_ready d \<longleftrightarrow>
     dp_replicas d \<noteq> Some 0 \<and> holds_true (GetDeploymentCondition (dp_conditions d) ''Available'')"

definition deployment_failed :: "deployment \<Rightarrow> bool" where
  "deployment_failed d \<longleftrightarrow>
     progress_failed (GetDeploymentCondition (dp_conditions d) ''Progressing'') \<or>
     holds_true (GetDeploymentCondition (dp_conditions d) ''ReplicaFailure'')"

lemma find_crash_looping:
  "find crash_looping cs = None \<or>
   (\<exists>waiting. find crash_looping cs = Some (Some waiting))"
  by (induction cs) (auto simp: crash_looping_def split: option.splits)

lemma find_None_ex: "(find P cs = None) = (\<not> list_ex P cs)"
  by (induction cs) auto

lemma scan_pods_fields:
  "c_type (scan_pods n c ps b m) = c_type c \<and> c_status (scan_pods n c ps b m) = StFalse \<and>
   c_reason (scan_pods n c ps b m) = (if b \<or> list_ex pod_failing ps then FailingToDeploy else Deploying)"
proof (induction ps arbitrary: b m)
  case (Cons p ps)
  show ?case
    using find_crash_looping [of "po_containers p"]
  proof
    assume none: "find crash_looping (po_containers p) = None"
    then have "pod_failing p = (po_phase p = ''Failed'')"
      by (simp add: pod_failing_def find_None_ex)
    with none Cons.IH show ?thesis by simp
  next
    assume "\<exists>waiting. find crash_looping (po_containers p) = Some (Some waiting)"
    then obtain waiting where some: "find crash_looping (po_containers p) = Some (Some waiting)" by blast
    then have "list_ex crash_looping (po_containers p)"
      by (metis find_None_ex option.distinct(1))
    with some show ?thesis by (simp add: pod_failing_def)
  qed
qed simp

lemma deployment_verdict_fields:
  "case deployment_verdict n d c of
     None \<Rightarrow> dp_replicas d \<noteq> Some 0 \<and> \<not> deployment_ready d \<and> \<not> deployment_failed d
   | Some v \<Rightarrow> c_type v = c_type c \<and> c_status v = (if deployment_ready d then StTrue else StFalse) \<and>
       c_reason v = (if dp_replicas d = Some 0 \<or> deployment_ready d then MinimumReplicasAvailable else FailingToDeploy) \<and>
       (dp_replicas d = Some 0 \<or> deployment_ready d \<or> deployment_failed d)"
  by (simp add: deployment_verdict_def deployment_ready_def deployment_failed_def Let_def)

lemma evaluateCondition_run:
  fixes env w component conditionType
  assumes c0: "c0 = BuildUnknownCondition conditionType (e_now env (w_ticks w))"
    and nn: "nn = nsname (d_namespace (cur_dspa w)) component"
    and w1: "w1 = log_event (Ev_Get KDeployment nn) (w\<lparr>w_ticks := w_ticks w + 1\<rparr>)"
  shows "evaluateCondition env component conditionType w =
    (case e_get_deployment env (w_history w) nn of
       Inl e \<Rightarrow> (if is_not_found e then Ok (missing_condition component c0) else Err e, w1)
     | Inr d \<Rightarrow>
         (case deployment_verdict component d c0 of
            Some c \<Rightarrow> (Ok c, w1)
          | None \<Rightarrow>
              (case e_list_pods env (w_history w @ [Ev_Get KDeployment nn]) (dp_match_labels d) of
                 Inl e \<Rightarrow> (Err e, log_event (Ev_List_Pods (dp_match_labels d)) w1)
               | Inr pods \<Rightarrow> (Ok (scan_pods component c0 pods False ''''),
                   log_event (Ev_List_Pods (dp_match_labels d)) w1))))"
  unfolding evaluateCondition_def and_then_get
  by (simp add: and_then_def attempt_def read_clock_def get_deployment_def list_pods_def call_def Let_def ret_def
      fail_def log_event_def assms split: sum.splits option.splits)

section \<open>Properties\<close>

text \<open>
  C12: The readiness of a component is what its deployment and its pods say.  The condition carries the
  type asked for; it is True exactly when the deployment exists, is not scaled to zero and is
  available; otherwise it is False, with the reason that the deployment is missing, scaled down or
  unavailable, failing (by its own status, or because a pod returned for its labels has failed or
  crashes), or still deploying.  The only errors are those of reading the deployment and of listing the
  pods.
\<close>

theorem evaluateCondition_outcome:
  "case evaluateCondition env component conditionType w of
     (r, w') \<Rightarrow>
       (let nn = nsname (d_namespace (cur_dspa w)) component in
        case e_get_deployment env (w_history w) nn of
          Inl e \<Rightarrow>
            (case r of
               Ok c \<Rightarrow> is_not_found e \<and> c_type c = conditionType \<and> c_status c = StFalse \<and>
                 c_reason c = ComponentDeploymentNotFound
             | Err e' \<Rightarrow> e' = e \<and> \<not> is_not_found e
             | Panic p \<Rightarrow> False)
        | Inr d \<Rightarrow>
            (let looked = dp_replicas d \<noteq> Some 0 \<and> \<not> deployment_ready d \<and> \<not> deployment_failed d;
                 pods = e_list_pods env (w_history w @ [Ev_Get KDeployment nn]) (dp_match_labels d) in
             case r of
               Ok c \<Rightarrow> c_type c = conditionType \<and>
                 c_status c = (if deployment_ready d then StTrue else StFalse) \<and>
                 c_reason c =
                   (if dp_replicas d = Some 0 \<or> deployment_ready d then MinimumReplicasAvailable
                    else if deployment_failed d \<or> (case pods of Inl e \<Rightarrow> False | Inr ps \<Rightarrow> list_ex pod_failing ps)
                    then FailingToDeploy else Deploying)
             | Err e \<Rightarrow> looked \<and> pods = Inl e
             | Panic p \<Rightarrow> False))"
proof -
  let ?nn = "nsname (d_namespace (cur_dspa w)) component"
  show ?thesis
  proof (cases "e_get_deployment env (w_history w) ?nn")
    case (Inl e)
    then show ?thesis by (simp add: evaluateCondition_run [OF refl refl refl])
  next
    case (Inr d)
    let ?c0 = "BuildUnknownCondition conditionType (e_now env (w_ticks w))"
    note v = deployment_verdict_fields [where n = component and d = d and c = ?c0]
    show ?thesis
    proof (cases "deployment_verdict component d ?c0")
      case None
      with v Inr show ?thesis
        by (cases "e_list_pods env (w_history w @ [Ev_Get KDeployment ?nn]) (dp_match_labels d)")
          (simp_all add: evaluateCondition_run [OF refl refl refl] Let_def scan_pods_fields)
    next
      case (Some c)
      with v Inr show ?thesis by (auto simp: evaluateCondition_run [OF refl refl refl] Let_def)
    qed
  qed
qed


section \<open>Conditions that are carried over\<close>

lemma GetConditionByType_find:
  "GetConditionByType t cs = (case find (\<lambda>c. c_type c = t) cs of Some c \<Rightarrow> c | None \<Rightarrow> empty_condition)"
  by (induction cs) auto

lemma slot_type_nonempty [simp]: "'''' \<noteq> slot_type k"
  by (cases k) (simp_all add: config_consts)

lemma find_type: "find (\<lambda>c. c_type c = t) cs = Some c \<Longrightarrow> c_type c = t"
  by (induction cs) (auto split: if_splits)

lemma preserve_put_known:
  "preservePostValidationConditions d s =
     status_slots.put_known (\<lambda>k. find (\<lambda>c. c_type c = slot_type k) (st_conditions (d_status d))) conditionSetters s"
proof -
  have "(if c_type (GetConditionByType (slot_type k) cs) = slot_type k then set_slot k (GetConditionByType (slot_type k) cs) s else s)
      = (case find (\<lambda>c. c_type c = slot_type k) cs of Some c \<Rightarrow> set_slot k c s | None \<Rightarrow> s)" for k cs s
  proof (cases "find (\<lambda>c. c_type c = slot_type k) cs")
    case (Some c)
    then show ?thesis by (simp add: GetConditionByType_find find_type [OF Some])
  qed (simp add: GetConditionByType_find empty_condition_def)
  then show ?thesis
    by (simp add: preservePostValidationConditions_def status_slots.put_known_def Let_def)
qed

lemma preserved_slot:
  "get_slot k (preservePostValidationConditions d s) =
     (case find (\<lambda>c. c_type c = slot_type k) (st_conditions (d_status d)) of Some c \<Rightarrow> c | None \<Rightarrow> get_slot k s)"
  unfolding preserve_put_known status_slots.slot_put_known
  by (cases k) (simp_all add: conditionSetters_def)

section \<open>The decision about managed pipelines\<close>

text \<open>The image and the names, if the resource lists pipelines explicitly.\<close>

definition explicit_pipelines :: "dspa \<Rightarrow> (string \<times> managed_pipeline list) option" where
  "explicit_pipelines d =
     (case sp_api_server (d_spec d) of
        None \<Rightarrow> None
      | Some a \<Rightarrow>
          (case as_managed_pipelines a of
             None \<Rightarrow> None
           | Some mp \<Rightarrow> if mps_pipelines mp = [] then None else Some (mps_image mp, mps_pipelines mp)))"

definition only_validity :: "dspa_status \<Rightarrow> dspa_status \<Rightarrow> bool" where
  "only_validity s s' \<longleftrightarrow> (\<exists>c. s' = s\<lparr>s_managedPipelineValid := c\<rparr>)"

lemma only_validity_setters:
  "only_validity s (SetManagedPipelineValid now s)" "only_validity s (SetManagedPipelineInvalid e r now s)"
  "only_validity s (SetManagedPipelineNotApplicable now s)"
  by (auto simp: only_validity_def status_setter_defs)

lemma validate_none:
  "explicit_pipelines (cur_dspa w) = None \<Longrightarrow>
   validateManagedPipelines env fetch w =
     and_then (set_status env SetManagedPipelineNotApplicable) (\<lambda>_. ret (True, False)) w"
  by (auto simp: validateManagedPipelines_def and_then_get explicit_pipelines_def split: option.splits if_splits)

lemma validate_some:
  "explicit_pipelines (cur_dspa w) = Some (img, ps) \<Longrightarrow>
   validateManagedPipelines env fetch w =
     attempt (fetch img)
       (\<lambda>err. and_then
          (set_status env (SetManagedPipelineInvalid (Some err)
             (if as_permanent err then ManagedPipelineInvalid else ManagedPipelinesFetchError)))
          (\<lambda>_. ret (\<not> as_permanent err, \<not> as_permanent err)))
       (\<lambda>names.
          case ValidateManagedPipelineNames ps names of
            Some err \<Rightarrow> and_then (set_status env (SetManagedPipelineInvalid (Some err) ManagedPipelineInvalid)) (\<lambda>_. ret (False, False))
          | None \<Rightarrow> and_then (set_status env SetManagedPipelineValid) (\<lambda>_. ret (True, False))) w"
  by (auto simp: validateManagedPipelines_def and_then_get explicit_pipelines_def attempt_def
      split: option.splits if_splits prod.splits res.splits)

lemma ValidateManagedPipelineNames_None:
  "ps \<noteq> [] \<Longrightarrow> (ValidateManagedPipelineNames ps names = None) = (mp_name ` set ps \<subseteq> names)"
  by (auto simp: ValidateManagedPipelineNames_def Let_def filter_empty_conv)

end
