(* ===== verification/Storage.thy ===== *)
theory Storage imports Database begin

text \<open>
  \<open>controllers/storage.go\<close>: the client options of the object store health check, the check and the
  deployment of the in-cluster Minio.  The S3 client and the certificate parser are parameters.
\<close>

definition storageSecret :: string where
  "storageSecret = ''minio/generated-secret/secret.yaml.tmpl''"

definition storageRoute :: string where
  "storageRoute = ''minio/route.yaml.tmpl''"

definition minioTemplates :: "string list" where
  "minioTemplates =
     [''minio/default/deployment.yaml.tmpl'', ''minio/default/pvc.yaml.tmpl'', ''minio/default/service.yaml.tmpl'',
      ''minio/default/service.minioservice.yaml.tmpl'', ''minio/default/minio-sa.yaml.tmpl'', storageRoute]"

section \<open>The health check\<close>

definition joinHostPort :: "string \<Rightarrow> string \<Rightarrow> gerr + string" where
  "joinHostPort host port =
     (if host = '''' then Inl (Plain_Err ''object storage connection missing host'')
      else if port = '''' then Inr host
      else Inr (host @ '':'' @ port))"

definition createCredentialProvidersChain :: "string \<Rightarrow> string \<Rightarrow> s3_credentials" where
  "createCredentialProvidersChain accessKey secretKey =
     (if accessKey \<noteq> '''' \<and> secretKey \<noteq> '''' then Static_V4 accessKey secretKey else Provider_Chain)"

text \<open>
  The pool is set up before the certificates are added; a certificate that does not parse ends in an
  error, and the transport is dropped.
\<close>

definition addCustomCACerts :: "env \<Rightarrow> s3_transport \<Rightarrow> string list \<Rightarrow> gerr + s3_transport" where
  "addCustomCACerts env transport pemCerts =
     (if pemCerts = [] then Inr transport
      else
        (let pool = (case tr_root_cas transport of
                       Some cas \<Rightarrow> cas
                     | None \<Rightarrow> (case e_system_cert_pool env of Inl e \<Rightarrow> [] | Inr sys \<Rightarrow> sys)) in
         if list_all (e_pem_ok env) pemCerts then Inr (transport\<lparr>tr_root_cas := Some (pool @ pemCerts)\<rparr>)
         else Inl bad_pem))"

definition configureProxyForTransport :: "s3_transport \<Rightarrow> proxy_config option \<Rightarrow> s3_transport" where
  "configureProxyForTransport transport proxyConfig =
     (case proxyConfig of None \<Rightarrow> transport | Some px \<Rightarrow> transport\<lparr>tr_proxy := Some px\<rparr>)"

definition getTransportWithProxyAndCACert ::
  "env \<Rightarrow> string list \<Rightarrow> proxy_config option \<Rightarrow> bool \<Rightarrow> gerr + s3_transport" where
  "getTransportWithProxyAndCACert env pemCerts proxyConfig secure =
     (case e_default_transport env secure of
        Inl err \<Rightarrow> Inl (Plain_Err (''error creating default transport : '' @ err_msg err))
      | Inr transport \<Rightarrow>
          (case addCustomCACerts env transport pemCerts of
             Inl err \<Rightarrow> Inl err
           | Inr tr \<Rightarrow> Inr (configureProxyForTransport tr proxyConfig)))"

definition transport_option ::
  "env \<Rightarrow> string list \<Rightarrow> proxy_config option \<Rightarrow> bool \<Rightarrow> gerr + s3_transport option" where
  "transport_option env pemCerts proxyConfig secure =
     (if pemCerts \<noteq> [] \<or> proxyConfig \<noteq> None then
        (case getTransportWithProxyAndCACert env pemCerts proxyConfig secure of
           Inl err \<Rightarrow> Inl (Plain_Err ''encountered error when processing custom ca bundle or proxy configuration'')
         | Inr tr \<Rightarrow> Inr (Some tr))
      else Inr None)"

text \<open>What an error of the stat call means: the check has passed, or an error for the status.\<close>

definition unavailable_503 :: gerr where
  "unavailable_503 = Plain_Err
     (''503 service unavailable: this could be a special condition when minio external route is used '' @
      ''and health check is trying to reach the service, where the pod is up and running but takes long time '' @
      ''to pass the successful readiness checks'')"

definition unknown_authority :: gerr where
  "unknown_authority = Plain_Err
     (''encountered x509 UnknownAuthorityError when connecting to ObjectStore: '' @
      ''if using a TLS S3 connection with self-signed certs, you may specify a custom CABundle '' @
      ''to mount on the DSP API Server via the DSPA cr under the spec.apiServer.cABundle field; if you have already '' @
      ''provided a CABundle, verify the validity of the provided CABundle'')"

fun response_code :: "gerr \<Rightarrow> string option" where
  "response_code (Minio_Response_Err cd m) = Some cd"
| "response_code _ = None"

definition stat_error :: "string \<Rightarrow> gerr \<Rightarrow> gerr + bool" where
  "stat_error endpoint err =
     (if response_code err = Some ''NoSuchKey'' \<or> response_code err = Some ''NoSuchBucket'' then Inr True
      else if response_code err = Some ''503 Service Unavailable'' then Inl unavailable_503
      else if IsX509UnknownAuthorityError err then Inl unknown_authority
      else Inl (Plain_Err (''Could not connect to ('' @ endpoint @ ''), Error: '' @ err_msg err)))"

definition ConnectAndQueryObjStore ::
  "env \<Rightarrow> string \<Rightarrow> string \<Rightarrow> string \<Rightarrow> string \<Rightarrow> bool \<Rightarrow> string list \<Rightarrow> proxy_config option \<Rightarrow> int \<Rightarrow> bool action" where
  "ConnectAndQueryObjStore env endpoint bucket accesskey secretkey secure pemCerts proxyConfig objStoreConnectionTimeout =
     and_then (of_sum (transport_option env pemCerts proxyConfig secure)) (\<lambda>tr.
     (let opts = \<lparr>so_creds = createCredentialProvidersChain accesskey secretkey, so_secure = secure, so_transport = tr\<rparr> in
      case e_minio_new env endpoint opts of
        Some err \<Rightarrow> fail (Plain_Err (''Could not connect to object storage endpoint: '' @ endpoint))
      | None \<Rightarrow>
          attempt (call_opt (\<lambda>h. e_stat_object env h endpoint opts bucket ''some-random-object'' objStoreConnectionTimeout)
                     (Ev_Obj_Stat endpoint bucket))
            (\<lambda>err. of_sum (stat_error endpoint err))
            (\<lambda>_. ret True)))"

definition decode_key :: "string \<Rightarrow> string \<Rightarrow> string action" where
  "decode_key what key =
     (case b64_decode key of (bytes, bad) \<Rightarrow> if bad then fail (Plain_Err what) else ret bytes)"

definition isObjectStorageAccessible :: "env \<Rightarrow> bool action" where
  "isObjectStorageAccessible env =
     and_then get_cur (\<lambda>dsp.
     and_then get_params (\<lambda>params.
     (let c = p_object_storage_connection params in
      if ObjectStorageHealthCheckDisabled dsp then ret True
      else
        and_then (wrap_err (\<lambda>_. Plain_Err ''could not determine object storage endpoint'')
                    (of_sum (joinHostPort (osc_host c) (osc_port c)))) (\<lambda>endpoint.
        and_then (decode_key ''could not decode object storage access key ID'' (osc_access_key_id c)) (\<lambda>accesskey.
        and_then (decode_key ''could not decode object storage secret access key'' (osc_secret_access_key c)) (\<lambda>secretkey.
        and_then (deref ''ObjectStorageConnection.Secure'' (osc_secure c)) (\<lambda>secure.
        ConnectAndQueryObjStore env endpoint (osc_bucket c) accesskey secretkey secure (p_api_custom_pem_certs params)
          (p_proxy_config params)
          (GetDurationConfigWithDefault (e_viper env) ObjStoreConnectionTimeoutConfigName
             DefaultObjStoreConnectionTimeout))))))))"

section \<open>The deployment\<close>

text \<open>A resource without object storage would be given Minio here, but \<open>ReconcileStorage\<close> panics on it before.\<close>

definition record_minio :: "env \<Rightarrow> unit action" where
  "record_minio env =
     and_then get_params (\<lambda>params.
     and_then (deref ''Spec.ObjectStorage.Minio'' (p_minio params)) (\<lambda>m.
     and_then (mod_cur (\<lambda>d. d\<lparr>d_spec := (d_spec d)\<lparr>sp_object_storage :=
         Some \<lparr>os_minio = Some (m\<lparr>mn_deploy := True\<rparr>), os_external_storage = None,
               os_disable_health_check = False, os_enable_external_route = False\<rparr>\<rparr>\<rparr>)) (\<lambda>_.
     update_dspa env)))"

definition deploy_minio :: "env \<Rightarrow> dspa \<Rightarrow> bool \<Rightarrow> unit action" where
  "deploy_minio env dsp storageCredentialsProvided =
     and_then (if \<not> storageCredentialsProvided then Apply env (own dsp) storageSecret [] else ret ()) (\<lambda>_.
     and_then (for_each (\<lambda>template.
         and_then (deref ''Spec.ObjectStorage'' (sp_object_storage (d_spec dsp))) (\<lambda>os.
         if os_enable_external_route os \<or> template \<noteq> storageRoute then Apply env (own dsp) template [] else ret ()))
       minioTemplates) (\<lambda>_.
     if sp_object_storage (d_spec dsp) = None then record_minio env else ret ()))"

definition ReconcileStorage :: "env \<Rightarrow> unit action" where
  "ReconcileStorage env =
     and_then get_cur (\<lambda>dsp.
     (let spec = sp_object_storage (d_spec dsp);
          externalStorageSpecified = UsingExternalStorage dsp;
          externalStorageCredentialsProvided =
            (case spec of
               None \<Rightarrow> False
             | Some os \<Rightarrow> (case os_external_storage os of None \<Rightarrow> False | Some x \<Rightarrow> es_s3_credential_secret x \<noteq> None)) in
      and_then
        (case spec of
           None \<Rightarrow> panic ''Spec.ObjectStorage''
         | Some os \<Rightarrow> ret (case os_minio os of None \<Rightarrow> (False, False) | Some m \<Rightarrow> (mn_deploy m, mn_s3_credential_secret m \<noteq> None)))
        (\<lambda>(deployMinio, minioCredentialsProvided).
      if externalStorageSpecified then ret ()
      else if deployMinio
      then deploy_minio env dsp (externalStorageCredentialsProvided \<or> minioCredentialsProvided)
      else ret ())))"


section \<open>Properties\<close>

lemma decode_key_cases:
  "decode_key what key w = (if snd (b64_decode key) then (Err (Plain_Err what), w) else (Ok (fst (b64_decode key)), w))"
  by (simp add: decode_key_def fail_def ret_def split: prod.split)

text \<open>The options with which the object store must have been asked.\<close>

definition stat_options_ok :: "env \<Rightarrow> dspa_params \<Rightarrow> s3_options \<Rightarrow> bool" where
  "stat_options_ok env p opts \<longleftrightarrow>
     (let c = p_object_storage_connection p in
      osc_secure c = Some (so_secure opts) \<and>
      so_creds opts = createCredentialProvidersChain (fst (b64_decode (osc_access_key_id c))) (fst (b64_decode (osc_secret_access_key c))) \<and>
      (if p_api_custom_pem_certs p = [] \<and> p_proxy_config p = None then so_transport opts = None
       else (case so_transport opts of
               None \<Rightarrow> False
             | Some tr \<Rightarrow>
                 (p_api_custom_pem_certs p = [] \<or>
                   (list_all (e_pem_ok env) (p_api_custom_pem_certs p) \<and>
                    (\<exists>base. tr_root_cas tr = Some (base @ p_api_custom_pem_certs p)))) \<and>
                 (case p_proxy_config p of None \<Rightarrow> True | Some px \<Rightarrow> tr_proxy tr = Some px))))"

lemma transport_option_ok:
  assumes "transport_option env pems px sec = Inr tr"
  shows "if pems = [] \<and> px = None then tr = None
     else (case tr of
             None \<Rightarrow> False
           | Some t \<Rightarrow> (pems = [] \<or> (list_all (e_pem_ok env) pems \<and> (\<exists>base. tr_root_cas t = Some (base @ pems)))) \<and>
               (case px of None \<Rightarrow> True | Some x \<Rightarrow> tr_proxy t = Some x))"
proof (cases "pems = [] \<and> px = None")
  case True
  with assms show ?thesis by (simp add: transport_option_def)
next
  case False
  with assms obtain t0 t1 where
    1: "addCustomCACerts env t0 pems = Inr t1" and 2: "tr = Some (configureProxyForTransport t1 px)"
    by (auto simp: transport_option_def getTransportWithProxyAndCACert_def split: sum.splits if_splits)
  from 1 have "pems = [] \<or> (list_all (e_pem_ok env) pems \<and> (\<exists>base. tr_root_cas t1 = Some (base @ pems)))"
    by (auto simp: addCustomCACerts_def Let_def split: if_splits)
  with 2 False show ?thesis by (auto simp: configureProxyForTransport_def split: option.split)
qed

lemma ConnectAndQueryObjStore_ok:
  assumes run: "ConnectAndQueryObjStore env ep bucket ak sk sec pems px t w = (r, w')"
  shows "(\<forall>q. r \<noteq> Panic q) \<and>
    (\<forall>b. r = Ok b \<longrightarrow> b \<and>
       (\<exists>opts ok. so_creds opts = createCredentialProvidersChain ak sk \<and> so_secure opts = sec \<and>
          transport_option env pems px sec = Inr (so_transport opts) \<and>
          w_history w' = w_history w @ [Ev_Obj_Stat ep bucket ok] \<and>
          (case e_stat_object env (w_history w) ep opts bucket ''some-random-object'' t of
             None \<Rightarrow> ok
           | Some err \<Rightarrow> response_code err \<in> {Some ''NoSuchKey'', Some ''NoSuchBucket''})))"
proof (cases "transport_option env pems px sec")
  case (Inl e)
  with run show ?thesis
    by (auto simp: ConnectAndQueryObjStore_def and_then_def attempt_def of_sum_def fail_def)
next
  case (Inr tr)
  define opts where "opts = \<lparr>so_creds = createCredentialProvidersChain ak sk, so_secure = sec, so_transport = tr\<rparr>"
  have run': "(case e_minio_new env ep opts of
        Some err \<Rightarrow> fail (Plain_Err (''Could not connect to object storage endpoint: '' @ ep))
      | None \<Rightarrow>
          attempt (call_opt (\<lambda>h. e_stat_object env h ep opts bucket ''some-random-object'' t) (Ev_Obj_Stat ep bucket))
            (\<lambda>err. of_sum (stat_error ep err)) (\<lambda>_. ret True)) w = (r, w')"
    using run Inr unfolding opts_def by (simp add: ConnectAndQueryObjStore_def of_sum_def ret_and_then Let_def)
  have "so_creds opts = createCredentialProvidersChain ak sk" "so_secure opts = sec" "so_transport opts = tr"
    by (simp_all add: opts_def)
  with run' Inr show ?thesis
    by (cases "e_minio_new env ep opts"; cases "e_stat_object env (w_history w) ep opts bucket ''some-random-object'' t")
      (auto simp: fail_def attempt_def call_opt_def call_def log_event_def of_sum_def ret_def stat_error_def
         intro!: exI [of _ opts] split: sum.splits if_splits)
qed

lemma isObjectStorageAccessible_run:
  "case isObjectStorageAccessible env w of
     (r, w') \<Rightarrow>
       (let d = cur_dspa w; p = w_params w; c = p_object_storage_connection p in
        case r of
          Ok b \<Rightarrow>
            b \<and> (if ObjectStorageHealthCheckDisabled d then w' = w
                  else (\<exists>ep opts ok t. joinHostPort (osc_host c) (osc_port c) = Inr ep \<and> stat_options_ok env p opts \<and>
                          w_history w' = w_history w @ [Ev_Obj_Stat ep (osc_bucket c) ok] \<and>
                          (case e_stat_object env (w_history w) ep opts (osc_bucket c) ''some-random-object'' t of
                             None \<Rightarrow> ok
                           | Some err \<Rightarrow> response_code err \<in> {Some ''NoSuchKey'', Some ''NoSuchBucket''})))
        | Err e \<Rightarrow> \<not> ObjectStorageHealthCheckDisabled d
        | Panic s \<Rightarrow> osc_secure c = None)"
proof -
  let ?p = "w_params w"
  let ?c = "p_object_storage_connection ?p"
  show ?thesis
  proof (cases "ObjectStorageHealthCheckDisabled (cur_dspa w)")
    case True
    then show ?thesis by (simp add: isObjectStorageAccessible_def and_then_get Let_def ret_def)
  next
    case enabled: False
    obtain r w' where run: "isObjectStorageAccessible env w = (r, w')" by fastforce
    show ?thesis
    proof (cases "(\<exists>ep. joinHostPort (osc_host ?c) (osc_port ?c) = Inr ep) \<and> \<not> snd (b64_decode (osc_access_key_id ?c)) \<and>
        \<not> snd (b64_decode (osc_secret_access_key ?c)) \<and> osc_secure ?c \<noteq> None")
      case True
      then obtain ep sec where ep: "joinHostPort (osc_host ?c) (osc_port ?c) = Inr ep" and sec: "osc_secure ?c = Some sec" by auto
      let ?t = "GetDurationConfigWithDefault (e_viper env) ObjStoreConnectionTimeoutConfigName DefaultObjStoreConnectionTimeout"
      have q: "ConnectAndQueryObjStore env ep (osc_bucket ?c) (fst (b64_decode (osc_access_key_id ?c)))
          (fst (b64_decode (osc_secret_access_key ?c))) sec (p_api_custom_pem_certs ?p) (p_proxy_config ?p) ?t w = (r, w')"
        using run True enabled ep sec
        by (simp add: isObjectStorageAccessible_def and_then_get Let_def)
          (simp add: and_then_def attempt_def wrap_err_def of_sum_def ret_def decode_key_cases deref_def)
      show ?thesis
      proof (cases r)
        case (Ok b)
        with ConnectAndQueryObjStore_ok [OF q] obtain opts ok where o:
          "b" "so_creds opts = createCredentialProvidersChain (fst (b64_decode (osc_access_key_id ?c))) (fst (b64_decode (osc_secret_access_key ?c)))"
          "so_secure opts = sec" "transport_option env (p_api_custom_pem_certs ?p) (p_proxy_config ?p) sec = Inr (so_transport opts)"
          "w_history w' = w_history w @ [Ev_Obj_Stat ep (osc_bucket ?c) ok]"
          "case e_stat_object env (w_history w) ep opts (osc_bucket ?c) ''some-random-object'' ?t of
             None \<Rightarrow> ok | Some err \<Rightarrow> response_code err \<in> {Some ''NoSuchKey'', Some ''NoSuchBucket''}"
          by blast
        have "stat_options_ok env ?p opts"
          using transport_option_ok [OF o(4)] o(2,3) sec by (simp add: stat_options_ok_def Let_def)
        with o ep enabled run Ok show ?thesis by (simp add: Let_def) blast
      next
        case (Panic s)
        with ConnectAndQueryObjStore_ok [OF q] show ?thesis by blast
      qed (use run enabled in simp)
    next
      case False
      with run enabled show ?thesis
        by (simp add: isObjectStorageAccessible_def and_then_get Let_def)
          (auto simp: and_then_def attempt_def wrap_err_def of_sum_def ret_def fail_def decode_key_cases deref_def panic_def
             split: sum.splits option.splits if_splits)
    qed
  qed
qed

text \<open>
  C33: The object store health check.  It reports the store available only if the check is disabled (and
  then it does nothing), or if an authenticated request has just been sent to \<open>host[:port]\<close> for the
  bucket and was answered, possibly by the answer that the key or the bucket does not exist.  The
  request carried the decoded keys, the \<open>secure\<close> flag, every extra certificate and the proxy of the
  resource.
\<close>

theorem object_store_check_queries:
  "case isObjectStorageAccessible env w of
     (r, w') \<Rightarrow>
       (let d = cur_dspa w; p = w_params w; c = p_object_storage_connection p in
        case r of
          Ok b \<Rightarrow>
            b \<and> (if ObjectStorageHealthCheckDisabled d then w' = w
                  else (\<exists>ep opts ok t. joinHostPort (osc_host c) (osc_port c) = Inr ep \<and> stat_options_ok env p opts \<and>
                          w_history w' = w_history w @ [Ev_Obj_Stat ep (osc_bucket c) ok] \<and>
                          (case e_stat_object env (w_history w) ep opts (osc_bucket c) ''some-random-object'' t of
                             None \<Rightarrow> ok
                           | Some err \<Rightarrow> response_code err \<in> {Some ''NoSuchKey'', Some ''NoSuchBucket''})))
        | Err e \<Rightarrow> \<not> ObjectStorageHealthCheckDisabled d
        | Panic s \<Rightarrow> osc_secure c = None)"
  by (rule isObjectStorageAccessible_run)


text \<open>The templates of the in-cluster object store.\<close>

definition storage_templates :: "dspa \<Rightarrow> string list" where
  "storage_templates dsp =
     (case sp_object_storage (d_spec dsp) of
        None \<Rightarrow> []
      | Some os \<Rightarrow>
          (case (os_external_storage os, os_minio os) of
             (None, Some m) \<Rightarrow>
               if \<not> mn_deploy m then []
               else (if mn_s3_credential_secret m = None then [storageSecret] else []) @
                    (if os_enable_external_route os then minioTemplates else butlast minioTemplates)
           | _ \<Rightarrow> []))"

lemma for_each_filter:
  "for_each (\<lambda>t. and_then (deref s (Some x)) (\<lambda>os. if c os t then Apply env ow t [] else ret ())) ts =
   ApplyAll env ow (filter (c x) ts)"
  by (induction ts) (simp_all add: deref_def ret_and_then)

lemma minio_filter:
  "filter (\<lambda>t. b \<or> t \<noteq> storageRoute) minioTemplates = (if b then minioTemplates else butlast minioTemplates)"
  by (simp add: minioTemplates_def storageRoute_def)

lemma applies_deploy_minio:
  assumes "sp_object_storage (d_spec d) = Some os"
  shows "applies ((if c then [] else [storageSecret]) @
           (if os_enable_external_route os then minioTemplates else butlast minioTemplates)) (deploy_minio env d c)"
proof -
  have "applies ((if c then [] else [storageSecret]) @
      (if os_enable_external_route os then minioTemplates else butlast minioTemplates) @ []) (deploy_minio env d c)"
    unfolding deploy_minio_def assms for_each_filter minio_filter
    by (intro applies_and_then applies_ApplyAll) (auto intro: applies_Apply applies_ret)
  then show ?thesis by simp
qed

text \<open>
  What is deployed for the object store.  A successful \<open>ReconcileStorage\<close> has applied exactly the
  Minio templates, after the generated secret unless the resource names one and with the route only if
  the external route is enabled, when no external store is given and Minio is to be deployed; and
  nothing at all otherwise.
\<close>

lemma ReconcileStorage_applies:
  "case ReconcileStorage env w of
     (r, w') \<Rightarrow>
       (case r of
          Ok _ \<Rightarrow> sp_object_storage (d_spec (cur_dspa w)) \<noteq> None \<and>
            applied (w_history w') = applied (w_history w) @ storage_templates (cur_dspa w)
        | _ \<Rightarrow> True)"
proof (cases "sp_object_storage (d_spec (cur_dspa w))")
  case None
  then show ?thesis
    by (simp add: ReconcileStorage_def and_then_get Let_def) (simp add: and_then_def attempt_def panic_def)
next
  case (Some os)
  obtain r w' where run: "ReconcileStorage env w = (r, w')" by fastforce
  show ?thesis
  proof (cases r)
    case (Ok u)
    have "applied (w_history w') = applied (w_history w) @ storage_templates (cur_dspa w)"
    proof (cases "\<exists>m. os_external_storage os = None \<and> os_minio os = Some m \<and> mn_deploy m")
      case True
      then obtain m where m: "os_external_storage os = None" "os_minio os = Some m" "mn_deploy m" by blast
      from m run Some have "deploy_minio env (cur_dspa w) (mn_s3_credential_secret m \<noteq> None) w = (Ok u, w')"
        by (simp add: ReconcileStorage_def and_then_get Let_def UsingExternalStorage_def ret_and_then Ok)
      from appliesD [OF applies_deploy_minio [OF Some] this] m Some show ?thesis
        by (simp add: storage_templates_def)
    next
      case False
      with run Some have "ret () w = (Ok u, w')"
        by (cases "os_external_storage os"; cases "os_minio os")
          (simp_all add: ReconcileStorage_def and_then_get Let_def UsingExternalStorage_def ret_and_then Ok)
      with False Some show ?thesis
        by (cases "os_external_storage os"; cases "os_minio os") (simp_all add: storage_templates_def ret_def)
    qed
    with run Some Ok show ?thesis by simp
  qed (use run Some in simp_all)
qed

end
