(* ===== verification/Oci_Fetcher.thy ===== *)
theory Oci_Fetcher imports Managed_Pipelines begin

text \<open>
  \<open>controllers/managed_pipelines_fetcher.go\<close>: fetching the manifest of managed pipelines from a
  container image.  The image reference parser, the registry and the tar reader are library code;
  a tar stream is the list of what the reader's \<open>Next\<close> yields.  The classification of a layer, the
  scan over the layers, the registry allowlist, the distinction between permanent and transient
  errors, and the cache in front of it all are the code's.
\<close>

section \<open>One layer\<close>

definition managedPipelinesJSONPath :: string where
  "managedPipelinesJSONPath = ''app/managed-pipelines.json''"

definition maxManagedPipelinesManifestSize :: int where
  "maxManagedPipelinesManifestSize = 1048576"

definition isWhiteoutFor :: "string \<Rightarrow> string \<Rightarrow> bool" where
  "isWhiteoutFor entryName targetPath =
     (let dir = path_dir targetPath; base = path_base targetPath in
      entryName = dir @ ''/.wh.'' @ base \<or> entryName = dir @ ''/.wh..wh..opq'')"

definition readBoundedTarEntry :: "string \<Rightarrow> int \<Rightarrow> gerr + string \<Rightarrow> gerr + string" where
  "readBoundedTarEntry name sz body =
     (if sz < 0 \<or> sz > maxManagedPipelinesManifestSize
      then Inl (Plain_Err (name @ '' size '' @ itoa sz @ '' exceeds limit of '' @
             itoa maxManagedPipelinesManifestSize @ '' bytes''))
      else case body of
             Inl err \<Rightarrow> Inl (Wrap_Err (''failed to read '' @ name @ '' from tar: '') err '''')
           | Inr content \<Rightarrow> Inr (take (nat maxManagedPipelinesManifestSize) content))"

text \<open>The loop over the stream, with \<open>foundData\<close> and \<open>foundWhiteout\<close>.\<close>

fun scan_tar :: "string \<Rightarrow> tar_item list \<Rightarrow> string option \<Rightarrow> bool \<Rightarrow> gerr + string" where
  "scan_tar targetPath [] foundData foundWhiteout =
     (case foundData of
        Some data \<Rightarrow> Inr data
      | None \<Rightarrow> if foundWhiteout then Inl (Sentinel_Err ErrWhiteout) else Inl (Sentinel_Err ErrNotFoundInTar))"
| "scan_tar targetPath (Tar_Failure err # items) foundData foundWhiteout =
     Inl (Wrap_Err ''tar read error: '' err '''')"
| "scan_tar targetPath (Tar_Entry name sz body # items) foundData foundWhiteout =
     (if isWhiteoutFor name targetPath then scan_tar targetPath items foundData True
      else if name = targetPath
      then case readBoundedTarEntry name sz body of
             Inl err \<Rightarrow> Inl err
           | Inr data \<Rightarrow> scan_tar targetPath items (Some data) foundWhiteout
      else scan_tar targetPath items foundData foundWhiteout)"

definition extractFileFromTar :: "tar_item list \<Rightarrow> string \<Rightarrow> gerr + string" where
  "extractFileFromTar r targetPath = scan_tar targetPath r None False"

section \<open>The layers of an image\<close>

text \<open>The layers with their indices, the newest first.\<close>

fun scan_layers :: "string \<Rightarrow> (nat \<times> oci_layer) list \<Rightarrow> gerr + string" where
  "scan_layers imageRef [] =
     Inl (Permanent_Err (Plain_Err (''managed-pipelines.json not found in image '' @ go_quote imageRef)))"
| "scan_layers imageRef ((i, layer) # layers) =
     (case ly_uncompressed layer of
        Inl err \<Rightarrow>
          Inl (Wrap_Err (''failed to open layer '' @ itoa (int i) @ '' for image '' @ go_quote imageRef @ '': '') err '''')
      | Inr layerReader \<Rightarrow>
          (case extractFileFromTar layerReader managedPipelinesJSONPath of
             Inr data \<Rightarrow> Inr data
           | Inl tarErr \<Rightarrow>
               if is_sentinel ErrNotFoundInTar tarErr then scan_layers imageRef layers
               else if is_sentinel ErrWhiteout tarErr
               then Inl (Permanent_Err (Plain_Err (''managed-pipelines.json not found in image '' @
                      go_quote imageRef @ '' (deleted by whiteout in layer '' @ itoa (int i) @ '')'')))
               else Inl (Wrap_Err (''failed to scan layer '' @ itoa (int i) @ '' for '' @
                      managedPipelinesJSONPath @ '' in image '' @ go_quote imageRef @ '': '') tarErr '''')))"

definition extractManifestFromImage :: "oci_image \<Rightarrow> string \<Rightarrow> gerr + string" where
  "extractManifestFromImage img imageRef =
     (case im_layers img of
        Inl err \<Rightarrow> Inl (Wrap_Err (''failed to get layers for image '' @ go_quote imageRef @ '': '') err '''')
      | Inr layers \<Rightarrow> scan_layers imageRef (rev (List.enumerate 0 layers)))"

section \<open>The fetcher\<close>

definition isRegistryAllowed :: "string list \<Rightarrow> string \<Rightarrow> bool" where
  "isRegistryAllowed allowedRegistries registry = list_ex (\<lambda>allowed. equal_fold registry allowed) allowedRegistries"

definition resolveImageDigest :: "env \<Rightarrow> string \<Rightarrow> (oci_image \<times> string) action" where
  "resolveImageDigest env imageRef =
     (case e_parse_reference env imageRef of
        Inl err \<Rightarrow> fail (Permanent_Err (Wrap_Err (''invalid image reference '' @ go_quote imageRef @ '': '') err ''''))
      | Inr registry \<Rightarrow>
          if length (e_allowed_registries env) > 0 \<and> \<not> isRegistryAllowed (e_allowed_registries env) registry
          then fail (Permanent_Err (Plain_Err (''registry '' @ go_quote registry @
                 '' is not in the allowed list for managed pipelines'')))
          else
            attempt (call (\<lambda>h. e_remote_image env h imageRef) (\<lambda>ok. Ev_Pull_Image imageRef))
              (\<lambda>err. fail (Wrap_Err (''failed to pull image '' @ go_quote imageRef @ '': '') err ''''))
              (\<lambda>img. case im_digest img of
                 Inl err \<Rightarrow> fail (Wrap_Err (''failed to resolve digest for image '' @ go_quote imageRef @ '': '') err '''')
               | Inr digest \<Rightarrow> ret (img, digest)))"

text \<open>The clock is read only when there is an entry.\<close>

definition lookup_names :: "env \<Rightarrow> string \<Rightarrow> string set option action" where
  "lookup_names env digestStr =
     and_then (gets_op (\<lambda>w. w_names_cache w digestStr)) (\<lambda>entry.
     if entry = None then ret None
     else and_then (read_clock env) (\<lambda>now.
       (\<lambda>w. case getCached now digestStr (w_names_cache w) of (r, c) \<Rightarrow> (Ok r, w\<lparr>w_names_cache := c\<rparr>))))"

definition store_names :: "env \<Rightarrow> string \<Rightarrow> string set \<Rightarrow> unit action" where
  "store_names env digestStr names =
     and_then (read_clock env) (\<lambda>now.
     modify_op (\<lambda>w. w\<lparr>w_names_cache := putCache now digestStr names (w_names_cache w)\<rparr>))"

definition FetchPipelineNames :: "env \<Rightarrow> string \<Rightarrow> string set action" where
  "FetchPipelineNames env imageRef =
     and_then (resolveImageDigest env imageRef) (\<lambda>(img, digestStr).
     and_then (lookup_names env digestStr) (\<lambda>cached.
     case cached of
       Some names \<Rightarrow> ret names
     | None \<Rightarrow>
         and_then (of_sum (extractManifestFromImage img imageRef)) (\<lambda>data.
         and_then (wrap_err Permanent_Err (of_sum (ParseManagedPipelinesManifest data))) (\<lambda>names.
         and_then (store_names env digestStr names) (\<lambda>_.
         ret names)))))"

section \<open>What the controller relies on\<close>

text \<open>
  The contract of the \<open>PipelineNamesFetcher\<close> interface: a fetch talks to the registry only, and
  leaves the resource, the parameters and the status alone.
\<close>

fun pull_event :: "event \<Rightarrow> bool" where
  "pull_event (Ev_Pull_Image r) = True"
| "pull_event _ = False"

locale pipeline_names_fetcher =
  fixes fetch :: "string \<Rightarrow> string set action"
  assumes fetch_emits: "emits pull_event (fetch imageRef)"
    and fetch_keeps:
      "fetch imageRef w = (r, w') \<Longrightarrow>
       w_status w' = w_status w \<and> w_dspa w' = w_dspa w \<and> w_copy w' = w_copy w \<and> w_params w' = w_params w"
begin

lemma fetch_emits_mono: "(\<And>e. pull_event e \<Longrightarrow> P e) \<Longrightarrow> emits P (fetch imageRef)"
  by (rule emits_mono [OF fetch_emits])

end

lemma silent_names_cache [emits_intros]:
  "emits P (lookup_names env d)" "emits P (store_names env d ns)"
proof -
  have get: "emits P (\<lambda>w. case getCached now d (w_names_cache w) of (r, c) \<Rightarrow> (Ok r, w\<lparr>w_names_cache := c\<rparr>))" for now
    by (rule silent_emits) (simp add: silent_def split: prod.splits)
  have put: "emits P (modify_op (\<lambda>w. w\<lparr>w_names_cache := putCache now d ns (w_names_cache w)\<rparr>))" for now
    by (rule silent_emits) (simp add: silent_def modify_op_def)
  show "emits P (lookup_names env d)"
    unfolding lookup_names_def by (intro emits_intros get)
  show "emits P (store_names env d ns)"
    unfolding store_names_def by (intro emits_intros put)
qed

lemma emits_resolve [emits_intros]:
  "P (Ev_Pull_Image imageRef) \<Longrightarrow> emits P (resolveImageDigest env imageRef)"
  unfolding resolveImageDigest_def by (auto intro!: emits_intros split: sum.splits)

lemma emits_FetchPipelineNames [emits_intros]:
  "P (Ev_Pull_Image imageRef) \<Longrightarrow> emits P (FetchPipelineNames env imageRef)"
  unfolding FetchPipelineNames_def by (intro emits_intros)

interpretation oci: pipeline_names_fetcher "FetchPipelineNames env" for env
proof
  show "emits pull_event (FetchPipelineNames env imageRef)" for imageRef
    by (rule emits_FetchPipelineNames) simp
  show "w_status w' = w_status w \<and> w_dspa w' = w_dspa w \<and> w_copy w' = w_copy w \<and> w_params w' = w_params w"
    if "FetchPipelineNames env imageRef w = (r, w')" for imageRef w r w'
    using that
    by (auto simp: FetchPipelineNames_def resolveImageDigest_def lookup_names_def store_names_def
        and_then_def attempt_def wrap_err_def of_sum_def call_def ret_def fail_def gets_op_def modify_op_def
        read_clock_def log_event_def
        split: sum.splits option.splits res.splits prod.splits if_splits)
qed

section \<open>Lemmas\<close>

text \<open>The last entry of the stream that is the target, if none of the target's entries is refused.\<close>

fun tar_entry_ok :: "string \<Rightarrow> tar_item \<Rightarrow> bool" where
  "tar_entry_ok targetPath (Tar_Failure e) = False"
| "tar_entry_ok targetPath (Tar_Entry name sz body) =
     (name = targetPath \<longrightarrow> (\<exists>data. readBoundedTarEntry name sz body = Inr data))"

fun tar_whiteout :: "string \<Rightarrow> tar_item \<Rightarrow> bool" where
  "tar_whiteout targetPath (Tar_Failure e) = False"
| "tar_whiteout targetPath (Tar_Entry name sz body) = isWhiteoutFor name targetPath"

fun tar_data :: "string \<Rightarrow> tar_item \<Rightarrow> string option" where
  "tar_data targetPath (Tar_Failure e) = None"
| "tar_data targetPath (Tar_Entry name sz body) =
     (if name = targetPath then (case readBoundedTarEntry name sz body of Inr d \<Rightarrow> Some d | Inl e \<Rightarrow> None)
      else None)"

lemma scan_tar_ok:
  assumes "list_all (tar_entry_ok t) items" "\<not> isWhiteoutFor t t"
  shows "scan_tar t items found wh =
     (let ds = List.map_filter (tar_data t) items in
      case (if ds = [] then found else Some (last ds)) of
        Some d \<Rightarrow> Inr d
      | None \<Rightarrow> if wh \<or> list_ex (tar_whiteout t) items then Inl (Sentinel_Err ErrWhiteout)
                else Inl (Sentinel_Err ErrNotFoundInTar))"
  using assms
proof (induction items arbitrary: found wh)
  case (Cons item items)
  show ?case
  proof (cases item)
    case (Tar_Entry name sz body)
    show ?thesis
    proof (cases "isWhiteoutFor name t")
      case True
      with Cons.prems have "tar_data t item = None" by (auto simp: Tar_Entry)
      with Cons True Tar_Entry show ?thesis by (simp add: Let_def map_filter_simps)
    next
      case False
      with Cons Tar_Entry show ?thesis
        by (cases "name = t") (auto simp: Let_def map_filter_simps)
    qed
  next
    case (Tar_Failure e)
    with Cons.prems show ?thesis by simp
  qed
qed (simp add: Let_def map_filter_simps)

lemma not_whiteout_self: "\<not> isWhiteoutFor managedPipelinesJSONPath managedPipelinesJSONPath"
  by code_simp

text \<open>A layer that does not have the file and does not delete it is passed over.\<close>

definition layer_silent :: "oci_layer \<Rightarrow> bool" where
  "layer_silent l \<longleftrightarrow>
     (case ly_uncompressed l of
        Inl e \<Rightarrow> False
      | Inr items \<Rightarrow>
          (case extractFileFromTar items managedPipelinesJSONPath of
             Inl e \<Rightarrow> is_sentinel ErrNotFoundInTar e
           | Inr d \<Rightarrow> False))"

lemma scan_layers_skip:
  "list_all (\<lambda>x. layer_silent (snd x)) upper \<Longrightarrow> scan_layers ref (upper @ rest) = scan_layers ref rest"
  by (induction upper) (auto simp: layer_silent_def split: sum.splits)

lemma rev_enumerate_split:
  "rev (List.enumerate 0 (lower @ l # upper)) =
     rev (List.enumerate (Suc (length lower)) upper) @ (length lower, l) # rev (List.enumerate 0 lower)"
  by (simp add: enumerate_append_eq)

lemma enumerate_all: "list_all (\<lambda>x. Q (snd x)) (rev (List.enumerate n xs)) = list_all Q xs"
  by (induction xs arbitrary: n) auto

lemma extract_decided:
  assumes "im_layers img = Inr (lower @ l # upper)" "list_all layer_silent upper"
  shows "extractManifestFromImage img ref =
         scan_layers ref ((length lower, l) # rev (List.enumerate 0 lower))"
proof -
  have "list_all (\<lambda>x. layer_silent (snd x)) (rev (List.enumerate (Suc (length lower)) upper))"
    using assms(2) by (simp only: enumerate_all)
  from scan_layers_skip [OF this] assms(1) show ?thesis
    by (simp add: extractManifestFromImage_def rev_enumerate_split del: scan_layers.simps)
qed

text \<open>
  The answer of a registry is fixed by the digest: two images with one digest have one manifest.
\<close>

definition content_addressed :: "env \<Rightarrow> (string \<Rightarrow> string set) \<Rightarrow> bool" where
  "content_addressed env content \<longleftrightarrow>
     (\<forall>h ref img digest data names.
        e_remote_image env h ref = Inr img \<longrightarrow> im_digest img = Inr digest \<longrightarrow>
        extractManifestFromImage img ref = Inr data \<longrightarrow>
        ParseManagedPipelinesManifest data = Inr names \<longrightarrow> names = content digest)"

definition names_cache_consistent :: "(string \<Rightarrow> string set) \<Rightarrow> names_cache \<Rightarrow> bool" where
  "names_cache_consistent content c \<longleftrightarrow> (\<forall>d e. c d = Some e \<longrightarrow> nce_names e = content d)"

lemma consistent_drop:
  "names_cache_consistent content c \<Longrightarrow> names_cache_consistent content (snd (getCached now d c))"
  by (simp add: names_cache_consistent_def getCached_def split: option.split)

lemma consistent_put:
  "names_cache_consistent content c \<Longrightarrow> names_cache_consistent content (putCache now d (content d) c)"
  by (simp add: names_cache_consistent_def putCache_def pruneExpiredLocked_def split: option.split)

lemma consistent_served:
  "names_cache_consistent content c \<Longrightarrow> fst (getCached now d c) = Some ns \<Longrightarrow> ns = content d"
  by (cases "c d") (auto simp: names_cache_consistent_def getCached_def split: if_splits)

lemma resolve_ok:
  assumes "resolveImageDigest env ref w = (Ok (img, digest), w1)"
  shows "e_remote_image env (w_history w) ref = Inr img \<and> im_digest img = Inr digest \<and>
         w_names_cache w1 = w_names_cache w"
  using assms
  by (auto simp: resolveImageDigest_def attempt_def call_def fail_def ret_def log_event_def
      split: sum.splits if_splits)

lemma lookup_names_ok:
  assumes "lookup_names env digest w = (r, w1)"
  shows "\<exists>now. w_names_cache w1 = snd (getCached now digest (w_names_cache w)) \<and>
      (\<exists>ns. r = Ok ns \<and> (ns = None \<or> ns = fst (getCached now digest (w_names_cache w))))"
proof (cases "w_names_cache w digest = None")
  case True
  with assms have "r = Ok None" "w1 = w"
    by (simp_all add: lookup_names_def and_then_def attempt_def gets_op_def ret_def)
  with True show ?thesis by (simp add: getCached_def)
next
  case False
  let ?now = "e_now env (w_ticks w)"
  obtain ns c where c: "getCached ?now digest (w_names_cache w) = (ns, c)" by fastforce
  with False assms have "r = Ok ns" "w_names_cache w1 = c"
    by (auto simp: lookup_names_def and_then_def attempt_def gets_op_def read_clock_def)
  with c show ?thesis by (intro exI [of _ ?now]) simp
qed

section \<open>Properties\<close>

text \<open>
  C22: What a layer says about the manifest.  For a stream that reads to its end and whose entries for
  the manifest are within the size limit, the result is the content of the last such entry; if there
  is none, it is "deleted" when the stream has a whiteout for the file or its directory, and "not
  found" otherwise, in whatever order the entries come.
\<close>

theorem layer_classification:
  assumes "list_all (tar_entry_ok managedPipelinesJSONPath) items"
  shows "extractFileFromTar items managedPipelinesJSONPath =
     (let ds = List.map_filter (tar_data managedPipelinesJSONPath) items in
      if ds \<noteq> [] then Inr (last ds)
      else if list_ex (tar_whiteout managedPipelinesJSONPath) items then Inl (Sentinel_Err ErrWhiteout)
      else Inl (Sentinel_Err ErrNotFoundInTar))"
  using scan_tar_ok [OF assms not_whiteout_self]
  by (simp add: extractFileFromTar_def Let_def)

theorem layer_classification_witness:
  "extractFileFromTar [Tar_Entry ''app/managed-pipelines.json'' 2 (Inr ''[]''),
                       Tar_Entry ''app/.wh..wh..opq'' 0 (Inr '''')] managedPipelinesJSONPath = Inr ''[]''"
proof -
  let ?items = "[Tar_Entry ''app/managed-pipelines.json'' 2 (Inr ''[]''),
                 Tar_Entry ''app/.wh..wh..opq'' 0 (Inr '''')]"
  have "list_all (tar_entry_ok managedPipelinesJSONPath) ?items"
    by (simp add: managedPipelinesJSONPath_def readBoundedTarEntry_def maxManagedPipelinesManifestSize_def)
  from layer_classification [OF this] show ?thesis
    by (simp add: Let_def map_filter_simps managedPipelinesJSONPath_def readBoundedTarEntry_def
        maxManagedPipelinesManifestSize_def)
qed

text \<open>
  C23: The top-most layer that says anything decides.  Layers above it that neither hold nor delete
  the manifest are passed over; the layer's content is the result, a deletion in it is a permanent
  error, and a failure to open or read it is returned as a transient error: in none of these cases
  does the content of a lower layer matter.
\<close>

theorem topmost_layer_decides:
  assumes layers: "im_layers img = Inr (lower @ l # upper)"
    and above: "list_all layer_silent upper"
    and speaks: "\<not> layer_silent l"
  shows "case ly_uncompressed l of
           Inl err \<Rightarrow> extractManifestFromImage img ref =
             Inl (Wrap_Err (''failed to open layer '' @ itoa (int (length lower)) @ '' for image '' @
                    go_quote ref @ '': '') err '''')
         | Inr items \<Rightarrow>
             (case extractFileFromTar items managedPipelinesJSONPath of
                Inr data \<Rightarrow> extractManifestFromImage img ref = Inr data
              | Inl e \<Rightarrow> (\<exists>err. extractManifestFromImage img ref = Inl err \<and>
                                 (if is_sentinel ErrWhiteout e then as_permanent err
                                  else as_permanent err = as_permanent e)))"
proof (cases "ly_uncompressed l")
  case (Inr items)
  show ?thesis
  proof (cases "extractFileFromTar items managedPipelinesJSONPath")
    case (Inl e)
    with Inr speaks have "\<not> is_sentinel ErrNotFoundInTar e" by (simp add: layer_silent_def)
    with Inl Inr show ?thesis
      by (cases "is_sentinel ErrWhiteout e") (auto simp: extract_decided [OF layers above])
  qed (simp add: extract_decided [OF layers above] Inr)
qed (simp add: extract_decided [OF layers above])

theorem topmost_layer_decides_witness:
  "extractManifestFromImage
     \<lparr>im_digest = Inr ''d'',
      im_layers = Inr [\<lparr>ly_uncompressed = Inr [Tar_Entry ''app/managed-pipelines.json'' 2 (Inr ''[]'')]\<rparr>,
                       \<lparr>ly_uncompressed = Inr [Tar_Entry ''app/managed-pipelines.json'' 2 (Inr ''{}'')]\<rparr>,
                       \<lparr>ly_uncompressed = Inr []\<rparr>]\<rparr> ''img'' = Inr ''{}''"
proof -
  let ?base = "\<lparr>ly_uncompressed = Inr [Tar_Entry ''app/managed-pipelines.json'' 2 (Inr ''[]'')]\<rparr>"
  let ?items = "[Tar_Entry ''app/managed-pipelines.json'' 2 (Inr ''{}'')]"
  let ?l = "\<lparr>ly_uncompressed = Inr ?items\<rparr>" and ?u = "\<lparr>ly_uncompressed = Inr []\<rparr>"
  have x: "extractFileFromTar ?items managedPipelinesJSONPath = Inr ''{}''"
    using not_whiteout_self
    by (simp add: extractFileFromTar_def readBoundedTarEntry_def managedPipelinesJSONPath_def
        maxManagedPipelinesManifestSize_def)
  have u: "list_all layer_silent [?u]" and l: "\<not> layer_silent ?l"
    by (simp_all add: layer_silent_def x) (simp add: extractFileFromTar_def)
  show ?thesis
    using topmost_layer_decides [OF _ u l, of "\<lparr>im_digest = Inr ''d'', im_layers = Inr [?base, ?l, ?u]\<rparr>" "[?base]" "''img''"]
    by (simp add: x)
qed

text \<open>
  C24: The registry allowlist.  When it is not empty, an image whose registry is on it in no
  capitalisation is refused with a permanent error, and the registry is not contacted at all.
\<close>

theorem allowlist_refuses:
  assumes "e_parse_reference env ref = Inr registry" "e_allowed_registries env \<noteq> []"
    and "\<not> list_ex (\<lambda>a. to_lower a = to_lower registry) (e_allowed_registries env)"
  shows "\<exists>err. FetchPipelineNames env ref w = (Err err, w) \<and> as_permanent err"
proof -
  have "\<not> isRegistryAllowed (e_allowed_registries env) registry"
    using assms(3) by (auto simp: isRegistryAllowed_def equal_fold_def list_ex_iff)
  with assms(1,2) show ?thesis
    by (simp add: FetchPipelineNames_def resolveImageDigest_def and_then_def attempt_def fail_def)
qed

theorem allowlist_refuses_witness:
  "\<exists>err. FetchPipelineNames (sample_env\<lparr>e_allowed_registries := [''registry.redhat.io'']\<rparr>) ''quay.io/x''
            sample_world = (Err err, sample_world) \<and> as_permanent err"
  by (rule allowlist_refuses [where registry = "''quay.io''"])
    (simp_all add: sample_env_def to_lower_def lower_char_def)

text \<open>The path of a fetch whose digest is not in the cache: the image is read, and what it says is kept.\<close>

lemma fetch_missed:
  assumes reg: "content_addressed env content"
    and run: "FetchPipelineNames env ref w = (r, w')"
    and res: "resolveImageDigest env ref w = (Ok (img, digest), w1)"
    and look: "lookup_names env digest w1 = (Ok None, w2)"
    and ok2: "names_cache_consistent content (w_names_cache w2)"
    and img: "e_remote_image env (w_history w) ref = Inr img" "im_digest img = Inr digest"
  shows "names_cache_consistent content (w_names_cache w') \<and>
         (\<forall>names. r = Ok names \<longrightarrow> names = content digest)"
proof -
  have content: "names = content digest" if "extractManifestFromImage img ref = Inr data"
    "ParseManagedPipelinesManifest data = Inr names" for data names
    using reg img that unfolding content_addressed_def by blast
  show ?thesis
  proof (cases "\<exists>data names. extractManifestFromImage img ref = Inr data \<and>
                            ParseManagedPipelinesManifest data = Inr names")
    case True
    then obtain data where "extractManifestFromImage img ref = Inr data"
      "ParseManagedPipelinesManifest data = Inr (content digest)" using content by blast
    with run res look consistent_put [OF ok2] show ?thesis
      by (auto simp: FetchPipelineNames_def and_then_def attempt_def ret_def fail_def of_sum_def
          wrap_err_def store_names_def read_clock_def modify_op_def)
  next
    case False
    with run res look ok2 show ?thesis
      by (auto simp: FetchPipelineNames_def and_then_def attempt_def ret_def fail_def of_sum_def
          wrap_err_def split: sum.splits)
  qed
qed

text \<open>
  The cache is transparent.  With a registry whose content is fixed by the digest, and a cache
  that agrees with it, a fetch that succeeds yields the names of the image the reference resolves to
  at that moment, whether they came from the cache or from the image, and the cache still agrees with
  the registry afterwards, whatever the outcome.
\<close>

lemma fetch_through_cache:
  assumes reg: "content_addressed env content"
    and cache: "names_cache_consistent content (w_names_cache w)"
    and run: "FetchPipelineNames env ref w = (r, w')"
  shows "names_cache_consistent content (w_names_cache w') \<and>
         (case r of
            Ok names \<Rightarrow> (\<exists>img digest. e_remote_image env (w_history w) ref = Inr img \<and>
                           im_digest img = Inr digest \<and> names = content digest)
          | _ \<Rightarrow> True)"
proof -
  obtain r1 w1 where res: "resolveImageDigest env ref w = (r1, w1)" by fastforce
  show ?thesis
  proof (cases r1)
    case (Ok a)
    obtain img digest where a: "a = (img, digest)" by fastforce
    from resolve_ok [OF res [unfolded Ok a]]
    have img: "e_remote_image env (w_history w) ref = Inr img" "im_digest img = Inr digest"
      and c1: "names_cache_consistent content (w_names_cache w1)" using cache by auto
    obtain r2 w2 where look: "lookup_names env digest w1 = (r2, w2)" by fastforce
    from lookup_names_ok [OF look] obtain now ns where r2: "r2 = Ok ns"
      and c2: "w_names_cache w2 = snd (getCached now digest (w_names_cache w1))"
      and ns: "ns = None \<or> ns = fst (getCached now digest (w_names_cache w1))" by blast
    have ok2: "names_cache_consistent content (w_names_cache w2)"
      using consistent_drop [OF c1] c2 by simp
    show ?thesis
    proof (cases ns)
      case (Some names)
      with ns have "names = content digest"
        using consistent_served [OF c1, of now digest names] by simp
      with run res Ok a look r2 Some ok2 img show ?thesis
        by (auto simp: FetchPipelineNames_def and_then_def attempt_def ret_def)
    next
      case None
      from fetch_missed [OF reg run res [unfolded Ok a] look [unfolded r2 None] ok2 img] img show ?thesis
        by (cases r) auto
    qed
  next
    case (Err e)
    with run res cache show ?thesis
      by (auto simp: FetchPipelineNames_def and_then_def attempt_def fail_def resolveImageDigest_def
          call_def log_event_def ret_def split: sum.splits if_splits)
  next
    case (Panic p)
    with run res cache show ?thesis
      by (auto simp: FetchPipelineNames_def and_then_def attempt_def fail_def resolveImageDigest_def
          call_def log_event_def ret_def split: sum.splits if_splits)
  qed
qed

definition registry_env :: env where
  "registry_env = sample_env\<lparr>e_remote_image := (\<lambda>h r. Inr
     \<lparr>im_digest = Inr ''d'',
      im_layers = Inr [\<lparr>ly_uncompressed = Inr [Tar_Entry ''app/managed-pipelines.json'' 17
        (Inr ''[{\"name\":\"iris\"}]'')]\<rparr>]\<rparr>)\<rparr>"

lemma registry_env_content: "content_addressed registry_env (\<lambda>_. {''iris''})"
proof -
  have "\<not> isWhiteoutFor ''app/managed-pipelines.json'' ''app/managed-pipelines.json''"
    by code_simp
  then have "extractManifestFromImage
      \<lparr>im_digest = Inr ''d'', im_layers = Inr [\<lparr>ly_uncompressed = Inr
         [Tar_Entry ''app/managed-pipelines.json'' 17 (Inr ''[{\"name\":\"iris\"}]'')]\<rparr>]\<rparr> ref =
      Inr ''[{\"name\":\"iris\"}]''" for ref
    by (simp add: extractManifestFromImage_def extractFileFromTar_def managedPipelinesJSONPath_def
        readBoundedTarEntry_def maxManagedPipelinesManifestSize_def)
  moreover have "ParseManagedPipelinesManifest ''[{\"name\":\"iris\"}]'' = Inr {''iris''}"
  proof -
    have "json_parse ''[{\"name\":\"iris\"}]'' = Some (JArr [JObj [(''name'', JStr ''iris'')]])"
      "trim_space ''iris'' = ''iris''" by code_simp+
    then show ?thesis
      by (simp add: ParseManagedPipelinesManifest_eq unmarshal_entries_def decode_struct_def
          manifest_entry_tags_def field_of_key_def)
  qed
  ultimately show ?thesis
    by (auto simp: content_addressed_def registry_env_def)
qed

lemma fetch_through_cache_witness:
  "names_cache_consistent (\<lambda>_. {''iris''})
     (w_names_cache (snd (FetchPipelineNames registry_env ''quay.io/x'' sample_world)))"
proof -
  have "names_cache_consistent (\<lambda>_. {''iris''}) (w_names_cache sample_world)"
    by (simp add: names_cache_consistent_def sample_world_def)
  from conjunct1 [OF fetch_through_cache [OF registry_env_content this prod.collapse [symmetric]]]
  show ?thesis .
qed

end
