(* ===== verification/Status_Flow.thy ===== *)
theory Status_Flow imports Conditions Storage Oci_Fetcher begin

text \<open>
  Invariants of the status object along a reconcile.  \<open>status_inv J m\<close>: from a status that satisfies \<open>J\<close>
  the operation ends with one, whatever its outcome.  The rules follow the combinators; an operation
  that only talks to the outside, or that only computes parameters, keeps every \<open>J\<close>.
\<close>

named_theorems status_intros \<open>invariants of the status object\<close>

definition status_inv :: "(dspa_status \<Rightarrow> bool) \<Rightarrow> 'a action \<Rightarrow> bool" where
  "status_inv J m \<longleftrightarrow> (\<forall>w. J (w_status w) \<longrightarrow> J (w_status (snd (m w))))"

lemma status_invD: "status_inv J m \<Longrightarrow> m w = (r, w') \<Longrightarrow> J (w_status w) \<Longrightarrow> J (w_status w')"
  unfolding status_inv_def by (drule spec [of _ w]) simp

lemma status_attempt [status_intros]:
  assumes "status_inv J m" "\<And>e. status_inv J (h e)" "\<And>a. status_inv J (k a)"
  shows "status_inv J (attempt m h k)"
  unfolding status_inv_def
proof (intro allI impI)
  fix w :: world assume J: "J (w_status w)"
  obtain r w1 where m: "m w = (r, w1)" by fastforce
  with status_invD [OF assms(1) m J] assms(2,3) show "J (w_status (snd (attempt m h k w)))"
    by (cases r) (simp_all add: attempt_def status_inv_def)
qed

lemma status_reads:
  assumes "reads m"
  shows "status_inv J m"
  unfolding status_inv_def
proof (intro allI impI)
  fix w :: world assume J: "J (w_status w)"
  obtain r w' where m: "m w = (r, w')" by fastforce
  from readsD [OF assms m] J m show "J (w_status (snd (m w)))" by auto
qed

lemma status_and_then [status_intros]:
  "status_inv J m \<Longrightarrow> (\<And>a. status_inv J (k a)) \<Longrightarrow> status_inv J (and_then m k)"
  unfolding and_then_def by (intro status_intros) (simp_all add: status_inv_def fail_def)

lemma status_wrap_err [status_intros]: "status_inv J m \<Longrightarrow> status_inv J (wrap_err f m)"
  unfolding wrap_err_def by (intro status_intros) (simp_all add: status_inv_def fail_def ret_def)

lemma status_if [status_intros]:
  "(b \<Longrightarrow> status_inv J m) \<Longrightarrow> (\<not> b \<Longrightarrow> status_inv J n) \<Longrightarrow> status_inv J (if b then m else n)"
  by simp

lemma status_option [status_intros]:
  "(x = None \<Longrightarrow> status_inv J m) \<Longrightarrow> (\<And>a. x = Some a \<Longrightarrow> status_inv J (f a)) \<Longrightarrow>
   status_inv J (case x of None \<Rightarrow> m | Some a \<Rightarrow> f a)"
  by (cases x) auto

lemma status_prod [status_intros]:
  "(\<And>a b. x = (a, b) \<Longrightarrow> status_inv J (f a b)) \<Longrightarrow> status_inv J (case x of (a, b) \<Rightarrow> f a b)"
  by (cases x) auto

lemma status_let [status_intros]: "(\<And>x. x = v \<Longrightarrow> status_inv J (f x)) \<Longrightarrow> status_inv J (let x = v in f x)"
  by simp

lemma status_basic [status_intros]:
  "status_inv J (ret a)" "status_inv J (fail e)" "status_inv J (panic q)" "status_inv J (gets_op g)"
  "status_inv J (pure_op r)" "status_inv J (deref s x)" "status_inv J (of_sum v)" "status_inv J (read_clock env)"
  "status_inv J get_params" "status_inv J get_cur" "status_inv J (call f ev)" "status_inv J (call_opt c ev)"
  "status_inv J (emit ev0)"
  by (rule status_reads, intro reads_intros)+

lemma status_for_each [status_intros]:
  "(\<And>x. x \<in> set xs \<Longrightarrow> status_inv J (f x)) \<Longrightarrow> status_inv J (for_each f xs)"
  by (induction xs) (auto intro!: status_intros)

lemma status_writes [status_intros]:
  "status_inv J (mod_params f)" "status_inv J (mod_cur g)" "status_inv J (mod_mlflow_cache c)"
  by (simp_all add: status_inv_def mod_params_def mod_cur_def mod_mlflow_cache_def modify_op_def)

lemma status_client [status_intros]:
  "status_inv J (get_deployment env nn)" "status_inv J (get_secret env nn)" "status_inv J (get_config_map env nn)"
  "status_inv J (get_service env nn)" "status_inv J (get_route env nn)" "status_inv J (get_mlflow env nn)"
  "status_inv J (get_dspa env nn)" "status_inv J (list_dspas env)" "status_inv J (list_pods env ls)"
  "status_inv J (create_config_map env c)" "status_inv J (update_config_map env c)"
  by (rule status_reads, intro reads_intros)+

lemma status_update_dspa [status_intros]: "status_inv J (update_dspa env)"
  unfolding update_dspa_def by (intro status_intros)

text \<open>The two ways in which the status is written.\<close>

lemma status_set [status_intros]: "(\<And>now s. J s \<Longrightarrow> J (f now s)) \<Longrightarrow> status_inv J (set_status env f)"
  by (simp add: status_inv_def set_status_def and_then_def attempt_def read_clock_def modify_op_def)

lemma status_store [status_intros]: "(\<And>s. J s \<Longrightarrow> J (f s)) \<Longrightarrow> status_inv J (store_status f)"
  by (simp add: status_inv_def store_status_def modify_op_def)

section \<open>Operations that leave the status alone\<close>

lemma status_util [status_intros]:
  "status_inv J (GetConfigMap env n ns)" "status_inv J (GetSecret env n ns)"
  "status_inv J (GetServiceIfAvailable env n ns)" "status_inv J (GetRouteIfAvailable env n ns)"
  "status_inv J (GetServiceHostname env n ns)" "status_inv J (GetRouteHostname env n ns)"
  "status_inv J (GetTemplatesInDir env td sd)" "status_inv J (GetSystemCerts env)"
  "status_inv J (Apply env ow t fns)" "status_inv J (ApplyAll env ow ts)" "status_inv J (ApplyDir env ow dir)"
  "status_inv J (ApplyWithoutOwner env t fns)" "status_inv J (DeleteResourceDir env dir)"
  "status_inv J (DeleteResource env t fns)" "status_inv J (DeleteResourceIfItExists env k nn)"
  by (rule status_reads, intro reads_intros)+

lemma status_secrets [status_intros]:
  "status_inv J (passwordGen env n)" "status_inv J (RetrieveSecret env sn sk)"
  "status_inv J (RetrieveOrCreateSecret env sn sk l)" "status_inv J (RetrieveOrCreateDBSecret env s)"
  "status_inv J (RetrieveOrCreateObjectStoreSecret env os)" "status_inv J (retrieve_if_present env sn sk)"
  unfolding RetrieveOrCreateDBSecret_def RetrieveOrCreateObjectStoreSecret_def RetrieveOrCreateSecret_def
    RetrieveSecret_def retrieve_if_present_def passwordGen_def
  by (intro status_intros)+

lemma status_setup [status_intros]:
  "status_inv J (SetupDBParams env)" "status_inv J (SetupObjectParams env)" "status_inv J (SetupMLMD env)"
  "status_inv J (SetupOwner env)"
  unfolding SetupDBParams_def setup_external_db_def setup_maria_db_def apply_custom_extra_params_def
    check_db_password_def mod_db_def SetupObjectParams_def setup_external_storage_def setup_minio_def
    setup_external_route_def check_object_credentials_def mod_os_def RetrieveAndSetExternalRoute_def
    IsAPIServerDeploymentReady_def SetupMLMD_def SetupOwner_def
  by (intro status_intros)+

lemma status_mlflow [status_intros]: "status_inv J (retrieveMLflowEndpointCached env ns)"
  unfolding retrieveMLflowEndpointCached_def lookupMLflowEndpoint_def by (intro status_intros)

lemma status_extract_blocks [status_intros]:
  "status_inv J (extract_names env d)" "status_inv J (mod_api f)" "status_inv J (extract_api_images env)"
  "status_inv J (extract_managed_pipelines env mps)" "status_inv J (extract_mlflow_plugin env a)"
  "status_inv J (extract_server_config d)" "status_inv J (extract_launcher_config env a)"
  "status_inv J (extract_workspace env a)"
  unfolding extract_names_def mod_api_def extract_api_images_def extract_managed_pipelines_def
    extract_mlflow_plugin_def build_mlflow_plugin_def api_server_external_url_def extract_server_config_def
    extract_launcher_config_def extract_workspace_def IsAPIServerDeploymentReady_def Let_def
  by (intro status_intros)+

lemma status_ca_blocks [status_intros]:
  "status_inv J (extract_global_ca env)" "status_inv J (extract_user_ca env a)" "status_inv J (extract_service_ca env)"
  "status_inv J (extract_ca_paths a)" "status_inv J (publish_ca_bundle env d a b)"
  unfolding extract_global_ca_def extract_user_ca_def extract_service_ca_def extract_ca_paths_def add_pem_def
    publish_ca_bundle_def add_system_certs_def write_ca_bundle_def create_or_update_configmap_def
  by (intro status_intros)+

lemma status_ExtractParams [status_intros]: "status_inv J (ExtractParams env)"
  unfolding ExtractParams_def extract_api_server_def extract_api_rest_def extract_agents_def
    extract_workflow_controller_def
  by (intro status_intros)

lemma status_prereqs [status_intros]:
  "status_inv J (ReconcileDatabase env)" "status_inv J (ReconcileStorage env)"
  "status_inv J (isDatabaseAccessible env)" "status_inv J (isObjectStorageAccessible env)"
  unfolding ReconcileDatabase_def deploy_maria_db_def record_maria_db_def ReconcileStorage_def deploy_minio_def
    record_minio_def isDatabaseAccessible_def isObjectStorageAccessible_def decode_key_def
    ConnectAndQueryObjStore_def
  by (intro status_intros status_reads reads_query)+

lemma status_components [status_intros]:
  "status_inv J (ReconcileCommon env)" "status_inv J (ReconcilePersistenceAgent env)"
  "status_inv J (ReconcileScheduledWorkflow env)" "status_inv J (ReconcileWorkflowController env)"
  "status_inv J (ReconcileMLMD env)" "status_inv J (ReconcileWebhook env)" "status_inv J (ReconcileAPIServer env)"
  "status_inv J (CleanUpCommon env)" "status_inv J (CleanUpWebhookIfUnused env)"
  unfolding ReconcileCommon_def ReconcilePersistenceAgent_def ReconcileScheduledWorkflow_def
    ReconcileWorkflowController_def ReconcileMLMD_def mlmd_certificates_def LoadMlmdCertificates_def
    ReconcileWebhook_def ReconcileAPIServer_def apply_api_templates_def server_route_def apply_samples_def
    CleanUpCommon_def CleanUpWebhookIfUnused_def checkAvailableKubernetesDSPAs_def cleanupWebhookResources_def
  by (intro status_intros)+

end
