(* ===== verification/Controller.thy ===== *)
theory Controller imports Status_Flow begin

text \<open>
  The reconciler (\<open>controllers/dspipeline_controller.go\<close>): \<open>Reconcile\<close> with its two deferred calls, the
  status it reports, finalisation, and the event handlers that decide which resources to reconcile.
\<close>

section \<open>Finalizer\<close>

definition finalizerName :: string where
  "finalizerName = ''datasciencepipelinesapplications.opendatahub.io/finalizer''"

section \<open>The reported status\<close>

text \<open>An error of a host name is logged, and the name stays empty.\<close>

definition or_empty :: "string action \<Rightarrow> string action" where
  "or_empty m = attempt m (\<lambda>err. ret '''') ret"

definition component_detail :: "string \<Rightarrow> string \<Rightarrow> component_detail_status" where
  "component_detail url externalUrl =
     (if url \<noteq> '''' \<and> externalUrl \<noteq> '''' then \<lparr>cd_url = url, cd_external_url = externalUrl\<rparr>
      else empty_component_detail)"

definition GetComponents :: "env \<Rightarrow> dspa \<Rightarrow> component_status action" where
  "GetComponents env dspa =
     (let mlmdProxyResourceName = ''ds-pipeline-md-'' @ d_name dspa;
          apiServerResourceName = ''ds-pipeline-'' @ d_name dspa in
      and_then (or_empty (GetServiceHostname env mlmdProxyResourceName (d_namespace dspa))) (\<lambda>mlmdProxyUrl.
      and_then (or_empty (GetRouteHostname env mlmdProxyResourceName (d_namespace dspa))) (\<lambda>mlmdProxyExternalUrl.
      and_then (or_empty (GetServiceHostname env apiServerResourceName (d_namespace dspa))) (\<lambda>apiServerUrl.
      and_then (or_empty (GetRouteHostname env apiServerResourceName (d_namespace dspa))) (\<lambda>apiServerExternalUrl.
      ret \<lparr>cs_mlmd_proxy = component_detail mlmdProxyUrl mlmdProxyExternalUrl,
           cs_api_server = component_detail apiServerUrl apiServerExternalUrl\<rparr>)))))"

definition refreshDspa :: "env \<Rightarrow> namespaced_name \<Rightarrow> unit action" where
  "refreshDspa env req =
     attempt (get_dspa env req) (\<lambda>err. ret ()) (\<lambda>d. modify_op (\<lambda>w. w\<lparr>w_dspa := d\<rparr>))"

definition with_status :: "component_status \<Rightarrow> condition list \<Rightarrow> dspa \<Rightarrow> dspa" where
  "with_status components conditions dspa =
     dspa\<lparr>d_status := \<lparr>st_components = components, st_conditions = conditions\<rparr>\<rparr>"

definition updateStatus :: "env \<Rightarrow> namespaced_name \<Rightarrow> unit action" where
  "updateStatus env req =
     and_then (refreshDspa env req) (\<lambda>_.
     and_then (gets_op w_dspa) (\<lambda>dspa.
     if d_deletion_timestamp dspa \<noteq> None then ret ()
     else
       and_then (GetComponents env dspa) (\<lambda>components.
       and_then (read_clock env) (\<lambda>now.
       and_then (gets_op w_status) (\<lambda>dspaStatus.
       (let dspa' = with_status components (GetConditions dspa now dspaStatus) dspa in
        and_then (modify_op (\<lambda>w. w\<lparr>w_dspa := dspa'\<rparr>)) (\<lambda>_.
        attempt (call (\<lambda>h. e_update_status env h dspa') (Ev_Update_Status dspa')) (\<lambda>err. ret ())
          (\<lambda>d. modify_op (\<lambda>w. w\<lparr>w_dspa := d\<rparr>)))))))))"

text \<open>A Go map is visited in an order of its own: the entries in some order that the runtime picks.\<close>

function visit_order :: "(nat \<Rightarrow> nat) \<Rightarrow> 'a list \<Rightarrow> 'a list" where
  "visit_order r xs =
     (if xs = [] then []
      else
        (let n = r (length xs) mod length xs in
         xs ! n # visit_order r (take n xs @ drop (Suc n) xs)))"
  by pat_completeness auto
termination
  by (relation "measure (\<lambda>(r, xs). length xs)") (auto simp: min_def Let_def dest: leD)

declare visit_order.simps [simp del]

lemma visit_order_mset: "mset (visit_order r xs) = mset xs"
proof (induction r xs rule: visit_order.induct)
  case (1 r xs)
  show ?case
  proof (cases "xs = []")
    case False
    let ?n = "r (length xs) mod length xs"
    have "?n < length xs" using False by simp
    then have "mset xs = add_mset (xs ! ?n) (mset (take ?n xs @ drop (Suc ?n) xs))"
      by (metis add_mset_commute id_take_nth_drop mset.simps(2) mset_append union_mset_add_mset_right)
    with 1 [OF False refl] False show ?thesis
      by (simp add: visit_order.simps [of r xs] Let_def)
  qed (simp add: visit_order.simps)
qed

text \<open>The deferred publication of the metrics.\<close>

definition publish_metrics :: "env \<Rightarrow> unit action" where
  "publish_metrics env =
     and_then get_cur (\<lambda>dspa.
     if d_deletion_timestamp dspa \<noteq> None then ret ()
     else
       and_then (read_clock env) (\<lambda>now.
       and_then (gets_op (\<lambda>w. (GetConditions (w_dspa w) now (w_status w), w_history w))) (\<lambda>(conditions, h).
       for_each (\<lambda>call. emit (Ev_Gauge call))
         (PublishMetrics (d_name dspa) (d_namespace dspa) (visit_order (e_rand env h) (metrics_map conditions))))))"

section \<open>Finalisation\<close>

text \<open>The three helpers of controller-runtime for finalizers, by their documented behaviour.\<close>

definition ContainsFinalizer :: "dspa \<Rightarrow> bool" where
  "ContainsFinalizer dspa = List.member (d_finalizers dspa) finalizerName"

definition AddFinalizer :: "dspa \<Rightarrow> dspa" where
  "AddFinalizer dspa = (if ContainsFinalizer dspa then dspa else dspa\<lparr>d_finalizers := d_finalizers dspa @ [finalizerName]\<rparr>)"

definition RemoveFinalizer :: "dspa \<Rightarrow> dspa" where
  "RemoveFinalizer dspa = dspa\<lparr>d_finalizers := filter (\<lambda>f. f \<noteq> finalizerName) (d_finalizers dspa)\<rparr>"

definition ensure_finalizer :: "env \<Rightarrow> unit action" where
  "ensure_finalizer env =
     and_then get_cur (\<lambda>dspa.
     if \<not> ContainsFinalizer dspa then and_then (mod_cur AddFinalizer) (\<lambda>_. update_dspa env) else ret ())"

definition cleanUpResources :: "env \<Rightarrow> unit action" where
  "cleanUpResources env =
     and_then get_params (\<lambda>params.
     and_then (for_each (\<lambda>call. emit (Ev_Gauge call)) (DeleteMetrics (p_name params) (p_namespace params))) (\<lambda>_.
     CleanUpCommon env))"

definition finalize :: "env \<Rightarrow> unit action" where
  "finalize env =
     and_then get_cur (\<lambda>dspa.
     and_then (mod_params (\<lambda>p. p\<lparr>p_name := d_name dspa, p_namespace := d_namespace dspa,
                                 p_dspo_namespace := e_getenv env ''DSPO_NAMESPACE''\<rparr>)) (\<lambda>_.
     and_then (cleanUpResources env) (\<lambda>_.
     and_then (CleanUpWebhookIfUnused env) (\<lambda>_.
     and_then (mod_cur RemoveFinalizer) (\<lambda>_.
     update_dspa env)))))"

section \<open>The stages of a reconcile\<close>

definition unsupported_error :: "dspa \<Rightarrow> gerr" where
  "unsupported_error dspa =
     Plain_Err (''unsupported DSP version '' @ sp_dsp_version (d_spec dspa) @ '' detected. Please manually remove '' @
       ''this DSP resource and re-apply with a supported version field set'')"

definition report_unsupported :: "env \<Rightarrow> gerr \<Rightarrow> unit action" where
  "report_unsupported env err1 =
     and_then (set_status env (SetDatabaseNotReady (Some err1) UnsupportedVersion)) (\<lambda>_.
     and_then (set_status env (SetObjStoreNotReady (Some err1) UnsupportedVersion)) (\<lambda>_.
     and_then (setStatusAsUnsupported env ApiServerSlot err1) (\<lambda>_.
     and_then (setStatusAsUnsupported env PersistenceAgentSlot err1) (\<lambda>_.
     and_then (setStatusAsUnsupported env ScheduledWorkflowSlot err1) (\<lambda>_.
     and_then (setStatusAsUnsupported env MLMDProxySlot err1) (\<lambda>_.
     set_status env (SetDSPANotReady (Some err1) UnsupportedVersion)))))))"

text \<open>With an empty Kind the body goes on with a copy whose version and kind are filled in.\<close>

definition stub_gvk :: "unit action" where
  "stub_gvk =
     and_then (gets_op w_dspa) (\<lambda>dspa.
     if d_kind dspa = '''' then
       modify_op (\<lambda>w. w\<lparr>w_copy := Some (dspa\<lparr>d_api_version := ''v1'', d_kind := ''DataSciencePipelinesApplication''\<rparr>)\<rparr>)
     else ret ())"

text \<open>The database and the object store are deployed, each with its condition.\<close>

definition deploy_prereqs :: "env \<Rightarrow> unit action" where
  "deploy_prereqs env =
     and_then
       (attempt (ReconcileDatabase env)
          (\<lambda>err. and_then (set_status env (SetDatabaseNotReady (Some err) FailingToDeploy)) (\<lambda>_. fail err))
          (\<lambda>_. set_status env SetDatabaseReady)) (\<lambda>_.
     attempt (ReconcileStorage env)
       (\<lambda>err. and_then (set_status env (SetObjStoreNotReady (Some err) FailingToDeploy)) (\<lambda>_. fail err))
       (\<lambda>_. set_status env SetObjStoreReady))"

text \<open>Their health checks; an error makes the check False and is otherwise only reported.\<close>

definition check_prereqs :: "env \<Rightarrow> bool action" where
  "check_prereqs env =
     and_then
       (attempt (isDatabaseAccessible env)
          (\<lambda>err. and_then (set_status env (SetDatabaseNotReady (Some err) FailingToDeploy)) (\<lambda>_. ret False))
          (\<lambda>b. and_then (set_status env SetDatabaseReady) (\<lambda>_. ret b))) (\<lambda>dbAvailable.
     and_then
       (attempt (isObjectStorageAccessible env)
          (\<lambda>err. and_then (set_status env (SetObjStoreNotReady (Some err) FailingToDeploy)) (\<lambda>_. ret False))
          (\<lambda>b. and_then (set_status env SetObjStoreReady) (\<lambda>_. ret b))) (\<lambda>objStoreAvailable.
     ret (dbAvailable \<and> objStoreAvailable)))"

text \<open>The webhook; the result is False when the reconcile has to wait for it.\<close>

definition webhook_stage :: "env \<Rightarrow> bool action" where
  "webhook_stage env =
     and_then get_cur (\<lambda>dspa.
     if uses_kubernetes_store dspa then
       and_then
         (attempt (ReconcileWebhook env)
            (\<lambda>err. and_then (set_status env (SetWebhookNotReady (Some err) FailingToDeploy)) (\<lambda>_. fail err)) ret) (\<lambda>_.
       and_then (checkWebhookStatus env) (\<lambda>(ready, reason).
       if ready then and_then (set_status env SetWebhookReady) (\<lambda>_. ret True)
       else and_then (set_status env (SetWebhookNotReady None reason)) (\<lambda>_. ret False)))
     else and_then (set_status env SetWebhookNotApplicable) (\<lambda>_. ret True))"

text \<open>One component: deployed, then its condition evaluated.\<close>

definition component_stage ::
  "env \<Rightarrow> component_slot \<Rightarrow> unit action \<Rightarrow> (dspa_params \<Rightarrow> string) \<Rightarrow> unit action" where
  "component_stage env k reconcile resourceName =
     attempt reconcile
       (\<lambda>err. and_then (setStatusAsNotReady env k err) (\<lambda>_. fail err))
       (\<lambda>_. and_then get_params (\<lambda>params. setStatus env (resourceName params) k))"

definition workflow_controller_stage :: "env \<Rightarrow> unit action" where
  "workflow_controller_stage env =
     attempt (ReconcileWorkflowController env)
       (\<lambda>err. and_then (set_status env (SetWorkflowControllerNotReady (Some err) FailingToDeploy)) (\<lambda>_. fail err))
       (\<lambda>workflowControllerEnabled.
          if workflowControllerEnabled then
            and_then get_params (\<lambda>params.
            setStatus env (p_workflow_controller_default_resource_name params) WorkflowControllerSlot)
          else set_status env SetWorkflowControllerNotApplicable)"

definition deploy_components :: "env \<Rightarrow> unit action" where
  "deploy_components env =
     and_then (component_stage env ApiServerSlot (ReconcileAPIServer env) p_api_server_default_resource_name) (\<lambda>_.
     and_then (component_stage env PersistenceAgentSlot (ReconcilePersistenceAgent env)
                 p_persistent_agent_default_resource_name) (\<lambda>_.
     and_then (component_stage env ScheduledWorkflowSlot (ReconcileScheduledWorkflow env)
                 p_scheduled_workflow_default_resource_name) (\<lambda>_.
     and_then (workflow_controller_stage env) (\<lambda>_.
     component_stage env MLMDProxySlot (ReconcileMLMD env) p_mlmd_proxy_default_resource_name))))"

text \<open>What happens once the database and the object store answer.\<close>

definition reconcile_ready :: "env \<Rightarrow> (string \<Rightarrow> string set action) \<Rightarrow> int \<Rightarrow> reconcile_result action" where
  "reconcile_ready env fetch requeueTime =
     and_then (ReconcileCommon env) (\<lambda>_.
     and_then (webhook_stage env) (\<lambda>webhookReady.
     if \<not> webhookReady then ret \<lparr>rq_requeue = False, rq_requeue_after = requeueTime\<rparr>
     else
       and_then (validateManagedPipelines env fetch) (\<lambda>(proceed, shouldRequeue).
       if \<not> proceed then
         and_then get_cur (\<lambda>dspa.
         and_then (store_status (preservePostValidationConditions dspa)) (\<lambda>_.
         ret no_requeue))
       else
         and_then (deploy_components env) (\<lambda>_.
         if shouldRequeue then ret \<lparr>rq_requeue = False, rq_requeue_after = requeueTime\<rparr>
         else ret no_requeue))))"

definition reconcile_live :: "env \<Rightarrow> (string \<Rightarrow> string set action) \<Rightarrow> reconcile_result action" where
  "reconcile_live env fetch =
     (let requeueTime = GetDurationConfigWithDefault (e_viper env) RequeueTimeConfigName DefaultRequeueTime in
      attempt (ExtractParams env)
        (\<lambda>err.
           and_then (setStatusAsNotReady env ApiServerSlot err) (\<lambda>_.
           and_then (set_status env (SetDSPANotReady (Some err) FailingToDeploy)) (\<lambda>_.
           ret \<lparr>rq_requeue = True, rq_requeue_after = requeueTime\<rparr>)))
        (\<lambda>_.
           and_then (deploy_prereqs env) (\<lambda>_.
           and_then (check_prereqs env) (\<lambda>dspaPrereqsReady.
           if dspaPrereqsReady then reconcile_ready env fetch requeueTime
           else ret \<lparr>rq_requeue = True, rq_requeue_after = requeueTime\<rparr>))))"

definition reconcile_body :: "env \<Rightarrow> (string \<Rightarrow> string set action) \<Rightarrow> reconcile_result action" where
  "reconcile_body env fetch =
     and_then get_cur (\<lambda>dspa.
     if \<not> DSPAWithSupportedDSPVersion dspa then
       and_then (report_unsupported env (unsupported_error dspa)) (\<lambda>_. ret no_requeue)
     else
       and_then stub_gvk (\<lambda>_.
       and_then get_cur (\<lambda>dspa.
       if d_deletion_timestamp dspa = None then
         and_then (ensure_finalizer env) (\<lambda>_. reconcile_live env fetch)
       else
         and_then (if ContainsFinalizer dspa then finalize env else ret ()) (\<lambda>_. ret no_requeue))))"

text \<open>The parameters and the resource are allocated anew for every request.\<close>

definition reconcile_start :: "env \<Rightarrow> world \<Rightarrow> world" where
  "reconcile_start env w =
     w\<lparr>w_params := empty_params\<lparr>p_webhook_annotations := e_webhook_annotations env, p_mlflow_resolver_set := True\<rparr>,
       w_dspa := empty_dspa, w_copy := None\<rparr>"

definition Reconcile_with :: "env \<Rightarrow> (string \<Rightarrow> string set action) \<Rightarrow> namespaced_name \<Rightarrow> reconcile_result action" where
  "Reconcile_with env fetch req =
     and_then (modify_op (reconcile_start env)) (\<lambda>_.
     attempt (get_dspa env req)
       (\<lambda>err. if is_not_found err then ret no_requeue else fail err)
       (\<lambda>d.
          and_then (read_clock env) (\<lambda>now.
          and_then (modify_op (\<lambda>w. w\<lparr>w_dspa := d, w_status := NewDSPAStatus now\<rparr>)) (\<lambda>_.
          deferring (updateStatus env req)
            (deferring (publish_metrics env)
               (reconcile_body env fetch))))))"

definition Reconcile :: "env \<Rightarrow> namespaced_name \<Rightarrow> reconcile_result action" where
  "Reconcile env req = Reconcile_with env (FetchPipelineNames env) req"

section \<open>Which resources an event concerns\<close>

text \<open>\<open>client.InNamespace\<close> leaves of the listed resources those of the namespace.\<close>

definition globalCaBundleName :: string where
  "globalCaBundleName = ''odh-trusted-ca-bundle''"

definition ca_bundle_requests :: "env \<Rightarrow> config_map \<Rightarrow> namespaced_name list action" where
  "ca_bundle_requests env cm =
     (let thisNamespace = cm_namespace cm in
      if cm_name cm \<noteq> globalCaBundleName then ret []
      else
        attempt (list_dspas env) (\<lambda>err. ret [])
          (\<lambda>items.
             ret (map (\<lambda>d. nsname thisNamespace (d_name d))
               (filter DSPAWithSupportedDSPVersion (filter (\<lambda>d. d_namespace d = thisNamespace) items)))))"

definition pod_requests :: "pod \<Rightarrow> namespaced_name list" where
  "pod_requests p =
     (if map_of (po_labels p) DSPComponentk8sLabel \<noteq> Some DSPComponentk8sLabelValue then []
      else if \<not> HasSupportedDSPVersionLabel (po_labels p) then []
      else
        (case map_of (po_labels p) ''dspa'' of
           None \<Rightarrow> []
         | Some dspaName \<Rightarrow> [nsname (po_namespace p) dspaName]))"

definition secret_requests :: "env \<Rightarrow> secret \<Rightarrow> namespaced_name list action" where
  "secret_requests env s =
     (if map_of (se_annotations s) ''openshift.io/owning-component'' \<noteq> Some ''service-ca'' then ret []
      else
        (let serviceName =
               (case map_of (se_annotations s) ''service.beta.openshift.io/originating-service-name'' of
                  None \<Rightarrow> '''' | Some n \<Rightarrow> n) in
         attempt (get_service env (nsname (se_namespace s) serviceName)) (\<lambda>err. ret [])
           (\<lambda>service.
              case map_of (sv_labels service) ''dspa'' of
                None \<Rightarrow> ret []
              | Some dspaName \<Rightarrow>
                  if \<not> HasSupportedDSPVersionLabel (sv_labels service) then ret []
                  else ret [nsname (se_namespace s) dspaName])))"

end
