(* ===== verification/Controller_Safety.thy ===== *)
theory Controller_Safety imports Controller begin

text \<open>
  What a reconcile may do to the cluster and in which order: the deferred calls, the inert handling of
  unsupported versions, finalisation, and the gate in front of the components.
\<close>

section \<open>The deferred calls\<close>

named_theorems total_intros \<open>operations that always yield a value\<close>

definition always_ok :: "'a action \<Rightarrow> bool" where
  "always_ok m \<longleftrightarrow> (\<forall>w. \<exists>a w'. m w = (Ok a, w'))"

definition no_panic :: "'a action \<Rightarrow> bool" where
  "no_panic m \<longleftrightarrow> (\<forall>w q w'. m w \<noteq> (Panic q, w'))"

lemma total_basic [total_intros]:
  "always_ok (ret a)" "always_ok (gets_op f)" "always_ok (modify_op g)" "always_ok (emit e)" "always_ok (read_clock env)"
  "always_ok get_cur" "always_ok get_params"
  by (simp_all add: always_ok_def ret_def gets_op_def modify_op_def emit_def read_clock_def get_cur_def get_params_def)

lemma no_panic_total: "always_ok m \<Longrightarrow> no_panic m"
  unfolding always_ok_def no_panic_def by (metis Pair_inject res.distinct(3))

lemma total_attempt [total_intros]:
  assumes "no_panic m" "\<And>e. always_ok (h e)" "\<And>a. always_ok (k a)"
  shows "always_ok (attempt m h k)"
  unfolding always_ok_def
proof
  fix w
  obtain r w1 where m: "m w = (r, w1)" by fastforce
  with assms show "\<exists>a w'. attempt m h k w = (Ok a, w')"
    by (cases r) (auto simp: attempt_def always_ok_def no_panic_def)
qed

lemma total_and_then [total_intros]:
  assumes "always_ok m" "\<And>a. always_ok (k a)"
  shows "always_ok (and_then m k)"
  unfolding always_ok_def
proof
  fix w
  obtain a w1 where m: "m w = (Ok a, w1)" using assms(1) by (metis always_ok_def)
  with assms(2) show "\<exists>a w'. and_then m k w = (Ok a, w')"
    by (auto simp: and_then_def attempt_def always_ok_def)
qed

lemma no_panic_call [total_intros]: "no_panic (call f ev)"
  by (simp add: no_panic_def call_def split: sum.splits)

lemma no_panic_attempt [total_intros]:
  assumes "no_panic m" "\<And>e. no_panic (h e)" "\<And>a. no_panic (k a)"
  shows "no_panic (attempt m h k)"
  unfolding no_panic_def
proof (intro allI)
  fix w q w'
  obtain r w1 where m: "m w = (r, w1)" by fastforce
  with assms show "attempt m h k w \<noteq> (Panic q, w')"
    by (cases r) (auto simp: attempt_def no_panic_def)
qed

lemma no_panic_basic [total_intros]: "no_panic (ret a)" "no_panic (fail e)"
  by (simp_all add: no_panic_def ret_def fail_def)

lemma no_panic_and_then [total_intros]: "no_panic m \<Longrightarrow> (\<And>a. no_panic (k a)) \<Longrightarrow> no_panic (and_then m k)"
  unfolding and_then_def by (intro total_intros)

lemma no_panic_if [total_intros]: "no_panic m \<Longrightarrow> no_panic n \<Longrightarrow> no_panic (if b then m else n)"
  by simp

lemma total_if [total_intros]: "always_ok m \<Longrightarrow> always_ok n \<Longrightarrow> always_ok (if b then m else n)"
  by simp

lemma total_prod [total_intros]: "(\<And>a b. always_ok (f a b)) \<Longrightarrow> always_ok (case x of (a, b) \<Rightarrow> f a b)"
  by (cases x) simp

lemma total_for_each [total_intros]: "(\<And>x. always_ok (f x)) \<Longrightarrow> always_ok (for_each f xs)"
  by (induction xs) (auto intro!: total_intros)

lemma no_panic_hostname [total_intros]:
  "no_panic (GetServiceHostname env n ns)" "no_panic (GetRouteHostname env n ns)"
  unfolding GetServiceHostname_def GetServiceIfAvailable_def GetRouteHostname_def GetRouteIfAvailable_def
    get_service_def get_route_def
  by (intro total_intros)+

lemma total_GetComponents [total_intros]: "always_ok (GetComponents env d)"
  unfolding GetComponents_def or_empty_def Let_def by (intro total_intros)

lemma total_deferred: "always_ok (updateStatus env req)" "always_ok (publish_metrics env)"
  unfolding updateStatus_def refreshDspa_def publish_metrics_def get_dspa_def Let_def
  by (intro total_intros)+

lemma deferring_total:
  assumes "always_ok d" "m w = (r, w1)"
  shows "deferring d m w = (r, snd (d w1))"
proof -
  obtain u w2 where "d w1 = (Ok u, w2)" using assms(1) by (metis always_ok_def)
  with assms(2) show ?thesis by (simp add: deferring_def)
qed

text \<open>What the deferred calls do: read, set gauges and write the status.\<close>

fun closing_event :: "event \<Rightarrow> bool" where
  "closing_event (Ev_Gauge g) = True"
| "closing_event (Ev_Update_Status d ok) = True"
| "closing_event (Ev_Get k nn) = True"
| "closing_event (Ev_Get_Dspa nn) = True"
| "closing_event _ = False"

lemma emits_modify_dspa [emits_intros]: "emits P (modify_op (\<lambda>w. w\<lparr>w_dspa := d\<rparr>))"
  by (simp add: emits_def modify_op_def)

lemma emits_GetComponents [emits_intros]: "emits closing_event (GetComponents env d)"
  unfolding GetComponents_def or_empty_def Let_def by (intro emits_intros) simp_all

lemma emits_closing: "emits closing_event (updateStatus env req)" "emits closing_event (publish_metrics env)"
  unfolding updateStatus_def refreshDspa_def publish_metrics_def Let_def
  by (intro emits_intros; simp)+

lemma status_modify_dspa [status_intros]: "status_inv J (modify_op (\<lambda>w. w\<lparr>w_dspa := d\<rparr>))"
  by (simp add: status_inv_def modify_op_def)

lemma status_closing: "status_inv J (updateStatus env req)" "status_inv J (publish_metrics env)"
  unfolding updateStatus_def refreshDspa_def publish_metrics_def GetComponents_def or_empty_def Let_def
  by (intro status_intros)+

section \<open>A reconcile as its body and its closing calls\<close>

definition reconcile_world :: "env \<Rightarrow> namespaced_name \<Rightarrow> dspa \<Rightarrow> world \<Rightarrow> world" where
  "reconcile_world env req d w =
     (let w1 = log_event (Ev_Get_Dspa req) (reconcile_start env w) in
      w1\<lparr>w_ticks := w_ticks w1 + 1, w_dspa := d, w_status := NewDSPAStatus (e_now env (w_ticks w1))\<rparr>)"

lemma reconcile_world_simps [simp]:
  "w_history (reconcile_world env req d w) = w_history w @ [Ev_Get_Dspa req]"
  "w_dspa (reconcile_world env req d w) = d" "w_copy (reconcile_world env req d w) = None"
  "cur_dspa (reconcile_world env req d w) = d"
  by (simp_all add: reconcile_world_def log_event_def reconcile_start_def cur_dspa_def)

lemma reconcile_absent:
  assumes "e_get_dspa env (w_history w) req = Inl e"
  shows "Reconcile_with env fetch req w =
    (if is_not_found e then Ok no_requeue else Err e, log_event (Ev_Get_Dspa req) (reconcile_start env w))"
  using assms
  by (simp add: Reconcile_with_def and_then_def attempt_def modify_op_def get_dspa_def call_def ret_def fail_def
      log_event_def reconcile_start_def)

lemma reconcile_present:
  assumes get: "e_get_dspa env (w_history w) req = Inr d"
    and body: "reconcile_body env fetch (reconcile_world env req d w) = (r, w1)"
  obtains evs w' where "Reconcile_with env fetch req w = (r, w')" "w_history w' = w_history w1 @ evs"
    "list_all closing_event evs" "w_status w' = w_status w1"
proof -
  let ?m = "deferring (publish_metrics env) (reconcile_body env fetch)"
  obtain w2 where w2: "publish_metrics env w1 = (Ok (), w2)"
    using total_deferred(2) [of env] by (auto simp: always_ok_def)
  obtain w3 where w3: "updateStatus env req w2 = (Ok (), w3)"
    using total_deferred(1) [of env req] by (auto simp: always_ok_def)
  have "?m (reconcile_world env req d w) = (r, w2)"
    using deferring_total [OF total_deferred(2), of "reconcile_body env fetch", OF body] w2 by simp
  from deferring_total [OF total_deferred(1), of ?m, OF this] w3
  have "deferring (updateStatus env req) ?m (reconcile_world env req d w) = (r, w3)" by simp
  then have run: "Reconcile_with env fetch req w = (r, w3)"
    using get
    by (simp add: Reconcile_with_def and_then_def attempt_def modify_op_def get_dspa_def call_def
        reconcile_world_def Let_def read_clock_def log_event_def reconcile_start_def)
  from emitsD [OF emits_closing(2) w2] emitsD [OF emits_closing(1) w3] obtain e1 e2
    where "w_history w3 = w_history w1 @ e1 @ e2" "list_all closing_event (e1 @ e2)" by auto
  moreover have "w_status w3 = w_status w1"
    using status_invD [OF status_closing(2) w2, where J = "\<lambda>s. s = w_status w1"]
      status_invD [OF status_closing(1) w3, where J = "\<lambda>s. s = w_status w1"] by simp
  ultimately show thesis using run that by blast
qed

section \<open>Unsupported versions\<close>

lemma set_status_run:
  "set_status env f w = (Ok (), w\<lparr>w_ticks := w_ticks w + 1, w_status := f (e_now env (w_ticks w)) (w_status w)\<rparr>)"
  by (simp add: set_status_def and_then_def attempt_def read_clock_def modify_op_def)

lemma report_unsupported_run:
  "\<exists>w'. report_unsupported env e w = (Ok (), w') \<and> w_history w' = w_history w \<and>
     map_option (\<lambda>c. (c_type c, c_status c, c_reason c, c_message c)) (s_dspaReady (w_status w')) =
       Some (CrReady, StFalse, UnsupportedVersion, err_msg e)"
  by (simp add: report_unsupported_def setStatusAsUnsupported_def and_then_def attempt_def set_status_run
      SetDSPANotReady_def error_text_def)

lemma reconcile_body_unsupported:
  assumes "\<not> DSPAWithSupportedDSPVersion (cur_dspa w)"
  shows "\<exists>w'. reconcile_body env fetch w = (Ok no_requeue, w') \<and> w_history w' = w_history w \<and>
     map_option (\<lambda>c. (c_type c, c_status c, c_reason c, c_message c)) (s_dspaReady (w_status w')) =
       Some (CrReady, StFalse, UnsupportedVersion, err_msg (unsupported_error (cur_dspa w)))"
  using report_unsupported_run [of env "unsupported_error (cur_dspa w)" w] assms
  by (auto simp: reconcile_body_def and_then_get) (auto simp: and_then_def attempt_def ret_def)

text \<open>
  C4: A resource of an unsupported version is left alone, also when it is being deleted.  The reconcile
  ends without an error and is not repeated; the only write to the cluster is the status, whose Ready
  condition is False with the reason \<open>UnsupportedVersion\<close> and the message that asks to remove the
  resource.  In particular the resource itself, its finalizer included, is never updated.
\<close>

theorem unsupported_version_inert:
  assumes get: "e_get_dspa env (w_history w) req = Inr d"
    and version: "\<not> DSPAWithSupportedDSPVersion d"
  shows "case Reconcile env req w of
     (r, w') \<Rightarrow>
       r = Ok no_requeue \<and>
       (\<exists>evs. w_history w' = w_history w @ evs \<and>
          list_all (\<lambda>e. case e of Ev_Update_Status d ok \<Rightarrow> True | _ \<Rightarrow> \<not> cluster_write e) evs) \<and>
       map_option (\<lambda>c. (c_type c, c_status c, c_reason c, c_message c)) (s_dspaReady (w_status w')) =
         Some (CrReady, StFalse, UnsupportedVersion, err_msg (unsupported_error d))"
proof -
  let ?w0 = "reconcile_world env req d w"
  obtain w1 where body: "reconcile_body env (FetchPipelineNames env) ?w0 = (Ok no_requeue, w1)"
    and h: "w_history w1 = w_history ?w0"
    and ready: "map_option (\<lambda>c. (c_type c, c_status c, c_reason c, c_message c)) (s_dspaReady (w_status w1)) =
         Some (CrReady, StFalse, UnsupportedVersion, err_msg (unsupported_error d))"
    using reconcile_body_unsupported [of ?w0 env "FetchPipelineNames env"] version by auto
  obtain evs w' where run: "Reconcile_with env (FetchPipelineNames env) req w = (Ok no_requeue, w')"
      "w_history w' = w_history w1 @ evs" "list_all closing_event evs" "w_status w' = w_status w1"
    by (rule reconcile_present [OF get body])
  have closing: "case e of Ev_Update_Status d ok \<Rightarrow> True | _ \<Rightarrow> \<not> cluster_write e" if "closing_event e" for e
    using that by (cases e) simp_all
  have "list_all (\<lambda>e. case e of Ev_Update_Status d ok \<Rightarrow> True | _ \<Rightarrow> \<not> cluster_write e) (Ev_Get_Dspa req # evs)"
    using list.pred_mono_strong [OF run(3) closing] by simp
  with run h ready show ?thesis by (auto simp: Reconcile_def)
qed

theorem unsupported_version_inert_witness:
  "case Reconcile (sample_env\<lparr>e_get_dspa := \<lambda>h nn. Inr (empty_dspa\<lparr>d_finalizers := [finalizerName], d_deletion_timestamp := Some 1\<rparr>)\<rparr>)
     (nsname ''ns'' ''sample'') sample_world of (r, w') \<Rightarrow> r = Ok no_requeue"
proof -
  let ?d = "empty_dspa\<lparr>d_finalizers := [finalizerName], d_deletion_timestamp := Some 1\<rparr>"
  let ?env = "sample_env\<lparr>e_get_dspa := \<lambda>h nn. Inr ?d\<rparr>"
  have "\<not> DSPAWithSupportedDSPVersion ?d"
    by (simp add: DSPAWithSupportedDSPVersion_def GetSupportedDSPAVersions_def SupportedDSPVersions_def
        empty_dspa_def empty_spec_def config_consts)
  from unsupported_version_inert [of ?env sample_world "nsname ''ns'' ''sample''", OF _ this]
  show ?thesis by (auto split: prod.splits)
qed

section \<open>Finalisation\<close>

text \<open>The events an operation adds when it succeeds.\<close>

definition ok_emits :: "(event \<Rightarrow> bool) \<Rightarrow> 'a action \<Rightarrow> bool" where
  "ok_emits P m \<longleftrightarrow> (\<forall>w a w'. m w = (Ok a, w') \<longrightarrow> (\<exists>evs. w_history w' = w_history w @ evs \<and> list_all P evs))"

named_theorems ok_intros \<open>events of a successful operation\<close>

lemma ok_emitsD: "ok_emits P m \<Longrightarrow> m w = (Ok a, w') \<Longrightarrow> \<exists>evs. w_history w' = w_history w @ evs \<and> list_all P evs"
  by (simp add: ok_emits_def)

lemma ok_emits_emits: "emits P m \<Longrightarrow> ok_emits P m"
  unfolding ok_emits_def using emitsD by blast

lemma ok_and_then [ok_intros]:
  assumes "ok_emits P m" "\<And>a. ok_emits P (k a)"
  shows "ok_emits P (and_then m k)"
  unfolding ok_emits_def
proof (intro allI impI)
  fix w b w' assume "and_then m k w = (Ok b, w')"
  then obtain a w1 where "m w = (Ok a, w1)" "k a w1 = (Ok b, w')" by (rule and_then_OkE)
  from ok_emitsD [OF assms(1) this(1)] ok_emitsD [OF assms(2) this(2)]
  show "\<exists>evs. w_history w' = w_history w @ evs \<and> list_all P evs" by auto
qed

lemma ok_call_opt [ok_intros]: "P (ev True) \<Longrightarrow> ok_emits P (call_opt f ev)"
  by (auto simp: ok_emits_def call_opt_def call_def log_event_def split: sum.splits option.splits)

lemma ok_if [ok_intros]: "ok_emits P m \<Longrightarrow> ok_emits P n \<Longrightarrow> ok_emits P (if b then m else n)"
  by simp

lemma ok_for_each [ok_intros]: "(\<And>x. ok_emits P (f x)) \<Longrightarrow> ok_emits P (for_each f xs)"
  by (induction xs) (auto intro: ok_intros ok_emits_emits [OF emits_basic(1)])

lemma ok_delete_if_exists [ok_intros]:
  assumes "P (Ev_Get k nn)" "P (Ev_Delete_Object k nn True)"
  shows "ok_emits P (DeleteResourceIfItExists env k nn)"
  using assms
  by (auto simp: ok_emits_def DeleteResourceIfItExists_def attempt_def call_opt_def call_def ret_def fail_def log_event_def
      split: sum.splits option.splits if_splits)

text \<open>What cleaning up may do, and what it has done when it succeeded.\<close>

fun cleanup_event :: "event \<Rightarrow> bool" where
  "cleanup_event (Ev_Update_Dspa d ok) = False"
| "cleanup_event (Ev_Apply ow t os ok) = False"
| "cleanup_event _ = True"

fun cleanup_done :: "event \<Rightarrow> bool" where
  "cleanup_done (Ev_Delete_Object k nn ok) = ok"
| "cleanup_done (Ev_Delete_Manifest t os ok) = ok"
| "cleanup_done e = cleanup_event e"

definition cleanup :: "env \<Rightarrow> unit action" where
  "cleanup env = and_then (cleanUpResources env) (\<lambda>_. CleanUpWebhookIfUnused env)"

lemma emits_cleanup: "emits cleanup_event (cleanup env)"
  unfolding cleanup_def cleanUpResources_def CleanUpCommon_def CleanUpWebhookIfUnused_def
    checkAvailableKubernetesDSPAs_def cleanupWebhookResources_def
  by (intro emits_intros; simp)

lemma ok_DeleteResource: "ok_emits cleanup_done (DeleteResource env t fns)"
  unfolding DeleteResource_def by (intro ok_intros; (intro ok_emits_emits emits_intros)?) simp_all

lemma ok_cleanup: "ok_emits cleanup_done (cleanup env)"
proof -
  have "ok_emits cleanup_done (case x of (k, nn) \<Rightarrow> DeleteResourceIfItExists env k nn)" for x
    by (cases x) (auto intro!: ok_intros)
  then have objs: "ok_emits cleanup_done (cleanupWebhookResources env ns)" for ns
    unfolding cleanupWebhookResources_def by (rule ok_for_each)
  have gauges: "ok_emits cleanup_done (for_each (\<lambda>call. emit (Ev_Gauge call)) gs)" for gs
    by (intro ok_emits_emits emits_intros) simp
  show ?thesis
    unfolding cleanup_def cleanUpResources_def CleanUpCommon_def CleanUpWebhookIfUnused_def
      checkAvailableKubernetesDSPAs_def
    by (intro ok_and_then ok_if objs gauges ok_DeleteResource; (intro ok_emits_emits emits_intros)?) simp_all
qed


lemma and_then_assoc: "and_then m (\<lambda>a. and_then (k a) l) = and_then (and_then m k) l"
  by (auto simp: and_then_def attempt_def fail_def fun_eq_iff split: prod.splits res.splits)

lemma for_each_emit:
  "for_each (\<lambda>x. emit (f x)) xs w = (Ok (), w\<lparr>w_history := w_history w @ map f xs\<rparr>)"
  by (induction xs arbitrary: w) (simp_all add: ret_def and_then_def attempt_def emit_def modify_op_def log_event_def)

lemma DeleteResource_ok:
  assumes "DeleteResource env t fns w = (Ok a, w')"
  shows "\<exists>h os. w_history w' = w_history w @ h @ [Ev_Delete_Manifest t os True]"
proof -
  let ?load = "wrap_err (loading_error t) (Manifest env (e_templates_path env @ t) (w_params w))"
  obtain m w1 where 1: "?load w = (Ok m, w1)"
    and k: "and_then (of_sum (e_transform env fns m)) (\<lambda>m1. call_opt (\<lambda>h. e_delete_manifest env h m1) (Ev_Delete_Manifest t m1)) w1 = (Ok a, w')"
    using assms by (auto simp: DeleteResource_def and_then_get elim: and_then_OkE)
  have "emits (\<lambda>_. True) ?load" by (intro emits_intros) simp
  from emitsD [OF this 1] obtain h where "w_history w1 = w_history w @ h" by blast
  with k show ?thesis
    by (auto simp: and_then_def attempt_def of_sum_def call_opt_def call_def log_event_def ret_def fail_def
        split: sum.splits option.splits)
qed

lemma reads_cleanup: "reads (CleanUpWebhookIfUnused env)" "reads (CleanUpCommon env)"
  unfolding CleanUpCommon_def CleanUpWebhookIfUnused_def checkAvailableKubernetesDSPAs_def cleanupWebhookResources_def
  by (intro reads_intros)+

lemma reads_dspa: "reads m \<Longrightarrow> m w = (r, w') \<Longrightarrow> cur_dspa w' = cur_dspa w"
  by (drule (1) readsD) auto

lemma cleanup_ok:
  assumes "cleanup env w = (Ok a, w')"
  shows "\<exists>evs os. w_history w' = w_history w @ evs \<and> list_all cleanup_done evs \<and>
    set (map Ev_Gauge (DeleteMetrics (p_name (w_params w)) (p_namespace (w_params w)))) \<subseteq> set evs \<and>
    Ev_Delete_Manifest commonCusterRolebindingTemplate os True \<in> set evs \<and> cur_dspa w' = cur_dspa w"
proof -
  let ?g = "map Ev_Gauge (DeleteMetrics (p_name (w_params w)) (p_namespace (w_params w)))"
  let ?w1 = "w\<lparr>w_history := w_history w @ ?g\<rparr>"
  obtain b w2 where c: "CleanUpCommon env ?w1 = (Ok b, w2)" and k: "CleanUpWebhookIfUnused env w2 = (Ok a, w')"
    using assms
    by (auto simp: cleanup_def cleanUpResources_def for_each_emit get_params_def gets_op_def elim!: and_then_OkE)
  from DeleteResource_ok [OF c [unfolded CleanUpCommon_def]] obtain h os
    where h2: "w_history w2 = w_history w @ ?g @ h @ [Ev_Delete_Manifest commonCusterRolebindingTemplate os True]" by auto
  have "emits (\<lambda>_. True) (CleanUpWebhookIfUnused env)"
    unfolding CleanUpWebhookIfUnused_def checkAvailableKubernetesDSPAs_def cleanupWebhookResources_def
    by (intro emits_intros; simp)
  from emitsD [OF this k] obtain h' where h': "w_history w' = w_history w2 @ h'" by blast
  from ok_emitsD [OF ok_cleanup assms] obtain evs
    where "w_history w' = w_history w @ evs" "list_all cleanup_done evs" by blast
  moreover from this(1) h2 h' have "evs = ?g @ h @ [Ev_Delete_Manifest commonCusterRolebindingTemplate os True] @ h'" by simp
  moreover have "cur_dspa w' = cur_dspa w"
    using reads_dspa [OF reads_cleanup(1) k] reads_dspa [OF reads_cleanup(2) c] by simp
  ultimately show ?thesis by (metis Un_upper1 append.assoc in_set_conv_decomp append_Cons append_Nil set_append)
qed


lemma finalize_run:
  assumes "finalize env w = (r, w')"
  shows "\<exists>pre post. w_history w' = w_history w @ pre @ post \<and> list_all cleanup_event pre \<and>
    (post = [] \<and> (\<forall>a. r \<noteq> Ok a) \<or>
     (\<exists>ok os. post = [Ev_Update_Dspa (RemoveFinalizer (cur_dspa w)) ok] \<and> list_all cleanup_done pre \<and>
        set (map Ev_Gauge (DeleteMetrics (d_name (cur_dspa w)) (d_namespace (cur_dspa w)))) \<subseteq> set pre \<and>
        Ev_Delete_Manifest commonCusterRolebindingTemplate os True \<in> set pre))"
proof -
  let ?d = "cur_dspa w"
  let ?w1 = "w\<lparr>w_params := (w_params w)\<lparr>p_name := d_name ?d, p_namespace := d_namespace ?d,
               p_dspo_namespace := e_getenv env ''DSPO_NAMESPACE''\<rparr>\<rparr>"
  have run: "and_then (cleanup env) (\<lambda>_. and_then (mod_cur RemoveFinalizer) (\<lambda>_. update_dspa env)) ?w1 = (r, w')"
    using assms by (simp add: finalize_def and_then_get and_then_mod and_then_assoc [symmetric] cleanup_def)
  obtain rc w2 where c: "cleanup env ?w1 = (rc, w2)" by fastforce
  from emitsD [OF emits_cleanup c] obtain pre where pre: "w_history w2 = w_history w @ pre" "list_all cleanup_event pre" by auto
  show ?thesis
  proof (cases rc)
    case (Ok u)
    from cleanup_ok [OF c [unfolded Ok]] obtain os where fin:
      "list_all cleanup_done pre" "set (map Ev_Gauge (DeleteMetrics (d_name ?d) (d_namespace ?d))) \<subseteq> set pre"
      "Ev_Delete_Manifest commonCusterRolebindingTemplate os True \<in> set pre" "cur_dspa w2 = ?d"
      using pre by auto
    have "\<exists>ok. w_history w' = w_history w2 @ [Ev_Update_Dspa (RemoveFinalizer ?d) ok]"
      using run c Ok fin(4)
      by (simp add: and_then_run [of "cleanup env" ?w1, OF c] and_then_mod update_dspa_def and_then_get)
        (auto simp: and_then_def attempt_def call_def log_event_def mod_cur_def modify_op_def fail_def
          split: sum.splits)
    then obtain ok where upd: "w_history w' = w_history w2 @ [Ev_Update_Dspa (RemoveFinalizer ?d) ok]" by blast
    show ?thesis
      by (rule exI [of _ pre], rule exI [of _ "[Ev_Update_Dspa (RemoveFinalizer ?d) ok]"]) (use pre fin upd in auto)
  next
    case (Err e)
    with run c pre show ?thesis by (auto simp: and_then_run [of "cleanup env" ?w1, OF c])
  next
    case (Panic q)
    with run c pre show ?thesis by (auto simp: and_then_run [of "cleanup env" ?w1, OF c])
  qed
qed


definition with_gvk :: "dspa \<Rightarrow> dspa" where
  "with_gvk d = (if d_kind d = '''' then d\<lparr>d_api_version := ''v1'', d_kind := ''DataSciencePipelinesApplication''\<rparr> else d)"

lemma with_gvk_same [simp]:
  "d_name (with_gvk d) = d_name d" "d_namespace (with_gvk d) = d_namespace d" "d_spec (with_gvk d) = d_spec d"
  "d_deletion_timestamp (with_gvk d) = d_deletion_timestamp d" "d_finalizers (with_gvk d) = d_finalizers d"
  by (simp_all add: with_gvk_def)

lemma stub_gvk_run:
  assumes "w_copy w = None"
  obtains w1 where "stub_gvk w = (Ok (), w1)" "cur_dspa w1 = with_gvk (w_dspa w)" "w_history w1 = w_history w"
    "w_status w1 = w_status w" "w_params w1 = w_params w"
proof (cases "d_kind (w_dspa w) = ''''")
  case True
  show thesis
    by (rule that [of "w\<lparr>w_copy := Some (with_gvk (w_dspa w))\<rparr>"])
      (simp_all add: True stub_gvk_def and_then_def attempt_def gets_op_def modify_op_def with_gvk_def cur_dspa_def)
next
  case False
  show thesis
    by (rule that [of w])
      (simp_all add: False assms stub_gvk_def and_then_def attempt_def gets_op_def ret_def with_gvk_def cur_dspa_def)
qed

text \<open>
  What the events before the closing calls must be: nothing without the finalizer; with it, a failure
  that has not updated the resource, or one update without the finalizer after a complete clean-up.
\<close>

definition finalised :: "dspa \<Rightarrow> reconcile_result res \<Rightarrow> event list \<Rightarrow> event list \<Rightarrow> bool" where
  "finalised d r pre release \<longleftrightarrow>
     list_all cleanup_event pre \<and>
     (if \<not> ContainsFinalizer d then release = [] \<and> r = Ok no_requeue
      else if release = [] then (case r of Ok res \<Rightarrow> False | _ \<Rightarrow> True)
      else \<exists>d' ok os.
        release = [Ev_Update_Dspa d' ok] \<and> d_name d' = d_name d \<and> finalizerName \<notin> set (d_finalizers d') \<and>
        list_all cleanup_done pre \<and>
        set (map Ev_Gauge (DeleteMetrics (d_name d) (d_namespace d))) \<subseteq> set pre \<and>
        Ev_Delete_Manifest commonCusterRolebindingTemplate os True \<in> set pre)"

lemma finalised_get: "finalised d r pre release \<Longrightarrow> finalised d r (Ev_Get_Dspa nn # pre) release"
  by (auto simp: finalised_def split: if_splits)

lemma finalize_finalised:
  assumes fin: "finalize env w = (r0, w')" and d: "cur_dspa w = with_gvk d" and has: "ContainsFinalizer d"
    and r: "r = (case r0 of Ok u \<Rightarrow> Ok no_requeue | Err e \<Rightarrow> Err e | Panic q \<Rightarrow> Panic q)"
  shows "\<exists>pre release. w_history w' = w_history w @ pre @ release \<and> finalised d r pre release"
proof -
  from finalize_run [OF fin] obtain pre post where p: "w_history w' = w_history w @ pre @ post" "list_all cleanup_event pre"
    and cases: "post = [] \<and> (\<forall>a. r0 \<noteq> Ok a) \<or>
       (\<exists>ok os. post = [Ev_Update_Dspa (RemoveFinalizer (with_gvk d)) ok] \<and> list_all cleanup_done pre \<and>
        set (map Ev_Gauge (DeleteMetrics (d_name d) (d_namespace d))) \<subseteq> set pre \<and>
        Ev_Delete_Manifest commonCusterRolebindingTemplate os True \<in> set pre)"
    unfolding d by auto
  from cases have "finalised d r pre post"
  proof (elim disjE exE conjE)
    assume "post = []" "\<forall>a. r0 \<noteq> Ok a"
    with p r has show ?thesis by (cases r0) (simp_all add: finalised_def)
  next
    fix ok os
    assume "post = [Ev_Update_Dspa (RemoveFinalizer (with_gvk d)) ok]" "list_all cleanup_done pre"
      "set (map Ev_Gauge (DeleteMetrics (d_name d) (d_namespace d))) \<subseteq> set pre"
      "Ev_Delete_Manifest commonCusterRolebindingTemplate os True \<in> set pre"
    with p has show ?thesis by (simp add: finalised_def RemoveFinalizer_def) blast
  qed
  with p show ?thesis by blast
qed

lemma reconcile_body_deleted:
  assumes w: "w_dspa w = d" "w_copy w = None"
    and version: "DSPAWithSupportedDSPVersion d" and deleted: "d_deletion_timestamp d \<noteq> None"
    and body: "reconcile_body env fetch w = (r, w')"
  shows "\<exists>pre release. w_history w' = w_history w @ pre @ release \<and> finalised d r pre release"
proof -
  obtain w1 where stub: "stub_gvk w = (Ok (), w1)" "cur_dspa w1 = with_gvk d" "w_history w1 = w_history w"
    by (rule stub_gvk_run [of w]) (simp_all add: w)
  let ?fin = "if ContainsFinalizer d then finalize env else ret ()"
  obtain r0 w2 where fin: "?fin w1 = (r0, w2)" by fastforce
  have "cur_dspa w = d" by (simp add: w cur_dspa_def)
  with version deleted body have "and_then ?fin (\<lambda>_. ret no_requeue) w1 = (r, w')"
    by (cases "d_deletion_timestamp d")
      (simp_all add: reconcile_body_def and_then_get and_then_run [of stub_gvk w, OF stub(1)] stub(2) ContainsFinalizer_def)
  then have r: "r = (case r0 of Ok u \<Rightarrow> Ok no_requeue | Err e \<Rightarrow> Err e | Panic q \<Rightarrow> Panic q)" "w' = w2"
    unfolding and_then_run [of ?fin w1, OF fin] by (cases r0; simp add: ret_def)+
  show ?thesis
  proof (cases "ContainsFinalizer d")
    case True
    with fin have "finalize env w1 = (r0, w2)" by simp
    from finalize_finalised [OF this stub(2) True r(1)] show ?thesis by (simp add: r(2) stub(3))
  next
    case False
    with fin r have "r = Ok no_requeue" "w' = w1" by (auto simp: ret_def)
    with False show ?thesis by (simp add: finalised_def stub(3))
  qed
qed

text \<open>
  C2: Deletion waits for the clean-up.  When a resource of a supported version is being deleted, nothing is
  applied.  With its finalizer, either the reconcile fails and the resource was not updated, or it was
  updated once, without the finalizer, after every gauge series of the resource had been deleted, the
  cluster role binding had been deleted, and every deletion the clean-up asked for had succeeded.
  Without the finalizer nothing is done.  The closing calls only read, set gauges and write the status.
\<close>

theorem finalizer_removed_last:
  assumes get: "e_get_dspa env (w_history w) req = Inr d"
    and version: "DSPAWithSupportedDSPVersion d" and deleted: "d_deletion_timestamp d \<noteq> None"
  shows "case Reconcile env req w of
     (r, w') \<Rightarrow>
       \<exists>pre release closing.
         w_history w' = w_history w @ pre @ release @ closing \<and>
         finalised d r pre release \<and> list_all closing_event closing"
proof -
  let ?w0 = "reconcile_world env req d w" and ?fetch = "FetchPipelineNames env"
  obtain r w1 where body: "reconcile_body env ?fetch ?w0 = (r, w1)" by fastforce
  from reconcile_body_deleted [OF _ _ version deleted body] obtain pre release
    where p: "w_history w1 = w_history w @ (Ev_Get_Dspa req # pre) @ release" "finalised d r pre release" by auto
  obtain closing w' where run: "Reconcile_with env ?fetch req w = (r, w')" "w_history w' = w_history w1 @ closing"
      "list_all closing_event closing"
    by (rule reconcile_present [OF get body])
  have "w_history w' = w_history w @ (Ev_Get_Dspa req # pre) @ release @ closing"
    using run(2) p(1) by simp
  with finalised_get [OF p(2)] run(3) show ?thesis
    unfolding Reconcile_def run(1) prod.case by blast
qed

theorem finalizer_removed_last_witness:
  "case Reconcile (sample_env\<lparr>e_get_dspa := \<lambda>h nn. Inr (sample_dspa\<lparr>d_finalizers := [finalizerName], d_deletion_timestamp := Some 1\<rparr>)\<rparr>)
     (nsname ''ns'' ''sample'') sample_world of
     (r, w') \<Rightarrow>
       \<exists>pre release closing. w_history w' = pre @ release @ closing \<and>
         finalised (sample_dspa\<lparr>d_finalizers := [finalizerName], d_deletion_timestamp := Some 1\<rparr>) r pre release"
proof -
  let ?d = "sample_dspa\<lparr>d_finalizers := [finalizerName], d_deletion_timestamp := Some 1\<rparr>"
  let ?env = "sample_env\<lparr>e_get_dspa := \<lambda>h nn. Inr ?d\<rparr>"
  have "DSPAWithSupportedDSPVersion ?d"
    by (simp add: DSPAWithSupportedDSPVersion_def GetSupportedDSPAVersions_def SupportedDSPVersions_def
        sample_dspa_def sample_spec_def config_consts)
  from finalizer_removed_last [of ?env sample_world "nsname ''ns'' ''sample''", OF _ this]
  show ?thesis by (simp add: sample_world_def split: prod.splits) blast
qed

end
