(* ===== verification/Controller_Gate.thy ===== *)
theory Controller_Gate imports Controller_Safety begin

text \<open>
  The order of a reconcile: no component is applied before the database and the object store have
  answered, and a reconcile that leaves one of them unready is repeated.
\<close>

section \<open>What the stages emit\<close>

text \<open>Computing the parameters reads objects and files and writes config maps.\<close>

fun params_event :: "event \<Rightarrow> bool" where
  "params_event (Ev_Get k nn) = True"
| "params_event (Ev_Read_File f) = True"
| "params_event (Ev_Create_ConfigMap c ok) = True"
| "params_event (Ev_Update_ConfigMap c ok) = True"
| "params_event _ = False"

lemma emits_secrets [emits_intros]:
  "emits params_event (passwordGen env n)" "emits params_event (RetrieveSecret env sn sk)"
  "emits params_event (RetrieveOrCreateSecret env sn sk l)" "emits params_event (RetrieveOrCreateDBSecret env s)"
  "emits params_event (RetrieveOrCreateObjectStoreSecret env os)" "emits params_event (retrieve_if_present env sn sk)"
  unfolding RetrieveOrCreateDBSecret_def RetrieveOrCreateObjectStoreSecret_def RetrieveOrCreateSecret_def
    RetrieveSecret_def retrieve_if_present_def passwordGen_def
  by (intro emits_intros; simp)+

lemma emits_setup [emits_intros]:
  "emits params_event (SetupDBParams env)" "emits params_event (SetupObjectParams env)"
  "emits params_event (SetupMLMD env)" "emits params_event (SetupOwner env)"
  unfolding SetupDBParams_def setup_external_db_def setup_maria_db_def apply_custom_extra_params_def
    check_db_password_def mod_db_def SetupObjectParams_def setup_external_storage_def setup_minio_def
    setup_external_route_def check_object_credentials_def mod_os_def RetrieveAndSetExternalRoute_def
    IsAPIServerDeploymentReady_def SetupMLMD_def SetupOwner_def
  by (intro emits_intros; simp)+

lemma emits_extract_blocks [emits_intros]:
  "emits params_event (extract_names env d)" "emits params_event (mod_api f)" "emits params_event (extract_api_images env)"
  "emits params_event (extract_managed_pipelines env mps)" "emits params_event (extract_mlflow_plugin env a)"
  "emits params_event (extract_server_config d)" "emits params_event (extract_launcher_config env a)"
  "emits params_event (extract_workspace env a)"
  unfolding extract_names_def mod_api_def extract_api_images_def extract_managed_pipelines_def
    extract_mlflow_plugin_def build_mlflow_plugin_def api_server_external_url_def extract_server_config_def
    extract_launcher_config_def extract_workspace_def IsAPIServerDeploymentReady_def Let_def
  by (intro emits_intros; simp)+

lemma emits_ca_blocks [emits_intros]:
  "emits params_event (extract_global_ca env)" "emits params_event (extract_user_ca env a)"
  "emits params_event (extract_service_ca env)" "emits params_event (extract_ca_paths a)"
  "emits params_event (publish_ca_bundle env d a b)"
  unfolding extract_global_ca_def extract_user_ca_def extract_service_ca_def extract_ca_paths_def add_pem_def
    publish_ca_bundle_def add_system_certs_def write_ca_bundle_def create_or_update_configmap_def
  by (intro emits_intros; simp)+

lemma emits_ExtractParams: "emits params_event (ExtractParams env)"
  unfolding ExtractParams_def extract_api_server_def extract_api_rest_def extract_agents_def
    extract_workflow_controller_def
  by (intro emits_intros)

text \<open>
  The templates of the database and of the object store; every other template belongs to a component.
  A quiet event applies no template of a component.
\<close>

definition infra_template :: "string \<Rightarrow> bool" where
  "infra_template t \<longleftrightarrow> take 8 t = ''mariadb/'' \<or> take 6 t = ''minio/''"

fun quiet :: "event \<Rightarrow> bool" where
  "quiet (Ev_Apply ow t os ok) = infra_template t"
| "quiet _ = True"

lemma quiet_params: "emits quiet (ExtractParams env)"
proof (rule emits_mono [OF emits_ExtractParams])
  show "quiet e" if "params_event e" for e
    using that by (cases e) simp_all
qed

lemma quiet_prereqs: "emits quiet (ReconcileDatabase env)" "emits quiet (ReconcileStorage env)"
  unfolding ReconcileDatabase_def deploy_maria_db_def record_maria_db_def ReconcileStorage_def deploy_minio_def
    record_minio_def Let_def
  by (intro emits_intros;
      auto simp: infra_template_def dbSecret_def mariadbTemplates_def storageSecret_def storageRoute_def minioTemplates_def)+

lemma quiet_checks: "emits quiet (isDatabaseAccessible env)" "emits quiet (isObjectStorageAccessible env)"
  unfolding isDatabaseAccessible_def ConnectAndQueryDatabase_def isObjectStorageAccessible_def decode_key_def
    ConnectAndQueryObjStore_def Let_def
  by (intro emits_intros; simp)+

section \<open>Composing the stages\<close>

text \<open>Both health checks, made when the history was \<open>h\<close>, said yes.\<close>

definition prereqs_answer :: "env \<Rightarrow> history \<Rightarrow> bool" where
  "prereqs_answer env h \<longleftrightarrow>
     (\<exists>w1 w2 w3 w4.
        w_history w1 = h \<and> isDatabaseAccessible env w1 = (Ok True, w2) \<and>
        w_history w3 = w_history w2 \<and> cur_dspa w3 = cur_dspa w2 \<and> w_params w3 = w_params w2 \<and>
        isObjectStorageAccessible env w3 = (Ok True, w4))"

text \<open>
  The gate between two histories: up to some point no component is applied, and from there on only if
  both health checks, made at that point, said yes.
\<close>

definition gate :: "env \<Rightarrow> history \<Rightarrow> history \<Rightarrow> bool" where
  "gate env h h' \<longleftrightarrow>
     (\<exists>pre rest. h' = h @ pre @ rest \<and> list_all quiet pre \<and> (list_all quiet rest \<or> prereqs_answer env (h @ pre)))"

lemma gateI:
  "h' = h @ pre @ rest \<Longrightarrow> list_all quiet pre \<Longrightarrow> list_all quiet rest \<or> prereqs_answer env (h @ pre) \<Longrightarrow> gate env h h'"
  by (auto simp: gate_def)

lemma gate_quiet: "list_all quiet evs \<Longrightarrow> gate env h (h @ evs)"
  by (rule gateI [of _ _ evs "[]"]) simp_all

lemma gate_prefix:
  assumes "gate env (h @ evs) h'" "list_all quiet evs"
  shows "gate env h h'"
proof -
  from assms obtain pre rest where "h' = (h @ evs) @ pre @ rest" "list_all quiet pre"
    "list_all quiet rest \<or> prereqs_answer env ((h @ evs) @ pre)" by (auto simp: gate_def)
  with assms(2) show ?thesis by (intro gateI [of _ _ "evs @ pre" rest]) simp_all
qed

lemma gate_suffix:
  assumes "gate env h h'" "list_all quiet evs"
  shows "gate env h (h' @ evs)"
proof -
  from assms obtain pre rest where "h' = h @ pre @ rest" "list_all quiet pre"
    "list_all quiet rest \<or> prereqs_answer env (h @ pre)" by (auto simp: gate_def)
  with assms(2) show ?thesis by (intro gateI [of _ _ pre "rest @ evs"]) auto
qed

text \<open>An operation behind the gate, from every state.\<close>

definition behind_gate :: "env \<Rightarrow> 'a action \<Rightarrow> bool" where
  "behind_gate env m \<longleftrightarrow> (\<forall>w. gate env (w_history w) (w_history (snd (m w))))"

lemma behind_gate_quiet: "emits quiet m \<Longrightarrow> behind_gate env m"
  unfolding behind_gate_def emits_def using gate_quiet by metis

lemma behind_gate_attempt:
  assumes "emits quiet m" "\<And>e. behind_gate env (h e)" "\<And>a. behind_gate env (k a)"
  shows "behind_gate env (attempt m h k)"
  unfolding behind_gate_def
proof
  fix w
  obtain r w1 where m: "m w = (r, w1)" by fastforce
  from emitsD [OF assms(1) m] obtain evs where e: "w_history w1 = w_history w @ evs" "list_all quiet evs" by blast
  have "gate env (w_history w1) (w_history (snd (attempt m h k w)))"
    using assms(2,3) m gate_quiet [of "[]" env "w_history w1"]
    by (cases r) (simp_all add: attempt_def behind_gate_def)
  with e show "gate env (w_history w) (w_history (snd (attempt m h k w)))"
    by (simp add: gate_prefix)
qed

lemma behind_gate_and_then:
  "emits quiet m \<Longrightarrow> (\<And>a. behind_gate env (k a)) \<Longrightarrow> behind_gate env (and_then m k)"
  unfolding and_then_def
  by (intro behind_gate_attempt behind_gate_quiet [OF emits_basic(2)])

lemma check_prereqs_True:
  assumes "check_prereqs env w1 = (Ok True, w5)"
  shows "prereqs_answer env (w_history w1)"
proof -
  obtain r w2 where d: "isDatabaseAccessible env w1 = (r, w2)" by fastforce
  let ?w3 = "w2\<lparr>w_ticks := w_ticks w2 + 1, w_status := SetDatabaseReady (e_now env (w_ticks w2)) (w_status w2)\<rparr>"
  obtain r' w4 where os: "isObjectStorageAccessible env ?w3 = (r', w4)" by fastforce
  from assms d os have "r = Ok True \<and> r' = Ok True"
    unfolding check_prereqs_def
    by (auto simp: and_then_def attempt_def set_status_run ret_def fail_def split: res.splits prod.splits)
  with d os show ?thesis
    unfolding prereqs_answer_def by (intro exI [of _ w1] exI [of _ w2] exI [of _ ?w3] exI [of _ w4]) simp
qed

lemma behind_gate_checked:
  assumes "emits (\<lambda>_. True) m" "emits quiet n"
  shows "behind_gate env (and_then (check_prereqs env) (\<lambda>ready. if ready then m else n))"
  unfolding behind_gate_def
proof
  fix w
  obtain r w1 where c: "check_prereqs env w = (r, w1)" by fastforce
  have "emits quiet (check_prereqs env)"
    unfolding check_prereqs_def by (intro emits_intros quiet_checks)
  from emitsD [OF this c] obtain evs where e: "w_history w1 = w_history w @ evs" "list_all quiet evs" by blast
  show "gate env (w_history w) (w_history (snd (and_then (check_prereqs env) (\<lambda>ready. if ready then m else n) w)))"
  proof (cases "r = Ok True")
    case True
    obtain r2 w2 where m: "m w1 = (r2, w2)" by fastforce
    from emitsD [OF assms(1) m] obtain evs' where "w_history w2 = w_history w1 @ evs'" by blast
    with check_prereqs_True [OF c [unfolded True]] e
    have "gate env (w_history w) (w_history w2)"
      by (intro gateI [of _ _ "[]" "evs @ evs'"]) simp_all
    with m True show ?thesis by (simp add: and_then_run [of "check_prereqs env" w, OF c])
  next
    case False
    obtain r2 w2 where n: "n w1 = (r2, w2)" by fastforce
    from emitsD [OF assms(2) n] e obtain evs' where "w_history w2 = w_history w @ evs'" "list_all quiet evs'" by auto
    with False e n gate_quiet [of _ env "w_history w"] show ?thesis
      by (cases r) (auto simp: and_then_run [of "check_prereqs env" w, OF c])
  qed
qed

lemma emits_any_component [emits_intros]:
  "emits (\<lambda>_. True) (ReconcileCommon env)" "emits (\<lambda>_. True) (ReconcilePersistenceAgent env)"
  "emits (\<lambda>_. True) (ReconcileScheduledWorkflow env)" "emits (\<lambda>_. True) (ReconcileWorkflowController env)"
  "emits (\<lambda>_. True) (ReconcileWebhook env)" "emits (\<lambda>_. True) (ReconcileMLMD env)"
  "emits (\<lambda>_. True) (ReconcileAPIServer env)"
  by (rule emits_mono [OF emits_components(1)] emits_mono [OF emits_components(2)] emits_mono [OF emits_components(3)]
      emits_mono [OF emits_components(4)] emits_mono [OF emits_components(5)] emits_mono [OF emits_mlmd]
      emits_mono [OF emits_api_server], simp)+

lemma emits_any_stage [emits_intros]:
  "emits (\<lambda>_. True) (setStatus env n k)" "emits P (setStatusAsNotReady env k e)"
  "emits (\<lambda>_. True) (checkWebhookStatus env)"
  "emits (\<lambda>_. True) (validateManagedPipelines env (FetchPipelineNames env))"
  unfolding setStatus_def evaluateCondition_def setStatusAsNotReady_def checkWebhookStatus_def
    validateManagedPipelines_def Let_def
  by (intro emits_intros; simp)+

lemma emits_any_ready: "emits (\<lambda>_. True) (reconcile_ready env (FetchPipelineNames env) t)"
  unfolding reconcile_ready_def webhook_stage_def deploy_components_def component_stage_def workflow_controller_stage_def
  by (intro emits_intros)

lemma behind_gate_if: "behind_gate env m \<Longrightarrow> behind_gate env n \<Longrightarrow> behind_gate env (if b then m else n)"
  by simp

lemma behind_gate_live: "behind_gate env (reconcile_live env (FetchPipelineNames env))"
proof -
  have deploy: "emits quiet (deploy_prereqs env)"
    unfolding deploy_prereqs_def by (intro emits_intros quiet_prereqs)
  have failed: "behind_gate env
      (and_then (setStatusAsNotReady env ApiServerSlot err) (\<lambda>_.
       and_then (set_status env (SetDSPANotReady (Some err) FailingToDeploy)) (\<lambda>_. ret res)))" for err and res :: reconcile_result
    by (intro behind_gate_quiet emits_intros)
  show ?thesis
    unfolding reconcile_live_def Let_def
    by (intro behind_gate_attempt behind_gate_and_then behind_gate_checked quiet_params deploy failed emits_any_ready emits_basic)
qed

lemma behind_gate_body: "behind_gate env (reconcile_body env (FetchPipelineNames env))"
proof -
  have stub: "emits quiet stub_gvk"
    by (rule silent_emits) (simp add: silent_def stub_gvk_def and_then_def attempt_def gets_op_def modify_op_def ret_def)
  have fin: "emits quiet (ensure_finalizer env)"
    unfolding ensure_finalizer_def by (intro emits_intros; simp)
  have "emits quiet (cleanup env)"
    by (rule emits_mono [OF emits_cleanup]) (rename_tac e, case_tac e, simp_all)
  then have "emits quiet (finalize env)"
    unfolding finalize_def
    by (subst and_then_assoc, subst cleanup_def [symmetric]) (intro emits_intros; simp)
  then show ?thesis
    unfolding reconcile_body_def report_unsupported_def setStatusAsUnsupported_def
    by (intro behind_gate_and_then behind_gate_if behind_gate_live stub fin emits_basic)
      (auto intro!: behind_gate_quiet emits_intros)
qed


section \<open>Retries\<close>

definition prereqs_ready :: "dspa_status \<Rightarrow> bool" where
  "prereqs_ready s \<longleftrightarrow> c_status (s_databaseAvailable s) = StTrue \<and> c_status (s_objStoreAvailable s) = StTrue"

lemma prereqs_ready_slot [simp]: "prereqs_ready (set_slot k c s) = prereqs_ready s"
  by (cases k) (simp_all add: prereqs_ready_def status_setter_defs)

lemma prereqs_ready_preserve [simp]:
  "prereqs_ready (preservePostValidationConditions d s) = prereqs_ready s"
proof -
  have "prereqs_ready (fold (\<lambda>k s. let prev = f k in if P k then set_slot k prev s else s) ks s) = prereqs_ready s"
    for f P ks s
    by (induction ks arbitrary: s) (simp_all add: Let_def)
  then show ?thesis by (simp add: preservePostValidationConditions_def Let_def)
qed

lemma prereqs_ready_setters [simp]:
  "prereqs_ready (SetWebhookReady now s) = prereqs_ready s" "prereqs_ready (SetWebhookNotReady e r now s) = prereqs_ready s"
  "prereqs_ready (SetWebhookNotApplicable now s) = prereqs_ready s"
  "prereqs_ready (SetWorkflowControllerNotReady e r now s) = prereqs_ready s"
  "prereqs_ready (SetWorkflowControllerNotApplicable now s) = prereqs_ready s"
  "prereqs_ready (SetManagedPipelineValid now s) = prereqs_ready s"
  "prereqs_ready (SetManagedPipelineInvalid e r now s) = prereqs_ready s"
  "prereqs_ready (SetManagedPipelineNotApplicable now s) = prereqs_ready s"
  by (simp_all add: prereqs_ready_def status_setter_defs)

lemma status_fetch [status_intros]: "status_inv J (FetchPipelineNames env i)"
  unfolding status_inv_def
proof (intro allI impI)
  fix w :: world assume "J (w_status w)"
  then show "J (w_status (snd (FetchPipelineNames env i w)))"
    using oci.fetch_keeps [of env i w] by (cases "FetchPipelineNames env i w") simp
qed

lemma status_stages [status_intros]:
  "status_inv prereqs_ready (setStatus env n k)" "status_inv prereqs_ready (setStatusAsNotReady env k e)"
  "status_inv prereqs_ready (checkWebhookStatus env)"
  "status_inv prereqs_ready (validateManagedPipelines env (FetchPipelineNames env))"
  unfolding setStatus_def evaluateCondition_def setStatusAsNotReady_def checkWebhookStatus_def
    validateManagedPipelines_def Let_def
  by (intro status_intros; simp)+

lemma status_reconcile_ready: "status_inv prereqs_ready (reconcile_ready env (FetchPipelineNames env) t)"
  unfolding reconcile_ready_def webhook_stage_def deploy_components_def component_stage_def workflow_controller_stage_def
  by (intro status_intros; simp)

lemma check_prereqs_status:
  assumes "check_prereqs env w = (Ok True, w')"
  shows "prereqs_ready (w_status w')"
proof -
  obtain r w2 where d: "isDatabaseAccessible env w = (r, w2)" by fastforce
  let ?w3 = "w2\<lparr>w_ticks := w_ticks w2 + 1, w_status := SetDatabaseReady (e_now env (w_ticks w2)) (w_status w2)\<rparr>"
  obtain r' w4 where os: "isObjectStorageAccessible env ?w3 = (r', w4)" by fastforce
  have "c_status (s_databaseAvailable (w_status w4)) = StTrue"
    using status_invD [OF status_prereqs(4) os, where J = "\<lambda>s. c_status (s_databaseAvailable s) = StTrue"]
    by (simp add: status_setter_defs)
  with assms d os show ?thesis
    unfolding check_prereqs_def
    by (auto simp: and_then_def attempt_def set_status_run ret_def fail_def prereqs_ready_def status_setter_defs
        split: res.splits prod.splits)
qed

lemma reconcile_live_retry:
  assumes "reconcile_live env (FetchPipelineNames env) w = (Ok res, w')"
  shows "prereqs_ready (w_status w') \<or>
    res = \<lparr>rq_requeue = True, rq_requeue_after = GetDurationConfigWithDefault (e_viper env) RequeueTimeConfigName DefaultRequeueTime\<rparr>"
proof -
  let ?t = "GetDurationConfigWithDefault (e_viper env) RequeueTimeConfigName DefaultRequeueTime"
  obtain r1 w1 where x: "ExtractParams env w = (r1, w1)" by fastforce
  show ?thesis
  proof (cases r1)
    case (Ok u)
    with assms x have "and_then (deploy_prereqs env) (\<lambda>_. and_then (check_prereqs env) (\<lambda>ready.
        if ready then reconcile_ready env (FetchPipelineNames env) ?t
        else ret \<lparr>rq_requeue = True, rq_requeue_after = ?t\<rparr>)) w1 = (Ok res, w')"
      by (simp add: reconcile_live_def attempt_def Let_def)
    then obtain b w2 w3 where c: "check_prereqs env w2 = (Ok b, w3)"
      and k: "(if b then reconcile_ready env (FetchPipelineNames env) ?t
               else ret \<lparr>rq_requeue = True, rq_requeue_after = ?t\<rparr>) w3 = (Ok res, w')"
      by (auto elim!: and_then_OkE)
    show ?thesis
    proof (cases b)
      case True
      with k have "reconcile_ready env (FetchPipelineNames env) ?t w3 = (Ok res, w')" by simp
      moreover from c True have "check_prereqs env w2 = (Ok True, w3)" by simp
      ultimately show ?thesis
        using status_invD [OF status_reconcile_ready] check_prereqs_status by blast
    next
      case False
      with k show ?thesis by (simp add: ret_def)
    qed
  qed (use assms x in \<open>auto simp: reconcile_live_def attempt_def Let_def setStatusAsNotReady_def and_then_def
      set_status_run ret_def\<close>)
qed

lemma reconcile_body_live:
  assumes w: "w_dspa w = d" "w_copy w = None"
    and version: "DSPAWithSupportedDSPVersion d" and alive: "d_deletion_timestamp d = None"
    and body: "reconcile_body env fetch w = (Ok res, w')"
  shows "\<exists>w1. reconcile_live env fetch w1 = (Ok res, w')"
proof -
  obtain w1 where stub: "stub_gvk w = (Ok (), w1)" "cur_dspa w1 = with_gvk d"
    by (rule stub_gvk_run [of w]) (simp_all add: w)
  have "cur_dspa w = d" by (simp add: w cur_dspa_def)
  with version alive body have "and_then (ensure_finalizer env) (\<lambda>_. reconcile_live env fetch) w1 = (Ok res, w')"
    by (simp add: reconcile_body_def and_then_get and_then_run [of stub_gvk w, OF stub(1)] stub(2))
  then show ?thesis by (auto elim: and_then_OkE)
qed

text \<open>
  C3: An unready database or object store is retried.  When the reconcile of a live resource of a
  supported version ends without an error, then either both conditions were reported True, or a new
  reconcile was requested after the configured time.  (An error is retried by the caller.)
\<close>

theorem unready_prereqs_retried:
  assumes get: "e_get_dspa env (w_history w) req = Inr d"
    and version: "DSPAWithSupportedDSPVersion d" and alive: "d_deletion_timestamp d = None"
  shows "case Reconcile env req w of
     (r, w') \<Rightarrow>
       (case r of
          Ok res \<Rightarrow>
            (c_status (s_databaseAvailable (w_status w')) = StTrue \<and> c_status (s_objStoreAvailable (w_status w')) = StTrue) \<or>
            res = \<lparr>rq_requeue = True,
                   rq_requeue_after = GetDurationConfigWithDefault (e_viper env) RequeueTimeConfigName DefaultRequeueTime\<rparr>
        | _ \<Rightarrow> True)"
proof -
  let ?w0 = "reconcile_world env req d w"
  obtain r w1 where body: "reconcile_body env (FetchPipelineNames env) ?w0 = (r, w1)" by fastforce
  obtain evs w' where run: "Reconcile_with env (FetchPipelineNames env) req w = (r, w')" "w_status w' = w_status w1"
    by (rule reconcile_present [OF get body])
  show ?thesis
  proof (cases r)
    case (Ok res)
    with body have "reconcile_body env (FetchPipelineNames env) ?w0 = (Ok res, w1)" by simp
    from reconcile_body_live [OF _ _ version alive this] obtain w2
      where "reconcile_live env (FetchPipelineNames env) w2 = (Ok res, w1)" by auto
    from reconcile_live_retry [OF this] run Ok show ?thesis
      by (auto simp: Reconcile_def prereqs_ready_def)
  qed (use run in \<open>simp_all add: Reconcile_def\<close>)
qed

theorem unready_prereqs_retried_witness:
  "case Reconcile (sample_env\<lparr>e_get_dspa := \<lambda>h nn. Inr sample_dspa\<rparr>) (nsname ''ns'' ''sample'') sample_world of
     (r, w') \<Rightarrow>
       (case r of
          Ok res \<Rightarrow>
            (c_status (s_databaseAvailable (w_status w')) = StTrue \<and> c_status (s_objStoreAvailable (w_status w')) = StTrue) \<or>
            rq_requeue res
        | _ \<Rightarrow> True)"
proof -
  let ?env = "sample_env\<lparr>e_get_dspa := \<lambda>h nn. Inr sample_dspa\<rparr>"
  have "DSPAWithSupportedDSPVersion sample_dspa" "d_deletion_timestamp sample_dspa = None"
    by (simp_all add: DSPAWithSupportedDSPVersion_def GetSupportedDSPAVersions_def SupportedDSPVersions_def
        sample_dspa_def sample_spec_def empty_dspa_def config_consts)
  from unready_prereqs_retried [of ?env sample_world "nsname ''ns'' ''sample''", OF _ this]
  show ?thesis by (auto split: prod.splits res.splits)
qed

end
