(* ===== verification/Controller_Decisions.thy ===== *)
theory Controller_Decisions imports Controller_Gate begin

text \<open>
  Decisions of the reconciler: what a list of managed pipelines leads to, and which resources an event
  on a config map, a pod or a secret concerns.
\<close>

section \<open>Managed pipelines\<close>

text \<open>
  C13: The decision about managed pipelines.  Without an explicit list the deployment goes on and nobody is
  asked.  With one, the manifest of the image is fetched: a permanent error, or a name that the manifest
  does not have, stops the deployment until the resource changes; a transient error lets it go on and
  asks for another try; names that are all in the manifest are valid.  The condition says which it was,
  no other condition is touched, and the fetch is the only contact with the outside.
\<close>

theorem managed_pipelines_decision:
  "case validateManagedPipelines env (FetchPipelineNames env) w of
     (r, w') \<Rightarrow>
       only_validity (w_status w) (w_status w') \<and>
       (let c = s_managedPipelineValid (w_status w') in
        case explicit_pipelines (cur_dspa w) of
          None \<Rightarrow> r = Ok (True, False) \<and> c_reason c = ''NotApplicable'' \<and> w_history w' = w_history w
        | Some (img, ps) \<Rightarrow>
            (case FetchPipelineNames env img w of
               (fetched, w1) \<Rightarrow>
                 w_history w' = w_history w1 \<and>
                 (case fetched of
                    Ok names \<Rightarrow>
                      if mp_name ` set ps \<subseteq> names then r = Ok (True, False) \<and> c_status c = StTrue
                      else r = Ok (False, False) \<and> c_reason c = ManagedPipelineInvalid
                  | Err e \<Rightarrow>
                      if as_permanent e then r = Ok (False, False) \<and> c_reason c = ManagedPipelineInvalid
                      else r = Ok (True, True) \<and> c_reason c = ManagedPipelinesFetchError
                  | Panic q \<Rightarrow> r = Panic q)))"
proof (cases "explicit_pipelines (cur_dspa w)")
  case None
  then show ?thesis
    by (simp add: validate_none and_then_def attempt_def set_status_run ret_def only_validity_setters Let_def)
      (simp add: status_setter_defs)
next
  case (Some ip)
  obtain img ps where ip: "ip = (img, ps)" by fastforce
  obtain fetched w1 where f: "FetchPipelineNames env img w = (fetched, w1)" by fastforce
  have s: "w_status w1 = w_status w" using oci.fetch_keeps [OF f] by simp
  have ps: "ps \<noteq> []"
    using Some ip by (auto simp: explicit_pipelines_def split: option.splits if_splits)
  show ?thesis
  proof (cases fetched)
    case (Ok names)
    show ?thesis
    proof (cases "ValidateManagedPipelineNames ps names")
      case valid: None
      then show ?thesis
        using Some ip f Ok s ValidateManagedPipelineNames_None [OF ps, of names]
        by (simp add: validate_some attempt_def and_then_def set_status_run ret_def only_validity_setters Let_def)
          (simp add: status_setter_defs)
    next
      case invalid: (Some err)
      then show ?thesis
        using Some ip f Ok s ValidateManagedPipelineNames_None [OF ps, of names]
        by (simp add: validate_some attempt_def and_then_def set_status_run ret_def only_validity_setters Let_def)
          (simp add: status_setter_defs)
    qed
  next
    case (Err e)
    then show ?thesis
      using Some ip f s
      by (simp add: validate_some attempt_def and_then_def set_status_run ret_def only_validity_setters Let_def)
        (simp add: status_setter_defs)
  next
    case (Panic q)
    have "only_validity (w_status w) (w_status w)" by (metis only_validity_def dspa_status.surjective dspa_status.update_convs(10))
    then show ?thesis
      using Some ip f s Panic by (simp add: validate_some attempt_def Let_def)
  qed
qed

section \<open>Events\<close>


end
