(* ===== verification/Operator_Main.thy ===== *)
theory Operator_Main imports Controller_Decisions begin

text \<open>
  The start of the operator (\<open>main.go\<close>, \<open>tls_profile.go\<close>): the configuration it insists on, the TLS
  profile of its servers, what its caches keep, and the settings it hands to the reconciler.  The
  libraries that are started (the manager, its servers, viper's file watch) are parameters: each
  contributes the error it returns, if any.
\<close>

section \<open>TLS profile\<close>

record tls_profile =
  tp_ciphers :: "string list"
  tp_min_version :: string

text \<open>The functions that are applied to the servers' TLS configuration, in order.\<close>

datatype tls_opt = Opt_Profile tls_profile | Opt_Next_Protos "string list"

record tls_result =
  tls_opts :: "tls_opt list"
  tls_profile_spec :: tls_profile
  tls_has_openshift_config :: bool

definition transient_reasons :: "api_reason list" where
  "transient_reasons = [ReasonServiceUnavailable, ReasonTimeout, ReasonServerTimeout, ReasonTooManyRequests]"

text \<open>
  \<open>fetched\<close> is the answer of \<open>FetchAPIServerTLSProfile\<close>, \<open>intermediate\<close> the library's Intermediate
  profile, \<open>unsupported\<close> the ciphers of a profile for which Go has no implementation.
\<close>

definition fetchTLSProfile ::
  "(tls_profile \<Rightarrow> string list) \<Rightarrow> tls_profile \<Rightarrow> gerr + tls_profile \<Rightarrow> gerr + tls_result" where
  "fetchTLSProfile unsupported intermediate fetched =
     (let nextProtos = Opt_Next_Protos [''h2'', ''http/1.1''] in
      case fetched of
        Inl err \<Rightarrow>
          (let reason = reason_for_error err;
               fallback = (\<lambda>hasOpenShiftConfig.
                  Inr \<lparr>tls_opts = [Opt_Profile intermediate, nextProtos], tls_profile_spec = intermediate,
                       tls_has_openshift_config = hasOpenShiftConfig\<rparr>) in
           if reason = Some ReasonNoMatch then fallback False
           else if reason = Some ReasonNotFound then fallback False
           else if list_ex (\<lambda>x. reason = Some x) transient_reasons then fallback True
           else Inl (Wrap_Err ''failed to fetch TLS profile: '' err ''''))
      | Inr profile \<Rightarrow>
          (let unsupportedCiphers = unsupported profile in
           if length (tp_ciphers profile) > 0 \<and> length unsupportedCiphers = length (tp_ciphers profile)
           then Inl (Plain_Err (''all '' @ itoa (int (length (tp_ciphers profile))) @
                  '' ciphers in TLS profile are unsupported by Go''))
           else Inr \<lparr>tls_opts = [Opt_Profile profile, nextProtos], tls_profile_spec = profile,
                     tls_has_openshift_config = True\<rparr>))"

section \<open>Configuration\<close>

definition initConfig :: "viper \<Rightarrow> gerr option \<Rightarrow> gerr option \<Rightarrow> gerr option" where
  "initConfig v bindErr readErr =
     (case bindErr of
        Some err \<Rightarrow> Some err
      | None \<Rightarrow>
          (case readErr of
             Some err \<Rightarrow> Some err
           | None \<Rightarrow>
               (case find (\<lambda>c. \<not> v_is_set v c) GetConfigRequiredFields of
                  Some c \<Rightarrow> Some (Plain_Err (''missing required field in config: '' @ c))
                | None \<Rightarrow> None)))"

text \<open>
  The function \<open>initConfig\<close> leaves with viper for changes of the file: what viper read before stays when the
  file cannot be read again, and is replaced otherwise, without a second look at the required fields.
\<close>

definition on_config_change :: "gerr + viper \<Rightarrow> viper \<Rightarrow> viper" where
  "on_config_change reread v = (case reread of Inl err \<Rightarrow> v | Inr v' \<Rightarrow> v')"

definition parse_webhook_annotations :: "string \<Rightarrow> gerr + (string \<rightharpoonup> string)" where
  "parse_webhook_annotations raw = (if raw \<noteq> '''' then unmarshal_string_map raw else Inr Map.empty)"

definition parse_allowed_registries :: "string \<Rightarrow> string list" where
  "parse_allowed_registries rawAllowed =
     (if rawAllowed \<noteq> '''' then filter (\<lambda>t. t \<noteq> '''') (map trim_space (split_on (CHR '','') rawAllowed)) else [])"

section \<open>Caches\<close>

text \<open>The parts of a cached object that the transforms touch.\<close>

record cached_meta =
  cmeta_annotations :: "go_map option"
  cmeta_labels :: go_map
  cmeta_managed_fields :: "string list"

datatype cached_object =
    Cached_ConfigMap cached_meta "go_map option" "go_map option"
  | Cached_Secret cached_meta "go_map option" "go_map option"
  | Cached_Other obj_kind cached_meta

definition lastAppliedAnnotation :: string where
  "lastAppliedAnnotation = ''kubectl.kubernetes.io/last-applied-configuration''"

definition strip_meta :: "cached_meta \<Rightarrow> cached_meta" where
  "strip_meta m =
     m\<lparr>cmeta_annotations := map_option (filter (\<lambda>(k, v). k \<noteq> lastAppliedAnnotation)) (cmeta_annotations m),
       cmeta_managed_fields := []\<rparr>"

fun stripManagedFields :: "cached_object \<Rightarrow> cached_object" where
  "stripManagedFields (Cached_ConfigMap m d b) = Cached_ConfigMap (m\<lparr>cmeta_managed_fields := []\<rparr>) d b"
| "stripManagedFields (Cached_Secret m d s) = Cached_Secret (m\<lparr>cmeta_managed_fields := []\<rparr>) d s"
| "stripManagedFields (Cached_Other k m) = Cached_Other k (m\<lparr>cmeta_managed_fields := []\<rparr>)"

fun stripConfigMapData :: "cached_object \<Rightarrow> cached_object" where
  "stripConfigMapData (Cached_ConfigMap m d b) = Cached_ConfigMap (strip_meta m) None None"
| "stripConfigMapData x = x"

fun stripSecretData :: "cached_object \<Rightarrow> cached_object" where
  "stripSecretData (Cached_Secret m d s) = Cached_Secret (strip_meta m) None None"
| "stripSecretData x = x"

text \<open>The transform the cache applies: the one of the type, or the default.\<close>

definition cache_transform :: "cached_object \<Rightarrow> cached_object" where
  "cache_transform x =
     (case x of
        Cached_ConfigMap m d b \<Rightarrow> stripConfigMapData x
      | Cached_Secret m d s \<Rightarrow> stripSecretData x
      | Cached_Other k m \<Rightarrow> stripManagedFields x)"

text \<open>The kinds of which only labelled objects are kept, and those that are read past the cache.\<close>

definition label_filtered :: "obj_kind \<Rightarrow> bool" where
  "label_filtered k = (k \<in> {KService, KServiceAccount, KRoute})"

definition read_directly :: "obj_kind \<Rightarrow> bool" where
  "read_directly k = (k \<in> {KConfigMap, KSecret, KMLflow})"

definition webhook_filter :: "obj_kind \<Rightarrow> string \<Rightarrow> bool" where
  "webhook_filter k name = (if k \<in> {KMutatingWebhook, KValidatingWebhook} then name = webhookConfigName else True)"

text \<open>Whether an object with this name and these labels is kept in the cache of its kind.\<close>

definition kept_in_cache :: "obj_kind \<Rightarrow> string \<Rightarrow> go_map \<Rightarrow> bool" where
  "kept_in_cache k name labels \<longleftrightarrow>
     webhook_filter k name \<and> (label_filtered k \<longrightarrow> map_of labels DSPVersionk8sLabel \<noteq> None)"

section \<open>The start\<close>

record startup =
  su_getenv :: "string \<Rightarrow> string"
  su_viper :: viper
  su_bind_env :: "gerr option"
  su_read_config :: "gerr option"
  su_bootstrap_client :: "gerr option"
  su_unsupported :: "tls_profile \<Rightarrow> string list"
  su_intermediate :: tls_profile
  su_tls_profile :: "gerr + tls_profile"
  su_adherence :: "gerr + string"
  su_new_manager :: "gerr option"
  su_setup_controller :: "gerr option"
  su_healthz :: "gerr option"
  su_readyz :: "gerr option"
  su_setup_watcher :: "gerr option"
  su_start :: "gerr option"
  su_max_concurrent_reconciles :: int
  su_leader_elect :: bool

text \<open>What runs: the settings of the reconciler and the watcher of the TLS profile, if there is one.\<close>

record tls_watcher =
  tw_profile :: tls_profile
  tw_adherence :: string

record operator =
  op_tls_opts :: "tls_opt list"
  op_webhook_annotations :: "string \<rightharpoonup> string"
  op_allowed_registries :: "string list"
  op_templates_path :: string
  op_mlflow_cache_ttl :: int
  op_max_concurrent_reconciles :: int
  op_leader_elect :: bool
  op_lease :: "int \<times> int \<times> int"
  op_watcher :: "tls_watcher option"

text \<open>\<open>if err != nil { log; os.Exit(1) }\<close>\<close>

definition or_exit :: "gerr option \<Rightarrow> string \<Rightarrow> (string + 'a) \<Rightarrow> string + 'a" where
  "or_exit err message k = (case err of Some e \<Rightarrow> Inl message | None \<Rightarrow> k)"

text \<open>\<open>glog.Fatal(err)\<close>\<close>

definition or_fatal :: "gerr option \<Rightarrow> (string + 'a) \<Rightarrow> string + 'a" where
  "or_fatal err k = (case err of Some e \<Rightarrow> Inl (err_msg e) | None \<Rightarrow> k)"

text \<open>An adherence policy that cannot be read leaves the zero policy; the watcher is registered all the same.\<close>

definition adherence_policy :: "gerr + string \<Rightarrow> string" where
  "adherence_policy a = (case a of Inl e \<Rightarrow> '''' | Inr p \<Rightarrow> p)"

definition leaseDurations :: "int \<times> int \<times> int" where
  "leaseDurations = (60 * second, 50 * second, 15 * second)"

definition main :: "startup \<Rightarrow> string + operator" where
  "main s =
     (if su_getenv s ''DSPO_NAMESPACE'' = '''' then Inl ''DSPO_NAMESPACE must be set''
      else or_fatal (initConfig (su_viper s) (su_bind_env s) (su_read_config s))
        (or_exit (su_bootstrap_client s) ''unable to create bootstrap client for TLS profile''
          (case fetchTLSProfile (su_unsupported s) (su_intermediate s) (su_tls_profile s) of
             Inl e \<Rightarrow> Inl ''unable to resolve TLS profile, failing startup''
           | Inr tlsResult \<Rightarrow>
               or_exit (su_new_manager s) ''unable to start manager''
                 (case parse_webhook_annotations (su_getenv s ''WEBHOOK_ANNOTATIONS'') of
                    Inl e \<Rightarrow> Inl ''the WEBHOOK_ANNOTATIONS environment variable is not a valid JSON object''
                  | Inr webhookAnnotations \<Rightarrow>
                      or_exit (su_setup_controller s) ''unable to create controller''
                        (or_exit (su_healthz s) ''unable to set up health check''
                          (or_exit (su_readyz s) ''unable to set up ready check''
                            (or_exit (if tls_has_openshift_config tlsResult then su_setup_watcher s else None)
                               ''unable to register TLS security profile watcher''
                              (or_exit (su_start s) ''problem running manager''
                                (Inr \<lparr>op_tls_opts = tls_opts tlsResult,
                                      op_webhook_annotations = webhookAnnotations,
                                      op_allowed_registries =
                                        parse_allowed_registries (su_getenv s ''MANAGED_PIPELINES_ALLOWED_REGISTRIES''),
                                      op_templates_path = ''config/internal/'',
                                      op_mlflow_cache_ttl = DefaultMLflowEndpointCacheTTL,
                                      op_max_concurrent_reconciles = su_max_concurrent_reconciles s,
                                      op_leader_elect = su_leader_elect s,
                                      op_lease = leaseDurations,
                                      op_watcher =
                                        (if tls_has_openshift_config tlsResult
                                         then Some \<lparr>tw_profile = tls_profile_spec tlsResult,
                                                    tw_adherence = adherence_policy (su_adherence s)\<rparr>
                                         else None)\<rparr>)))))))))"

section \<open>Lemmas\<close>

lemma or_exit_Inr [simp]: "or_exit err message k = Inr x \<longleftrightarrow> err = None \<and> k = Inr x"
  by (simp add: or_exit_def split: option.split)

lemma or_fatal_Inr [simp]: "or_fatal err k = Inr x \<longleftrightarrow> err = None \<and> k = Inr x"
  by (simp add: or_fatal_def split: option.split)

lemma initConfig_None:
  "initConfig v bindErr readErr = None \<longleftrightarrow>
     bindErr = None \<and> readErr = None \<and> list_all (v_is_set v) GetConfigRequiredFields"
proof -
  have "(find (\<lambda>c. \<not> v_is_set v c) cs = None) = list_all (v_is_set v) cs" for cs
    by (induction cs) auto
  then show ?thesis by (auto simp: initConfig_def split: option.splits) (metis option.distinct(1))
qed

text \<open>
  A change of the file can take a required field away from a running operator: the same content would have
  kept it from starting.
\<close>

lemma reload_unchecked:
  assumes "initConfig v' None None \<noteq> None" "initConfig v None None = None"
  shows "\<not> list_all (v_is_set (on_config_change (Inr v') v)) GetConfigRequiredFields"
    "list_all (v_is_set (on_config_change (Inl err) v)) GetConfigRequiredFields"
  using assms initConfig_None [of v' None None] initConfig_None [of v None None] by (auto simp: on_config_change_def)

text \<open>A profile the servers may run with: the fallback, or one that the API server has and Go supports in part.\<close>

definition usable_profile :: "startup \<Rightarrow> tls_profile \<Rightarrow> bool" where
  "usable_profile s p \<longleftrightarrow>
     (case su_tls_profile s of
        Inl e \<Rightarrow> p = su_intermediate s \<and>
          reason_for_error e \<in> Some ` set ([ReasonNoMatch, ReasonNotFound] @ transient_reasons)
      | Inr q \<Rightarrow> p = q \<and> (tp_ciphers q = [] \<or> length (su_unsupported s q) \<noteq> length (tp_ciphers q)))"

lemma fetchTLSProfile_ok:
  assumes "fetchTLSProfile (su_unsupported s) (su_intermediate s) (su_tls_profile s) = Inr t"
  shows "usable_profile s (tls_profile_spec t) \<and>
    tls_opts t = [Opt_Profile (tls_profile_spec t), Opt_Next_Protos [''h2'', ''http/1.1'']] \<and>
    (tls_has_openshift_config t \<or>
     (\<exists>e. su_tls_profile s = Inl e \<and> reason_for_error e \<in> {Some ReasonNoMatch, Some ReasonNotFound}))"
proof (cases "su_tls_profile s")
  case (Inl e)
  with assms show ?thesis
    by (auto simp: fetchTLSProfile_def Let_def usable_profile_def transient_reasons_def split: if_splits)
next
  case (Inr p)
  with assms show ?thesis
    by (auto simp: fetchTLSProfile_def Let_def usable_profile_def split: if_splits)
qed

lemma main_started:
  assumes "main s = Inr opr"
  obtains t wa where "su_getenv s ''DSPO_NAMESPACE'' \<noteq> ''''" "initConfig (su_viper s) (su_bind_env s) (su_read_config s) = None"
    "fetchTLSProfile (su_unsupported s) (su_intermediate s) (su_tls_profile s) = Inr t"
    "parse_webhook_annotations (su_getenv s ''WEBHOOK_ANNOTATIONS'') = Inr wa"
    "op_tls_opts opr = tls_opts t" "op_webhook_annotations opr = wa" "op_lease opr = leaseDurations"
    "op_allowed_registries opr = parse_allowed_registries (su_getenv s ''MANAGED_PIPELINES_ALLOWED_REGISTRIES'')"
    "op_watcher opr = (if tls_has_openshift_config t
       then Some \<lparr>tw_profile = tls_profile_spec t, tw_adherence = adherence_policy (su_adherence s)\<rparr> else None)"
proof -
  from assms have ns: "su_getenv s ''DSPO_NAMESPACE'' \<noteq> ''''" by (auto simp: main_def)
  obtain t where t: "fetchTLSProfile (su_unsupported s) (su_intermediate s) (su_tls_profile s) = Inr t"
    using assms ns by (cases "fetchTLSProfile (su_unsupported s) (su_intermediate s) (su_tls_profile s)") (simp_all add: main_def)
  obtain wa where wa: "parse_webhook_annotations (su_getenv s ''WEBHOOK_ANNOTATIONS'') = Inr wa"
    using assms ns t by (cases "parse_webhook_annotations (su_getenv s ''WEBHOOK_ANNOTATIONS'')") (simp_all add: main_def)
  show thesis
    using assms ns t wa by (intro that [of t wa]) (auto simp: main_def)
qed

section \<open>Properties\<close>

text \<open>
  C38: The operator starts only when it is configured.  If it runs, its namespace is known, every required
  setting is there, and its servers run with a TLS profile of the cluster of which not every cipher is
  unsupported, or with the Intermediate profile if the cluster has none or could not tell in time; the
  profile is watched except where the cluster has none.  The allowed registries are the trimmed non-empty
  entries of the variable.
\<close>

theorem operator_start_requires:
  "case main s of
     Inl message \<Rightarrow> True
   | Inr opr \<Rightarrow>
       su_getenv s ''DSPO_NAMESPACE'' \<noteq> '''' \<and>
       list_all (v_is_set (su_viper s)) GetConfigRequiredFields \<and>
       (\<exists>p. op_tls_opts opr = [Opt_Profile p, Opt_Next_Protos [''h2'', ''http/1.1'']] \<and> usable_profile s p \<and>
          (case op_watcher opr of
             Some tw \<Rightarrow> tw_profile tw = p
           | None \<Rightarrow> \<exists>e. su_tls_profile s = Inl e \<and> reason_for_error e \<in> {Some ReasonNoMatch, Some ReasonNotFound})) \<and>
       op_allowed_registries opr =
         filter (\<lambda>t. t \<noteq> '''') (map trim_space (split_on (CHR '','') (su_getenv s ''MANAGED_PIPELINES_ALLOWED_REGISTRIES'')))"
proof (cases "main s")
  case (Inr opr)
  then obtain t wa where o: "su_getenv s ''DSPO_NAMESPACE'' \<noteq> ''''" "initConfig (su_viper s) (su_bind_env s) (su_read_config s) = None"
    "fetchTLSProfile (su_unsupported s) (su_intermediate s) (su_tls_profile s) = Inr t"
    "op_tls_opts opr = tls_opts t"
    "op_allowed_registries opr = parse_allowed_registries (su_getenv s ''MANAGED_PIPELINES_ALLOWED_REGISTRIES'')"
    "op_watcher opr = (if tls_has_openshift_config t
       then Some \<lparr>tw_profile = tls_profile_spec t, tw_adherence = adherence_policy (su_adherence s)\<rparr> else None)"
    by (rule main_started)
  have "op_allowed_registries opr =
      filter (\<lambda>t. t \<noteq> '''') (map trim_space (split_on (CHR '','') (su_getenv s ''MANAGED_PIPELINES_ALLOWED_REGISTRIES'')))"
    by (simp add: o(5) parse_allowed_registries_def)
  then show ?thesis
    using fetchTLSProfile_ok [OF o(3)] o Inr by (auto simp: initConfig_None)
qed simp

end
