(* ===== verification/Cache_Labels.thy ===== *)
theory Cache_Labels imports Operator_Main begin

text \<open>
  The invariant that the operator's caches rest on (\<open>main.go\<close>, the comment on \<open>dspSelector\<close>): what a
  reconcile applies for an owner carries the label by which Services, ServiceAccounts and Routes are
  selected into the cache.  The rules go along the operations of a reconcile.
\<close>

named_theorems cache_intros \<open>operations that apply labelled objects only\<close>

text \<open>An object that the caches keep, whichever of the filtered kinds it is of.\<close>

definition selected :: "env \<Rightarrow> json \<Rightarrow> bool" where
  "selected env ob \<longleftrightarrow>
     (case e_get_labels env ob of
        None \<Rightarrow> False
      | Some ls \<Rightarrow> list_all (\<lambda>k. kept_in_cache k '''' ls) [KService, KServiceAccount, KRoute])"

fun cacheable :: "env \<Rightarrow> event \<Rightarrow> bool" where
  "cacheable env (Ev_Apply (Some ow) t objs ok) = list_all (selected env) objs"
| "cacheable env _ = True"

lemma labelled_cacheable: "labelled env v e \<Longrightarrow> cacheable env e"
  by (induction env v e rule: labelled.induct)
    (auto simp: list_all_iff has_version_label_def selected_def kept_in_cache_def webhook_filter_def
      split: option.splits)

lemma cache_Apply [cache_intros]:
  assumes "manifest_library env"
  shows "emits (cacheable env) (Apply env ow t [])"
proof (rule emitsI)
  fix w
  from Apply_labelled [OF assms, of ow t w] obtain evs
    where "w_history (snd (Apply env ow t [] w)) = w_history w @ evs" "list_all (labelled env (p_dsp_version (w_params w))) evs"
    by blast
  then show "\<exists>evs. w_history (snd (Apply env ow t [] w)) = w_history w @ evs \<and> list_all (cacheable env) evs"
    using labelled_cacheable by (metis list.pred_mono_strong)
qed

lemma cache_ApplyAll [cache_intros]: "manifest_library env \<Longrightarrow> emits (cacheable env) (ApplyAll env ow ts)"
  by (rule apply_all.emits_run_all) (rule cache_Apply)

lemma cache_ApplyDir [cache_intros]: "manifest_library env \<Longrightarrow> emits (cacheable env) (ApplyDir env ow dir)"
  unfolding ApplyDir_def by (intro cache_intros emits_attempt emits_and_then emits_wrap_err emits_util emits_basic; simp)


text \<open>Operations whose events are not applications for an owner.\<close>

lemma cache_mono:
  "emits P m \<Longrightarrow> (\<And>e. P e \<Longrightarrow> cacheable env e) \<Longrightarrow> emits (cacheable env) m"
  by (rule emits_mono)

lemma cache_params [cache_intros]: "emits (cacheable env) (ExtractParams env')"
  by (rule cache_mono [OF emits_ExtractParams]) (rename_tac e, case_tac e, simp_all)

lemma cache_cleanup: "emits (cacheable env) (cleanup env')"
  by (rule cache_mono [OF emits_cleanup]) (rename_tac e, case_tac e, simp_all)

lemma cache_closing [cache_intros]:
  "emits (cacheable env) (updateStatus env' req)" "emits (cacheable env) (publish_metrics env')"
  by (rule cache_mono [OF emits_closing(1)] cache_mono [OF emits_closing(2)]; rename_tac e, case_tac e, simp_all)+

lemma cache_prereqs [cache_intros]:
  assumes lib: "manifest_library env"
  shows "emits (cacheable env) (ReconcileDatabase env)" "emits (cacheable env) (ReconcileStorage env)"
  unfolding ReconcileDatabase_def deploy_maria_db_def record_maria_db_def ReconcileStorage_def deploy_minio_def
    record_minio_def Let_def
  by (intro cache_Apply [OF lib] emits_and_then emits_basic emits_if emits_option emits_prod emits_for_each emits_update_dspa; simp)+

lemma cache_checks [cache_intros]:
  "emits (cacheable env) (isDatabaseAccessible env')" "emits (cacheable env) (isObjectStorageAccessible env')"
  unfolding isDatabaseAccessible_def ConnectAndQueryDatabase_def isObjectStorageAccessible_def decode_key_def
    ConnectAndQueryObjStore_def Let_def
  by (intro emits_intros; simp)+

lemma cache_components [cache_intros]:
  assumes lib: "manifest_library env"
  shows "emits (cacheable env) (ReconcileCommon env)" "emits (cacheable env) (ReconcilePersistenceAgent env)"
    "emits (cacheable env) (ReconcileScheduledWorkflow env)" "emits (cacheable env) (ReconcileWorkflowController env)"
    "emits (cacheable env) (ReconcileMLMD env)" "emits (cacheable env) (ReconcileWebhook env)"
    "emits (cacheable env) (ReconcileAPIServer env)"
proof -
  note app = cache_Apply [OF lib] cache_ApplyAll [OF lib] cache_ApplyDir [OF lib]
  have others: "emits (cacheable env) (ApplyWithoutOwner env t fns)" "emits (cacheable env) (DeleteResourceDir env dir)"
    "emits (cacheable env) (DeleteResourceIfItExists env k nn)" "emits (cacheable env) (get_deployment env nn)"
    "emits (cacheable env) (GetSecret env n ns)" "emits (cacheable env) (GetTemplatesInDir env td sd)" for t fns dir k nn n ns td sd
    by (intro emits_intros; simp)+
  note rules = app others emits_attempt emits_and_then emits_wrap_err emits_basic emits_if emits_option emits_prod
    emits_let emits_for_each emits_call
  show "emits (cacheable env) (ReconcileCommon env)" "emits (cacheable env) (ReconcilePersistenceAgent env)"
    "emits (cacheable env) (ReconcileScheduledWorkflow env)" "emits (cacheable env) (ReconcileWorkflowController env)"
    "emits (cacheable env) (ReconcileMLMD env)" "emits (cacheable env) (ReconcileWebhook env)"
    "emits (cacheable env) (ReconcileAPIServer env)"
    unfolding ReconcileCommon_def ReconcilePersistenceAgent_def ReconcileScheduledWorkflow_def
      ReconcileWorkflowController_def ReconcileMLMD_def mlmd_certificates_def LoadMlmdCertificates_def
      ReconcileWebhook_def ReconcileAPIServer_def apply_api_templates_def server_route_def apply_samples_def
    by (intro rules)+
qed


lemma cache_conditions [cache_intros]:
  "emits (cacheable env) (setStatus env' n k)" "emits (cacheable env) (setStatusAsNotReady env' k e)"
  "emits (cacheable env) (setStatusAsUnsupported env' k e)" "emits (cacheable env) (checkWebhookStatus env')"
  "emits (cacheable env) (validateManagedPipelines env' (FetchPipelineNames env'))"
  unfolding setStatus_def evaluateCondition_def setStatusAsNotReady_def setStatusAsUnsupported_def checkWebhookStatus_def
    validateManagedPipelines_def Let_def
  by (intro emits_intros; simp)+

lemma cache_stages [cache_intros]:
  assumes lib: "manifest_library env"
  shows "emits (cacheable env) (reconcile_ready env (FetchPipelineNames env) t)"
    "emits (cacheable env) (deploy_prereqs env)" "emits (cacheable env) (check_prereqs env)"
  unfolding reconcile_ready_def webhook_stage_def deploy_components_def component_stage_def workflow_controller_stage_def
    deploy_prereqs_def check_prereqs_def
  by (intro cache_prereqs [OF lib] cache_components [OF lib] cache_checks cache_conditions emits_attempt emits_and_then
      emits_basic emits_if emits_prod emits_set_status)+

lemma cache_finalize: "emits (cacheable env) (finalize env')"
  unfolding finalize_def
  by (subst and_then_assoc, subst cleanup_def [symmetric])
    (intro cache_cleanup emits_and_then emits_basic emits_update_dspa; simp)

lemma cache_body:
  assumes lib: "manifest_library env"
  shows "emits (cacheable env) (reconcile_body env (FetchPipelineNames env))"
proof -
  have stub: "emits (cacheable env) stub_gvk"
    by (rule silent_emits) (simp add: silent_def stub_gvk_def and_then_def attempt_def gets_op_def modify_op_def ret_def)
  show ?thesis
    unfolding reconcile_body_def reconcile_live_def report_unsupported_def ensure_finalizer_def Let_def
    by (intro stub cache_finalize cache_stages [OF lib] cache_params cache_conditions emits_attempt emits_and_then
        emits_basic emits_if emits_set_status emits_update_dspa; simp)
qed

lemma cache_Reconcile:
  assumes lib: "manifest_library env"
  shows "emits (cacheable env) (Reconcile env req)"
proof -
  have start: "emits (cacheable env) (modify_op (reconcile_start env))"
    "emits (cacheable env) (modify_op (\<lambda>w. w\<lparr>w_dspa := d, w_status := s\<rparr>))" for d s
    by (simp_all add: emits_def modify_op_def reconcile_start_def)
  show ?thesis
    unfolding Reconcile_def Reconcile_with_def
    by (intro start cache_body [OF lib] cache_closing emits_deferring emits_attempt emits_and_then emits_basic emits_if
        emits_client; simp)
qed

end
