(* ===== verification/Operator_Run.thy ===== *)
theory Operator_Run imports Cache_Labels begin

text \<open>
  The operator over many reconciles.  Its two caches outlive a reconcile: \<open>safe\<close> says that an operation
  keeps what they promise, the rules follow the combinators down from \<open>Reconcile\<close>, and a run of the
  operator is a sequence of reconciles, events and restarts.
\<close>

named_theorems safe_intros \<open>operations that keep what the caches promise\<close>

text \<open>Every cached endpoint was checked, and every cached set of names is that of its digest.\<close>

definition caches_ok :: "env \<Rightarrow> (string \<Rightarrow> string set) \<Rightarrow> world \<Rightarrow> bool" where
  "caches_ok env content w \<longleftrightarrow>
     mlflow_cache_valid env (w_mlflow_cache w) \<and> names_cache_consistent content (w_names_cache w)"

definition safe :: "env \<Rightarrow> (string \<Rightarrow> string set) \<Rightarrow> 'a action \<Rightarrow> bool" where
  "safe env content m \<longleftrightarrow> (\<forall>w. caches_ok env content w \<longrightarrow> caches_ok env content (snd (m w)))"

lemma safeD: "safe env content m \<Longrightarrow> m w = (r, w') \<Longrightarrow> caches_ok env content w \<Longrightarrow> caches_ok env content w'"
  unfolding safe_def by (drule spec [of _ w]) simp

lemma caches_ok_simps [simp]:
  "caches_ok env content (w\<lparr>w_history := h\<rparr>) = caches_ok env content w"
  "caches_ok env content (w\<lparr>w_ticks := t\<rparr>) = caches_ok env content w"
  "caches_ok env content (w\<lparr>w_params := p\<rparr>) = caches_ok env content w"
  "caches_ok env content (w\<lparr>w_status := s\<rparr>) = caches_ok env content w"
  "caches_ok env content (w\<lparr>w_dspa := d\<rparr>) = caches_ok env content w"
  "caches_ok env content (w\<lparr>w_copy := c\<rparr>) = caches_ok env content w"
  "caches_ok env content (set_cur_dspa d w) = caches_ok env content w"
  by (simp_all add: caches_ok_def set_cur_dspa_def split: option.split)

section \<open>Rules\<close>

lemma safe_attempt [safe_intros]:
  assumes "safe env content m" "\<And>e. safe env content (h e)" "\<And>a. safe env content (k a)"
  shows "safe env content (attempt m h k)"
  unfolding safe_def
proof (intro allI impI)
  fix w assume ok: "caches_ok env content w"
  obtain r w1 where m: "m w = (r, w1)" by fastforce
  with safeD [OF assms(1) m ok] assms(2,3) show "caches_ok env content (snd (attempt m h k w))"
    by (cases r) (simp_all add: attempt_def safe_def)
qed

lemma safe_reads:
  assumes "reads m"
  shows "safe env content m"
  unfolding safe_def
proof (intro allI impI)
  fix w assume ok: "caches_ok env content w"
  obtain r w' where m: "m w = (r, w')" by fastforce
  from readsD [OF assms m] ok m show "caches_ok env content (snd (m w))" by auto
qed

lemma safe_basic [safe_intros]:
  "safe env content (ret a)" "safe env content (fail e)" "safe env content (panic q)" "safe env content (gets_op g)"
  "safe env content (pure_op r)" "safe env content (deref s x)" "safe env content (of_sum v)"
  "safe env content (read_clock env')" "safe env content get_params" "safe env content get_cur"
  "safe env content (call f ev)" "safe env content (call_opt c ev)" "safe env content (emit ev0)"
  by (rule safe_reads, intro reads_intros)+

lemma safe_and_then [safe_intros]:
  "safe env content m \<Longrightarrow> (\<And>a. safe env content (k a)) \<Longrightarrow> safe env content (and_then m k)"
  unfolding and_then_def by (intro safe_intros)

lemma safe_wrap_err [safe_intros]: "safe env content m \<Longrightarrow> safe env content (wrap_err f m)"
  unfolding wrap_err_def by (intro safe_intros)

lemma safe_if [safe_intros]:
  "safe env content m \<Longrightarrow> safe env content n \<Longrightarrow> safe env content (if b then m else n)"
  by simp

lemma safe_option [safe_intros]:
  "safe env content m \<Longrightarrow> (\<And>a. safe env content (f a)) \<Longrightarrow>
   safe env content (case x of None \<Rightarrow> m | Some a \<Rightarrow> f a)"
  by (cases x) auto

lemma safe_prod [safe_intros]:
  "(\<And>a b. safe env content (f a b)) \<Longrightarrow> safe env content (case x of (a, b) \<Rightarrow> f a b)"
  by (cases x) auto

lemma safe_let [safe_intros]: "(\<And>x. safe env content (f x)) \<Longrightarrow> safe env content (let x = v in f x)"
  by simp

lemma safe_for_each [safe_intros]: "(\<And>x. safe env content (f x)) \<Longrightarrow> safe env content (for_each f xs)"
  by (induction xs) (auto intro!: safe_intros)

lemma safe_deferring [safe_intros]:
  assumes "safe env content d" "safe env content m"
  shows "safe env content (deferring d m)"
  unfolding safe_def
proof (intro allI impI)
  fix w assume ok: "caches_ok env content w"
  obtain r w1 where m: "m w = (r, w1)" by fastforce
  obtain r2 w2 where d: "d w1 = (r2, w2)" by fastforce
  from safeD [OF assms(1) d safeD [OF assms(2) m ok]] show "caches_ok env content (snd (deferring d m w))"
    using m d by (cases r2) (simp_all add: deferring_def)
qed

lemma safe_modify [safe_intros]:
  "(\<And>w. caches_ok env content w \<Longrightarrow> caches_ok env content (f w)) \<Longrightarrow> safe env content (modify_op f)"
  by (simp add: safe_def modify_op_def)

lemma safe_writes [safe_intros]:
  "safe env content (mod_params f)" "safe env content (mod_cur g)" "safe env content (store_status u)"
  "safe env content (set_status env' v)"
  unfolding mod_params_def mod_cur_def store_status_def set_status_def
  by (intro safe_intros; simp)+

lemma safe_client [safe_intros]:
  "safe env content (get_deployment env' nn)" "safe env content (get_secret env' nn)"
  "safe env content (get_config_map env' nn)" "safe env content (get_service env' nn)"
  "safe env content (get_route env' nn)" "safe env content (get_mlflow env' nn)"
  "safe env content (get_dspa env' nn)" "safe env content (list_dspas env')" "safe env content (list_pods env' ls)"
  "safe env content (create_config_map env' c)" "safe env content (update_config_map env' c)"
  by (rule safe_reads, intro reads_intros)+

lemma safe_update_dspa [safe_intros]: "safe env content (update_dspa env')"
  unfolding update_dspa_def by (intro safe_intros)

section \<open>The two operations that write a cache\<close>

lemma safe_mlflow [safe_intros]: "safe env content (retrieveMLflowEndpointCached env ns)"
  unfolding safe_def
proof (intro allI impI)
  fix w assume ok: "caches_ok env content w"
  obtain r w' where run: "retrieveMLflowEndpointCached env ns w = (r, w')" by fastforce
  have "w_names_cache w' = w_names_cache w"
  proof -
    have "w_names_cache v' = w_names_cache v" if "lookupMLflowEndpoint env ns v = (q, v')" for v q v'
      using that by (auto simp: lookupMLflowEndpoint_def and_then_def attempt_def get_mlflow_def call_def fail_def
          ret_def log_event_def split: if_splits sum.splits option.splits)
    with run show ?thesis
      by (auto simp: retrieveMLflowEndpointCached_def and_then_def attempt_def read_clock_def gets_op_def ret_def
          fail_def mod_mlflow_cache_def modify_op_def split: option.splits if_splits prod.splits res.splits)
  qed
  moreover have "mlflow_cache_valid env (w_mlflow_cache w')"
    using mlflow_endpoint_valid [OF _ run] ok by (simp add: caches_ok_def)
  ultimately show "caches_ok env content (snd (retrieveMLflowEndpointCached env ns w))"
    using run ok by (simp add: caches_ok_def)
qed

lemma fetch_keeps_mlflow: "w_mlflow_cache (snd (FetchPipelineNames env ref w)) = w_mlflow_cache w"
  by (auto simp: FetchPipelineNames_def resolveImageDigest_def lookup_names_def store_names_def and_then_def
      attempt_def call_def ret_def fail_def of_sum_def wrap_err_def read_clock_def modify_op_def gets_op_def
      log_event_def split: sum.splits if_splits prod.splits res.splits option.splits)

lemma safe_fetch [safe_intros]:
  assumes "content_addressed env content"
  shows "safe env content (FetchPipelineNames env ref)"
  unfolding safe_def
proof (intro allI impI)
  fix w assume ok: "caches_ok env content w"
  obtain r w' where run: "FetchPipelineNames env ref w = (r, w')" by fastforce
  then show "caches_ok env content (snd (FetchPipelineNames env ref w))"
    using fetch_through_cache [OF assms _ run] fetch_keeps_mlflow [of env ref w] ok by (simp add: caches_ok_def)
qed


section \<open>The operations of a reconcile\<close>

lemma safe_util [safe_intros]:
  "safe env content (GetConfigMap env' n ns)" "safe env content (GetSecret env' n ns)"
  "safe env content (GetServiceIfAvailable env' n ns)" "safe env content (GetRouteIfAvailable env' n ns)"
  "safe env content (GetServiceHostname env' n ns)" "safe env content (GetRouteHostname env' n ns)"
  "safe env content (GetTemplatesInDir env' td sd)" "safe env content (GetSystemCerts env')"
  "safe env content (Apply env' ow t fns)" "safe env content (ApplyAll env' ow ts)"
  "safe env content (ApplyDir env' ow dir)" "safe env content (ApplyWithoutOwner env' t fns)"
  "safe env content (DeleteResourceDir env' dir)" "safe env content (DeleteResource env' t fns)"
  "safe env content (DeleteResourceIfItExists env' k nn)"
  by (rule safe_reads, intro reads_intros)+

lemma safe_secrets [safe_intros]:
  "safe env content (passwordGen env' n)" "safe env content (RetrieveSecret env' sn sk)"
  "safe env content (RetrieveOrCreateSecret env' sn sk l)" "safe env content (RetrieveOrCreateDBSecret env' s)"
  "safe env content (RetrieveOrCreateObjectStoreSecret env' os)" "safe env content (retrieve_if_present env' sn sk)"
  "safe env content (IsAPIServerDeploymentReady env')"
  by (rule safe_reads, intro reads_intros)+

lemma safe_setup [safe_intros]:
  "safe env content (SetupDBParams env)" "safe env content (SetupObjectParams env)"
  "safe env content (SetupMLMD env)" "safe env content (SetupOwner env)"
  unfolding SetupDBParams_def setup_external_db_def setup_maria_db_def apply_custom_extra_params_def
    check_db_password_def mod_db_def SetupObjectParams_def setup_external_storage_def setup_minio_def
    setup_external_route_def check_object_credentials_def mod_os_def RetrieveAndSetExternalRoute_def
    SetupMLMD_def SetupOwner_def
  by (intro safe_intros)+

lemma safe_extract_blocks [safe_intros]:
  "safe env content (extract_names env d)" "safe env content (mod_api f)" "safe env content (extract_api_images env)"
  "safe env content (extract_managed_pipelines env mps)" "safe env content (extract_mlflow_plugin env a)"
  "safe env content (extract_server_config d)" "safe env content (extract_launcher_config env a)"
  "safe env content (extract_workspace env a)"
  unfolding extract_names_def mod_api_def extract_api_images_def extract_managed_pipelines_def
    extract_mlflow_plugin_def build_mlflow_plugin_def api_server_external_url_def extract_server_config_def
    extract_launcher_config_def extract_workspace_def Let_def
  by (intro safe_intros)+

lemma safe_ca_blocks [safe_intros]:
  "safe env content (extract_global_ca env)" "safe env content (extract_user_ca env a)"
  "safe env content (extract_service_ca env)" "safe env content (extract_ca_paths a)"
  "safe env content (publish_ca_bundle env d a b)"
  unfolding extract_global_ca_def extract_user_ca_def extract_service_ca_def extract_ca_paths_def add_pem_def
    publish_ca_bundle_def add_system_certs_def write_ca_bundle_def create_or_update_configmap_def
  by (intro safe_intros)+

lemma safe_ExtractParams [safe_intros]: "safe env content (ExtractParams env)"
  unfolding ExtractParams_def extract_api_server_def extract_api_rest_def extract_agents_def
    extract_workflow_controller_def
  by (intro safe_intros)

lemma safe_prereqs [safe_intros]:
  "safe env content (ReconcileDatabase env)" "safe env content (ReconcileStorage env)"
  "safe env content (isDatabaseAccessible env)" "safe env content (isObjectStorageAccessible env)"
  unfolding ReconcileDatabase_def deploy_maria_db_def record_maria_db_def ReconcileStorage_def deploy_minio_def
    record_minio_def isDatabaseAccessible_def isObjectStorageAccessible_def decode_key_def
    ConnectAndQueryObjStore_def
  by (intro safe_intros safe_reads reads_query)+

lemma safe_components [safe_intros]:
  "safe env content (ReconcileCommon env)" "safe env content (ReconcilePersistenceAgent env)"
  "safe env content (ReconcileScheduledWorkflow env)" "safe env content (ReconcileWorkflowController env)"
  "safe env content (ReconcileMLMD env)" "safe env content (ReconcileWebhook env)" "safe env content (ReconcileAPIServer env)"
  "safe env content (CleanUpCommon env)" "safe env content (CleanUpWebhookIfUnused env)"
  unfolding ReconcileCommon_def ReconcilePersistenceAgent_def ReconcileScheduledWorkflow_def
    ReconcileWorkflowController_def ReconcileMLMD_def mlmd_certificates_def LoadMlmdCertificates_def
    ReconcileWebhook_def ReconcileAPIServer_def apply_api_templates_def server_route_def apply_samples_def
    CleanUpCommon_def CleanUpWebhookIfUnused_def checkAvailableKubernetesDSPAs_def cleanupWebhookResources_def
  by (intro safe_intros)+

lemma safe_stages [safe_intros]:
  "safe env content (setStatus env n k)" "safe env content (setStatusAsNotReady env k e)"
  "safe env content (setStatusAsUnsupported env k e)" "safe env content (checkWebhookStatus env)"
  unfolding setStatus_def evaluateCondition_def setStatusAsNotReady_def setStatusAsUnsupported_def
    checkWebhookStatus_def Let_def
  by (intro safe_intros)+

lemma safe_validate [safe_intros]:
  "(\<And>i. safe env content (fetch i)) \<Longrightarrow> safe env content (validateManagedPipelines env fetch)"
  unfolding validateManagedPipelines_def Let_def by (intro safe_intros)

lemma safe_live:
  "(\<And>i. safe env content (fetch i)) \<Longrightarrow> safe env content (reconcile_live env fetch)"
  unfolding reconcile_live_def deploy_prereqs_def check_prereqs_def reconcile_ready_def webhook_stage_def
    deploy_components_def component_stage_def workflow_controller_stage_def Let_def
  by (intro safe_intros)

lemma safe_body:
  "(\<And>i. safe env content (fetch i)) \<Longrightarrow> safe env content (reconcile_body env fetch)"
  unfolding reconcile_body_def report_unsupported_def stub_gvk_def ensure_finalizer_def finalize_def cleanUpResources_def
  by (intro safe_intros safe_live; simp)

lemma safe_closing [safe_intros]: "safe env content (updateStatus env req)" "safe env content (publish_metrics env)"
  unfolding updateStatus_def refreshDspa_def publish_metrics_def GetComponents_def or_empty_def Let_def
  by (intro safe_intros; simp)+

lemma safe_Reconcile:
  assumes "content_addressed env content"
  shows "safe env content (Reconcile env req)"
  unfolding Reconcile_def Reconcile_with_def reconcile_start_def
  by (intro safe_intros safe_body safe_fetch assms; simp)

section \<open>Runs of the operator\<close>

text \<open>
  A step is a reconcile of some request, an event that the controller maps to requests, a change of the
  configuration file, or a restart, which reads the file anew and empties the caches; a run is any number of
  steps, over the configuration and the world.  The environment's answers depend on the history, so other
  clients act in between as they like.
\<close>

inductive operator_step :: "env \<Rightarrow> viper \<times> world \<Rightarrow> viper \<times> world \<Rightarrow> bool" for env where
  Step_Reconcile: "Reconcile (env\<lparr>e_viper := v\<rparr>) req w = (r, w') \<Longrightarrow> operator_step env (v, w) (v, w')"
| Step_Bundle_Event: "ca_bundle_requests (env\<lparr>e_viper := v\<rparr>) cm w = (rs, w') \<Longrightarrow> operator_step env (v, w) (v, w')"
| Step_Secret_Event: "secret_requests (env\<lparr>e_viper := v\<rparr>) s w = (rs, w') \<Longrightarrow> operator_step env (v, w) (v, w')"
| Step_Reload: "operator_step env (v, w) (on_config_change reread v, w)"
| Step_Restart: "operator_step env (v, w) (v', w\<lparr>w_mlflow_cache := Map.empty, w_names_cache := Map.empty\<rparr>)"

inductive_cases operator_step_cases: "operator_step env (v, w) (v', w')"

inductive operator_run :: "env \<Rightarrow> viper \<times> world \<Rightarrow> viper \<times> world \<Rightarrow> bool" for env where
  Run_Start: "operator_run env s s"
| Run_Step: "operator_run env s s' \<Longrightarrow> operator_step env s' s'' \<Longrightarrow> operator_run env s s''"

text \<open>The configuration changes under no reconcile: a step that changes it leaves the world alone or is a restart.\<close>

lemma step_reconfigures:
  "operator_step env (v, w) (v', w') \<Longrightarrow>
     v' = v \<or> w' = w \<or> w' = w\<lparr>w_mlflow_cache := Map.empty, w_names_cache := Map.empty\<rparr>"
  by (erule operator_step_cases) simp_all

text \<open>What the caches promise does not depend on the configuration.\<close>

lemma validate_viper: "validateMLflowEndpointURL (env\<lparr>e_viper := v\<rparr>) = validateMLflowEndpointURL env"
  by (simp add: fun_eq_iff validateMLflowEndpointURL_def)

lemma reconfigured [simp]:
  "content_addressed (env\<lparr>e_viper := v\<rparr>) content = content_addressed env content"
  "caches_ok (env\<lparr>e_viper := v\<rparr>) content w = caches_ok env content w"
  by (simp_all add: content_addressed_def caches_ok_def mlflow_cache_valid_def valid_endpoint_def validate_viper)

lemma safe_events [safe_intros]: "safe env content (ca_bundle_requests env cm)" "safe env content (secret_requests env s)"
  unfolding ca_bundle_requests_def secret_requests_def Let_def by (intro safe_intros)+

lemma caches_ok_empty: "caches_ok env content (w\<lparr>w_mlflow_cache := Map.empty, w_names_cache := Map.empty\<rparr>)"
  by (simp add: caches_ok_def mlflow_cache_valid_def names_cache_consistent_def)

lemma step_caches_ok:
  assumes "content_addressed env content" "operator_step env (v, w) (v', w')" "caches_ok env content w"
  shows "caches_ok env content w'"
  using assms(2)
proof (cases rule: operator_step.cases)
  case (Step_Reconcile req r)
  with safeD [OF safe_Reconcile, of "env\<lparr>e_viper := v\<rparr>" content req w r w'] assms(1,3) show ?thesis by simp
next
  case (Step_Bundle_Event cm rs)
  with safeD [OF safe_events(1), of "env\<lparr>e_viper := v\<rparr>" cm w rs w' content] assms(3) show ?thesis by simp
next
  case (Step_Secret_Event s rs)
  with safeD [OF safe_events(2), of "env\<lparr>e_viper := v\<rparr>" s w rs w' content] assms(3) show ?thesis by simp
qed (use assms(3) in \<open>simp_all add: caches_ok_empty\<close>)

lemma run_caches_ok:
  assumes "operator_run env s s'" "content_addressed env content" "caches_ok env content (snd s)"
  shows "caches_ok env content (snd s')"
  using assms
proof (induction rule: operator_run.induct)
  case (Run_Step s s' s'')
  then show ?case by (cases s'; cases s'') (auto intro: step_caches_ok)
qed

section \<open>Properties\<close>

text \<open>
  C6: The caches stay right however long the operator runs.  Over any sequence of reconciles, events, changes
  of the configuration and restarts from empty caches, with a registry whose content is fixed by the digest, a fetch that then
  succeeds yields the names of the image the reference resolves to at that moment, and an MLflow endpoint
  that is then retrieved, from the cache or not, is an http or https URL with a host.
\<close>

theorem operator_caches_sound:
  assumes registry: "content_addressed env content"
    and run: "operator_run env (v0, w0) (v, w)"
    and empty: "w_mlflow_cache w0 = Map.empty" "w_names_cache w0 = Map.empty"
  shows "caches_ok env content w \<and>
    (case fst (FetchPipelineNames (env\<lparr>e_viper := v\<rparr>) ref w) of
       Ok names \<Rightarrow> \<exists>img digest. e_remote_image env (w_history w) ref = Inr img \<and> im_digest img = Inr digest \<and>
                     names = content digest
     | _ \<Rightarrow> True) \<and>
    (case fst (retrieveMLflowEndpointCached (env\<lparr>e_viper := v\<rparr>) ns w) of
       Ok e \<Rightarrow> \<exists>scheme host. e_parse_url env (trim_space e) = Inr (scheme, host) \<and> host \<noteq> '''' \<and>
                  (scheme = ''http'' \<or> scheme = ''https'')
     | _ \<Rightarrow> True)"
proof -
  let ?env = "env\<lparr>e_viper := v\<rparr>"
  have "caches_ok env content w0"
    using empty by (simp add: caches_ok_def mlflow_cache_valid_def names_cache_consistent_def)
  with run_caches_ok [OF run registry] have ok: "caches_ok env content w" "caches_ok ?env content w" by simp_all
  then have "mlflow_cache_valid ?env (w_mlflow_cache w)" "names_cache_consistent content (w_names_cache w)"
    unfolding caches_ok_def by blast+
  with ok fetch_through_cache [of ?env content w ref] registry mlflow_endpoint_valid [of ?env w ns] show ?thesis
    by (cases "FetchPipelineNames ?env ref w"; cases "retrieveMLflowEndpointCached ?env ns w")
      (simp split: res.splits)
qed

theorem operator_caches_sound_witness:
  "\<exists>v w. operator_run registry_env (sample_viper, sample_world) (v, w) \<and> w_history w \<noteq> [] \<and>
     caches_ok registry_env (\<lambda>_. {''iris''}) w"
proof -
  let ?env = "registry_env\<lparr>e_viper := sample_viper\<rparr>"
  let ?w = "snd (Reconcile ?env (nsname ''ns'' ''sample'') sample_world)"
  let ?v = "snd (ca_bundle_requests ?env \<lparr>cm_name = globalCaBundleName, cm_namespace = ''ns'',
     cm_owner_references = [], cm_data = []\<rparr> ?w)"
  have "operator_run registry_env (sample_viper, sample_world) (sample_viper, ?w)"
    by (rule Run_Step [OF Run_Start], rule Step_Reconcile, rule prod.collapse [symmetric])
  then have "operator_run registry_env (sample_viper, sample_world) (sample_viper, ?v)"
    by (rule Run_Step) (rule Step_Bundle_Event, rule prod.collapse [symmetric])
  then have run: "operator_run registry_env (sample_viper, sample_world) (on_config_change (Inl not_found_err) sample_viper, ?v)"
    by (rule Run_Step) (rule Step_Reload)
  have "w_history ?v = w_history ?w @ [Ev_List_Dspas]"
    by (simp add: ca_bundle_requests_def Let_def attempt_def list_dspas_def call_def ret_def log_event_def split: sum.split)
  moreover from operator_caches_sound [OF registry_env_content run] have "caches_ok registry_env (\<lambda>_. {''iris''}) ?v"
    by (simp add: sample_world_def)
  ultimately show ?thesis
    using run by (intro exI [of _ "on_config_change (Inl not_found_err) sample_viper"] exI [of _ ?v] conjI) simp_all
qed

end
