(* ===== verification/Json_Laws.thy ===== *)
theory Json_Laws imports Managed_Pipelines begin

text \<open>
  Laws of the JSON model of \<open>Go_Json\<close>: every step of the parser consumes input, so the fuel that
  \<open>json_parse\<close> supplies is always enough and its failures are those of the text.
\<close>

section \<open>Input is consumed\<close>

lemma skip_ws_length: "length (skip_ws s) \<le> length s"
  by (simp add: skip_ws_def length_dropWhile_le)

lemma skip_ws_Cons: "skip_ws s = c # t \<Longrightarrow> length t < length s"
  using skip_ws_length [of s] by simp

lemma hex4_length: "hex4 s = Some (r, t) \<Longrightarrow> length t < length s"
  by (cases s rule: hex4.cases) (auto split: option.splits)

lemma u_hex4_length: "u_hex4 s = Some (r, t) \<Longrightarrow> length t < length s"
  by (cases s rule: u_hex4.cases) (auto split: if_splits dest: hex4_length)

lemma u_rune_length: "u_rune r s = (b, t) \<Longrightarrow> length t \<le> length s"
  by (auto simp: u_rune_def split: if_splits option.splits dest!: u_hex4_length)

lemma span_digits_length: "span_digits s = (ds, t) \<Longrightarrow> length t \<le> length s"
  by (auto simp: span_digits_def length_dropWhile_le)

text \<open>One step of a string literal: it ends or fails here, or goes on with less input.\<close>

lemma parse_str_step:
  "(\<exists>r. (\<forall>f. parse_str (Suc f) s = r) \<and> (\<forall>t rest. r = Some (t, rest) \<longrightarrow> length rest < length s)) \<or>
   (\<exists>b s'. length s' < length s \<and>
      (\<forall>f. parse_str (Suc f) s = map_option (\<lambda>(t, rest). (b @ t, rest)) (parse_str f s')))"
  (is "?ends s \<or> ?goes s")
proof (cases s)
  case (Cons c u)
  consider (quote) "c = CHR 0x22" | (escape) "c = CHR 0x5C" | (control) "c \<noteq> CHR 0x22" "c \<noteq> CHR 0x5C" "byte c < 0x20"
    | (plain) "c \<noteq> CHR 0x22" "c \<noteq> CHR 0x5C" "\<not> byte c < 0x20" by blast
  then show ?thesis
  proof cases
    case escape
    show ?thesis
    proof (cases u)
      case u: (Cons e v)
      show ?thesis
      proof (cases "e = CHR ''u''")
        case True
        show ?thesis
        proof (cases "hex4 v")
          case (Some rs)
          obtain r s2 b s3 where rs: "rs = (r, s2)" "u_rune r s2 = (b, s3)" by (metis surj_pair)
          with Some hex4_length [of v r s2] u_rune_length [of r s2 b s3] have "length s3 < length s"
            using Cons u by simp
          with Cons u escape True Some rs have "?goes s"
            by (intro exI [of _ b] exI [of _ s3]) simp
          then show ?thesis ..
        qed (use Cons u escape True in simp)
      next
        case False
        show ?thesis
        proof (cases "simple_escape e")
          case (Some x)
          with Cons u escape False have "?goes s" by (intro exI [of _ "[x]"] exI [of _ v]) (auto simp: case_prod_beta')
          then show ?thesis ..
        qed (use Cons u escape False in simp)
      qed
    qed (use Cons escape in simp)
  next
    case plain
    let ?n = "utf8_len (c # u)"
    show ?thesis
    proof (cases "?n = 0")
      case True
      with plain Cons have "?goes s" by (intro exI [of _ replacement] exI [of _ u]) (simp add: Let_def)
      then show ?thesis ..
    next
      case False
      with plain Cons have "?goes s"
        by (intro exI [of _ "take ?n (c # u)"] exI [of _ "drop (?n - 1) u"]) (simp add: Let_def)
      then show ?thesis ..
    qed
  qed (use Cons in simp_all)
qed simp

lemma parse_str_length: "parse_str f s = Some (t, rest) \<Longrightarrow> length rest < length s"
proof (induction f arbitrary: s t rest)
  case (Suc f)
  from parse_str_step [of s] Suc.prems show ?case by (elim disjE exE conjE) (auto dest!: Suc.IH)
qed simp

lemma parse_str_enough: "length s < f \<Longrightarrow> length s < g \<Longrightarrow> parse_str f s = parse_str g s"
proof (induction f arbitrary: g s)
  case (Suc f)
  then obtain h where g: "g = Suc h" by (cases g) auto
  from parse_str_step [of s] show ?case
  proof (elim disjE exE conjE)
    fix b s' assume "length s' < length s"
      and eq: "\<forall>f. parse_str (Suc f) s = map_option (\<lambda>(t, rest). (b @ t, rest)) (parse_str f s')"
    with Suc.prems g have "parse_str f s' = parse_str h s'" by (intro Suc.IH) auto
    with eq g show ?case by simp
  qed (simp add: g)
qed simp

lemma parse_int_part_length: "parse_int_part s = Some (i, t) \<Longrightarrow> length t < length s"
proof (cases s)
  case (Cons c u)
  assume "parse_int_part s = Some (i, t)"
  with Cons show ?thesis
    by (auto simp: parse_int_part_def span_digits_def less_Suc_eq_le length_dropWhile_le split: if_splits)
qed (simp add: parse_int_part_def)

lemma parse_frac_length: "parse_frac s = Some (f, t) \<Longrightarrow> length t \<le> length s"
  by (auto simp: parse_frac_def split: list.splits if_splits prod.splits dest!: span_digits_length)

lemma parse_exp_length: "parse_exp s = Some (x, t) \<Longrightarrow> length t \<le> length s"
  by (auto simp: parse_exp_def Let_def split: list.splits if_splits prod.splits dest!: span_digits_length)

lemma parse_num_length: "parse_num s = Some (n, rest) \<Longrightarrow> length rest < length s"
  by (auto simp: parse_num_def Let_def split: list.splits if_splits prod.splits option.splits
      dest!: parse_int_part_length parse_frac_length parse_exp_length)

text \<open>One step of a value: it is complete or fails here, or it is an array or an object that goes on.\<close>

lemma parse_value_step:
  "(\<exists>r. (\<forall>f. parse_value (Suc f) d s = r) \<and> (\<forall>j rest. r = Some (j, rest) \<longrightarrow> length rest < length s)) \<or>
   (\<exists>d' t. length t < length s \<and>
      ((\<forall>f. parse_value (Suc f) d s = map_option (\<lambda>(js, rest). (JArr js, rest)) (parse_elems f d' t)) \<or>
       (\<forall>f. parse_value (Suc f) d s = map_option (\<lambda>(ms, rest). (JObj ms, rest)) (parse_members f d' t))))"
  (is "?ends \<or> ?goes")
proof (cases "skip_ws s")
  case (Cons c t)
  note t = skip_ws_Cons [OF Cons]
  consider (str) "c = CHR 0x22" | (arr) "c = CHR ''[''" | (obj) "c = CHR ''{''"
    | (other) "c \<noteq> CHR 0x22" "c \<noteq> CHR ''[''" "c \<noteq> CHR ''{''" by blast
  then show ?thesis
  proof cases
    case str
    with Cons have "parse_value (Suc f) d s = map_option (\<lambda>(x, rest). (JStr x, rest)) (parse_str (Suc (length t)) t)" for f
      by simp
    moreover have "length rest < length s" if "parse_str (Suc (length t)) t = Some (x, rest)" for x rest
      using parse_str_length [OF that] t by simp
    ultimately have ?ends by (intro exI [of _ "map_option (\<lambda>(x, rest). (JStr x, rest)) (parse_str (Suc (length t)) t)"]) auto
    then show ?thesis ..
  next
    case arr
    show ?thesis
    proof (cases d)
      case (Suc d')
      show ?thesis
      proof (cases "skip_ws t")
        case u: (Cons x u)
        with Suc Cons arr t skip_ws_Cons [OF u] show ?thesis by (cases "x = CHR '']''") auto
      qed (use Suc Cons arr in simp)
    qed (use Cons arr in simp)
  next
    case obj
    show ?thesis
    proof (cases d)
      case (Suc d')
      show ?thesis
      proof (cases "skip_ws t")
        case u: (Cons x u)
        with Suc Cons obj t skip_ws_Cons [OF u] show ?thesis by (cases "x = CHR ''}''") auto
      qed (use Suc Cons obj in simp)
    qed (use Cons obj in simp)
  next
    case other
    let ?r = "if has_prefix (c # t) ''true'' then Some (JBool True, drop 4 (c # t))
      else if has_prefix (c # t) ''false'' then Some (JBool False, drop 5 (c # t))
      else if has_prefix (c # t) ''null'' then Some (JNull, drop 4 (c # t))
      else map_option (\<lambda>(n, rest). (JNum n, rest)) (parse_num (c # t))"
    have "\<forall>f. parse_value (Suc f) d s = ?r" using other Cons by simp
    moreover have "length rest < length s" if "?r = Some (j, rest)" for j rest
    proof -
      have "length rest < length (c # t)" using that by (auto split: if_splits dest!: parse_num_length)
      then show ?thesis using skip_ws_length [of s] Cons by simp
    qed
    ultimately have ?ends by (intro exI [of _ ?r]) blast
    then show ?thesis ..
  qed
qed simp

text \<open>What follows an element of an array, and the value of a member of an object.\<close>

fun after_elem :: "nat \<Rightarrow> nat \<Rightarrow> json \<times> string \<Rightarrow> (json list \<times> string) option" where
  "after_elem f d (j, rest) =
     (case skip_ws rest of
        [] \<Rightarrow> None
      | c # t \<Rightarrow>
          if c = CHR '']'' then Some ([j], t)
          else if c = CHR '','' then map_option (\<lambda>(js, rest'). (j # js, rest')) (parse_elems f d t)
          else None)"

fun after_member :: "string \<Rightarrow> nat \<Rightarrow> nat \<Rightarrow> json \<times> string \<Rightarrow> ((string \<times> json) list \<times> string) option" where
  "after_member k f d (j, rest) =
     (case skip_ws rest of
        [] \<Rightarrow> None
      | c # t \<Rightarrow>
          if c = CHR ''}'' then Some ([(k, j)], t)
          else if c = CHR '','' then map_option (\<lambda>(ms, rest'). ((k, j) # ms, rest')) (parse_members f d t)
          else None)"

lemma parse_elems_step: "parse_elems (Suc f) d s = Option.bind (parse_value f d s) (after_elem f d)"
  by (simp split: option.split)

lemma parse_members_step:
  "(\<forall>f. parse_members (Suc f) d s = None) \<or>
   (\<exists>k s3. length s3 < length s \<and>
      (\<forall>f. parse_members (Suc f) d s = Option.bind (parse_value f d s3) (after_member k f d)))"
  (is "?fails \<or> ?goes")
proof (cases "skip_ws s")
  case (Cons q s1)
  show ?thesis
  proof (cases "q = CHR 0x22")
    case True
    show ?thesis
    proof (cases "parse_str (Suc (length s1)) s1")
      case (Some ks)
      obtain k s2 where ks: "ks = (k, s2)" by fastforce
      show ?thesis
      proof (cases "skip_ws s2")
        case colon: (Cons x s3)
        show ?thesis
        proof (cases "x = CHR '':''")
          case x: True
          have "length s3 < length s"
            using skip_ws_Cons [OF Cons] skip_ws_Cons [OF colon] parse_str_length [OF Some [unfolded ks]] by simp
          moreover have "parse_members (Suc f) d s = Option.bind (parse_value f d s3) (after_member k f d)" for f
            using Cons True Some ks colon x by (simp split: option.split)
          ultimately have ?goes by blast
          then show ?thesis ..
        qed (use Cons True Some ks colon in simp)
      qed (use Cons True Some ks in simp)
    qed (use Cons True in simp)
  qed (use Cons in simp)
qed simp

declare parse_value.simps(2) [simp del] parse_elems.simps(2) [simp del] parse_members.simps(2) [simp del]

lemma after_elem_cases:
  assumes "after_elem f d (j, rest) = Some (js, out)"
  obtains (last) "skip_ws rest = CHR '']'' # out" "js = [j]"
  | (more) t js' where "skip_ws rest = CHR '','' # t" "parse_elems f d t = Some (js', out)" "js = j # js'"
  using assms by (cases "skip_ws rest") (auto split: if_splits)

lemma after_member_cases:
  assumes "after_member k f d (j, rest) = Some (ms, out)"
  obtains (last) "skip_ws rest = CHR ''}'' # out" "ms = [(k, j)]"
  | (more) t ms' where "skip_ws rest = CHR '','' # t" "parse_members f d t = Some (ms', out)" "ms = (k, j) # ms'"
  using assms by (cases "skip_ws rest") (auto split: if_splits)

lemma parse_lengths:
  "parse_value f d s = Some (j, rest) \<Longrightarrow> length rest < length s"
  "parse_elems f d s = Some (js, rest') \<Longrightarrow> length rest' < length s"
  "parse_members f d s = Some (ms, rest'') \<Longrightarrow> length rest'' < length s"
proof (induction f arbitrary: d s j rest js rest' ms rest'')
  case (Suc f)
  {
    case 1
    from parse_value_step [of d s] 1 show ?case by (elim disjE exE conjE) (auto dest!: Suc.IH)
  next
    case 2
    then obtain j r where v: "parse_value f d s = Some (j, r)" and a: "after_elem f d (j, r) = Some (js, rest')"
      by (auto simp: parse_elems_step bind_eq_Some_conv)
    from a show ?case
      by (cases rule: after_elem_cases) (use Suc.IH(1) [OF v] in \<open>auto dest!: Suc.IH(2) skip_ws_Cons\<close>)
  next
    case 3
    then obtain k s3 j r where s3: "length s3 < length s" and v: "parse_value f d s3 = Some (j, r)"
      and a: "after_member k f d (j, r) = Some (ms, rest'')"
      using parse_members_step [of d s] by (fastforce simp: bind_eq_Some_conv)
    from a show ?case
      by (cases rule: after_member_cases) (use s3 Suc.IH(1) [OF v] in \<open>auto dest!: Suc.IH(3) skip_ws_Cons\<close>)
  }
qed simp_all

section \<open>The fuel is enough\<close>

text \<open>With fuel for the length of the input, the result is the same for every amount of it.\<close>

lemma parse_enough:
  "2 * length s < f \<Longrightarrow> 2 * length s < g \<Longrightarrow> parse_value f d s = parse_value g d s"
  "2 * length s + 1 < f \<Longrightarrow> 2 * length s + 1 < g \<Longrightarrow> parse_elems f d s = parse_elems g d s"
  "2 * length s + 1 < f \<Longrightarrow> 2 * length s + 1 < g \<Longrightarrow> parse_members f d s = parse_members g d s"
proof (induction f arbitrary: g d s)
  case (Suc f)
  {
    case 1
    then obtain h where g: "g = Suc h" by (cases g) auto
    from parse_value_step [of d s] show ?case
    proof (elim disjE exE conjE)
      fix d' and t :: string assume "length t < length s"
      then have t: "2 * length t + 1 < f" "2 * length t + 1 < h" using 1 g by auto
      show ?case if "\<forall>f. parse_value (Suc f) d s = map_option (\<lambda>(js, rest). (JArr js, rest)) (parse_elems f d' t)"
        using that g Suc.IH(2) [OF t] by simp
      show ?case if "\<forall>f. parse_value (Suc f) d s = map_option (\<lambda>(ms, rest). (JObj ms, rest)) (parse_members f d' t)"
        using that g Suc.IH(3) [OF t] by simp
    qed (simp add: g)
  next
    case 2
    then obtain h where g: "g = Suc h" by (cases g) auto
    have v: "parse_value f d s = parse_value h d s" using 2 g by (intro Suc.IH(1)) auto
    show ?case
    proof (cases "parse_value h d s")
      case (Some jr)
      obtain j r where jr: "jr = (j, r)" by fastforce
      from parse_lengths(1) Some jr have r: "length r < length s" by blast
      have "parse_elems f d t = parse_elems h d t" if "skip_ws r = c # t" for c t
        using 2 g r skip_ws_Cons [OF that] by (intro Suc.IH(2)) auto
      then have "after_elem f d (j, r) = after_elem h d (j, r)" by (auto split: list.splits)
      with v Some jr g show ?thesis by (simp add: parse_elems_step del: after_elem.simps)
    qed (simp add: g v parse_elems_step)
  next
    case 3
    then obtain h where g: "g = Suc h" by (cases g) auto
    from parse_members_step [of d s] show ?case
    proof (elim disjE exE conjE)
      fix k s3 assume s3: "length s3 < length s"
        and eq: "\<forall>f. parse_members (Suc f) d s = Option.bind (parse_value f d s3) (after_member k f d)"
      have v: "parse_value f d s3 = parse_value h d s3" using 3 g s3 by (intro Suc.IH(1)) auto
      show ?case
      proof (cases "parse_value h d s3")
        case (Some jr)
        obtain j r where jr: "jr = (j, r)" by fastforce
        from parse_lengths(1) Some jr s3 have r: "length r < length s" by fastforce
        have "parse_members f d t = parse_members h d t" if "skip_ws r = c # t" for c t
          using 3 g r skip_ws_Cons [OF that] by (intro Suc.IH(3)) auto
        then have "after_member k f d (j, r) = after_member k h d (j, r)" by (auto split: list.splits)
        with v Some jr g eq show ?thesis by (simp del: after_member.simps)
      qed (simp add: g v eq)
    qed (simp add: g)
  }
qed simp_all

text \<open>And a result that was reached with little fuel is that result.\<close>

lemma parse_mono:
  "parse_value f d s = Some x \<Longrightarrow> parse_value (Suc f) d s = Some x"
  "parse_elems f d s = Some y \<Longrightarrow> parse_elems (Suc f) d s = Some y"
  "parse_members f d s = Some z \<Longrightarrow> parse_members (Suc f) d s = Some z"
proof (induction f arbitrary: d s x y z)
  case (Suc f)
  {
    case 1
    from parse_value_step [of d s] 1 show ?case by (elim disjE exE conjE) (auto dest: Suc.IH)
  next
    case 2
    then obtain j r where v: "parse_value f d s = Some (j, r)" and a: "after_elem f d (j, r) = Some y"
      by (auto simp: parse_elems_step bind_eq_Some_conv)
    obtain js out where y: "y = (js, out)" by fastforce
    have "after_elem (Suc f) d (j, r) = Some (js, out)"
      using a unfolding y by (cases rule: after_elem_cases) (auto dest!: Suc.IH(2))
    with Suc.IH(1) [OF v] y show ?case by (simp add: parse_elems_step [of "Suc f"] del: after_elem.simps)
  next
    case 3
    then obtain k s3 j r where v: "parse_value f d s3 = Some (j, r)" and a: "after_member k f d (j, r) = Some z"
      and eq: "\<And>f. parse_members (Suc f) d s = Option.bind (parse_value f d s3) (after_member k f d)"
      using parse_members_step [of d s] by (fastforce simp: bind_eq_Some_conv)
    obtain ms out where z: "z = (ms, out)" by fastforce
    have "after_member k (Suc f) d (j, r) = Some (ms, out)"
      using a unfolding z by (cases rule: after_member_cases) (auto dest!: Suc.IH(3))
    with Suc.IH(1) [OF v] z show ?case by (simp add: eq [of "Suc f"] del: after_member.simps)
  }
qed simp_all

lemma parse_value_mono:
  assumes "parse_value f d s = Some x" "f \<le> g"
  shows "parse_value g d s = Some x"
  using assms(2) by (induction rule: dec_induct) (auto intro: assms(1) parse_mono(1))

text \<open>So the parser fails exactly when no amount of fuel makes it succeed.\<close>

lemma json_parse_fuel:
  "json_parse s = Some j \<longleftrightarrow> (\<exists>f rest. parse_value f max_depth s = Some (j, rest) \<and> skip_ws rest = [])"
proof
  assume "json_parse s = Some j"
  then show "\<exists>f rest. parse_value f max_depth s = Some (j, rest) \<and> skip_ws rest = []"
    by (auto simp: json_parse_def split: option.splits prod.splits if_splits)
next
  assume "\<exists>f rest. parse_value f max_depth s = Some (j, rest) \<and> skip_ws rest = []"
  then obtain f rest where f: "parse_value f max_depth s = Some (j, rest)" "skip_ws rest = []" by blast
  have "parse_value (max f (2 * length s + 2)) max_depth s = Some (j, rest)"
    by (rule parse_value_mono [OF f(1)]) simp
  moreover have "parse_value (max f (2 * length s + 2)) max_depth s = parse_value (2 * length s + 2) max_depth s"
    by (rule parse_enough(1)) auto
  ultimately have "parse_value (2 * length s + 2) max_depth s = Some (j, rest)" by (simp only:)
  with f(2) show "json_parse s = Some j" by (simp add: json_parse_def)
qed

text \<open>Decoding the entries fails on their types only.\<close>

lemma struct_members_error: "struct_members tags ms fs = Inl e \<Longrightarrow> e = type_error"
  by (induction tags ms fs rule: struct_members.induct) (auto split: option.splits json.splits)

lemma decode_structs_error: "decode_structs tags js = Inl e \<Longrightarrow> e = type_error"
  by (induction js) (auto simp: decode_struct_def dest: struct_members_error split: sum.splits json.splits)

section \<open>Properties\<close>



end
