(* ===== verification/Json_Roundtrip.thy ===== *)
theory Json_Roundtrip imports Json_Laws begin

text \<open>
  What \<open>json.Marshal\<close> writes, \<open>json.Unmarshal\<close> reads back: the printer and the parser of \<open>Go_Json\<close> are
  inverse to each other on values whose texts are well-formed UTF-8, whose numbers are integers, and
  that are not nested deeper than the decoder allows.
\<close>

section \<open>Runes\<close>

function valid_utf8 :: "string \<Rightarrow> bool" where
  "valid_utf8 [] = True"
| "valid_utf8 (c # s) =
     (let n = utf8_len (c # s) in n \<noteq> 0 \<and> valid_utf8 (drop (n - 1) s))"
  by pat_completeness auto
termination
  by (relation "measure length") auto

declare valid_utf8.simps [simp del]

lemma utf8_len_le: "utf8_len s \<le> length s"
  by (cases s) (simp_all split: list.split)

text \<open>The length of a rune is decided by its own bytes.\<close>

lemma utf8_len_append: "utf8_len s \<noteq> 0 \<Longrightarrow> utf8_len (take (utf8_len s) s @ x) = utf8_len s"
  by (cases s) (auto split: list.splits if_splits)

lemma utf8_len_1: "utf8_len (c # s) = 1 \<longleftrightarrow> byte c < 0x80"
  by (simp split: list.split)

lemma utf8_len_multi: "1 < utf8_len (c # s) \<Longrightarrow> 0xC2 \<le> byte c"
  by (auto simp: rune2_def rune3_def rune4_def split: list.splits if_splits)

section \<open>Escapes\<close>

lemma hex_val_digit: "n < 16 \<Longrightarrow> hex_val (hex_digit n) = Some n"
  by (auto simp: hex_val_def hex_digit_def byte_def Let_def)

lemma hex4_digits:
  assumes "a < 16" "b < 16" "c < 16" "d < 16"
  shows "hex4 (hex_digit a # hex_digit b # hex_digit c # hex_digit d # x) = Some (a * 4096 + b * 256 + c * 16 + d, x)"
  by (simp only: hex4.simps hex_val_digit [OF assms(1)] hex_val_digit [OF assms(2)] hex_val_digit [OF assms(3)]
      hex_val_digit [OF assms(4)] option.case prod.case)

lemma hex_digits_sum:
  "16 * q1 + m0 = r \<Longrightarrow> 16 * q2 + m1 = q1 \<Longrightarrow> 16 * q3 + m2 = q2 \<Longrightarrow>
   q3 * 4096 + m2 * 256 + m1 * 16 + m0 = (r :: nat)"
  by linarith

lemma hex4_escape:
  assumes "r < 65536"
  shows "hex4 (drop 2 (u_escape r) @ x) = Some (r, x)"
proof -
  have quots: "r div 16 div 16 = r div 256" "r div 256 div 16 = r div 4096"
    by (simp_all flip: div_mult2_eq)
  have sum: "r div 4096 * 4096 + r div 256 mod 16 * 256 + r div 16 mod 16 * 16 + r mod 16 = r"
    by (rule hex_digits_sum [of "r div 16" _ _ "r div 256"])
      (simp_all only: mult_div_mod_eq flip: quots)
  have "r div 4096 < 16" using assms by (simp add: less_mult_imp_div_less)
  from hex4_digits [OF this, of "r div 256 mod 16" "r div 16 mod 16" "r mod 16" x] show ?thesis
    unfolding sum by (simp add: u_escape_def)
qed

lemma byte_char_of: "char_of (byte c) = c"
  by (simp add: byte_def)

lemma char_ofI: "of_char c = (n :: nat) \<Longrightarrow> char_of n = c"
  by auto

lemma parse_u_escape:
  assumes "r < 0xD800"
  shows "parse_str (Suc f) (u_escape r @ x) = map_option (\<lambda>(t, rest). (utf8_encode r @ t, rest)) (parse_str f x)"
proof -
  have eq: "u_escape r @ x = CHR 0x5C # CHR ''u'' # (drop 2 (u_escape r) @ x)" by (simp add: u_escape_def)
  have "hex4 (drop 2 (u_escape r) @ x) = Some (r, x)" using assms by (intro hex4_escape) simp
  moreover have "u_rune r x = (utf8_encode r, x)" using assms by (simp add: u_rune_def)
  ultimately show ?thesis unfolding eq by simp
qed

lemma parse_plain:
  assumes "byte c < 0x80" "\<not> byte c < 0x20" "c \<noteq> CHR 0x22" "c \<noteq> CHR 0x5C"
  shows "parse_str (Suc f) (c # x) = map_option (\<lambda>(t, rest). (c # t, rest)) (parse_str f x)"
proof -
  have "utf8_len (c # x) = 1" using assms(1) by (simp only: utf8_len_1)
  with assms(2-) show ?thesis by (simp add: Let_def del: utf8_len.simps)
qed

lemma parse_escape_ascii:
  assumes "byte c < 0x80"
  shows "parse_str (Suc f) (escape_ascii c @ x) = map_option (\<lambda>(t, rest). (c # t, rest)) (parse_str f x)"
proof -
  let ?special = "c = CHR 0x22 \<or> c = CHR 0x5C \<or> c = CHR 0x08 \<or> c = CHR 0x0C \<or> c = CHR 0x0A \<or> c = CHR 0x0D \<or> c = CHR 0x09"
  let ?hex = "byte c < 0x20 \<or> c = CHR ''<'' \<or> c = CHR ''>'' \<or> c = CHR ''&''"
  show ?thesis
  proof (cases ?special)
    case True
    then have "\<exists>e. escape_ascii c = [CHR 0x5C, e] \<and> e \<noteq> CHR ''u'' \<and> simple_escape e = Some c"
      by (elim disjE) (simp_all add: escape_ascii_def simple_escape_def)
    then show ?thesis by auto
  next
    case simple: False
    show ?thesis
    proof (cases ?hex)
      case True
      with simple have "escape_ascii c = u_escape (byte c)" by (simp add: escape_ascii_def)
      moreover have "utf8_encode (byte c) = [c]" using assms by (simp add: utf8_encode_def byte_def)
      ultimately show ?thesis using parse_u_escape [of "byte c" f x] assms by simp
    next
      case False
      with simple have "escape_ascii c = [c]" by (simp add: escape_ascii_def)
      with parse_plain [OF assms, of f x] simple False show ?thesis by simp
    qed
  qed
qed

lemma parse_escape_multi:
  assumes "utf8_len r = length r" "1 < length r"
  shows "parse_str (Suc f) (escape_multi r @ x) = map_option (\<lambda>(t, rest). (r @ t, rest)) (parse_str f x)"
proof -
  consider (ls) "r = [CHR 0xE2, CHR 0x80, CHR 0xA8]" | (ps) "r = [CHR 0xE2, CHR 0x80, CHR 0xA9]"
    | (raw) "escape_multi r = r"
    unfolding escape_multi_def by metis
  then show ?thesis
  proof cases
    case ls
    have "utf8_encode 0x2028 = r" unfolding ls by (simp add: utf8_encode_def char_ofI)
    with parse_u_escape [of "0x2028" f x] ls show ?thesis by (simp add: escape_multi_def)
  next
    case ps
    have "utf8_encode 0x2029 = r" unfolding ps by (simp add: utf8_encode_def char_ofI)
    with parse_u_escape [of "0x2029" f x] ps show ?thesis by (simp add: escape_multi_def)
  next
    case raw
    obtain c u where r: "r = c # u" using assms(2) by (cases r) auto
    have len: "utf8_len (c # u @ x) = length r"
      using utf8_len_append [of r x] assms r by (simp del: utf8_len.simps)
    have c: "0xC2 \<le> byte c" using assms r by (intro utf8_len_multi [of c u]) (simp del: utf8_len.simps)
    then have "c \<noteq> CHR 0x22" "c \<noteq> CHR 0x5C" "\<not> byte c < 0x20" by (auto simp: byte_def)
    with len r assms(2) show ?thesis unfolding raw by (simp add: Let_def del: utf8_len.simps)
  qed
qed

text \<open>The literal that \<open>json_string\<close> writes, after its opening quote.\<close>

lemma parse_json_escape:
  "valid_utf8 s \<Longrightarrow> length s < f \<Longrightarrow> parse_str f (json_escape s @ CHR 0x22 # rest) = Some (s, rest)"
proof (induction s arbitrary: f rule: json_escape.induct)
  case 1
  then obtain g where "f = Suc g" by (cases f) auto
  then show ?case by (simp add: json_escape.simps)
next
  case (2 c s)
  let ?n = "utf8_len (c # s)"
  from "2.prems" obtain g where f: "f = Suc g" "length s < g" by (cases f) auto
  from "2.prems"(1) have n: "?n \<noteq> 0" and tail: "valid_utf8 (drop (?n - 1) s)"
    by (simp_all add: valid_utf8.simps Let_def del: utf8_len.simps)
  show ?case
  proof (cases "?n = 1")
    case True
    with "2.IH"(2) [OF refl n True, of g] tail f
    have "parse_str g (json_escape s @ CHR 0x22 # rest) = Some (s, rest)" by simp
    moreover have "byte c < 0x80" using True by (simp only: utf8_len_1)
    moreover have "json_escape (c # s) = escape_ascii c @ json_escape s"
      using True by (simp add: json_escape.simps(2) [of c s] Let_def del: utf8_len.simps)
    ultimately show ?thesis using parse_escape_ascii [of c g "json_escape s @ CHR 0x22 # rest"] f by simp
  next
    case False
    let ?r = "take ?n (c # s)" and ?t = "drop (?n - 1) s"
    have "utf8_len ?r = length ?r" using utf8_len_append [OF n, of "[]"] utf8_len_le [of "c # s"]
      by (simp add: min_def del: utf8_len.simps)
    moreover have "1 < length ?r" using n False utf8_len_le [of "c # s"] by (simp del: utf8_len.simps)
    ultimately have multi: "parse_str (Suc g) (escape_multi ?r @ json_escape ?t @ CHR 0x22 # rest) =
        map_option (\<lambda>(t, rest). (?r @ t, rest)) (parse_str g (json_escape ?t @ CHR 0x22 # rest))"
      by (rule parse_escape_multi)
    have "parse_str g (json_escape ?t @ CHR 0x22 # rest) = Some (?t, rest)"
      using "2.IH"(3) [OF refl n False tail, of g] f by simp
    moreover have "?r @ ?t = c # s" using n by (cases ?n) (simp_all del: utf8_len.simps)
    moreover have "json_escape (c # s) = escape_multi ?r @ json_escape ?t"
      using n False by (simp add: json_escape.simps(2) [of c s] Let_def del: utf8_len.simps)
    ultimately show ?thesis using multi f by (simp del: utf8_len.simps)
  qed
qed

section \<open>Numbers\<close>

text \<open>What may follow a value inside a text.\<close>

definition delimited :: "string \<Rightarrow> bool" where
  "delimited s \<longleftrightarrow> (case s of [] \<Rightarrow> True | c # t \<Rightarrow> c = CHR '','' \<or> c = CHR '']'' \<or> c = CHR ''}'')"

lemma delimited_simps [simp]:
  "delimited []" "delimited (CHR '','' # t)" "delimited (CHR '']'' # t)" "delimited (CHR ''}'' # t)"
  by (simp_all add: delimited_def)

lemma byte_digit_char: "d < 10 \<Longrightarrow> byte (digit_char d) = 48 + d"
  by (simp add: digit_char_def byte_def)

lemma nat_digits_digits: "list_all is_digit (nat_digits n) \<and> nat_digits n \<noteq> []"
proof (induction n rule: nat_digits.induct)
  case (1 n)
  then show ?case
    by (cases "n < 10") (simp_all add: nat_digits.simps [of n] is_digit_def byte_digit_char)
qed

lemma nat_digits_hd: "0 < n \<Longrightarrow> hd (nat_digits n) \<noteq> CHR ''0''"
proof (induction n rule: nat_digits.induct)
  case (1 n)
  show ?case
  proof (cases "n < 10")
    case True
    have "byte (CHR ''0'') = 48" by (simp add: byte_def)
    with byte_digit_char [OF True] "1.prems" True show ?thesis by (auto simp: nat_digits.simps [of n])
  next
    case False
    with 1 nat_digits_digits [of "n div 10"] show ?thesis by (simp add: nat_digits.simps [of n])
  qed
qed

lemma span_digits_append:
  "list_all is_digit ds \<Longrightarrow> delimited rest \<Longrightarrow> span_digits (ds @ rest) = (ds, rest)"
proof -
  assume "list_all is_digit ds" "delimited rest"
  moreover from this(2) have "takeWhile is_digit rest = []" "dropWhile is_digit rest = rest"
    by (auto simp: delimited_def is_digit_def byte_def split: list.splits)
  ultimately show ?thesis
    by (simp add: span_digits_def takeWhile_append dropWhile_append list_all_iff)
qed

lemma parse_int_digits:
  assumes "delimited rest"
  shows "parse_int_part (nat_digits n @ rest) = Some (nat_digits n, rest)"
proof (cases "n = 0")
  case True
  then show ?thesis by (simp add: nat_digits.simps [of 0] digit_char_def parse_int_part_def char_ofI)
next
  case False
  obtain c t where ct: "nat_digits n = c # t" using nat_digits_digits [of n] by (cases "nat_digits n") auto
  with False nat_digits_hd [of n] have "c \<noteq> CHR ''0''" by simp
  moreover have "is_digit c" using ct nat_digits_digits [of n] by simp
  ultimately show ?thesis
    using span_digits_append [of "nat_digits n" rest] nat_digits_digits [of n] assms ct
    by (simp add: parse_int_part_def)
qed

lemma parse_num_itoa:
  assumes "delimited rest"
  shows "parse_num (itoa i @ rest) = Some (itoa i, rest)"
proof -
  have none: "parse_frac rest = Some ([], rest)" "parse_exp rest = Some ([], rest)"
    using assms by (auto simp: parse_frac_def parse_exp_def delimited_def split: list.splits)
  show ?thesis
  proof (cases "i < 0")
    case True
    then show ?thesis using parse_int_digits [OF assms, of "nat (- i)"] none by (simp add: itoa_def parse_num_def)
  next
    case False
    obtain c t where ct: "nat_digits (nat i) = c # t"
      using nat_digits_digits [of "nat i"] by (cases "nat_digits (nat i)") auto
    then have "is_digit c" using nat_digits_digits [of "nat i"] by simp
    then have "c \<noteq> CHR ''-''" by (auto simp: is_digit_def byte_def)
    with False ct parse_int_digits [OF assms, of "nat i"] none show ?thesis by (simp add: itoa_def parse_num_def)
  qed
qed

lemma itoa_first: "\<exists>c t. itoa i = c # t \<and> (is_digit c \<or> c = CHR ''-'')"
proof (cases "i < 0")
  case False
  with nat_digits_digits [of "nat i"] show ?thesis by (cases "nat_digits (nat i)") (auto simp: itoa_def)
qed (simp add: itoa_def)

section \<open>Values\<close>

text \<open>The values in question; \<open>d\<close> bounds the nesting.\<close>

fun json_ok :: "nat \<Rightarrow> json \<Rightarrow> bool" where
  "json_ok d JNull = True"
| "json_ok d (JBool b) = True"
| "json_ok d (JNum n) = (\<exists>i. n = itoa i)"
| "json_ok d (JStr s) = valid_utf8 s"
| "json_ok d (JArr js) = (0 < d \<and> (\<forall>j \<in> set js. json_ok (d - 1) j))"
| "json_ok d (JObj ms) = (0 < d \<and> (\<forall>m \<in> set ms. valid_utf8 (fst m) \<and> json_ok (d - 1) (snd m)))"

lemma skip_ws_id: "\<not> is_ws c \<Longrightarrow> skip_ws (c # s) = c # s"
  by (simp add: skip_ws_def)

lemma digit_not_ws: "is_digit c \<or> c = CHR ''-'' \<Longrightarrow>
    \<not> is_ws c \<and> c \<noteq> CHR 0x22 \<and> c \<noteq> CHR ''['' \<and> c \<noteq> CHR '']'' \<and> c \<noteq> CHR ''{'' \<and>
    c \<noteq> CHR ''t'' \<and> c \<noteq> CHR ''f'' \<and> c \<noteq> CHR ''n''"
  by (auto simp: is_digit_def byte_def is_ws_def)

lemma json_print_first:
  assumes "json_ok d j"
  obtains c t where "json_print j = c # t" "\<not> is_ws c" "c \<noteq> CHR '']''"
proof (cases j)
  case (JNum n)
  with assms obtain i where "n = itoa i" by auto
  moreover obtain c t where "itoa i = c # t" "is_digit c \<or> c = CHR ''-''" using itoa_first by blast
  ultimately show thesis using that [of c t] JNum digit_not_ws [of c] by simp
next
  case (JBool b)
  then show thesis using that by (cases b) (auto simp: is_ws_def)
qed (use that in \<open>auto simp: json_string_def is_ws_def\<close>)

lemma json_print_elems_first:
  assumes "js \<noteq> []" "json_ok d (hd js)"
  obtains c t where "json_print_elems js = c # t" "\<not> is_ws c" "c \<noteq> CHR '']''"
proof -
  from json_print_first [OF assms(2)] obtain c t where "json_print (hd js) = c # t" "\<not> is_ws c" "c \<noteq> CHR '']''" .
  then show thesis using that assms(1) by (cases js rule: json_print_elems.cases) auto
qed

lemma parse_more_fuel:
  assumes "f \<le> g"
  shows "parse_elems f d s = Some x \<Longrightarrow> parse_elems g d s = Some x"
    and "parse_members f d s = Some y \<Longrightarrow> parse_members g d s = Some y"
  using assms by (induction rule: dec_induct) (auto intro: parse_mono(2,3))

text \<open>An element and what comes after it, given enough fuel for both.\<close>

lemma parse_elems_Cons:
  assumes "parse_value f d s = Some (j, CHR '','' # t)" "parse_elems g d t = Some (js, rest)"
  shows "\<exists>h. parse_elems h d s = Some (j # js, rest)"
proof -
  let ?m = "max f g"
  have "parse_value ?m d s = Some (j, CHR '','' # t)" by (rule parse_value_mono [OF assms(1)]) simp
  moreover have "parse_elems ?m d t = Some (js, rest)" by (rule parse_more_fuel(1) [OF _ assms(2)]) simp
  ultimately have "parse_elems (Suc ?m) d s = Some (j # js, rest)" by (simp add: parse_elems_step skip_ws_id is_ws_def)
  then show ?thesis ..
qed

lemma parse_elems_last:
  "parse_value f d s = Some (j, CHR '']'' # rest) \<Longrightarrow> \<exists>h. parse_elems h d s = Some ([j], rest)"
  by (rule exI [of _ "Suc f"]) (simp add: parse_elems_step skip_ws_id is_ws_def)

lemma parse_member:
  assumes "valid_utf8 k"
  shows "parse_members (Suc f) d (json_string k @ CHR '':'' # s) = Option.bind (parse_value f d s) (after_member k f d)"
proof -
  let ?t = "json_escape k @ CHR 0x22 # CHR '':'' # s"
  have "parse_str (Suc (length k + length ?t)) ?t = Some (k, CHR '':'' # s)"
    by (rule parse_json_escape [OF assms]) simp
  moreover have "parse_str (Suc (length ?t)) ?t = parse_str (Suc (length k + length ?t)) ?t"
    by (rule parse_str_enough) simp_all
  ultimately have "parse_str (Suc (length ?t)) ?t = Some (k, CHR '':'' # s)" by simp
  then show ?thesis
    by (simp add: parse_members.simps(2) json_string_def skip_ws_id is_ws_def split: option.split)
qed

lemma parse_members_Cons:
  assumes "valid_utf8 k" "parse_value f d s = Some (j, CHR '','' # t)" "parse_members g d t = Some (ms, rest)"
  shows "\<exists>h. parse_members h d (json_string k @ CHR '':'' # s) = Some ((k, j) # ms, rest)"
proof -
  let ?m = "max f g"
  have "parse_value ?m d s = Some (j, CHR '','' # t)" by (rule parse_value_mono [OF assms(2)]) simp
  moreover have "parse_members ?m d t = Some (ms, rest)" by (rule parse_more_fuel(2) [OF _ assms(3)]) simp
  ultimately have "parse_members (Suc ?m) d (json_string k @ CHR '':'' # s) = Some ((k, j) # ms, rest)"
    by (simp add: parse_member [OF assms(1)] skip_ws_id is_ws_def)
  then show ?thesis ..
qed

lemma parse_members_last:
  "valid_utf8 k \<Longrightarrow> parse_value f d s = Some (j, CHR ''}'' # rest) \<Longrightarrow>
   \<exists>h. parse_members h d (json_string k @ CHR '':'' # s) = Some ([(k, j)], rest)"
  by (rule exI [of _ "Suc f"]) (simp add: parse_member skip_ws_id is_ws_def)

lemma parse_string_value:
  assumes "valid_utf8 s"
  shows "parse_value (Suc 0) d (json_string s @ rest) = Some (JStr s, rest)"
proof -
  let ?t = "json_escape s @ CHR 0x22 # rest"
  have "parse_str (Suc (length s + length ?t)) ?t = Some (s, rest)"
    by (rule parse_json_escape [OF assms]) simp
  moreover have "parse_str (Suc (length ?t)) ?t = parse_str (Suc (length s + length ?t)) ?t"
    by (rule parse_str_enough) simp_all
  ultimately show ?thesis by (simp add: parse_value.simps(2) json_string_def skip_ws_id is_ws_def)
qed

lemma parse_number_value:
  assumes "delimited rest"
  shows "parse_value (Suc 0) d (itoa i @ rest) = Some (JNum (itoa i), rest)"
proof -
  from itoa_first [of i] obtain c t where ct: "itoa i = c # t" and c: "is_digit c \<or> c = CHR ''-''" by blast
  from digit_not_ws [OF c] ct parse_num_itoa [OF assms, of i] show ?thesis
    by (simp add: parse_value.simps(2) skip_ws_id)
qed

text \<open>An array or an object whose first element or member is already known to parse.\<close>

lemma parse_array_value:
  assumes "parse_elems f d t = Some (js, rest)" "t = c # u" "\<not> is_ws c" "c \<noteq> CHR '']''"
  shows "parse_value (Suc f) (Suc d) (CHR ''['' # t) = Some (JArr js, rest)"
  using assms by (simp add: parse_value.simps(2) skip_ws_id is_ws_def [of "CHR ''[''"])

lemma parse_object_value:
  assumes "parse_members f d (CHR 0x22 # u) = Some (ms, rest)"
  shows "parse_value (Suc f) (Suc d) (CHR ''{'' # CHR 0x22 # u) = Some (JObj ms, rest)"
  using assms by (simp add: parse_value.simps(2) skip_ws_id is_ws_def)

lemma json_print_parse:
  "json_ok d j \<Longrightarrow> delimited rest \<Longrightarrow> \<exists>f. parse_value f d (json_print j @ rest) = Some (j, rest)"
  "js \<noteq> [] \<Longrightarrow> \<forall>j \<in> set js. json_ok d j \<Longrightarrow>
     \<exists>f. parse_elems f d (json_print_elems js @ CHR '']'' # rest) = Some (js, rest)"
  "ms \<noteq> [] \<Longrightarrow> \<forall>m \<in> set ms. valid_utf8 (fst m) \<and> json_ok d (snd m) \<Longrightarrow>
     \<exists>f. parse_members f d (json_print_members ms @ CHR ''}'' # rest) = Some (ms, rest)"
proof (induction j and js and ms arbitrary: d rest and d rest and d rest
    rule: json_print_json_print_elems_json_print_members.induct)
  case 1
  show ?case by (rule exI [of _ 1]) (simp add: parse_value.simps(2) skip_ws_id is_ws_def)
next
  case (2 b)
  show ?case by (rule exI [of _ 1]) (cases b; simp add: parse_value.simps(2) skip_ws_id is_ws_def)
next
  case (3 n)
  then show ?case using parse_number_value by auto
next
  case (4 s)
  then show ?case using parse_string_value by auto
next
  case (5 js)
  from "5.prems"(1) obtain e where d: "d = Suc e" by (cases d) auto
  show ?case
  proof (cases "js = []")
    case True
    then show ?thesis using d
      by (intro exI [of _ "Suc 0"]) (simp add: parse_value.simps(2) skip_ws_id is_ws_def)
  next
    case False
    with "5.prems"(1) d have ok: "\<forall>j \<in> set js. json_ok e j" by simp
    from "5.IH" [OF False ok] obtain f where
      f: "parse_elems f e (json_print_elems js @ CHR '']'' # rest) = Some (js, rest)" by blast
    from False ok json_print_elems_first [of js e] obtain c t where
      "json_print_elems js = c # t" "\<not> is_ws c" "c \<noteq> CHR '']''" by (metis list.set_sel(1))
    with parse_array_value [OF f, of c "t @ CHR '']'' # rest"] d show ?thesis by auto
  qed
next
  case (6 ms)
  from "6.prems"(1) obtain e where d: "d = Suc e" by (cases d) auto
  show ?case
  proof (cases "ms = []")
    case True
    then show ?thesis using d
      by (intro exI [of _ "Suc 0"]) (simp add: parse_value.simps(2) skip_ws_id is_ws_def)
  next
    case False
    with "6.prems"(1) d have ok: "\<forall>m \<in> set ms. valid_utf8 (fst m) \<and> json_ok e (snd m)" by simp
    from "6.IH" [OF False ok] obtain f where
      f: "parse_members f e (json_print_members ms @ CHR ''}'' # rest) = Some (ms, rest)" by blast
    obtain t where t: "json_print_members ms = CHR 0x22 # t"
      using False by (cases ms rule: json_print_members.cases) (auto simp: json_string_def)
    with parse_object_value [of f e "t @ CHR ''}'' # rest" ms rest] f d show ?thesis by auto
  qed
next
  case (8 j)
  from "8.IH" [of d "CHR '']'' # rest"] "8.prems" obtain f
    where "parse_value f d (json_print j @ CHR '']'' # rest) = Some (j, CHR '']'' # rest)" by auto
  then show ?case using parse_elems_last by simp
next
  case (9 j k js)
  let ?t = "json_print_elems (k # js) @ CHR '']'' # rest"
  from "9.IH"(1) [of d "CHR '','' # ?t"] "9.prems" obtain f
    where f: "parse_value f d (json_print j @ CHR '','' # ?t) = Some (j, CHR '','' # ?t)" by auto
  from "9.IH"(2) [of d rest] "9.prems" obtain g where g: "parse_elems g d ?t = Some (k # js, rest)" by auto
  from parse_elems_Cons [OF f g] show ?case by simp
next
  case (11 k j)
  from "11.IH" [of d "CHR ''}'' # rest"] "11.prems" obtain f
    where "parse_value f d (json_print j @ CHR ''}'' # rest) = Some (j, CHR ''}'' # rest)" by auto
  with parse_members_last [of k] "11.prems" show ?case by simp
next
  case (12 k j m ms)
  let ?t = "json_print_members (m # ms) @ CHR ''}'' # rest"
  from "12.IH"(1) [of d "CHR '','' # ?t"] "12.prems" obtain f
    where f: "parse_value f d (json_print j @ CHR '','' # ?t) = Some (j, CHR '','' # ?t)" by auto
  from "12.IH"(2) [of d rest] "12.prems" obtain g where g: "parse_members g d ?t = Some (m # ms, rest)" by auto
  from parse_members_Cons [OF _ f g, of k] "12.prems" show ?case by simp
qed simp_all

lemma json_round_trip: "json_ok max_depth j \<Longrightarrow> json_parse (json_print j) = Some j"
  using json_print_parse(1) [of max_depth j "[]"] by (fastforce simp: json_parse_fuel skip_ws_def)

end
