(* ===== verification/Go_Flags.thy ===== *)
theory Go_Flags imports Operator_Main Json_Roundtrip "HOL-Library.Word" begin

text \<open>
  The command line of the operator (\<open>main.go\<close>): its flags over Go's flag package, the integers of
  strconv over 64-bit words with their overflow checks, and the program as a function of its arguments.
  The flags that libraries register (zap's and glog's) are a parameter: whether the flag is a boolean, and
  the error its setter returns for a value.
\<close>

section \<open>Integers\<close>

datatype num_error = Num_Syntax | Num_Range

text \<open>The verb \<open>%v\<close> of the errors as the flag package reports them.\<close>

fun num_error_msg :: "num_error \<Rightarrow> string" where
  "num_error_msg Num_Syntax = ''parse error''"
| "num_error_msg Num_Range = ''value out of range''"

definition digit_value :: "char \<Rightarrow> nat option" where
  "digit_value c =
     (if is_digit c then Some (byte c - 48)
      else if 97 \<le> byte (lower_char c) \<and> byte (lower_char c) \<le> 122 then Some (byte (lower_char c) - 87)
      else None)"

text \<open>The loop of \<open>strconv.ParseUint\<close> in a base found by its prefix: the value so far, and whether a \<open>_\<close> was seen.\<close>

fun uint_loop :: "nat \<Rightarrow> 64 word \<Rightarrow> bool \<Rightarrow> string \<Rightarrow> num_error + 64 word \<times> bool" where
  "uint_loop base n underscores [] = Inr (n, underscores)"
| "uint_loop base n underscores (c # s) =
     (if c = CHR ''_'' then uint_loop base n True s
      else
        (case digit_value c of
           None \<Rightarrow> Inl Num_Syntax
         | Some d \<Rightarrow>
             if base \<le> d then Inl Num_Syntax
             else if (- 1) div of_nat base + 1 \<le> n then Inl Num_Range
             else
               (let n0 = n * of_nat base; n1 = n0 + of_nat d in
                if n1 < n0 then Inl Num_Range else uint_loop base n1 underscores s)))"

definition number_base :: "string \<Rightarrow> nat \<times> string" where
  "number_base s =
     (case s of
        [] \<Rightarrow> (10, [])
      | z # t \<Rightarrow>
          if z \<noteq> CHR ''0'' then (10, s)
          else if length s < 3 then (8, t)
          else if lower_char (hd t) = CHR ''b'' then (2, tl t)
          else if lower_char (hd t) = CHR ''o'' then (8, tl t)
          else if lower_char (hd t) = CHR ''x'' then (16, tl t)
          else (8, t))"

text \<open>What \<open>underscoreOK\<close> saw last.\<close>

datatype saw = Saw_Start | Saw_Digit | Saw_Underscore | Saw_Other

fun underscore_loop :: "bool \<Rightarrow> saw \<Rightarrow> string \<Rightarrow> bool" where
  "underscore_loop hex w [] = (w \<noteq> Saw_Underscore)"
| "underscore_loop hex w (c # s) =
     (if is_digit c \<or> hex \<and> 97 \<le> byte (lower_char c) \<and> byte (lower_char c) \<le> 102 then underscore_loop hex Saw_Digit s
      else if c = CHR ''_'' then w = Saw_Digit \<and> underscore_loop hex Saw_Underscore s
      else w \<noteq> Saw_Underscore \<and> underscore_loop hex Saw_Other s)"

definition underscoreOK :: "string \<Rightarrow> bool" where
  "underscoreOK s0 =
     (let s = (case s0 of c # t \<Rightarrow> if c = CHR ''-'' \<or> c = CHR ''+'' then t else s0 | [] \<Rightarrow> []) in
      case s of
        z # p # t \<Rightarrow>
          if z = CHR ''0'' \<and> (lower_char p = CHR ''b'' \<or> lower_char p = CHR ''o'' \<or> lower_char p = CHR ''x'')
          then underscore_loop (lower_char p = CHR ''x'') Saw_Digit t
          else underscore_loop False Saw_Start s
      | _ \<Rightarrow> underscore_loop False Saw_Start s)"

definition ParseUint :: "string \<Rightarrow> num_error + 64 word" where
  "ParseUint s =
     (if s = '''' then Inl Num_Syntax
      else
        (case number_base s of
           (base, t) \<Rightarrow>
             (case uint_loop base 0 False t of
                Inl e \<Rightarrow> Inl e
              | Inr (n, underscores) \<Rightarrow> if underscores \<and> \<not> underscoreOK s then Inl Num_Syntax else Inr n)))"

text \<open>\<open>strconv.ParseInt(s, 0, 64)\<close>; \<open>2 ^ 63\<close> is the cutoff of the sign.\<close>

definition ParseInt :: "string \<Rightarrow> num_error + int" where
  "ParseInt s =
     (case s of
        [] \<Rightarrow> Inl Num_Syntax
      | c # t \<Rightarrow>
          (let neg = (c = CHR ''-''); body = (if c = CHR ''+'' \<or> neg then t else s) in
           case ParseUint body of
             Inl e \<Rightarrow> Inl e
           | Inr un \<Rightarrow>
               if \<not> neg \<and> 2 ^ 63 \<le> un then Inl Num_Range
               else if neg \<and> 2 ^ 63 < un then Inl Num_Range
               else Inr (sint (if neg then - un else un))))"

definition ParseBool :: "string \<Rightarrow> bool option" where
  "ParseBool s =
     (if List.member [''1'', ''t'', ''T'', ''true'', ''TRUE'', ''True''] s then Some True
      else if List.member [''0'', ''f'', ''F'', ''false'', ''FALSE'', ''False''] s then Some False
      else None)"

section \<open>The flags\<close>

text \<open>The variables of \<open>main\<close> that flags set.\<close>

record start_flags =
  sf_metrics_addr :: string
  sf_probe_addr :: string
  sf_config_path :: string
  sf_leader_elect :: bool
  sf_max_concurrent_reconciles :: int

definition default_flags :: start_flags where
  "default_flags =
     \<lparr>sf_metrics_addr = '':8080'', sf_probe_addr = '':8081'', sf_config_path = '''', sf_leader_elect = False,
      sf_max_concurrent_reconciles = DefaultMaxConcurrentReconciles\<rparr>"

text \<open>A flag: whether it is a boolean one, and its setter, which returns the message of its error.\<close>

type_synonym flag_def = "bool \<times> (string \<Rightarrow> start_flags \<Rightarrow> string + start_flags)"

type_synonym library_flags = "string \<Rightarrow> (bool \<times> (string \<Rightarrow> string option)) option"

definition set_bool :: "string \<Rightarrow> start_flags \<Rightarrow> string + start_flags" where
  "set_bool v fl =
     (case ParseBool v of None \<Rightarrow> Inl ''parse error'' | Some b \<Rightarrow> Inr (fl\<lparr>sf_leader_elect := b\<rparr>))"

definition set_int :: "string \<Rightarrow> start_flags \<Rightarrow> string + start_flags" where
  "set_int v fl =
     (case ParseInt v of Inl e \<Rightarrow> Inl (num_error_msg e) | Inr i \<Rightarrow> Inr (fl\<lparr>sf_max_concurrent_reconciles := i\<rparr>))"

definition formal_flag :: "library_flags \<Rightarrow> string \<Rightarrow> flag_def option" where
  "formal_flag lib name =
     (if name = ''metrics-bind-address'' then Some (False, \<lambda>v fl. Inr (fl\<lparr>sf_metrics_addr := v\<rparr>))
      else if name = ''health-probe-bind-address'' then Some (False, \<lambda>v fl. Inr (fl\<lparr>sf_probe_addr := v\<rparr>))
      else if name = ''config'' then Some (False, \<lambda>v fl. Inr (fl\<lparr>sf_config_path := v\<rparr>))
      else if name = ''leader-elect'' then Some (True, set_bool)
      else if name = ''MaxConcurrentReconciles'' then Some (False, set_int)
      else map_option (\<lambda>(is_bool, setter). (is_bool, \<lambda>v fl. case setter v of Some e \<Rightarrow> Inl e | None \<Rightarrow> Inr fl)) (lib name))"

text \<open>What an argument is to \<open>parseOne\<close>: a flag has a name and, after \<open>=\<close>, perhaps a value.\<close>

datatype argument = Not_Flag | Flag_Terminator | Bad_Flag | Flag string "string option"

definition classify_argument :: "string \<Rightarrow> argument" where
  "classify_argument s =
     (if length s < 2 \<or> hd s \<noteq> CHR ''-'' then Not_Flag
      else if s = ''--'' then Flag_Terminator
      else
        (let name = (if s ! 1 = CHR ''-'' then drop 2 s else drop 1 s) in
         if name = [] \<or> hd name = CHR ''-'' \<or> hd name = CHR ''='' then Bad_Flag
         else (case cut_at (CHR ''='') name of None \<Rightarrow> Flag name None | Some (n, v) \<Rightarrow> Flag n (Some v))))"

datatype flag_error = Flag_Help | Flag_Failed string

fun parse_flags :: "library_flags \<Rightarrow> start_flags \<Rightarrow> string list \<Rightarrow> flag_error + start_flags \<times> string list" where
  "parse_flags lib fl [] = Inr (fl, [])"
| "parse_flags lib fl (s # args) =
     (case classify_argument s of
        Not_Flag \<Rightarrow> Inr (fl, s # args)
      | Flag_Terminator \<Rightarrow> Inr (fl, args)
      | Bad_Flag \<Rightarrow> Inl (Flag_Failed (''bad flag syntax: '' @ s))
      | Flag name given \<Rightarrow>
          (case formal_flag lib name of
             None \<Rightarrow>
               Inl (if name = ''help'' \<or> name = ''h'' then Flag_Help
                    else Flag_Failed (''flag provided but not defined: -'' @ name))
           | Some (True, setter) \<Rightarrow>
               (case setter (case given of Some v \<Rightarrow> v | None \<Rightarrow> ''true'') fl of
                  Inl e \<Rightarrow>
                    Inl (Flag_Failed
                      (case given of
                         Some v \<Rightarrow> ''invalid boolean value '' @ go_quote v @ '' for -'' @ name @ '': '' @ e
                       | None \<Rightarrow> ''invalid boolean flag '' @ name @ '': '' @ e))
                | Inr fl' \<Rightarrow> parse_flags lib fl' args)
           | Some (False, setter) \<Rightarrow>
               (case given of
                  Some v \<Rightarrow>
                    (case setter v fl of
                       Inl e \<Rightarrow> Inl (Flag_Failed (''invalid value '' @ go_quote v @ '' for flag -'' @ name @ '': '' @ e))
                     | Inr fl' \<Rightarrow> parse_flags lib fl' args)
                | None \<Rightarrow>
                    (case args of
                       [] \<Rightarrow> Inl (Flag_Failed (''flag needs an argument: -'' @ name))
                     | v # rest \<Rightarrow>
                         (case setter v fl of
                            Inl e \<Rightarrow> Inl (Flag_Failed (''invalid value '' @ go_quote v @ '' for flag -'' @ name @ '': '' @ e))
                          | Inr fl' \<Rightarrow> parse_flags lib fl' rest)))))"

section \<open>The program\<close>

text \<open>
  \<open>flag.Parse\<close> leaves the program with code 2 on an error and 0 on a call for help.  \<open>start dir\<close> is
  what the libraries answer when the configuration is looked for in the directory \<open>dir\<close>.
\<close>

datatype program = Exited nat string | Ran "string + operator"

definition main_program :: "library_flags \<Rightarrow> (string \<Rightarrow> startup) \<Rightarrow> string list \<Rightarrow> program" where
  "main_program lib start args =
     (case parse_flags lib default_flags args of
        Inl Flag_Help \<Rightarrow> Exited 0 ''flag: help requested''
      | Inl (Flag_Failed message) \<Rightarrow> Exited 2 message
      | Inr (fl, rest) \<Rightarrow>
          Ran (main ((start (sf_config_path fl))
            \<lparr>su_max_concurrent_reconciles := sf_max_concurrent_reconciles fl, su_leader_elect := sf_leader_elect fl\<rparr>)))"

text \<open>The arguments of the deployment of the operator.\<close>

definition manager_args :: "string \<Rightarrow> string \<Rightarrow> string list" where
  "manager_args logLevel maxConcurrent =
     [''--leader-elect'', ''--zap-log-level='' @ logLevel, ''--MaxConcurrentReconciles='' @ maxConcurrent,
      ''--config'', ''/home/config'']"

section \<open>Integers: the loop is exact\<close>

definition digits_value :: "nat \<Rightarrow> string \<Rightarrow> nat" where
  "digits_value m ds = foldl (\<lambda>a c. 10 * a + (byte c - 48)) m ds"

lemma digits_value_simps [simp]:
  "digits_value m [] = m"
  "digits_value m (c # ds) = digits_value (10 * m + (byte c - 48)) ds"
  "digits_value m (ds @ es) = digits_value (digits_value m ds) es"
  by (simp_all add: digits_value_def)

lemma digits_value_mono: "m \<le> digits_value m ds"
proof (induction ds arbitrary: m)
  case (Cons c ds)
  have "m \<le> 10 * m + (byte c - 48)" by simp
  also have "\<dots> \<le> digits_value (10 * m + (byte c - 48)) ds" by (rule Cons)
  finally show ?case by simp
qed simp

lemma digits_value_nat_digits: "digits_value 0 (nat_digits n) = n"
proof (induction n rule: nat_digits.induct)
  case (1 n)
  then show ?case by (simp add: nat_digits.simps [of n] byte_digit_char)
qed

text \<open>The two overflow checks of a step catch exactly the values from \<open>2 ^ 64\<close> on.\<close>

lemma uint_cutoff: "(- 1 :: 64 word) div of_nat 10 + 1 = 1844674407370955162"
  by simp

lemma wrapped_sum:
  fixes x d :: nat
  assumes "x < 2 ^ 64" "d < 10"
  shows "((x + d) mod 2 ^ 64 < x) = (2 ^ 64 \<le> x + d)"
proof (cases "2 ^ 64 \<le> x + d")
  case True
  with assms have "(x + d) mod 2 ^ 64 = x + d - 2 ^ 64" by (simp add: le_mod_geq)
  with True assms show ?thesis by simp
qed simp

lemma uint_step:
  fixes w :: "64 word"
  assumes "d < 10"
  shows "(1844674407370955162 \<le> w) = (2 ^ 64 \<le> 10 * unat w)"
    "\<not> 1844674407370955162 \<le> w \<Longrightarrow> unat (w * 10) = 10 * unat w"
    "\<not> 1844674407370955162 \<le> w \<Longrightarrow> (w * 10 + of_nat d < w * 10) = (2 ^ 64 \<le> 10 * unat w + d)"
    "10 * unat w + d < 2 ^ 64 \<Longrightarrow> unat (w * 10 + of_nat d) = 10 * unat w + d"
proof -
  show a: "(1844674407370955162 \<le> w) = (2 ^ 64 \<le> 10 * unat w)"
    by (simp add: word_le_nat_alt) linarith
  show b: "unat (w * 10) = 10 * unat w" if "\<not> 1844674407370955162 \<le> w"
    using that a by (subst unat_mult_lem [THEN iffD1]) (simp_all add: mult.commute)
  have "unat (of_nat d :: 64 word) = d" using assms by (simp add: unat_of_nat)
  then show "(w * 10 + of_nat d < w * 10) = (2 ^ 64 \<le> 10 * unat w + d)" if "\<not> 1844674407370955162 \<le> w"
    using b [OF that] a that wrapped_sum [OF _ assms, of "10 * unat w"]
    by (simp add: word_less_nat_alt unat_word_ariths mult.commute)
  show "unat (w * 10 + of_nat d) = 10 * unat w + d" if "10 * unat w + d < 2 ^ 64"
    using that by (simp add: unat_word_ariths unat_of_nat mult.commute)
qed

lemma digit_value_digit: "is_digit c \<Longrightarrow> digit_value c = Some (byte c - 48) \<and> byte c - 48 < 10 \<and> c \<noteq> CHR ''_''"
  by (auto simp: digit_value_def is_digit_def byte_def)

lemma uint_loop_digits:
  "list_all is_digit ds \<Longrightarrow>
   uint_loop 10 w us ds =
     (if digits_value (unat w) ds < 2 ^ 64 then Inr (of_nat (digits_value (unat w) ds), us) else Inl Num_Range)"
proof (induction ds arbitrary: w)
  case (Cons c ds)
  define d where "d = byte c - 48"
  have c: "digit_value c = Some d" "d < 10" "c \<noteq> CHR ''_''"
    using digit_value_digit [of c] Cons.prems by (simp_all add: d_def)
  have over: "digits_value (unat w) (c # ds) \<ge> 2 ^ 64" if "2 ^ 64 \<le> 10 * unat w + d"
    using order_trans [OF that digits_value_mono [of _ ds]] by (simp add: d_def)
  show ?case
  proof (cases "10 * unat w + d < 2 ^ 64")
    case True
    then have "\<not> 1844674407370955162 \<le> w" using uint_step(1) [OF c(2), of w] by linarith
    with True uint_step [OF c(2), of w] c Cons uint_cutoff show ?thesis
      by (simp add: Let_def d_def [symmetric])
  next
    case False
    with over have "\<not> digits_value (unat w) (c # ds) < 2 ^ 64" by simp
    with False uint_step [OF c(2), of w] c uint_cutoff show ?thesis
      by (simp add: Let_def d_def [symmetric])
  qed
next
  case Nil
  have "unat w < 2 ^ LENGTH(64)" by (rule unsigned_less)
  then show ?case by simp
qed

lemma ParseUint_digits:
  "ParseUint (nat_digits n) = (if n < 2 ^ 64 then Inr (of_nat n) else Inl Num_Range)"
proof (cases "n = 0")
  case True
  have "nat_digits 0 = ''0''" by (simp add: nat_digits.simps [of 0] digit_char_def char_ofI)
  with True show ?thesis by (simp add: ParseUint_def number_base_def)
next
  case False
  obtain c t where ct: "nat_digits n = c # t" using nat_digits_digits [of n] by (cases "nat_digits n") auto
  with False nat_digits_hd [of n] have "number_base (nat_digits n) = (10, nat_digits n)"
    by (simp add: number_base_def)
  with uint_loop_digits [of "nat_digits n" 0 False] nat_digits_digits [of n] digits_value_nat_digits [of n] ct
  show ?thesis by (simp add: ParseUint_def)
qed

lemma sint_fits: "- (2 ^ 63) \<le> i \<Longrightarrow> i < 2 ^ 63 \<Longrightarrow> sint (of_int i :: 64 word) = i"
  by (simp add: sint_sbintrunc' signed_take_bit_int_eq_self)

lemma digits_sign: "nat_digits n = c # t \<Longrightarrow> c \<noteq> CHR ''+'' \<and> c \<noteq> CHR ''-''"
  using nat_digits_digits [of n] by (auto simp: is_digit_def byte_def)

lemma unat_big: "n < 2 ^ 64 \<Longrightarrow> (2 ^ 63 \<le> (of_nat n :: 64 word)) = (2 ^ 63 \<le> n)"
  "n < 2 ^ 64 \<Longrightarrow> (2 ^ 63 < (of_nat n :: 64 word)) = (2 ^ 63 < n)"
  by (simp_all add: word_le_nat_alt word_less_nat_alt unat_of_nat)

text \<open>\<open>strconv.ParseInt\<close> reads back every integer that fits, and refuses every other.\<close>

lemma ParseInt_itoa:
  "ParseInt (itoa i) = (if - (2 ^ 63) \<le> i \<and> i < 2 ^ 63 then Inr i else Inl Num_Range)"
proof (cases "i < 0")
  case True
  define n where "n = nat (- i)"
  have i: "i = - int n" "0 < n" using True by (simp_all add: n_def)
  have "- (of_nat n :: 64 word) = of_int i" by (simp add: i)
  then show ?thesis
    using True i ParseUint_digits [of n] unat_big(2) [of n] sint_fits [of i]
    by (simp add: ParseInt_def itoa_def Let_def split: if_splits)
next
  case False
  define n where "n = nat i"
  have i: "i = int n" using False by (simp add: n_def)
  obtain c t where ct: "nat_digits n = c # t" using nat_digits_digits [of n] by (cases "nat_digits n") auto
  have "(of_nat n :: 64 word) = of_int i" by (simp add: i)
  then show ?thesis
    using False i ct digits_sign [OF ct] ParseUint_digits [of n] unat_big(1) [of n] sint_fits [of i]
    by (simp add: ParseInt_def itoa_def Let_def split: if_splits)
qed

section \<open>The flags of the operator\<close>

text \<open>
  A boolean flag takes no second argument: \<open>--leader-elect false\<close> switches the election on, and the word
  after it ends the flags.
\<close>

lemma leader_elect_takes_no_argument:
  "parse_flags lib fl (''--leader-elect'' # ''false'' # args) = Inr (fl\<lparr>sf_leader_elect := True\<rparr>, ''false'' # args)"
  by (simp add: classify_argument_def formal_flag_def set_bool_def ParseBool_def Let_def)

lemma leader_elect_with_value:
  "parse_flags lib fl (''--leader-elect=false'' # args) = parse_flags lib (fl\<lparr>sf_leader_elect := False\<rparr>) args"
  by (simp add: classify_argument_def formal_flag_def set_bool_def ParseBool_def Let_def)

lemma classify_long_flag:
  assumes "name \<noteq> []" "hd name \<noteq> CHR ''-''" "CHR ''='' \<notin> set name"
  shows "classify_argument (''--'' @ name) = Flag name None"
    "classify_argument (''--'' @ name @ ''='' @ v) = Flag name (Some v)"
proof -
  obtain c t where ct: "name = c # t" using assms(1) by (cases name) auto
  have cut: "cut_at (CHR ''='') name = None" "cut_at (CHR ''='') (name @ CHR ''='' # v) = Some (name, v)"
    using assms(3) by (simp_all add: cut_at_None cut_at_append)
  show "classify_argument (''--'' @ name) = Flag name None"
    "classify_argument (''--'' @ name @ ''='' @ v) = Flag name (Some v)"
    using assms ct cut by (auto simp: classify_argument_def Let_def)
qed

lemma manager_flags:
  assumes "lib ''zap-log-level'' = Some (False, setter)" "setter level = None"
  shows "parse_flags lib default_flags (manager_args level n) =
     (case ParseInt n of
        Inl e \<Rightarrow> Inl (Flag_Failed (''invalid value '' @ go_quote n @ '' for flag -MaxConcurrentReconciles: '' @ num_error_msg e))
      | Inr i \<Rightarrow>
          Inr (default_flags\<lparr>sf_leader_elect := True, sf_max_concurrent_reconciles := i, sf_config_path := ''/home/config''\<rparr>, []))"
proof -
  have "classify_argument ''--leader-elect'' = Flag ''leader-elect'' None"
    "classify_argument ''--config'' = Flag ''config'' None"
    "classify_argument (''--zap-log-level='' @ level) = Flag ''zap-log-level'' (Some level)"
    "classify_argument (''--MaxConcurrentReconciles='' @ n) = Flag ''MaxConcurrentReconciles'' (Some n)"
    using classify_long_flag(1) [of "''leader-elect''"] classify_long_flag(1) [of "''config''"]
      classify_long_flag(2) [of "''zap-log-level''" level] classify_long_flag(2) [of "''MaxConcurrentReconciles''" n]
    by simp_all
  then show ?thesis
    using assms
    by (simp add: manager_args_def formal_flag_def set_bool_def ParseBool_def set_int_def split: sum.split)
qed

lemma main_keeps_flags:
  "main (s\<lparr>su_max_concurrent_reconciles := n, su_leader_elect := b\<rparr>) = Inr opr \<Longrightarrow>
     op_max_concurrent_reconciles opr = n \<and> op_leader_elect opr = b"
  by (auto simp: main_def split: if_splits sum.splits)

section \<open>Properties\<close>

text \<open>
  C39: The number of concurrent reconciles is the integer of the command line, or the operator does not
  start.  With the arguments of its deployment and any integer written in decimal, the program runs with
  exactly that integer, with leader election and with the configuration of \<open>/home/config\<close>, if the integer
  fits into 64 bits with a sign; otherwise it ends with code 2 and says that the value is out of range: the
  loop of \<open>ParseUint\<close> over 64-bit words never wraps around unnoticed.
\<close>

theorem concurrency_flag_exact:
  assumes "lib ''zap-log-level'' = Some (False, setter)" "setter level = None"
  shows "main_program lib start (manager_args level (itoa i)) =
      (if - (2 ^ 63) \<le> i \<and> i < 2 ^ 63
       then Ran (main ((start ''/home/config'')\<lparr>su_max_concurrent_reconciles := i, su_leader_elect := True\<rparr>))
       else Exited 2 (''invalid value '' @ go_quote (itoa i) @ '' for flag -MaxConcurrentReconciles: value out of range''))
    \<and> (case main_program lib start (manager_args level (itoa i)) of
         Ran (Inr opr) \<Rightarrow> op_max_concurrent_reconciles opr = i \<and> op_leader_elect opr
       | _ \<Rightarrow> True)"
  using manager_flags [of lib setter level "itoa i"] assms
  by (auto simp: main_program_def ParseInt_itoa main_keeps_flags split: sum.split)

text \<open>A library with the flag of zap's log level, and the arguments with the defaults of \<open>params.env\<close>.\<close>

definition zap_level :: "string \<Rightarrow> string option" where
  "zap_level v = (if v = ''info'' then None else Some ''invalid log level'')"

definition zap_only :: library_flags where
  "zap_only name = (if name = ''zap-log-level'' then Some (False, zap_level) else None)"

theorem concurrency_flag_exact_witness:
  "(\<forall>start. main_program zap_only start
      [''--leader-elect'', ''--zap-log-level=info'', ''--MaxConcurrentReconciles=10'', ''--config'', ''/home/config''] =
    Ran (main ((start ''/home/config'')\<lparr>su_max_concurrent_reconciles := 10, su_leader_elect := True\<rparr>))) \<and>
   (\<forall>start. \<exists>message. main_program zap_only start
      [''--leader-elect'', ''--zap-log-level=info'', ''--MaxConcurrentReconciles=9223372036854775808'', ''--config'', ''/home/config''] =
    Exited 2 message)"
proof -
  have lib: "zap_only ''zap-log-level'' = Some (False, zap_level)" "zap_level ''info'' = None"
    by (simp_all add: zap_only_def zap_level_def)
  have ten: "itoa 10 = ''10''" "itoa 9223372036854775808 = ''9223372036854775808''"
    by (simp_all add: itoa_def nat_digits.simps digit_char_def char_ofI)
  have args: "manager_args ''info'' ''10'' =
      [''--leader-elect'', ''--zap-log-level=info'', ''--MaxConcurrentReconciles=10'', ''--config'', ''/home/config'']"
    "manager_args ''info'' ''9223372036854775808'' =
      [''--leader-elect'', ''--zap-log-level=info'', ''--MaxConcurrentReconciles=9223372036854775808'', ''--config'', ''/home/config'']"
    by (simp_all add: manager_args_def)
  have "main_program zap_only start (manager_args ''info'' (itoa 10)) =
      Ran (main ((start ''/home/config'')\<lparr>su_max_concurrent_reconciles := 10, su_leader_elect := True\<rparr>))" for start
    using concurrency_flag_exact [of zap_only zap_level "''info''" start 10] lib by simp
  moreover have "\<exists>message. main_program zap_only start (manager_args ''info'' (itoa 9223372036854775808)) = Exited 2 message" for start
    using concurrency_flag_exact [of zap_only zap_level "''info''" start 9223372036854775808] lib by simp
  ultimately show ?thesis unfolding ten args by blast
qed

end
