(* ===== verification/Manager_Options.thy ===== *)
theory Manager_Options imports Go_Flags Cache_Labels begin

text \<open>
  The options \<open>main\<close> gives the manager (\<open>main.go\<close>): its servers, its lease, and the rules of its caches,
  which keep some objects only, change others and are passed by for three kinds.  The lemmas relate the
  rules to the filters of \<open>Operator_Main\<close> and to what the controller's event handlers look at.
\<close>

section \<open>The options\<close>

datatype transform = Strip_Managed_Fields | Strip_ConfigMap_Data | Strip_Secret_Data

fun apply_transform :: "transform \<Rightarrow> cached_object \<Rightarrow> cached_object" where
  "apply_transform Strip_Managed_Fields = stripManagedFields"
| "apply_transform Strip_ConfigMap_Data = stripConfigMapData"
| "apply_transform Strip_Secret_Data = stripSecretData"

text \<open>\<open>cache.ByObject\<close>: a field selector on the name, a label selector or a transform.\<close>

datatype cache_rule =
    Select_Name string
  | Select_Label_Exists string
  | Select_Label string string
  | Transform_With transform

record manager_options =
  mo_metrics_addr :: string
  mo_metrics_tls :: "tls_opt list"
  mo_webhook_port :: int
  mo_webhook_tls :: "tls_opt list"
  mo_probe_addr :: string
  mo_leader_election :: bool
  mo_leader_election_id :: string
  mo_lease :: "int \<times> int \<times> int"
  mo_default_transform :: transform
  mo_by_object :: "(string \<times> cache_rule) list"
  mo_disable_for :: "string list"

definition dspFilter :: cache_rule where
  "dspFilter = Select_Label_Exists DSPVersionk8sLabel"

definition mgrOpts :: "start_flags \<Rightarrow> tls_result \<Rightarrow> manager_options" where
  "mgrOpts fl tls =
     \<lparr>mo_metrics_addr = sf_metrics_addr fl,
      mo_metrics_tls = tls_opts tls,
      mo_webhook_port = 9443,
      mo_webhook_tls = tls_opts tls,
      mo_probe_addr = sf_probe_addr fl,
      mo_leader_election = sf_leader_elect fl,
      mo_leader_election_id = ''f9eb95d5.opendatahub.io'',
      mo_lease = leaseDurations,
      mo_default_transform = Strip_Managed_Fields,
      mo_by_object =
        [(''ValidatingWebhookConfiguration'', Select_Name webhookConfigName),
         (''MutatingWebhookConfiguration'', Select_Name webhookConfigName),
         (''Service'', dspFilter),
         (''ServiceAccount'', dspFilter),
         (''PersistentVolumeClaim'', dspFilter),
         (''Role'', dspFilter),
         (''RoleBinding'', dspFilter),
         (''Route'', dspFilter),
         (''Pod'', Select_Label DSPComponentk8sLabel DSPComponentk8sLabelValue),
         (''ConfigMap'', Transform_With Strip_ConfigMap_Data),
         (''Secret'', Transform_With Strip_Secret_Data)],
      mo_disable_for = [''ConfigMap'', ''Secret''] @ [''MLflow'']\<rparr>"

section \<open>What the caches do\<close>

text \<open>Whether an object of a kind is kept, and what is stored of it; the transform of a rule replaces the default.\<close>

definition keeps :: "manager_options \<Rightarrow> string \<Rightarrow> string \<Rightarrow> go_map \<Rightarrow> bool" where
  "keeps mo kind name labels =
     (case map_of (mo_by_object mo) kind of
        Some (Select_Name n) \<Rightarrow> name = n
      | Some (Select_Label_Exists k) \<Rightarrow> map_of labels k \<noteq> None
      | Some (Select_Label k v) \<Rightarrow> map_of labels k = Some v
      | _ \<Rightarrow> True)"

definition stores :: "manager_options \<Rightarrow> string \<Rightarrow> cached_object \<Rightarrow> cached_object" where
  "stores mo kind =
     apply_transform
       (case map_of (mo_by_object mo) kind of Some (Transform_With t) \<Rightarrow> t | _ \<Rightarrow> mo_default_transform mo)"

definition reads_through :: "manager_options \<Rightarrow> string \<Rightarrow> bool" where
  "reads_through mo kind = (\<not> List.member (mo_disable_for mo) kind)"

fun kind_name :: "obj_kind \<Rightarrow> string" where
  "kind_name KDeployment = ''Deployment''"
| "kind_name KSecret = ''Secret''"
| "kind_name KConfigMap = ''ConfigMap''"
| "kind_name KService = ''Service''"
| "kind_name KRoute = ''Route''"
| "kind_name KServiceAccount = ''ServiceAccount''"
| "kind_name KClusterRole = ''ClusterRole''"
| "kind_name KClusterRoleBinding = ''ClusterRoleBinding''"
| "kind_name KMutatingWebhook = ''MutatingWebhookConfiguration''"
| "kind_name KValidatingWebhook = ''ValidatingWebhookConfiguration''"
| "kind_name KMLflow = ''MLflow''"

fun object_kind :: "cached_object \<Rightarrow> obj_kind" where
  "object_kind (Cached_ConfigMap m d b) = KConfigMap"
| "object_kind (Cached_Secret m d s) = KSecret"
| "object_kind (Cached_Other k m) = k"

section \<open>The rules and the filters\<close>

text \<open>The rules of the manager are the filters and transforms that the other theories use.\<close>

lemma keeps_kept: "keeps (mgrOpts fl tls) (kind_name k) name labels = kept_in_cache k name labels"
  by (cases k)
    (simp_all add: keeps_def mgrOpts_def dspFilter_def kept_in_cache_def label_filtered_def webhook_filter_def)

lemma reads_through_direct: "reads_through (mgrOpts fl tls) (kind_name k) = (\<not> read_directly k)"
  by (cases k) (simp_all add: reads_through_def mgrOpts_def read_directly_def)

lemma stores_transform:
  assumes "\<And>k m. x = Cached_Other k m \<Longrightarrow> k \<noteq> KConfigMap \<and> k \<noteq> KSecret"
  shows "stores (mgrOpts fl tls) (kind_name (object_kind x)) x = cache_transform x"
proof (cases x)
  case (Cached_Other k m)
  with assms show ?thesis
    by (cases k) (simp_all add: stores_def mgrOpts_def dspFilter_def cache_transform_def)
qed (simp_all add: stores_def mgrOpts_def dspFilter_def cache_transform_def)

lemma keeps_pod:
  "keeps (mgrOpts fl tls) ''Pod'' name labels = (map_of labels DSPComponentk8sLabel = Some DSPComponentk8sLabelValue)"
  by (simp add: keeps_def mgrOpts_def dspFilter_def)

lemma keeps_service: "keeps (mgrOpts fl tls) ''Service'' name labels = (map_of labels DSPVersionk8sLabel \<noteq> None)"
  using keeps_kept [of fl tls KService name labels]
  by (simp add: kept_in_cache_def label_filtered_def webhook_filter_def)

section \<open>Handlers behind the caches\<close>

text \<open>The reads of services as the manager's client answers them: what the cache does not keep is not found.\<close>

definition behind_cache :: "manager_options \<Rightarrow> env \<Rightarrow> env" where
  "behind_cache mo env =
     env\<lparr>e_get_service := (\<lambda>h nn.
       case e_get_service env h nn of
         Inl e \<Rightarrow> Inl e
       | Inr sv \<Rightarrow>
           if keeps mo ''Service'' (sv_name sv) (sv_labels sv) then Inr sv
           else Inl (Api_Err ReasonNotFound ''not found''))\<rparr>"

lemma supported_labelled: "HasSupportedDSPVersionLabel labels \<Longrightarrow> map_of labels DSPVersionk8sLabel \<noteq> None"
  by (auto simp: HasSupportedDSPVersionLabel_def split: option.splits)

lemma hidden_pod_asks_nothing:
  "pod_requests p = (if keeps (mgrOpts fl tls) ''Pod'' (po_name p) (po_labels p) then pod_requests p else [])"
  by (simp add: keeps_pod pod_requests_def)

lemma hidden_service_asks_nothing:
  "fst (secret_requests (behind_cache (mgrOpts fl tls) env) s w) = fst (secret_requests env s w)"
  by (auto simp: secret_requests_def behind_cache_def attempt_def get_service_def call_def ret_def Let_def keeps_service
      split: sum.splits option.splits dest!: supported_labelled)

end
