(* ===== verification/Event_Routing.thy ===== *)
theory Event_Routing imports Operator_Run Manager_Options begin

text \<open>
  Which events wake the controller: \<open>SetupWithManager\<close> (\<open>controllers/dspipeline_controller.go\<close>), the
  registration of the API types (\<open>api/v1/groupversion_info.go\<close>), and what the transforms of the caches
  (\<open>main.go\<close>) leave for the event handlers to see.  The handler that finds the owner of an object belongs
  to controller-runtime and is a parameter.
\<close>

section \<open>The API types\<close>

text \<open>A kind with its group and version; the types of this API are registered in \<open>dspipeline_types.go\<close>.\<close>

definition GroupVersion :: "string \<times> string" where
  "GroupVersion = (''datasciencepipelinesapplications.opendatahub.io'', ''v1'')"

definition dspaKind :: string where
  "dspaKind = ''DataSciencePipelinesApplication''"

text \<open>A builder holds the version and the kinds that were registered with it.\<close>

type_synonym scheme_builder = "(string \<times> string) \<times> string list"

definition SchemeBuilder :: scheme_builder where
  "SchemeBuilder = (GroupVersion, [])"

definition api_init :: "scheme_builder \<Rightarrow> scheme_builder" where
  "api_init b = (fst b, snd b @ [dspaKind, ''DataSciencePipelinesApplicationList''])"

text \<open>A scheme is the list of the kinds it knows, with their groups and versions.\<close>

definition AddToScheme :: "scheme_builder \<Rightarrow> (string \<times> string \<times> string) list \<Rightarrow> (string \<times> string \<times> string) list" where
  "AddToScheme b scheme = scheme @ map (\<lambda>kind. (fst (fst b), snd (fst b), kind)) (snd b)"

text \<open>\<open>GroupVersion.String()\<close>, and \<open>ParseGroupVersion\<close> of an owner's version, which has no group without a slash.\<close>

definition gv_string :: "string \<times> string \<Rightarrow> string" where
  "gv_string gv = (fst gv @ ''/'' @ snd gv)"

definition group_of :: "string \<Rightarrow> string" where
  "group_of apiVersion = (case cut_at (CHR ''/'') apiVersion of None \<Rightarrow> '''' | Some (grp, version) \<Rightarrow> grp)"

section \<open>The controller\<close>

text \<open>The kinds the controller is for, owns and maps to requests.\<close>

record controller_setup =
  cs_for :: string
  cs_owns :: "string list"
  cs_maps :: "string list"
  cs_max_concurrent_reconciles :: int

definition SetupWithManager :: "(string list \<Rightarrow> 'f) \<Rightarrow> 'f option \<Rightarrow> string list \<Rightarrow> int \<Rightarrow> 'f \<times> controller_setup" where
  "SetupWithManager newFetcher manifestFetcher allowedRegistries maxConcurrentReconciles =
     (case manifestFetcher of None \<Rightarrow> newFetcher allowedRegistries | Some f \<Rightarrow> f,
      \<lparr>cs_for = dspaKind,
       cs_owns = [''Deployment'', ''Secret'', ''ConfigMap'', ''Service'', ''ServiceAccount'', ''PersistentVolumeClaim'',
                  ''NetworkPolicy'', ''Role'', ''RoleBinding'', ''Route''],
       cs_maps = [''ConfigMap'', ''Pod'', ''Secret''],
       cs_max_concurrent_reconciles = maxConcurrentReconciles\<rparr>)"

datatype event_detail = Of_ConfigMap config_map | Of_Pod pod | Of_Secret secret | Of_Other

record object_event =
  oe_kind :: string
  oe_namespace :: string
  oe_name :: string
  oe_owners :: "owner_reference list"
  oe_detail :: event_detail

text \<open>The requests of an event: the object itself, its owner, and what the handler of its kind finds.\<close>

definition mapped_requests :: "env \<Rightarrow> event_detail \<Rightarrow> namespaced_name list action" where
  "mapped_requests env d =
     (case d of
        Of_ConfigMap c \<Rightarrow> ca_bundle_requests env c
      | Of_Pod p \<Rightarrow> ret (pod_requests p)
      | Of_Secret s \<Rightarrow> secret_requests env s
      | Of_Other \<Rightarrow> ret [])"

definition requests_for ::
  "env \<Rightarrow> (string \<Rightarrow> owner_reference list \<Rightarrow> namespaced_name list) \<Rightarrow> controller_setup \<Rightarrow> object_event \<Rightarrow>
   namespaced_name list action" where
  "requests_for env ownerHandler cs e =
     and_then (if List.member (cs_maps cs) (oe_kind e) then mapped_requests env (oe_detail e) else ret []) (\<lambda>mapped.
     ret ((if oe_kind e = cs_for cs then [nsname (oe_namespace e) (oe_name e)] else []) @
          (if List.member (cs_owns cs) (oe_kind e) then ownerHandler (oe_namespace e) (oe_owners e) else []) @ mapped))"

text \<open>
  What \<open>EnqueueRequestForOwner\<close> promises: of the references it takes the first that is a controller's,
  and asks for its name in the object's namespace if group and kind are those of the controller.
\<close>

definition owner_handler :: "(string \<Rightarrow> owner_reference list \<Rightarrow> namespaced_name list) \<Rightarrow> bool" where
  "owner_handler h \<longleftrightarrow>
     (\<forall>ns ors. h ns ors =
        (case find (\<lambda>x. or_controller x = Some True) ors of
           None \<Rightarrow> []
         | Some x \<Rightarrow>
             if group_of (or_api_version x) = fst GroupVersion \<and> or_kind x = dspaKind then [nsname ns (or_name x)] else []))"

definition configmap_event :: "config_map \<Rightarrow> object_event" where
  "configmap_event c =
     \<lparr>oe_kind = ''ConfigMap'', oe_namespace = cm_namespace c, oe_name = cm_name c,
      oe_owners = cm_owner_references c, oe_detail = Of_ConfigMap c\<rparr>"

lemma group_of_gv: "group_of (gv_string GroupVersion) = fst GroupVersion"
  by (simp add: group_of_def gv_string_def GroupVersion_def)

lemma api_types_known:
  "(fst GroupVersion, snd GroupVersion, dspaKind) \<in> set (AddToScheme (api_init SchemeBuilder) scheme)"
  by (simp add: AddToScheme_def api_init_def SchemeBuilder_def)

lemma own_configmap_requests:
  assumes "own_ca_configmap d c" "owner_handler h"
  shows "requests_for env h (snd (SetupWithManager new f allowed n)) (configmap_event c) w =
     (Ok (if group_of (d_api_version d) = fst GroupVersion \<and> d_kind d = dspaKind
          then [nsname (d_namespace d) (d_name d)] else []), w)"
proof -
  have "h ns ors = (case find (\<lambda>x. or_controller x = Some True) ors of
           None \<Rightarrow> []
         | Some x \<Rightarrow>
             if group_of (or_api_version x) = fst GroupVersion \<and> or_kind x = dspaKind then [nsname ns (or_name x)] else [])"
    for ns ors using assms(2) by (simp add: owner_handler_def)
  moreover have "cm_name c \<noteq> globalCaBundleName"
    using assms(1) by (simp add: own_ca_configmap_def globalCaBundleName_def)
  then have "ca_bundle_requests env c = ret []" by (simp add: ca_bundle_requests_def)
  ultimately show ?thesis
    using assms(1)
    by (simp add: requests_for_def SetupWithManager_def configmap_event_def mapped_requests_def own_ca_configmap_def
        ret_and_then dspaKind_def) (simp add: ret_def)
qed


section \<open>What the handlers see of a cached object\<close>

text \<open>
  The objects of an event come from the caches, so they went through the transforms of \<open>main.go\<close>.  A
  cached config map or secret of the API server's, and what a handler gets of it.
\<close>

definition cached_secret :: "secret \<Rightarrow> cached_object" where
  "cached_secret s =
     Cached_Secret \<lparr>cmeta_annotations = Some (se_annotations s), cmeta_labels = [], cmeta_managed_fields = []\<rparr>
       (Some (se_data s)) None"

fun seen_annotations :: "cached_object \<Rightarrow> go_map" where
  "seen_annotations (Cached_ConfigMap m d b) = (case cmeta_annotations m of None \<Rightarrow> [] | Some a \<Rightarrow> a)"
| "seen_annotations (Cached_Secret m d s) = (case cmeta_annotations m of None \<Rightarrow> [] | Some a \<Rightarrow> a)"
| "seen_annotations (Cached_Other k m) = (case cmeta_annotations m of None \<Rightarrow> [] | Some a \<Rightarrow> a)"

definition seen_secret :: "secret \<Rightarrow> secret" where
  "seen_secret s = s\<lparr>se_annotations := seen_annotations (cache_transform (cached_secret s)), se_data := []\<rparr>"

lemma map_of_filter_key: "P k \<Longrightarrow> map_of (filter (\<lambda>(k, v). P k) m) k = map_of m k"
  by (induction m) auto

lemma secret_handler_cached: "secret_requests env (seen_secret s) = secret_requests env s"
proof -
  have keep: "map_of (filter (\<lambda>(k, v). k \<noteq> lastAppliedAnnotation) m) k = map_of m k" if "k \<noteq> lastAppliedAnnotation"
    for m :: go_map and k using map_of_filter_key [of "\<lambda>k. k \<noteq> lastAppliedAnnotation" k m] that by simp
  have keys: "''openshift.io/owning-component'' \<noteq> lastAppliedAnnotation"
    "''service.beta.openshift.io/originating-service-name'' \<noteq> lastAppliedAnnotation"
    by (simp_all add: lastAppliedAnnotation_def)
  have seen: "se_namespace (seen_secret s) = se_namespace s"
    "k \<noteq> lastAppliedAnnotation \<Longrightarrow> map_of (se_annotations (seen_secret s)) k = map_of (se_annotations s) k" for k
    by (simp_all add: seen_secret_def cached_secret_def cache_transform_def strip_meta_def keep)
  show ?thesis unfolding secret_requests_def seen(1) seen(2) [OF keys(1)] seen(2) [OF keys(2)] ..
qed

text \<open>An event that writes a config map leads, when the config map changes, to a request for the resource alone.\<close>

fun wakes_owner ::
  "env \<Rightarrow> (string \<Rightarrow> owner_reference list \<Rightarrow> namespaced_name list) \<Rightarrow> controller_setup \<Rightarrow> dspa \<Rightarrow> world \<Rightarrow> event \<Rightarrow> bool" where
  "wakes_owner env h cs d v (Ev_Create_ConfigMap c ok) \<longleftrightarrow>
     requests_for env h cs (configmap_event c) v = (Ok [nsname (d_namespace d) (d_name d)], v)"
| "wakes_owner env h cs d v (Ev_Update_ConfigMap c ok) \<longleftrightarrow>
     requests_for env h cs (configmap_event c) v = (Ok [nsname (d_namespace d) (d_name d)], v)"
| "wakes_owner env h cs d v _ \<longleftrightarrow> True"

lemma extract_event_wakes:
  assumes "extract_event d e" "owner_handler h" "d_api_version d = gv_string GroupVersion" "d_kind d = dspaKind"
  shows "wakes_owner env h (snd (SetupWithManager new f allowed n)) d v e"
  using assms own_configmap_requests [of d _ h env new f allowed n v] group_of_gv by (cases e) simp_all

section \<open>Properties\<close>

text \<open>
  C11: What a reconcile writes wakes its resource.  Every config map that computing the parameters creates or
  updates carries an owner reference by which, with controller-runtime's documented owner handler, a later
  event on it asks for exactly that resource, provided the resource has the group and kind of the API; and
  the manager's caches hide nothing that matters from the other handlers: the pods they do not keep ask for
  nothing, and the handler of service certificates asks for the same resources when it gets the stripped
  secret and only finds the services that are kept.
\<close>

theorem published_bundle_wakes_owner:
  assumes "owner_handler h"
    and "d_api_version (cur_dspa w) = gv_string GroupVersion" "d_kind (cur_dspa w) = dspaKind"
  shows "(\<exists>evs. w_history (snd (ExtractParams env w)) = w_history w @ evs \<and>
       list_all (wakes_owner env h (snd (SetupWithManager new f allowed n)) (cur_dspa w) v) evs) \<and>
     pod_requests p = (if keeps (mgrOpts fl tls) ''Pod'' (po_name p) (po_labels p) then pod_requests p else []) \<and>
     fst (secret_requests (behind_cache (mgrOpts fl tls) env) (seen_secret s) v) = fst (secret_requests env s v)"
proof -
  from ExtractParams_frame [where env = env and w = w] obtain evs
    where evs: "w_history (snd (ExtractParams env w)) = w_history w @ evs" "list_all (extract_event (cur_dspa w)) evs"
    by (auto split: prod.splits)
  from evs(2) have "list_all (wakes_owner env h (snd (SetupWithManager new f allowed n)) (cur_dspa w) v) evs"
    by (rule list.pred_mono_strong) (rule extract_event_wakes [OF _ assms])
  with evs(1) show ?thesis
    unfolding hidden_service_asks_nothing secret_handler_cached
    using hidden_pod_asks_nothing [of p fl tls] by blast
qed

text \<open>The documented handler, and the resource of the examples with the version of the API.\<close>

definition first_owner :: "string \<Rightarrow> owner_reference list \<Rightarrow> namespaced_name list" where
  "first_owner ns refs =
     (case find (\<lambda>x. or_controller x = Some True) refs of
        None \<Rightarrow> []
      | Some x \<Rightarrow>
          if group_of (or_api_version x) = fst GroupVersion \<and> or_kind x = dspaKind then [nsname ns (or_name x)] else [])"

lemma first_owner_handler: "owner_handler first_owner"
  by (simp add: owner_handler_def first_owner_def)

theorem published_bundle_wakes_owner_witness:
  "(\<exists>evs. w_history (snd (ExtractParams sample_env sample_world)) = evs \<and>
      list_all (wakes_owner sample_env first_owner (snd (SetupWithManager id None [] 1)) sample_dspa sample_world) evs) \<and>
   requests_for sample_env first_owner (snd (SetupWithManager id None [] 1))
     (configmap_event (ca_configmap sample_dspa (empty_params\<lparr>p_namespace := ''ns''\<rparr>)
        \<lparr>cab_configmap_name = ''dsp-trusted-ca-sample'', cab_configmap_key = ''ca.crt''\<rparr>)) sample_world =
     (Ok [nsname ''ns'' ''sample''], sample_world)"
proof -
  have d: "d_name sample_dspa = ''sample''" "d_namespace sample_dspa = ''ns''" "d_kind sample_dspa = dspaKind"
    "d_api_version sample_dspa = gv_string GroupVersion" "cur_dspa sample_world = sample_dspa" "w_history sample_world = []"
    by (simp_all add: sample_dspa_def dspaKind_def gv_string_def GroupVersion_def cur_dspa_def sample_world_def)
  have "own_ca_configmap sample_dspa (ca_configmap sample_dspa (empty_params\<lparr>p_namespace := ''ns''\<rparr>)
        \<lparr>cab_configmap_name = ''dsp-trusted-ca-sample'', cab_configmap_key = ''ca.crt''\<rparr>)"
    by (simp add: own_ca_configmap_def ca_configmap_def d)
  from own_configmap_requests [OF this first_owner_handler] have
    "requests_for sample_env first_owner (snd (SetupWithManager id None [] 1))
       (configmap_event (ca_configmap sample_dspa (empty_params\<lparr>p_namespace := ''ns''\<rparr>)
          \<lparr>cab_configmap_name = ''dsp-trusted-ca-sample'', cab_configmap_key = ''ca.crt''\<rparr>)) sample_world =
       (Ok [nsname ''ns'' ''sample''], sample_world)" by (simp add: d group_of_gv)
  with published_bundle_wakes_owner [OF first_owner_handler, of sample_world sample_env id None "[]" 1 sample_world]
  show ?thesis by (simp add: d)
qed

text \<open>
  A resource that comes without a kind gets the bare version \<open>v1\<close> from \<open>stub_gvk\<close>: its config map names an
  owner of the core group, which the handler does not look for.
\<close>

lemma stubbed_owner_not_found:
  assumes "d_kind (w_dspa w) = ''''"
  shows "group_of (d_api_version (cur_dspa (snd (stub_gvk w)))) = ''''"
    "own_ca_configmap (cur_dspa (snd (stub_gvk w))) c \<Longrightarrow> owner_handler h \<Longrightarrow>
       requests_for env h (snd (SetupWithManager new f allowed n)) (configmap_event c) v = (Ok [], v)"
proof -
  have s: "cur_dspa (snd (stub_gvk w)) = (w_dspa w)\<lparr>d_api_version := ''v1'', d_kind := dspaKind\<rparr>"
    using assms by (simp add: stub_gvk_def and_then_def attempt_def gets_op_def modify_op_def cur_dspa_def dspaKind_def)
  then show g: "group_of (d_api_version (cur_dspa (snd (stub_gvk w)))) = ''''" by (simp add: group_of_def)
  assume "own_ca_configmap (cur_dspa (snd (stub_gvk w))) c" "owner_handler h"
  from own_configmap_requests [OF this] show
    "requests_for env h (snd (SetupWithManager new f allowed n)) (configmap_event c) v = (Ok [], v)"
    unfolding g by (simp add: GroupVersion_def)
qed

end
