(* ===== verification/Operator_Scheme.thy ===== *)
theory Operator_Scheme imports Event_Routing begin

text \<open>
  What is there before the first reconcile: the types and gauges that \<open>init\<close> of \<open>main.go\<close> registers, the
  reconciler \<open>main\<close> builds, and its counterpart for the unit tests
  (\<open>controllers/dspipeline_fake_controller.go\<close>).  The types a library registers, or the error of its
  registration, are a parameter.
\<close>

section \<open>Types\<close>

type_synonym scheme = "(string \<times> string \<times> string) list"

type_synonym scheme_libraries = "string \<Rightarrow> gerr + scheme"

text \<open>\<open>utilruntime.Must\<close> of a library's registration panics with its error.\<close>

definition must_add :: "scheme_libraries \<Rightarrow> string \<Rightarrow> (scheme, unit) op" where
  "must_add lib name =
     (case lib name of
        Inl e \<Rightarrow> panic (err_msg e)
      | Inr kinds \<Rightarrow> modify_op (\<lambda>s. s @ kinds))"

definition add_api :: "(scheme, unit) op" where
  "add_api = modify_op (AddToScheme (api_init SchemeBuilder))"

definition main_init :: "scheme_libraries \<Rightarrow> (scheme, gauge list) op" where
  "main_init lib =
     and_then (for_each (must_add lib) [''clientgoscheme'', ''buildv1'', ''imagev1'', ''routev1'', ''configv1'']) (\<lambda>_.
     and_then add_api (\<lambda>_.
     and_then (must_add lib ''mlflowv1'') (\<lambda>_.
     ret InitMetrics)))"

section \<open>The reconciler\<close>

record 'f reconciler =
  rc_scheme :: scheme
  rc_templates_path :: string
  rc_max_concurrent_reconciles :: int
  rc_webhook_annotations :: "string \<rightharpoonup> string"
  rc_manifest_fetcher :: "'f option"
  rc_allowed_registries :: "string list"
  rc_mlflow_endpoint_cache_ttl :: int
  rc_mlflow_endpoint_cache :: mlflow_cache

definition main_reconciler :: "scheme \<Rightarrow> operator \<Rightarrow> 'f reconciler" where
  "main_reconciler scheme opr =
     \<lparr>rc_scheme = scheme,
      rc_templates_path = op_templates_path opr,
      rc_max_concurrent_reconciles = op_max_concurrent_reconciles opr,
      rc_webhook_annotations = op_webhook_annotations opr,
      rc_manifest_fetcher = None,
      rc_allowed_registries = op_allowed_registries opr,
      rc_mlflow_endpoint_cache_ttl = op_mlflow_cache_ttl opr,
      rc_mlflow_endpoint_cache = Map.empty\<rparr>"

section \<open>The reconciler of the unit tests\<close>

text \<open>A fake client over an empty store, with the kinds whose status is a subresource.\<close>

record fake_client =
  fk_scheme :: scheme
  fk_status_subresource :: "string list"

definition NewFakeController :: "scheme_libraries \<Rightarrow> (fake_client \<times> 'f reconciler) res" where
  "NewFakeController lib =
     (case and_then (for_each (must_add lib) [''clientgoscheme'', ''buildv1'', ''imagev1'', ''routev1'']) (\<lambda>_. add_api) [] of
        (Panic q, fakeScheme) \<Rightarrow> Panic q
      | (Err e, fakeScheme) \<Rightarrow> Err e
      | (Ok u, fakeScheme) \<Rightarrow>
          Ok (\<lparr>fk_scheme = fakeScheme, fk_status_subresource = [dspaKind]\<rparr>,
              \<lparr>rc_scheme = fakeScheme, rc_templates_path = ''../config/internal/'', rc_max_concurrent_reconciles = 0,
               rc_webhook_annotations = Map.empty, rc_manifest_fetcher = None, rc_allowed_registries = [],
               rc_mlflow_endpoint_cache_ttl = 0, rc_mlflow_endpoint_cache = Map.empty\<rparr>))"

definition CreateNewTestObjects :: "scheme_libraries \<Rightarrow> (dspa_params \<times> fake_client \<times> 'f reconciler) res" where
  "CreateNewTestObjects lib =
     (case NewFakeController lib of
        Ok (client, reconciler) \<Rightarrow> Ok (empty_params\<lparr>p_mlflow_resolver_set := True\<rparr>, client, reconciler)
      | Err e \<Rightarrow> Err e
      | Panic q \<Rightarrow> Panic q)"

text \<open>\<open>read\<close> is the client's \<open>Get\<close> for the type of the object.\<close>

definition IsResourceCreated :: "(namespaced_name \<Rightarrow> ('s, 'a) op) \<Rightarrow> string \<Rightarrow> string \<Rightarrow> ('s, bool) op" where
  "IsResourceCreated read name namespace =
     attempt (read (nsname namespace name))
       (\<lambda>err. if is_not_found err then ret False else fail err)
       (\<lambda>obj. ret True)"

section \<open>Lemmas\<close>

lemma must_add_Ok: "must_add lib name s = (Ok u, s') \<longleftrightarrow> (\<exists>kinds. lib name = Inr kinds \<and> s' = s @ kinds)"
  by (auto simp: must_add_def panic_def modify_op_def split: sum.split)

lemma api_types_added: "(fst GroupVersion, snd GroupVersion, dspaKind) \<in> set (snd (add_api s))"
  using api_types_known by (simp add: add_api_def modify_op_def)

text \<open>A program that gets past \<open>init\<close> knows the API's types, and its gauges are registered, each once.\<close>

lemma main_init_ready:
  assumes "main_init lib s = (Ok gauges, s')"
  shows "(fst GroupVersion, snd GroupVersion, dspaKind) \<in> set s' \<and> gauges = InitMetrics \<and> distinct gauges"
proof -
  have "distinct InitMetrics" by code_simp
  moreover from assms have "gauges = InitMetrics \<and> (fst GroupVersion, snd GroupVersion, dspaKind) \<in> set s'"
    using api_types_known
    by (auto simp: main_init_def and_then_def attempt_def ret_def add_api_def modify_op_def must_add_Ok fail_def split: res.splits prod.splits)
  ultimately show ?thesis by blast
qed

lemma fake_controller_ready:
  assumes "NewFakeController lib = Ok (client, rc)"
  shows "(fst GroupVersion, snd GroupVersion, dspaKind) \<in> set (rc_scheme rc) \<and> rc_scheme rc = fk_scheme client"
  using assms api_types_known
  by (auto simp: NewFakeController_def and_then_def attempt_def add_api_def modify_op_def fail_def split: res.splits prod.splits)

text \<open>An object counts as created if it was read, as absent if it was not found; any other error is returned.\<close>

lemma IsResourceCreated_cases:
  "IsResourceCreated read name namespace s =
     (case read (nsname namespace name) s of
        (Ok obj, s') \<Rightarrow> (Ok True, s')
      | (Err e, s') \<Rightarrow> (if is_not_found e then Ok False else Err e, s')
      | (Panic q, s') \<Rightarrow> (Panic q, s'))"
  by (simp add: IsResourceCreated_def attempt_def ret_def fail_def split: res.split prod.split)

lemma reads_IsResourceCreated: "(\<And>nn. reads (read nn)) \<Longrightarrow> reads (IsResourceCreated read name namespace)"
  unfolding IsResourceCreated_def by (intro reads_intros)

end
