(* ===== verification/Marshalled.thy ===== *)
theory Marshalled imports Json_Roundtrip Database Api_Server begin

text \<open>
  Where one part of the program writes JSON and another reads it: the sample configuration for the API
  server, and the extra parameters of the database, which \<open>SetupDBParams\<close> writes and the health check
  decodes.
\<close>

section \<open>Strings and maps that survive\<close>

lemma valid_utf8_ascii: "list_all (\<lambda>c. byte c < 0x80) s \<Longrightarrow> valid_utf8 s"
proof (induction s)
  case (Cons c s)
  then have "utf8_len (c # s) = 1" by simp
  with Cons show ?case by (simp add: valid_utf8.simps(2) Let_def del: utf8_len.simps)
qed (simp add: valid_utf8.simps)

definition valid_entry :: "go_map \<Rightarrow> bool" where
  "valid_entry m \<longleftrightarrow> list_all (\<lambda>(k, v). valid_utf8 k \<and> valid_utf8 v) m"

lemma json_ok_map: "0 < d \<Longrightarrow> valid_entry m \<Longrightarrow> json_ok d (json_of_map m)"
  by (auto simp: json_of_map_def valid_entry_def list_all_iff)

lemma string_members_map:
  "string_members (map (\<lambda>(k, v). (k, JStr v)) m) f = Inr (f ++ map_of (rev m))"
proof (induction m arbitrary: f)
  case (Cons kv m)
  obtain k v where "kv = (k, v)" by fastforce
  moreover have "(f(k \<mapsto> v)) ++ map_of (rev m) = f ++ map_of (rev m @ [(k, v)])"
    by (auto simp: fun_eq_iff map_add_def split: option.splits)
  ultimately show ?case by (simp add: Cons.IH fun_upd_def del: map_of_append)
qed simp

lemma map_of_sorted:
  fixes m :: "(string \<times> 'a) list"
  assumes "distinct (map fst m)"
  shows "map_of (rev (sort_key fst m)) = map_of m"
proof -
  have "mset (map fst (sort_key fst m)) = mset (map fst m)" by simp
  then have "distinct (map fst (sort_key fst m))" using assms mset_eq_imp_distinct_iff by blast
  then have "distinct (map fst (rev (sort_key fst m)))" by (simp add: rev_map [symmetric])
  then show ?thesis using assms by (simp add: map_of_inject_set)
qed

lemma unmarshal_marshal_map:
  assumes "valid_entry m" "distinct (map fst m)"
  shows "unmarshal_string_map (json_print (json_of_map m)) = Inr (map_of m)"
proof -
  have "json_parse (json_print (json_of_map m)) = Some (json_of_map m)"
    by (rule json_round_trip) (simp add: json_ok_map assms(1) max_depth_def)
  then show ?thesis
    by (simp add: unmarshal_string_map_def json_of_map_def string_members_map map_of_sorted assms(2) flip: rev_map)
qed

lemma unmarshal_tls_json: "unmarshal_string_map (tls_json b) = Inr [''tls'' \<mapsto> if b then ''true'' else ''false'']"
proof -
  have "valid_utf8 ''tls''" "valid_utf8 ''true''" "valid_utf8 ''false''"
    by (rule valid_utf8_ascii; simp add: byte_def)+
  then show ?thesis
    unfolding tls_json_def by (subst unmarshal_marshal_map) (auto simp: valid_entry_def fun_eq_iff)
qed

section \<open>Properties\<close>

text \<open>
  C35: The API server reads the sample configuration as it was meant.  When \<open>generateSampleConfigJSON\<close>
  yields a text and the entries are well-formed text, the text parses, and as the object with
  \<open>loadSamplesOnRestart\<close> set and the list of exactly these entries, in their order.
\<close>

theorem sample_config_round_trip:
  assumes "generateSampleConfigJSON v a platformVersion = Inr sample"
    and "sample_entries v a platformVersion = Inr items"
    and "list_all valid_entry items"
  shows "json_parse sample =
     Some (JObj [(''loadSamplesOnRestart'', JBool True), (''pipelines'', JArr (map json_of_map items))])"
proof -
  let ?j = "JObj [(''loadSamplesOnRestart'', JBool True), (''pipelines'', JArr (map json_of_map items))]"
  have sample: "sample = json_print ?j"
    using assms(1,2) by (simp add: generateSampleConfigJSON_def)
  have "valid_utf8 ''loadSamplesOnRestart''" "valid_utf8 ''pipelines''"
    by (rule valid_utf8_ascii; simp add: byte_def)+
  moreover have "json_ok (max_depth - 2) (json_of_map item)" if "item \<in> set items" for item
    using that assms(3) by (intro json_ok_map) (auto simp: list_all_iff max_depth_def)
  ultimately have "json_ok max_depth ?j" by (auto simp: max_depth_def)
  then show ?thesis unfolding sample by (rule json_round_trip)
qed

text \<open>The entries of the witness: two managed pipelines and no sample pipeline.\<close>

definition two_pipelines :: api_server where
  "two_pipelines =
     sample_api_server\<lparr>as_managed_pipelines :=
       Some \<lparr>mps_image = ''quay.io/pipelines'', mps_pipelines = [\<lparr>mp_name = ''train''\<rparr>, \<lparr>mp_name = ''serve''\<rparr>],
             mps_resources = None, mps_volume_size_limit = ''''\<rparr>\<rparr>"

definition two_entries :: "go_map list" where
  "two_entries =
     [sample_item ''train'' ''/config/managed-pipelines/train.yaml'' '''' ''v1'' '''',
      sample_item ''serve'' ''/config/managed-pipelines/serve.yaml'' '''' ''v1'' '''']"

lemma two_pipelines_entries: "sample_entries sample_viper two_pipelines ''v1'' = Inr two_entries"
  by (simp add: sample_entries_def two_pipelines_def two_entries_def sample_api_server_def Let_def
      managedPipelineSampleEntry_def GenerateSamplePipelineMetadataBlock_def GetStringConfig_def sample_viper_def
      metadata_key_def to_lower_def equal_fold_def lower_char_def byte_def)

theorem sample_config_round_trip_witness:
  "\<exists>sample. generateSampleConfigJSON sample_viper two_pipelines ''v1'' = Inr sample \<and>
     json_parse sample =
       Some (JObj [(''loadSamplesOnRestart'', JBool True), (''pipelines'', JArr (map json_of_map two_entries))])"
proof -
  obtain sample where sample: "generateSampleConfigJSON sample_viper two_pipelines ''v1'' = Inr sample"
    by (simp add: generateSampleConfigJSON_def two_pipelines_entries)
  have "list_all valid_entry two_entries"
    by (auto simp: two_entries_def sample_item_def valid_entry_def byte_def intro!: valid_utf8_ascii)
  from sample_config_round_trip [OF sample two_pipelines_entries this] sample show ?thesis by blast
qed

text \<open>
  C7: The database that was configured is the one that is checked.  Once \<open>SetupDBParams\<close> has succeeded for
  a resource without extra parameters of its own, a later health check over the parameters it left, by
  any decoder that agrees with JSON, reports the database available only after a statement was executed
  at the address of the resource's database, with the bytes whose base64 text is the stored password,
  and over TLS exactly when the database is external or pod-to-pod TLS is on.
\<close>

theorem configured_database_is_queried:
  assumes decoder: "\<And>s m. unmarshal_string_map s = Inr m \<Longrightarrow> \<exists>g. e_k8s_unmarshal_string_map env s = Inr g \<and> map_of g = m"
    and params: "SetupDBParams env w = (Ok (), w')"
    and check: "isDatabaseAccessible env v = (Ok b, v')"
    and same: "cur_dspa v = cur_dspa w" "p_db_connection (w_params v) = p_db_connection (w_params w')"
    and db: "sp_database (d_spec (cur_dspa w)) = Some db" "db_custom_extra_params db = None"
      "\<not> db_disable_health_check db"
  shows "\<exists>h q. w_history v' = w_history v @ h @ [Ev_Db_Query q True] \<and>
     my_passwd q \<noteq> '''' \<and> dbc_password (p_db_connection (w_params w')) = b64_encode (my_passwd q) \<and>
     (my_tls_config q = ''custom'') = (UsingExternalDB (cur_dspa w) \<or> p_pod_to_pod_tls (w_params w)) \<and>
     (case db_external_db db of
        Some ext \<Rightarrow> my_user q = edb_username ext \<and> my_addr q = edb_host ext @ '':'' @ edb_port ext
      | None \<Rightarrow> my_addr q = ''mariadb-'' @ p_name (w_params w) @ ''.'' @ p_namespace (w_params w) @
                  ''.svc.cluster.local:3306'')"
proof -
  let ?on = "UsingExternalDB (cur_dspa w) \<or> p_pod_to_pod_tls (w_params w)"
  let ?c = "p_db_connection (w_params w')"
  from SetupDBParams_post [of env w] params obtain bs where bs: "bs \<noteq> ''''" "dbc_password ?c = b64_encode bs"
    and extra_ok: "db_extra_ok (Some db) (p_pod_to_pod_tls (w_params w)) (dbc_extra_params ?c)"
    and endpoint: "db_endpoint_ok (cur_dspa w) (w_params w) ?c"
    by (auto simp: wp_def db_setup_post_def Let_def db(1))
  from extra_ok have extra: "dbc_extra_params ?c = tls_json ?on"
    using db by (simp add: db_extra_ok_def UsingExternalDB_def)
  obtain g where g: "e_k8s_unmarshal_string_map env (dbc_extra_params ?c) = Inr g" "map_of g ''tls'' = Some (if ?on then ''true'' else ''false'')"
    using decoder [OF unmarshal_tls_json [of ?on]] unfolding extra by auto
  then have tls: "db_tls (cur_dspa w) g = (if ?on then ''true'' else ''false'')"
    unfolding db_tls_def by (simp only: option.case)
  have "\<not> DatabaseHealthCheckDisabled (cur_dspa w)" using db by (simp add: DatabaseHealthCheckDisabled_def)
  with isDatabaseAccessible_run [where env = env and w = v] check obtain h q where
    q: "w_history v' = w_history v @ h @ [Ev_Db_Query q True]" "db_query_ok ?c (db_tls (cur_dspa w) g) q"
    using g(1) by (auto simp: same Let_def)
  have "(my_tls_config q = ''custom'') = ?on"
    using q(2) unfolding db_query_ok_def tls by (simp split: if_splits)
  moreover have "my_passwd q = bs" "my_user q = dbc_username ?c" "my_addr q = dbc_host ?c @ '':'' @ dbc_port ?c"
    using q(2) bs by (simp_all add: db_query_ok_def)
  ultimately show ?thesis using q(1) bs endpoint db(1) by (auto simp: db_endpoint_ok_def split: option.splits)
qed


text \<open>A decoder that keeps the members in a list, and a resource with an external database.\<close>

fun decode_members :: "(string \<times> json) list \<Rightarrow> go_map \<Rightarrow> gerr + go_map" where
  "decode_members [] m = Inr m"
| "decode_members ((k, JStr v) # ms) m = decode_members ms ((k, v) # m)"
| "decode_members ((k, JNull) # ms) m = decode_members ms ((k, '''') # m)"
| "decode_members ((k, j) # ms) m = Inl (Plain_Err ''not a string'')"

definition decode_string_map :: "string \<Rightarrow> gerr + go_map" where
  "decode_string_map s =
     (case json_parse s of
        Some JNull \<Rightarrow> Inr [] | Some (JObj ms) \<Rightarrow> decode_members ms [] | _ \<Rightarrow> Inl (Plain_Err ''not an object''))"

lemma decode_members_agree:
  "string_members ms (map_of g) = Inr m \<Longrightarrow> \<exists>g'. decode_members ms g = Inr g' \<and> map_of g' = m"
  by (induction ms g rule: decode_members.induct) (auto simp: fun_upd_def)

lemma decode_string_map_agrees: "unmarshal_string_map s = Inr m \<Longrightarrow> \<exists>g. decode_string_map s = Inr g \<and> map_of g = m"
  using decode_members_agree [of _ "[]" m]
  by (auto simp: unmarshal_string_map_def decode_string_map_def split: option.splits json.splits)

definition external_env :: env where
  "external_env =
     sample_env\<lparr>e_k8s_unmarshal_string_map := decode_string_map,
       e_get_secret := (\<lambda>h nn. Inr \<lparr>se_name = nn_name nn, se_namespace = nn_namespace nn, se_annotations = [],
                                se_data = [(''password'', ''pw'')]\<rparr>)\<rparr>"

definition outside_db :: external_db where
  "outside_db =
     \<lparr>edb_host = ''db.example.com'', edb_port = ''3306'', edb_username = ''kfp'', edb_db_name = ''runs'',
      edb_password_secret = Some \<lparr>skv_name = ''db'', skv_key = ''password''\<rparr>\<rparr>"

definition outside_database :: database where
  "outside_database =
     \<lparr>db_maria_db = None, db_external_db = Some outside_db, db_custom_extra_params = None,
      db_disable_health_check = False\<rparr>"

definition external_world :: world where
  "external_world =
     sample_world\<lparr>w_dspa := sample_dspa\<lparr>d_spec := sample_spec\<lparr>sp_database := Some outside_database\<rparr>\<rparr>\<rparr>"

lemmas external_defs = external_env_def external_world_def outside_database_def outside_db_def sample_world_def
  sample_env_def sample_dspa_def sample_spec_def sample_viper_def

lemma external_setup:
  "wp (SetupDBParams external_env)
     (\<lambda>r w'. r = Ok () \<and> cur_dspa w' = cur_dspa external_world \<and>
        dbc_extra_params (p_db_connection (w_params w')) = tls_json True) external_world"
proof -
  have "cur_dspa external_world = w_dspa external_world" by (simp add: cur_dspa_def external_defs)
  moreover have "b64_encode ''pw'' \<noteq> ''''" by simp
  ultimately show ?thesis
    by (simp add: SetupDBParams_def setup_external_db_def mod_db_def deref_def GetDefaultDBExtraParams_def
        retrieve_if_present_def RetrieveSecret_def get_secret_def apply_custom_extra_params_def check_db_password_def
        wp_rules Let_def log_event_def tls_json_def external_defs del: b64_encode.simps)
qed


lemma external_database: "sp_database (d_spec (cur_dspa external_world)) = Some outside_database"
  by (simp add: cur_dspa_def external_world_def sample_world_def)

lemma external_check:
  assumes "cur_dspa w = cur_dspa external_world" "dbc_extra_params (p_db_connection (w_params w)) = tls_json True"
  shows "wp (isDatabaseAccessible external_env) (\<lambda>r w'. r = Ok True) w"
proof -
  have db: "sp_database (d_spec (cur_dspa w)) = Some outside_database"
    by (simp add: assms(1) external_database)
  obtain g where g: "decode_string_map (tls_json True) = Inr g" "map_of g = [''tls'' \<mapsto> ''true'']"
    using decode_string_map_agrees [OF unmarshal_tls_json [of True]] by auto
  show ?thesis
    by (simp add: isDatabaseAccessible_def ConnectAndQueryDatabase_def tls_for_def tLSClientConfig_def call_opt_def
        DatabaseHealthCheckDisabled_def usingMariaDB_def UsingExternalDB_def db_tls_def wp_rules Let_def assms(2) db g
        list.pred_True external_env_def sample_env_def outside_database_def outside_db_def)
qed

theorem configured_database_is_queried_witness:
  "\<exists>w' b v' h q. SetupDBParams external_env external_world = (Ok (), w') \<and>
     isDatabaseAccessible external_env w' = (Ok b, v') \<and>
     w_history v' = w_history w' @ h @ [Ev_Db_Query q True] \<and> my_tls_config q = ''custom'' \<and>
     my_user q = ''kfp'' \<and> my_addr q = ''db.example.com:3306''"
proof -
  obtain w' where w': "SetupDBParams external_env external_world = (Ok (), w')"
    "cur_dspa w' = cur_dspa external_world" "dbc_extra_params (p_db_connection (w_params w')) = tls_json True"
    using external_setup by (auto simp: wp_def split: prod.splits)
  obtain v' where v': "isDatabaseAccessible external_env w' = (Ok True, v')"
    using external_check [OF w'(2,3)] by (auto simp: wp_def split: prod.splits)
  have decoder: "\<exists>g. e_k8s_unmarshal_string_map external_env s = Inr g \<and> map_of g = m"
    if "unmarshal_string_map s = Inr m" for s m
    using decode_string_map_agrees [OF that] by (simp add: external_env_def)
  from configured_database_is_queried [OF decoder w'(1) v' w'(2) refl external_database] w'(1) v' external_database show ?thesis
    by (auto simp: outside_database_def outside_db_def UsingExternalDB_def)
qed

end
