(* ===== verification/Plugin_Config.thy ===== *)
theory Plugin_Config imports Marshalled begin

text \<open>
  The configuration of the API server's MLflow plugin (\<open>PluginConfig\<close> and its parts in
  \<open>controllers/dspipeline_params.go\<close>) as the structs it is built from, encoding/json's view of them by
  their tags, and that the text of \<open>BuildMLflowPluginConfigJson\<close> is that encoding and loses nothing.
\<close>

record tls_config =
  tlc_insecure_skip_verify :: bool
  tlc_ca_bundle_path :: string

record mlflow_plugin_settings =
  mlp_workspaces_enabled :: bool
  mlp_experiment_description :: string
  mlp_default_experiment_name :: string
  mlp_kfp_base_url :: string
  mlp_kfp_run_url_path_template :: string
  mlp_mlflow_base_url :: string
  mlp_mlflow_ui_path_prefix :: string
  mlp_inject_user_env_vars :: bool

record plugin_config =
  plc_endpoint :: string
  plc_timeout :: string
  plc_tls :: tls_config
  plc_settings :: mlflow_plugin_settings

definition marshal_tls :: "tls_config \<Rightarrow> json" where
  "marshal_tls t =
     JObj ((''insecureSkipVerify'', JBool (tlc_insecure_skip_verify t)) # omit_empty ''caBundlePath'' (tlc_ca_bundle_path t))"

definition marshal_settings :: "mlflow_plugin_settings \<Rightarrow> json" where
  "marshal_settings m =
     JObj ((if mlp_workspaces_enabled m then [(''workspacesEnabled'', JBool True)] else []) @
           omit_empty ''experimentDescription'' (mlp_experiment_description m) @
           [(''defaultExperimentName'', JStr (mlp_default_experiment_name m))] @
           omit_empty ''kfpBaseURL'' (mlp_kfp_base_url m) @
           omit_empty ''kfpRunURLPathTemplate'' (mlp_kfp_run_url_path_template m) @
           omit_empty ''mlflowBaseURL'' (mlp_mlflow_base_url m) @
           omit_empty ''mlflowUIPathPrefix'' (mlp_mlflow_ui_path_prefix m) @
           [(''injectUserEnvVars'', JBool (mlp_inject_user_env_vars m))])"

text \<open>\<open>omitempty\<close> omits no struct.\<close>

definition marshal_plugin :: "plugin_config \<Rightarrow> json" where
  "marshal_plugin c =
     JObj (omit_empty ''endpoint'' (plc_endpoint c) @ omit_empty ''timeout'' (plc_timeout c) @
           [(''tls'', marshal_tls (plc_tls c)), (''settings'', marshal_settings (plc_settings c))])"

definition mlflow_plugin_config :: "string \<Rightarrow> string \<Rightarrow> bool \<Rightarrow> string \<Rightarrow> plugin_config" where
  "mlflow_plugin_config mlflowEndpoint caBundlePath injectUserEnvVars kfpBaseURL =
     \<lparr>plc_endpoint = mlflowEndpoint,
      plc_timeout = ''30s'',
      plc_tls = \<lparr>tlc_insecure_skip_verify = False, tlc_ca_bundle_path = caBundlePath\<rparr>,
      plc_settings =
        \<lparr>mlp_workspaces_enabled = True,
         mlp_experiment_description = ''Created by AI Pipelines.'',
         mlp_default_experiment_name = ''AIP-default'',
         mlp_kfp_base_url = kfpBaseURL,
         mlp_kfp_run_url_path_template = ''/develop-train/pipelines/runs/{namespace}/runs/{run_id}'',
         mlp_mlflow_base_url = kfpBaseURL,
         mlp_mlflow_ui_path_prefix = ''/mlflow'',
         mlp_inject_user_env_vars = injectUserEnvVars\<rparr>\<rparr>"

section \<open>The text\<close>

lemma plugin_text:
  "BuildMLflowPluginConfigJson e ca b base = Ok (json_print (marshal_plugin (mlflow_plugin_config e ca b base)))"
  by (simp add: BuildMLflowPluginConfigJson_def marshal_plugin_def marshal_tls_def marshal_settings_def
      mlflow_plugin_config_def mlflow_settings_def omit_empty_def)

lemma marshal_tls_inj: "marshal_tls t = marshal_tls t' \<longleftrightarrow> t = t'"
  by (cases t; cases t') (auto simp: marshal_tls_def omit_empty_def)

lemma plugin_values_inj:
  "marshal_plugin (mlflow_plugin_config e ca b base) = marshal_plugin (mlflow_plugin_config e' ca' b' base') \<longleftrightarrow>
     e = e' \<and> ca = ca' \<and> b = b' \<and> base = base'"
  by (auto simp: marshal_plugin_def marshal_tls_inj mlflow_plugin_config_def marshal_settings_def omit_empty_def
      split: if_splits)

lemma plugin_json_ok:
  assumes "valid_utf8 e" "valid_utf8 ca" "valid_utf8 base"
  shows "json_ok max_depth (marshal_plugin (mlflow_plugin_config e ca b base))"
proof -
  have v: "valid_utf8 ''Created by AI Pipelines.''" "valid_utf8 ''AIP-default''" "valid_utf8 ''30s''" "valid_utf8 ''/mlflow''"
    "valid_utf8 ''/develop-train/pipelines/runs/{namespace}/runs/{run_id}''"
    "valid_utf8 ''endpoint''" "valid_utf8 ''timeout''" "valid_utf8 ''tls''" "valid_utf8 ''settings''"
    "valid_utf8 ''insecureSkipVerify''" "valid_utf8 ''caBundlePath''" "valid_utf8 ''workspacesEnabled''"
    "valid_utf8 ''experimentDescription''" "valid_utf8 ''defaultExperimentName''" "valid_utf8 ''kfpBaseURL''"
    "valid_utf8 ''kfpRunURLPathTemplate''" "valid_utf8 ''mlflowBaseURL''" "valid_utf8 ''mlflowUIPathPrefix''"
    "valid_utf8 ''injectUserEnvVars''"
    by (rule valid_utf8_ascii; simp add: byte_def)+
  show ?thesis
    using assms v
    by (simp add: max_depth_def marshal_plugin_def marshal_tls_def marshal_settings_def mlflow_plugin_config_def omit_empty_def)
qed

text \<open>The API server reads from the text exactly the endpoint, the certificates, the switch and the URL that went in.\<close>

lemma plugin_text_lossless:
  assumes "valid_utf8 e" "valid_utf8 ca" "valid_utf8 base" "valid_utf8 e'" "valid_utf8 ca'" "valid_utf8 base'"
  shows "BuildMLflowPluginConfigJson e ca b base = BuildMLflowPluginConfigJson e' ca' b' base' \<longleftrightarrow>
     e = e' \<and> ca = ca' \<and> b = b' \<and> base = base'"
proof
  assume "BuildMLflowPluginConfigJson e ca b base = BuildMLflowPluginConfigJson e' ca' b' base'"
  then have "json_print (marshal_plugin (mlflow_plugin_config e ca b base)) =
      json_print (marshal_plugin (mlflow_plugin_config e' ca' b' base'))" (is "json_print ?j = json_print ?k")
    unfolding plugin_text by (rule res.inject(1) [THEN iffD1])
  then have "json_parse (json_print ?j) = json_parse (json_print ?k)" by (rule arg_cong)
  then have "?j = ?k"
    unfolding json_round_trip [OF plugin_json_ok [OF assms(1-3)]] json_round_trip [OF plugin_json_ok [OF assms(4-6)]]
    by (rule option.inject [THEN iffD1])
  then show "e = e' \<and> ca = ca' \<and> b = b' \<and> base = base'" by (rule plugin_values_inj [THEN iffD1])
qed simp

end
