(* ===== verification/Go_Memory.thy ===== *)
theory Go_Memory imports Main begin

text \<open>
  Go's memory, as far as copying a value depends on it.  The other theories work on immutable values;
  this one and \<open>Deep_Copy\<close> have pointers, slices and maps that refer to cells of a store, so that
  sharing between two values is something that can be stated.

  A value of a type is read off the store by \<open>view\<close>: the tree it denotes, in which a pointer is replaced
  by what it points at, and its footprint, the addresses it is read from.  Two values with disjoint
  footprints share nothing: a write through one cannot be seen through the other.
\<close>

section \<open>Values and cells\<close>

type_synonym addr = nat

text \<open>A slice has the address of its array, an offset into it and a length; the capacity is not looked at.\<close>

datatype gval =
    VBool bool
  | VInt int
  | VStr string
  | VPtr "addr option"
  | VSlice "(addr \<times> nat \<times> nat) option"
  | VMap "addr option"
  | VStruct "(string \<times> gval) list"

datatype cell =
    CVal gval
  | CArr "gval list"
  | CTable "(string \<times> gval) list"

text \<open>Addresses are handed out in order; there are no cells from \<open>m_next\<close> on.\<close>

record mem =
  m_next :: addr
  m_cells :: "addr \<Rightarrow> cell option"

definition mem_ok :: "mem \<Rightarrow> bool" where
  "mem_ok m \<longleftrightarrow> (\<forall>a c. m_cells m a = Some c \<longrightarrow> a < m_next m)"

definition alloc :: "cell \<Rightarrow> mem \<Rightarrow> addr \<times> mem" where
  "alloc c m = (m_next m, m\<lparr>m_next := Suc (m_next m), m_cells := (m_cells m)(m_next m \<mapsto> c)\<rparr>)"

definition store :: "addr \<Rightarrow> cell \<Rightarrow> mem \<Rightarrow> mem" where
  "store a c m = m\<lparr>m_cells := (m_cells m)(a \<mapsto> c)\<rparr>"

text \<open>A sequence of writes by whoever holds the addresses.\<close>

fun stores :: "(addr \<times> cell) list \<Rightarrow> mem \<Rightarrow> mem" where
  "stores [] m = m"
| "stores ((a, c) # ws) m = stores ws (store a c m)"

definition empty_mem :: mem where
  "empty_mem = \<lparr>m_next = 0, m_cells = Map.empty\<rparr>"

section \<open>Types\<close>

datatype gtype =
    TBool
  | TInt
  | TStr
  | TPtr gtype
  | TSlice gtype
  | TMap gtype
  | TStruct "(string \<times> gtype) list"

text \<open>The zero value, what \<open>new\<close> and \<open>make\<close> leave in a fresh cell.\<close>

fun zero :: "gtype \<Rightarrow> gval" where
  "zero TBool = VBool False"
| "zero TInt = VInt 0"
| "zero TStr = VStr ''''"
| "zero (TPtr t) = VPtr None"
| "zero (TSlice t) = VSlice None"
| "zero (TMap t) = VMap None"
| "zero (TStruct fs) = VStruct (map (\<lambda>(f, t). (f, zero t)) fs)"

text \<open>Types whose values refer to nothing.\<close>

fun flat :: "gtype \<Rightarrow> bool" where
  "flat (TPtr t) = False"
| "flat (TSlice t) = False"
| "flat (TMap t) = False"
| "flat (TStruct fs) = list_all (\<lambda>(f, t). flat t) fs"
| "flat _ = True"

section \<open>What a value denotes\<close>

datatype tree =
    DBool bool
  | DInt int
  | DStr string
  | DNil
  | DRef tree
  | DList "tree list"
  | DTable "(string \<times> tree) list"
  | DStruct "(string \<times> tree) list"

text \<open>Views side by side: the trees in a list, the footprints joined.\<close>

fun all_views :: "('t \<times> addr list) option list \<Rightarrow> ('t list \<times> addr list) option" where
  "all_views [] = Some ([], [])"
| "all_views (None # vs) = None"
| "all_views (Some (t, A) # vs) = map_option (\<lambda>(ts, B). (t # ts, A @ B)) (all_views vs)"

definition slice_elems :: "gval list \<Rightarrow> nat \<Rightarrow> nat \<Rightarrow> gval list option" where
  "slice_elems xs off len = (if off + len \<le> length xs then Some (take len (drop off xs)) else None)"

text \<open>\<open>None\<close> when the value is not one of the type, or refers to a cell that is not there.\<close>

fun view :: "mem \<Rightarrow> gtype \<Rightarrow> gval \<Rightarrow> (tree \<times> addr list) option"
  and view_fields :: "mem \<Rightarrow> (string \<times> gtype) list \<Rightarrow> (string \<times> gval) list \<Rightarrow> ((string \<times> tree) list \<times> addr list) option" where
  "view m TBool (VBool b) = Some (DBool b, [])"
| "view m TInt (VInt i) = Some (DInt i, [])"
| "view m TStr (VStr s) = Some (DStr s, [])"
| "view m (TPtr t) (VPtr None) = Some (DNil, [])"
| "view m (TPtr t) (VPtr (Some a)) =
     (case m_cells m a of
        Some (CVal v) \<Rightarrow> map_option (\<lambda>(d, A). (DRef d, a # A)) (view m t v)
      | _ \<Rightarrow> None)"
| "view m (TSlice t) (VSlice None) = Some (DNil, [])"
| "view m (TSlice t) (VSlice (Some (a, off, len))) =
     (case m_cells m a of
        Some (CArr xs) \<Rightarrow>
          (case slice_elems xs off len of
             Some ys \<Rightarrow> map_option (\<lambda>(ds, A). (DList ds, a # A)) (all_views (map (view m t) ys))
           | None \<Rightarrow> None)
      | _ \<Rightarrow> None)"
| "view m (TMap t) (VMap None) = Some (DNil, [])"
| "view m (TMap t) (VMap (Some a)) =
     (case m_cells m a of
        Some (CTable kvs) \<Rightarrow>
          map_option (\<lambda>(ds, A). (DTable (zip (map fst kvs) ds), a # A)) (all_views (map (\<lambda>kv. view m t (snd kv)) kvs))
      | _ \<Rightarrow> None)"
| "view m (TStruct fs) (VStruct vs) = map_option (\<lambda>(ds, A). (DStruct ds, A)) (view_fields m fs vs)"
| "view m _ _ = None"
| "view_fields m [] [] = Some ([], [])"
| "view_fields m ((f, t) # fs) ((g, v) # vs) =
     (if f = g then
        (case view m t v of
           Some (d, A) \<Rightarrow> map_option (\<lambda>(ds, B). ((f, d) # ds, A @ B)) (view_fields m fs vs)
         | None \<Rightarrow> None)
      else None)"
| "view_fields m _ _ = None"

section \<open>Footprints\<close>

lemma all_views_Some_Cons [simp]:
  "all_views (x # vs) = Some (ds, A) \<longleftrightarrow>
     (\<exists>d B es C. x = Some (d, B) \<and> all_views vs = Some (es, C) \<and> ds = d # es \<and> A = B @ C)"
  by (cases x) auto

lemma all_views_cong:
  assumes "all_views (map f xs) = Some (ds, A)"
    and "\<And>x d B. x \<in> set xs \<Longrightarrow> f x = Some (d, B) \<Longrightarrow> set B \<subseteq> set A \<Longrightarrow> g x = Some (d, B)"
  shows "all_views (map g xs) = Some (ds, A)"
  using assms
proof (induction xs arbitrary: ds A)
  case (Cons x xs)
  from Cons.prems(1) obtain d B es C where x: "f x = Some (d, B)" and xs: "all_views (map f xs) = Some (es, C)"
    and eqs: "ds = d # es" "A = B @ C" by auto
  from Cons.IH [OF xs] Cons.prems(2) eqs have "all_views (map g xs) = Some (es, C)" by fastforce
  moreover have "g x = Some (d, B)" using Cons.prems(2) [OF _ x] eqs by simp
  ultimately show ?case using eqs by simp
qed simp

lemma all_views_addrs:
  "all_views (map f xs) = Some (ds, A) \<Longrightarrow> a \<in> set A \<Longrightarrow> \<exists>x \<in> set xs. \<exists>d B. f x = Some (d, B) \<and> a \<in> set B"
  by (induction xs arbitrary: ds A) fastforce+

lemma all_views_length: "all_views vs = Some (ds, A) \<Longrightarrow> length ds = length vs"
  by (induction vs arbitrary: ds A) auto

text \<open>A view depends on its footprint only, and all of it is there.\<close>

lemma view_frame:
  shows "view m t v = Some (d, A) \<Longrightarrow> (\<And>a. a \<in> set A \<Longrightarrow> m_cells m' a = m_cells m a) \<Longrightarrow> view m' t v = Some (d, A)"
    and "view_fields m fs vs = Some (ds, B) \<Longrightarrow> (\<And>a. a \<in> set B \<Longrightarrow> m_cells m' a = m_cells m a) \<Longrightarrow>
      view_fields m' fs vs = Some (ds, B)"
proof (induction m t v and m fs vs arbitrary: d A and ds B rule: view_view_fields.induct)
  case (7 m t a off len)
  then obtain xs ys es C where xs: "m_cells m a = Some (CArr xs)" "slice_elems xs off len = Some ys"
    "all_views (map (view m t) ys) = Some (es, C)" and out: "d = DList es" "A = a # C"
    by (auto split: option.splits cell.splits)
  have "all_views (map (view m' t) ys) = Some (es, C)"
    using xs(3)
  proof (rule all_views_cong)
    fix x e B assume "x \<in> set ys" "view m t x = Some (e, B)" "set B \<subseteq> set C"
    with "7.prems"(2) out show "view m' t x = Some (e, B)"
      by (intro "7.IH" [OF xs(1) refl xs(2)]) auto
  qed
  with xs out "7.prems"(2) show ?case by simp
next
  case (9 m t a)
  then obtain kvs es C where xs: "m_cells m a = Some (CTable kvs)"
    "all_views (map (\<lambda>kv. view m t (snd kv)) kvs) = Some (es, C)" and out: "d = DTable (zip (map fst kvs) es)" "A = a # C"
    by (auto split: option.splits cell.splits)
  have "all_views (map (\<lambda>kv. view m' t (snd kv)) kvs) = Some (es, C)"
    using xs(2)
  proof (rule all_views_cong)
    fix x e B assume "x \<in> set kvs" "view m t (snd x) = Some (e, B)" "set B \<subseteq> set C"
    with "9.prems"(2) out show "view m' t (snd x) = Some (e, B)"
      by (intro "9.IH" [OF xs(1) refl]) auto
  qed
  with xs out "9.prems"(2) show ?case by simp
qed (auto split: option.splits cell.splits if_splits)

lemma view_addrs:
  shows "view m t v = Some (d, A) \<Longrightarrow> a \<in> set A \<Longrightarrow> \<exists>c. m_cells m a = Some c"
    and "view_fields m fs vs = Some (ds, B) \<Longrightarrow> a \<in> set B \<Longrightarrow> \<exists>c. m_cells m a = Some c"
proof (induction m t v and m fs vs arbitrary: d A and ds B rule: view_view_fields.induct)
  case (7 m t b off len)
  then show ?case by (auto split: option.splits cell.splits dest!: all_views_addrs)
next
  case (9 m t b)
  then show ?case by (auto split: option.splits cell.splits dest!: all_views_addrs)
qed (auto split: option.splits cell.splits if_splits)

lemma view_below: "mem_ok m \<Longrightarrow> view m t v = Some (d, A) \<Longrightarrow> set A \<subseteq> {..<m_next m}"
  using view_addrs(1) by (fastforce simp: mem_ok_def)

lemma view_flat:
  shows "view m t v = Some (d, A) \<Longrightarrow> flat t \<Longrightarrow> A = []"
    and "view_fields m fs vs = Some (ds, B) \<Longrightarrow> list_all (\<lambda>(f, t). flat t) fs \<Longrightarrow> B = []"
  by (induction m t v and m fs vs arbitrary: d A and ds B rule: view_view_fields.induct)
    (auto split: option.splits if_splits)

section \<open>Writes and allocation\<close>

text \<open>One memory extends another: what was there is as it was.\<close>

definition extends :: "mem \<Rightarrow> mem \<Rightarrow> bool" where
  "extends m m' \<longleftrightarrow> m_next m \<le> m_next m' \<and> (\<forall>a < m_next m. m_cells m' a = m_cells m a)"

lemma extends_refl [intro, simp]: "extends m m"
  by (simp add: extends_def)

lemma extends_trans: "extends m m' \<Longrightarrow> extends m' m'' \<Longrightarrow> extends m m''"
  by (auto simp: extends_def)

lemma extends_alloc: "alloc c m = (a, m') \<Longrightarrow> extends m m'"
  by (auto simp: alloc_def extends_def)

lemma extends_store: "extends m m' \<Longrightarrow> m_next m \<le> a \<Longrightarrow> extends m (store a c m')"
  by (auto simp: extends_def store_def)

lemma alloc_ok [simp]: "mem_ok m \<Longrightarrow> mem_ok (snd (alloc c m))"
  by (auto simp: mem_ok_def alloc_def less_Suc_eq split: if_splits)

lemma store_ok [simp]: "mem_ok m \<Longrightarrow> a < m_next m \<Longrightarrow> mem_ok (store a c m)"
  by (auto simp: mem_ok_def store_def split: if_splits)

lemma store_next [simp]: "m_next (store a c m) = m_next m"
  by (simp add: store_def)

lemma store_cells [simp]: "m_cells (store a c m) b = (if b = a then Some c else m_cells m b)"
  by (simp add: store_def)

lemma view_extends:
  assumes "extends m m'" "mem_ok m" "view m t v = Some (d, A)"
  shows "view m' t v = Some (d, A)"
  using assms(3)
proof (rule view_frame(1))
  fix a assume "a \<in> set A"
  with view_below [OF assms(2,3)] assms(1) show "m_cells m' a = m_cells m a" by (auto simp: extends_def)
qed

lemma view_fields_extends:
  assumes "extends m m'" "mem_ok m" "view_fields m fs vs = Some (ds, A)"
  shows "view_fields m' fs vs = Some (ds, A)"
  using assms(3)
proof (rule view_frame(2))
  fix a assume "a \<in> set A"
  with assms have "a < m_next m" using view_addrs(2) [OF assms(3)] by (auto simp: mem_ok_def)
  with assms(1) show "m_cells m' a = m_cells m a" by (simp add: extends_def)
qed

lemma view_store: "view m t v = Some (d, A) \<Longrightarrow> a \<notin> set A \<Longrightarrow> view (store a c m) t v = Some (d, A)"
  by (rule view_frame(1)) auto

lemma view_stores: "view m t v = Some (d, A) \<Longrightarrow> fst ` set ws \<inter> set A = {} \<Longrightarrow> view (stores ws m) t v = Some (d, A)"
proof (induction ws m rule: stores.induct)
  case (2 a c ws m)
  then have "view (store a c m) t v = Some (d, A)" by (intro view_store) auto
  with 2 show ?case by auto
qed simp

section \<open>Access to the parts of a value\<close>

text \<open>A selector \<open>v.f\<close>, and \<open>*p\<close>, which panics on nil: \<open>None\<close>.\<close>

fun sel :: "string \<Rightarrow> gval \<Rightarrow> gval option" where
  "sel f (VStruct vs) = map_of vs f"
| "sel f v = None"

fun deref_ptr :: "mem \<Rightarrow> gval \<Rightarrow> gval option" where
  "deref_ptr m (VPtr (Some a)) = (case m_cells m a of Some (CVal v) \<Rightarrow> Some v | _ \<Rightarrow> None)"
| "deref_ptr m v = None"

lemma view_fields_sel:
  "view_fields m fs vs = Some (ds, A) \<Longrightarrow> map_of fs f = Some t \<Longrightarrow>
   \<exists>v e B. map_of vs f = Some v \<and> view m t v = Some (e, B) \<and> map_of ds f = Some e \<and> set B \<subseteq> set A"
proof (induction fs arbitrary: vs ds A)
  case (Cons ft fs)
  from Cons.prems(1) obtain g s v us d B es C where parts: "ft = (g, s)" "vs = (g, v) # us" "ds = (g, d) # es"
    "A = B @ C" and v: "view m s v = Some (d, B)" and us: "view_fields m fs us = Some (es, C)"
    by (cases ft; cases vs) (auto split: if_splits option.splits)
  show ?case
  proof (cases "f = g")
    case True
    with parts v Cons.prems(2) show ?thesis by auto
  next
    case False
    with parts Cons.prems(2) Cons.IH [OF us] show ?thesis by fastforce
  qed
qed simp

definition of_type :: "mem \<Rightarrow> gtype \<Rightarrow> gval \<Rightarrow> bool" where
  "of_type m t v \<longleftrightarrow> view m t v \<noteq> None"

lemma of_type_sel: "of_type m (TStruct fs) v \<Longrightarrow> sel f v = Some u \<Longrightarrow> map_of fs f = Some t \<Longrightarrow> of_type m t u"
  by (cases v) (auto simp: of_type_def dest!: view_fields_sel)

lemma of_type_deref: "of_type m (TPtr t) v \<Longrightarrow> deref_ptr m v = Some u \<Longrightarrow> of_type m t u"
  by (cases "(m, v)" rule: deref_ptr.cases) (auto simp: of_type_def split: option.splits cell.splits)

lemma of_type_fields:
  "list_all2 (\<lambda>(f, t) (g, v). g = f \<and> of_type m t v) fs vs \<Longrightarrow> \<exists>ds B. view_fields m fs vs = Some (ds, B)"
  by (induction fs vs rule: list_all2_induct) (auto simp: of_type_def split: option.splits)

end
