(* ===== verification/Deep_Copy.thy ===== *)
theory Deep_Copy imports Go_Memory begin

text \<open>
  What it takes to copy a value deeply, and the statements that the generated copiers of
  \<open>api/v1/zz_generated.deepcopy.go\<close> are made of.

  A copier gets the contents of \<open>*in\<close> and yields the contents it leaves in \<open>*out\<close>.  The contract is the
  locale \<open>deep_copy\<close>: the copy denotes the same tree, what was in memory is as it was, and the copy refers
  to fresh cells only.  Its rules follow the statements, so that the copier of a struct is proved from
  those of its fields.
\<close>

named_theorems deep_copies \<open>copiers that keep the contract\<close>

type_synonym copier = "gval \<Rightarrow> mem \<Rightarrow> gval \<times> mem"

section \<open>The statements\<close>

text \<open>\<open>*out = *in\<close> of a value without references.\<close>

definition copy_flat :: copier where
  "copy_flat v m = (v, m)"

text \<open>
  A struct: \<open>*out = *in\<close>, and then the named fields one by one.  The generated code names the fields in
  the order the struct declares them.
\<close>

fun copy_fields :: "(string \<times> copier) list \<Rightarrow> (string \<times> gval) list \<Rightarrow> mem \<Rightarrow> (string \<times> gval) list \<times> mem" where
  "copy_fields cs [] m = ([], m)"
| "copy_fields cs ((f, v) # vs) m =
     (let (v', m1) = (case map_of cs f of None \<Rightarrow> (v, m) | Some c \<Rightarrow> c v m);
          (vs', m2) = copy_fields cs vs m1 in
      ((f, v') # vs', m2))"

fun copy_struct :: "(string \<times> copier) list \<Rightarrow> copier" where
  "copy_struct cs (VStruct vs) m = (let (vs', m') = copy_fields cs vs m in (VStruct vs', m'))"
| "copy_struct cs v m = (v, m)"

text \<open>\<open>if in != nil { *out = new(T); (*in).DeepCopyInto(*out) }\<close>.\<close>

fun copy_ptr :: "gtype \<Rightarrow> copier \<Rightarrow> copier" where
  "copy_ptr t c (VPtr (Some a)) m =
     (let (b, m1) = alloc (CVal (zero t)) m in
      case m_cells m1 a of
        Some (CVal v) \<Rightarrow> (let (v', m2) = c v m1 in (VPtr (Some b), store b (CVal v') m2))
      | _ \<Rightarrow> (VPtr (Some b), m1))"
| "copy_ptr t c v m = (v, m)"

text \<open>\<open>if in != nil { *out = make([]T, len(*in)); for i := range *in { ... } }\<close>, and \<open>copy\<close> likewise.\<close>

fun copy_elems :: "copier \<Rightarrow> gval list \<Rightarrow> mem \<Rightarrow> gval list \<times> mem" where
  "copy_elems c [] m = ([], m)"
| "copy_elems c (v # vs) m =
     (let (v', m1) = c v m; (vs', m2) = copy_elems c vs m1 in (v' # vs', m2))"

fun copy_slice :: "gtype \<Rightarrow> copier \<Rightarrow> copier" where
  "copy_slice t c (VSlice (Some (a, off, len))) m =
     (let (b, m1) = alloc (CArr (replicate len (zero t))) m in
      case m_cells m1 a of
        Some (CArr xs) \<Rightarrow>
          (let (ys, m2) = copy_elems c (take len (drop off xs)) m1 in
           (VSlice (Some (b, 0, len)), store b (CArr ys) m2))
      | _ \<Rightarrow> (VSlice (Some (b, 0, len)), m1))"
| "copy_slice t c v m = (v, m)"

section \<open>The contract\<close>

locale deep_copy =
  fixes t :: gtype and c :: copier
  assumes copies: "mem_ok m \<Longrightarrow> view m t v = Some (d, A) \<Longrightarrow> c v m = (v', m') \<Longrightarrow>
      mem_ok m' \<and> extends m m' \<and> (\<exists>A'. view m' t v' = Some (d, A') \<and> set A' \<inter> {..<m_next m} = {})"
begin

lemma copy_separate:
  assumes "mem_ok m" "view m t v = Some (d, A)" "c v m = (v', m')"
  obtains A' where "view m' t v' = Some (d, A')" "view m' t v = Some (d, A)" "set A \<inter> set A' = {}"
    "set A' \<inter> {..<m_next m} = {}"
proof -
  from copies [OF assms] obtain A' where ext: "extends m m'" and A': "view m' t v' = Some (d, A')"
    and fresh: "set A' \<inter> {..<m_next m} = {}" by blast
  from view_below [OF assms(1,2)] fresh have "set A \<inter> set A' = {}" by auto
  with that A' fresh view_extends [OF ext assms(1,2)] show thesis by blast
qed

text \<open>The client's side: writes through one of the two values are not seen through the other.\<close>

lemma copy_isolated:
  assumes "mem_ok m" "view m t v = Some (d, A)" "c v m = (v', m')"
  obtains A' where "view m' t v' = Some (d, A')" "set A \<inter> set A' = {}"
    "\<And>ws. fst ` set ws \<subseteq> set A' \<Longrightarrow> view (stores ws m') t v = Some (d, A)"
    "\<And>ws. fst ` set ws \<subseteq> {..<m_next m} \<Longrightarrow> view (stores ws m') t v' = Some (d, A')"
proof -
  from copy_separate [OF assms] obtain A' where A': "view m' t v' = Some (d, A')"
    and v: "view m' t v = Some (d, A)" and disj: "set A \<inter> set A' = {}" "set A' \<inter> {..<m_next m} = {}" by blast
  show thesis
  proof (rule that [OF A' disj(1)])
    fix ws :: "(addr \<times> cell) list"
    show "view (stores ws m') t v = Some (d, A)" if "fst ` set ws \<subseteq> set A'"
      using that disj(1) by (intro view_stores [OF v]) blast
    show "view (stores ws m') t v' = Some (d, A')" if "fst ` set ws \<subseteq> {..<m_next m}"
      using that disj(2) by (intro view_stores [OF A']) blast
  qed
qed

end

lemmas deep_copyI = deep_copy.intro

section \<open>Rules\<close>

lemma deep_copy_flat [deep_copies]:
  assumes "flat t"
  shows "deep_copy t copy_flat"
proof (rule deep_copyI)
  fix m v d A v' m' assume "mem_ok m" "view m t v = Some (d, A)" "copy_flat v m = (v', m')"
  with view_flat(1) [of m t v d A] assms
  show "mem_ok m' \<and> extends m m' \<and> (\<exists>A'. view m' t v' = Some (d, A') \<and> set A' \<inter> {..<m_next m} = {})"
    by (auto simp: copy_flat_def)
qed

lemma deep_fields:
  assumes "list_all (\<lambda>(f, t). case map_of cs f of None \<Rightarrow> flat t | Some c \<Rightarrow> deep_copy t c) fs"
    and "mem_ok m" "view_fields m fs vs = Some (ds, A)" "copy_fields cs vs m = (vs', m')"
  shows "mem_ok m' \<and> extends m m' \<and> (\<exists>A'. view_fields m' fs vs' = Some (ds, A') \<and> set A' \<inter> {..<m_next m} = {})"
  using assms
proof (induction fs arbitrary: vs ds A vs' m m')
  case Nil
  then show ?case by (cases vs) auto
next
  case (Cons ft fs)
  obtain f t where ft: "ft = (f, t)" by fastforce
  with Cons.prems(3) obtain v us d B es C where vs: "vs = (f, v) # us" and v: "view m t v = Some (d, B)"
    and us: "view_fields m fs us = Some (es, C)" and ds: "ds = (f, d) # es"
    by (cases vs) (auto split: if_splits option.splits)
  let ?c = "case map_of cs f of None \<Rightarrow> copy_flat | Some c \<Rightarrow> c"
  obtain w m1 where w: "?c v m = (w, m1)" by fastforce
  obtain ws m2 where ws: "copy_fields cs us m1 = (ws, m2)" by fastforce
  have out: "vs' = (f, w) # ws" "m' = m2"
    using Cons.prems(4) w ws vs by (auto simp: copy_flat_def split: option.splits)
  have "deep_copy t ?c"
    using Cons.prems(1) deep_copy_flat ft by (auto split: option.splits)
  from deep_copy.copies [OF this Cons.prems(2) v w] obtain B' where m1: "mem_ok m1" "extends m m1"
    and B': "view m1 t w = Some (d, B')" "set B' \<inter> {..<m_next m} = {}" by blast
  from Cons.IH [OF _ m1(1) view_fields_extends [OF m1(2) Cons.prems(2) us] ws] Cons.prems(1)
  obtain C' where m2: "mem_ok m2" "extends m1 m2"
    and C': "view_fields m2 fs ws = Some (es, C')" "set C' \<inter> {..<m_next m1} = {}" by auto
  from m1(2) C'(2) have "set C' \<inter> {..<m_next m} = {}" by (fastforce simp: extends_def)
  moreover have "view m2 t w = Some (d, B')" by (rule view_extends [OF m2(2) m1(1) B'(1)])
  ultimately show ?case
    using out ft ds m2 B'(2) C'(1) extends_trans [OF m1(2) m2(2)] by auto
qed

lemma deep_copy_struct [deep_copies]:
  assumes "list_all (\<lambda>(f, t). case map_of cs f of None \<Rightarrow> flat t | Some c \<Rightarrow> deep_copy t c) fs"
  shows "deep_copy (TStruct fs) (copy_struct cs)"
proof (rule deep_copyI)
  fix m v d A v' m' assume ok: "mem_ok m" and v: "view m (TStruct fs) v = Some (d, A)"
    and run: "copy_struct cs v m = (v', m')"
  from v obtain vs ds where vs: "v = VStruct vs" "view_fields m fs vs = Some (ds, A)" "d = DStruct ds"
    by (cases v) auto
  obtain ws m2 where ws: "copy_fields cs vs m = (ws, m2)" by fastforce
  from deep_fields [OF assms ok vs(2) ws] run vs(1,3) ws
  show "mem_ok m' \<and> extends m m' \<and> (\<exists>A'. view m' (TStruct fs) v' = Some (d, A') \<and> set A' \<inter> {..<m_next m} = {})"
    by auto
qed

text \<open>A fresh cell that is filled after its contents have been copied.\<close>

lemma fresh_cell:
  assumes "mem_ok m" "alloc z m = (b, m1)" "mem_ok m2" "extends m1 m2"
  shows "mem_ok (store b x m2) \<and> extends m (store b x m2) \<and> m_next m \<le> b \<and> b < m_next m1"
proof -
  from assms(2) have b: "b = m_next m" "m_next m1 = Suc b" by (auto simp: alloc_def)
  then have "b < m_next m2" using assms(4) by (auto simp: extends_def)
  moreover have "extends m m2" using extends_alloc [OF assms(2)] assms(4) by (rule extends_trans)
  ultimately show ?thesis using assms b by (auto intro: extends_store)
qed

lemma deep_copy_ptr [deep_copies]:
  assumes "deep_copy t c"
  shows "deep_copy (TPtr t) (copy_ptr t c)"
proof (rule deep_copyI)
  fix m v d A v' m' assume ok: "mem_ok m" and v: "view m (TPtr t) v = Some (d, A)"
    and run: "copy_ptr t c v m = (v', m')"
  show "mem_ok m' \<and> extends m m' \<and> (\<exists>A'. view m' (TPtr t) v' = Some (d, A') \<and> set A' \<inter> {..<m_next m} = {})"
  proof (cases "v = VPtr None")
    case True
    with v run ok show ?thesis by auto
  next
    case False
    with v obtain a u e B where a: "v = VPtr (Some a)" "m_cells m a = Some (CVal u)"
      and u: "view m t u = Some (e, B)" and d: "d = DRef e"
      by (cases v; cases "\<exists>a. v = VPtr (Some a)") (auto split: option.splits cell.splits)
    obtain b m1 where b: "alloc (CVal (zero t)) m = (b, m1)" by fastforce
    note ext1 = extends_alloc [OF b]
    have ok1: "mem_ok m1" using alloc_ok [OF ok, of "CVal (zero t)"] b by simp
    have a1: "m_cells m1 a = Some (CVal u)"
      using a(2) ok ext1 by (auto simp: extends_def mem_ok_def)
    obtain w m2 where w: "c u m1 = (w, m2)" by fastforce
    from deep_copy.copies [OF assms ok1 view_extends [OF ext1 ok u] w] obtain B' where m2: "mem_ok m2" "extends m1 m2"
      and B': "view m2 t w = Some (e, B')" "set B' \<inter> {..<m_next m1} = {}" by blast
    note cell = fresh_cell [OF ok b m2]
    have out: "v' = VPtr (Some b)" "m' = store b (CVal w) m2" using run a(1) b a1 w by auto
    have "view (store b (CVal w) m2) t w = Some (e, B')"
      using B' cell by (intro view_store) auto
    moreover have "set B' \<inter> {..<m_next m} = {}" using B'(2) ext1 by (fastforce simp: extends_def)
    ultimately show ?thesis using cell out d by auto
  qed
qed

lemma deep_elems:
  assumes "deep_copy t c" "mem_ok m" "all_views (map (view m t) vs) = Some (ds, A)" "copy_elems c vs m = (vs', m')"
  shows "mem_ok m' \<and> extends m m' \<and> length vs' = length vs \<and>
     (\<exists>A'. all_views (map (view m' t) vs') = Some (ds, A') \<and> set A' \<inter> {..<m_next m} = {})"
  using assms(2-)
proof (induction vs arbitrary: ds A vs' m m')
  case (Cons v vs)
  from Cons.prems(2) obtain d B es C where v: "view m t v = Some (d, B)"
    and vs: "all_views (map (view m t) vs) = Some (es, C)" and ds: "ds = d # es" by auto
  obtain w m1 where w: "c v m = (w, m1)" by fastforce
  obtain ws m2 where ws: "copy_elems c vs m1 = (ws, m2)" by fastforce
  have out: "vs' = w # ws" "m' = m2" using Cons.prems(3) w ws by auto
  from deep_copy.copies [OF assms(1) Cons.prems(1) v w] obtain B' where m1: "mem_ok m1" "extends m m1"
    and B': "view m1 t w = Some (d, B')" "set B' \<inter> {..<m_next m} = {}" by blast
  have "all_views (map (view m1 t) vs) = Some (es, C)"
    using vs by (rule all_views_cong) (rule view_extends [OF m1(2) Cons.prems(1)])
  from Cons.IH [OF m1(1) this ws] obtain C' where m2: "mem_ok m2" "extends m1 m2" "length ws = length vs"
    and C': "all_views (map (view m2 t) ws) = Some (es, C')" "set C' \<inter> {..<m_next m1} = {}" by blast
  from m1(2) C'(2) have "set C' \<inter> {..<m_next m} = {}" by (fastforce simp: extends_def)
  moreover have "view m2 t w = Some (d, B')" by (rule view_extends [OF m2(2) m1(1) B'(1)])
  ultimately show ?case
    using out ds m2 B'(2) C'(1) extends_trans [OF m1(2) m2(2)] by auto
qed auto

lemma deep_copy_slice [deep_copies]:
  assumes "deep_copy t c"
  shows "deep_copy (TSlice t) (copy_slice t c)"
proof (rule deep_copyI)
  fix m v d A v' m' assume ok: "mem_ok m" and v: "view m (TSlice t) v = Some (d, A)"
    and run: "copy_slice t c v m = (v', m')"
  show "mem_ok m' \<and> extends m m' \<and> (\<exists>A'. view m' (TSlice t) v' = Some (d, A') \<and> set A' \<inter> {..<m_next m} = {})"
  proof (cases "v = VSlice None")
    case True
    with v run ok show ?thesis by auto
  next
    case False
    with v obtain a off len xs es B where a: "v = VSlice (Some (a, off, len))" "m_cells m a = Some (CArr xs)"
      and len: "off + len \<le> length xs"
      and u: "all_views (map (view m t) (take len (drop off xs))) = Some (es, B)" and d: "d = DList es"
      by (cases v; cases "\<exists>a off len. v = VSlice (Some (a, off, len))")
        (auto simp: slice_elems_def split: option.splits cell.splits if_splits)
    let ?ys = "take len (drop off xs)"
    obtain b m1 where b: "alloc (CArr (replicate len (zero t))) m = (b, m1)" by fastforce
    note ext1 = extends_alloc [OF b]
    have ok1: "mem_ok m1" using alloc_ok [OF ok, of "CArr (replicate len (zero t))"] b by simp
    have a1: "m_cells m1 a = Some (CArr xs)"
      using a(2) ok ext1 by (auto simp: extends_def mem_ok_def)
    have "all_views (map (view m1 t) ?ys) = Some (es, B)"
      using u by (rule all_views_cong) (rule view_extends [OF ext1 ok])
    moreover obtain ws m2 where ws: "copy_elems c ?ys m1 = (ws, m2)" by fastforce
    ultimately obtain B' where m2: "mem_ok m2" "extends m1 m2" "length ws = length ?ys"
      and B': "all_views (map (view m2 t) ws) = Some (es, B')" "set B' \<inter> {..<m_next m1} = {}"
      using deep_elems [OF assms ok1] by blast
    note cell = fresh_cell [OF ok b m2(1,2)]
    have out: "v' = VSlice (Some (b, 0, len))" "m' = store b (CArr ws) m2" using run a(1) b a1 ws by auto
    have "all_views (map (view (store b (CArr ws) m2) t) ws) = Some (es, B')"
      using B'(1) by (rule all_views_cong) (use B'(2) cell in \<open>auto intro!: view_store\<close>)
    moreover have "set B' \<inter> {..<m_next m} = {}" using B'(2) ext1 by (fastforce simp: extends_def)
    moreover have "slice_elems ws 0 len = Some ws" using m2(3) len by (simp add: slice_elems_def)
    ultimately show ?thesis using cell out d by auto
  qed
qed

end
