(* ===== verification/Api_Copies.thy ===== *)
theory Api_Copies imports Deep_Copy "HOL-Library.Monad_Syntax" begin

text \<open>
  The generated deep copies of the API types (\<open>api/v1/zz_generated.deepcopy.go\<close>): for every struct its
  layout in memory, \<open>DeepCopyInto\<close> statement by statement, and \<open>DeepCopy\<close>.  The reconciler relies on them
  whenever it keeps the parameters apart from the resource they were computed from, and the rest of the
  development does when it treats both as values.

  The types of the Kubernetes libraries and their copiers are parameters (\<open>api_machinery\<close>), with the
  same contract.
\<close>

section \<open>Types of the libraries\<close>

record ext_type =
  xt_type :: gtype
  xt_copy :: copier

record api_machinery =
  am_object_meta :: ext_type
  am_list_meta :: ext_type
  am_condition :: ext_type
  am_quantity :: ext_type
  am_claim_spec :: ext_type

definition deep_ext :: "ext_type \<Rightarrow> bool" where
  "deep_ext e \<longleftrightarrow> deep_copy (xt_type e) (xt_copy e)"

text \<open>The documented behaviour of the copiers the generated code calls.\<close>

definition machinery_copies :: "api_machinery \<Rightarrow> bool" where
  "machinery_copies x \<longleftrightarrow>
     deep_ext (am_object_meta x) \<and> deep_ext (am_list_meta x) \<and> deep_ext (am_condition x) \<and>
     deep_ext (am_quantity x) \<and> deep_ext (am_claim_spec x)"

text \<open>Two types of the libraries that the generated code copies by assignment.\<close>

definition TypeMeta_struct :: gtype where
  "TypeMeta_struct = TStruct [(''Kind'', TStr), (''APIVersion'', TStr)]"

definition Duration_struct :: gtype where
  "Duration_struct = TStruct [(''Duration'', TInt)]"

section \<open>The types of the API\<close>

definition ManagedPipeline_struct :: gtype where
  "ManagedPipeline_struct = TStruct [(''Name'', TStr)]"

definition ManagedPipeline_DeepCopyInto :: copier where
  "ManagedPipeline_DeepCopyInto = copy_struct []"

definition ManagedPipeline_DeepCopy :: copier where
  "ManagedPipeline_DeepCopy = copy_ptr ManagedPipeline_struct ManagedPipeline_DeepCopyInto"

definition Resources_struct :: "api_machinery \<Rightarrow> gtype" where
  "Resources_struct x = TStruct [(''CPU'', xt_type (am_quantity x)), (''Memory'', xt_type (am_quantity x))]"

definition Resources_DeepCopyInto :: "api_machinery \<Rightarrow> copier" where
  "Resources_DeepCopyInto x = copy_struct [(''CPU'', xt_copy (am_quantity x)),
     (''Memory'', xt_copy (am_quantity x))]"

definition Resources_DeepCopy :: "api_machinery \<Rightarrow> copier" where
  "Resources_DeepCopy x = copy_ptr (Resources_struct x) (Resources_DeepCopyInto x)"

definition ResourceRequirements_struct :: "api_machinery \<Rightarrow> gtype" where
  "ResourceRequirements_struct x = TStruct [(''Limits'', TPtr (Resources_struct x)),
     (''Requests'', TPtr (Resources_struct x))]"

definition ResourceRequirements_DeepCopyInto :: "api_machinery \<Rightarrow> copier" where
  "ResourceRequirements_DeepCopyInto x = copy_struct [
     (''Limits'', copy_ptr (Resources_struct x) (Resources_DeepCopyInto x)),
     (''Requests'', copy_ptr (Resources_struct x) (Resources_DeepCopyInto x))]"

definition ResourceRequirements_DeepCopy :: "api_machinery \<Rightarrow> copier" where
  "ResourceRequirements_DeepCopy x = copy_ptr (ResourceRequirements_struct x) (ResourceRequirements_DeepCopyInto x)"

definition ManagedPipelinesSpec_struct :: "api_machinery \<Rightarrow> gtype" where
  "ManagedPipelinesSpec_struct x = TStruct [(''Image'', TStr), (''Pipelines'', TSlice ManagedPipeline_struct),
     (''Resources'', TPtr (ResourceRequirements_struct x)), (''VolumeSizeLimit'', TStr)]"

definition ManagedPipelinesSpec_DeepCopyInto :: "api_machinery \<Rightarrow> copier" where
  "ManagedPipelinesSpec_DeepCopyInto x = copy_struct [
     (''Pipelines'', copy_slice ManagedPipeline_struct copy_flat),
     (''Resources'', copy_ptr (ResourceRequirements_struct x) (ResourceRequirements_DeepCopyInto x))]"

definition ManagedPipelinesSpec_DeepCopy :: "api_machinery \<Rightarrow> copier" where
  "ManagedPipelinesSpec_DeepCopy x = copy_ptr (ManagedPipelinesSpec_struct x) (ManagedPipelinesSpec_DeepCopyInto x)"

definition CABundle_struct :: gtype where
  "CABundle_struct = TStruct [(''ConfigMapName'', TStr), (''ConfigMapKey'', TStr)]"

definition CABundle_DeepCopyInto :: copier where
  "CABundle_DeepCopyInto = copy_struct []"

definition CABundle_DeepCopy :: copier where
  "CABundle_DeepCopy = copy_ptr CABundle_struct CABundle_DeepCopyInto"

definition ScriptConfigMap_struct :: gtype where
  "ScriptConfigMap_struct = TStruct [(''Name'', TStr), (''Key'', TStr)]"

definition ScriptConfigMap_DeepCopyInto :: copier where
  "ScriptConfigMap_DeepCopyInto = copy_struct []"

definition ScriptConfigMap_DeepCopy :: copier where
  "ScriptConfigMap_DeepCopy = copy_ptr ScriptConfigMap_struct ScriptConfigMap_DeepCopyInto"

definition APIServerWorkspace_struct :: "api_machinery \<Rightarrow> gtype" where
  "APIServerWorkspace_struct x = TStruct [(''VolumeClaimTemplateSpec'', xt_type (am_claim_spec x))]"

definition APIServerWorkspace_DeepCopyInto :: "api_machinery \<Rightarrow> copier" where
  "APIServerWorkspace_DeepCopyInto x = copy_struct [(''VolumeClaimTemplateSpec'', xt_copy (am_claim_spec x))]"

definition APIServerWorkspace_DeepCopy :: "api_machinery \<Rightarrow> copier" where
  "APIServerWorkspace_DeepCopy x = copy_ptr (APIServerWorkspace_struct x) (APIServerWorkspace_DeepCopyInto x)"

definition APIServer_struct :: "api_machinery \<Rightarrow> gtype" where
  "APIServer_struct x = TStruct [(''Deploy'', TBool), (''Image'', TStr), (''EnableRoute'', TBool),
     (''EnableSamplePipeline'', TBool), (''ArgoLauncherImage'', TStr), (''ArgoDriverImage'', TStr),
     (''ManagedPipelines'', TPtr (ManagedPipelinesSpec_struct x)),
     (''Resources'', TPtr (ResourceRequirements_struct x)), (''CABundle'', TPtr CABundle_struct),
     (''CustomServerConfig'', TPtr ScriptConfigMap_struct), (''CustomKfpLauncherConfigMap'', TStr),
     (''CABundleFileMountPath'', TStr), (''CABundleFileName'', TStr),
     (''ArtifactSignedURLExpirySeconds'', TPtr TInt), (''PipelineStore'', TStr),
     (''CacheEnabled'', TPtr TBool), (''Workspace'', TPtr (APIServerWorkspace_struct x)),
     (''ResourceTTL'', TPtr Duration_struct)]"

definition APIServer_DeepCopyInto :: "api_machinery \<Rightarrow> copier" where
  "APIServer_DeepCopyInto x = copy_struct [
     (''ManagedPipelines'', copy_ptr (ManagedPipelinesSpec_struct x) (ManagedPipelinesSpec_DeepCopyInto x)),
     (''Resources'', copy_ptr (ResourceRequirements_struct x) (ResourceRequirements_DeepCopyInto x)),
     (''CABundle'', copy_ptr CABundle_struct copy_flat),
     (''CustomServerConfig'', copy_ptr ScriptConfigMap_struct copy_flat),
     (''ArtifactSignedURLExpirySeconds'', copy_ptr TInt copy_flat),
     (''CacheEnabled'', copy_ptr TBool copy_flat),
     (''Workspace'', copy_ptr (APIServerWorkspace_struct x) (APIServerWorkspace_DeepCopyInto x)),
     (''ResourceTTL'', copy_ptr Duration_struct copy_flat)]"

definition APIServer_DeepCopy :: "api_machinery \<Rightarrow> copier" where
  "APIServer_DeepCopy x = copy_ptr (APIServer_struct x) (APIServer_DeepCopyInto x)"

definition PersistenceAgent_struct :: "api_machinery \<Rightarrow> gtype" where
  "PersistenceAgent_struct x = TStruct [(''Deploy'', TBool), (''Image'', TStr), (''NumWorkers'', TInt),
     (''Resources'', TPtr (ResourceRequirements_struct x))]"

definition PersistenceAgent_DeepCopyInto :: "api_machinery \<Rightarrow> copier" where
  "PersistenceAgent_DeepCopyInto x = copy_struct [
     (''Resources'', copy_ptr (ResourceRequirements_struct x) (ResourceRequirements_DeepCopyInto x))]"

definition PersistenceAgent_DeepCopy :: "api_machinery \<Rightarrow> copier" where
  "PersistenceAgent_DeepCopy x = copy_ptr (PersistenceAgent_struct x) (PersistenceAgent_DeepCopyInto x)"

definition ScheduledWorkflow_struct :: "api_machinery \<Rightarrow> gtype" where
  "ScheduledWorkflow_struct x = TStruct [(''Deploy'', TBool), (''Image'', TStr),
     (''CronScheduleTimezone'', TStr), (''Resources'', TPtr (ResourceRequirements_struct x))]"

definition ScheduledWorkflow_DeepCopyInto :: "api_machinery \<Rightarrow> copier" where
  "ScheduledWorkflow_DeepCopyInto x = copy_struct [
     (''Resources'', copy_ptr (ResourceRequirements_struct x) (ResourceRequirements_DeepCopyInto x))]"

definition ScheduledWorkflow_DeepCopy :: "api_machinery \<Rightarrow> copier" where
  "ScheduledWorkflow_DeepCopy x = copy_ptr (ScheduledWorkflow_struct x) (ScheduledWorkflow_DeepCopyInto x)"

definition SecretKeyValue_struct :: gtype where
  "SecretKeyValue_struct = TStruct [(''Name'', TStr), (''Key'', TStr)]"

definition SecretKeyValue_DeepCopyInto :: copier where
  "SecretKeyValue_DeepCopyInto = copy_struct []"

definition SecretKeyValue_DeepCopy :: copier where
  "SecretKeyValue_DeepCopy = copy_ptr SecretKeyValue_struct SecretKeyValue_DeepCopyInto"

definition MariaDB_struct :: "api_machinery \<Rightarrow> gtype" where
  "MariaDB_struct x = TStruct [(''Deploy'', TBool), (''Image'', TStr), (''Username'', TStr),
     (''PasswordSecret'', TPtr SecretKeyValue_struct), (''DBName'', TStr),
     (''PVCSize'', xt_type (am_quantity x)), (''StorageClassName'', TStr),
     (''Resources'', TPtr (ResourceRequirements_struct x))]"

definition MariaDB_DeepCopyInto :: "api_machinery \<Rightarrow> copier" where
  "MariaDB_DeepCopyInto x = copy_struct [(''PasswordSecret'', copy_ptr SecretKeyValue_struct copy_flat),
     (''PVCSize'', xt_copy (am_quantity x)),
     (''Resources'', copy_ptr (ResourceRequirements_struct x) (ResourceRequirements_DeepCopyInto x))]"

definition MariaDB_DeepCopy :: "api_machinery \<Rightarrow> copier" where
  "MariaDB_DeepCopy x = copy_ptr (MariaDB_struct x) (MariaDB_DeepCopyInto x)"

definition ExternalDB_struct :: gtype where
  "ExternalDB_struct = TStruct [(''Host'', TStr), (''Port'', TStr), (''Username'', TStr), (''DBName'', TStr),
     (''PasswordSecret'', TPtr SecretKeyValue_struct)]"

definition ExternalDB_DeepCopyInto :: copier where
  "ExternalDB_DeepCopyInto = copy_struct [(''PasswordSecret'', copy_ptr SecretKeyValue_struct copy_flat)]"

definition ExternalDB_DeepCopy :: copier where
  "ExternalDB_DeepCopy = copy_ptr ExternalDB_struct ExternalDB_DeepCopyInto"

definition Database_struct :: "api_machinery \<Rightarrow> gtype" where
  "Database_struct x = TStruct [(''MariaDB'', TPtr (MariaDB_struct x)),
     (''ExternalDB'', TPtr ExternalDB_struct), (''CustomExtraParams'', TPtr TStr),
     (''DisableHealthCheck'', TBool)]"

definition Database_DeepCopyInto :: "api_machinery \<Rightarrow> copier" where
  "Database_DeepCopyInto x = copy_struct [(''MariaDB'', copy_ptr (MariaDB_struct x) (MariaDB_DeepCopyInto x)),
     (''ExternalDB'', copy_ptr ExternalDB_struct ExternalDB_DeepCopyInto),
     (''CustomExtraParams'', copy_ptr TStr copy_flat)]"

definition Database_DeepCopy :: "api_machinery \<Rightarrow> copier" where
  "Database_DeepCopy x = copy_ptr (Database_struct x) (Database_DeepCopyInto x)"

definition S3CredentialSecret_struct :: gtype where
  "S3CredentialSecret_struct = TStruct [(''SecretName'', TStr), (''AccessKey'', TStr), (''SecretKey'', TStr)]"

definition S3CredentialSecret_DeepCopyInto :: copier where
  "S3CredentialSecret_DeepCopyInto = copy_struct []"

definition S3CredentialSecret_DeepCopy :: copier where
  "S3CredentialSecret_DeepCopy = copy_ptr S3CredentialSecret_struct S3CredentialSecret_DeepCopyInto"

definition Minio_struct :: "api_machinery \<Rightarrow> gtype" where
  "Minio_struct x = TStruct [(''Deploy'', TBool), (''Bucket'', TStr),
     (''S3CredentialSecret'', TPtr S3CredentialSecret_struct), (''PVCSize'', xt_type (am_quantity x)),
     (''StorageClassName'', TStr), (''Resources'', TPtr (ResourceRequirements_struct x)), (''Image'', TStr)]"

definition Minio_DeepCopyInto :: "api_machinery \<Rightarrow> copier" where
  "Minio_DeepCopyInto x = copy_struct [(''S3CredentialSecret'', copy_ptr S3CredentialSecret_struct copy_flat),
     (''PVCSize'', xt_copy (am_quantity x)),
     (''Resources'', copy_ptr (ResourceRequirements_struct x) (ResourceRequirements_DeepCopyInto x))]"

definition Minio_DeepCopy :: "api_machinery \<Rightarrow> copier" where
  "Minio_DeepCopy x = copy_ptr (Minio_struct x) (Minio_DeepCopyInto x)"

definition ExternalStorage_struct :: gtype where
  "ExternalStorage_struct = TStruct [(''Host'', TStr), (''Bucket'', TStr), (''Scheme'', TStr),
     (''Region'', TStr), (''BasePath'', TStr), (''S3CredentialSecret'', TPtr S3CredentialSecret_struct),
     (''Secure'', TPtr TBool), (''Port'', TStr)]"

definition ExternalStorage_DeepCopyInto :: copier where
  "ExternalStorage_DeepCopyInto = copy_struct [
     (''S3CredentialSecret'', copy_ptr S3CredentialSecret_struct copy_flat),
     (''Secure'', copy_ptr TBool copy_flat)]"

definition ExternalStorage_DeepCopy :: copier where
  "ExternalStorage_DeepCopy = copy_ptr ExternalStorage_struct ExternalStorage_DeepCopyInto"

definition ObjectStorage_struct :: "api_machinery \<Rightarrow> gtype" where
  "ObjectStorage_struct x = TStruct [(''Minio'', TPtr (Minio_struct x)),
     (''ExternalStorage'', TPtr ExternalStorage_struct), (''DisableHealthCheck'', TBool),
     (''EnableExternalRoute'', TBool)]"

definition ObjectStorage_DeepCopyInto :: "api_machinery \<Rightarrow> copier" where
  "ObjectStorage_DeepCopyInto x = copy_struct [(''Minio'', copy_ptr (Minio_struct x) (Minio_DeepCopyInto x)),
     (''ExternalStorage'', copy_ptr ExternalStorage_struct ExternalStorage_DeepCopyInto)]"

definition ObjectStorage_DeepCopy :: "api_machinery \<Rightarrow> copier" where
  "ObjectStorage_DeepCopy x = copy_ptr (ObjectStorage_struct x) (ObjectStorage_DeepCopyInto x)"

definition Envoy_struct :: "api_machinery \<Rightarrow> gtype" where
  "Envoy_struct x = TStruct [(''Resources'', TPtr (ResourceRequirements_struct x)), (''Image'', TStr),
     (''DeployRoute'', TBool)]"

definition Envoy_DeepCopyInto :: "api_machinery \<Rightarrow> copier" where
  "Envoy_DeepCopyInto x = copy_struct [
     (''Resources'', copy_ptr (ResourceRequirements_struct x) (ResourceRequirements_DeepCopyInto x))]"

definition Envoy_DeepCopy :: "api_machinery \<Rightarrow> copier" where
  "Envoy_DeepCopy x = copy_ptr (Envoy_struct x) (Envoy_DeepCopyInto x)"

definition GRPC_struct :: "api_machinery \<Rightarrow> gtype" where
  "GRPC_struct x = TStruct [(''Resources'', TPtr (ResourceRequirements_struct x)), (''Image'', TStr),
     (''Port'', TStr)]"

definition GRPC_DeepCopyInto :: "api_machinery \<Rightarrow> copier" where
  "GRPC_DeepCopyInto x = copy_struct [
     (''Resources'', copy_ptr (ResourceRequirements_struct x) (ResourceRequirements_DeepCopyInto x))]"

definition GRPC_DeepCopy :: "api_machinery \<Rightarrow> copier" where
  "GRPC_DeepCopy x = copy_ptr (GRPC_struct x) (GRPC_DeepCopyInto x)"

definition MLMD_struct :: "api_machinery \<Rightarrow> gtype" where
  "MLMD_struct x = TStruct [(''Deploy'', TBool), (''Envoy'', TPtr (Envoy_struct x)),
     (''GRPC'', TPtr (GRPC_struct x))]"

definition MLMD_DeepCopyInto :: "api_machinery \<Rightarrow> copier" where
  "MLMD_DeepCopyInto x = copy_struct [(''Envoy'', copy_ptr (Envoy_struct x) (Envoy_DeepCopyInto x)),
     (''GRPC'', copy_ptr (GRPC_struct x) (GRPC_DeepCopyInto x))]"

definition MLMD_DeepCopy :: "api_machinery \<Rightarrow> copier" where
  "MLMD_DeepCopy x = copy_ptr (MLMD_struct x) (MLMD_DeepCopyInto x)"

definition WorkflowController_struct :: "api_machinery \<Rightarrow> gtype" where
  "WorkflowController_struct x = TStruct [(''Deploy'', TBool), (''Image'', TStr), (''ArgoExecImage'', TStr),
     (''CustomConfig'', TStr), (''Resources'', TPtr (ResourceRequirements_struct x))]"

definition WorkflowController_DeepCopyInto :: "api_machinery \<Rightarrow> copier" where
  "WorkflowController_DeepCopyInto x = copy_struct [
     (''Resources'', copy_ptr (ResourceRequirements_struct x) (ResourceRequirements_DeepCopyInto x))]"

definition WorkflowController_DeepCopy :: "api_machinery \<Rightarrow> copier" where
  "WorkflowController_DeepCopy x = copy_ptr (WorkflowController_struct x) (WorkflowController_DeepCopyInto x)"

definition ProxyConfig_struct :: gtype where
  "ProxyConfig_struct = TStruct [(''HTTPProxy'', TStr), (''HTTPSProxy'', TStr), (''NoProxy'', TStr)]"

definition ProxyConfig_DeepCopyInto :: copier where
  "ProxyConfig_DeepCopyInto = copy_struct []"

definition ProxyConfig_DeepCopy :: copier where
  "ProxyConfig_DeepCopy = copy_ptr ProxyConfig_struct ProxyConfig_DeepCopyInto"

definition MLflowConfig_struct :: gtype where
  "MLflowConfig_struct = TStruct [(''IntegrationMode'', TPtr TStr), (''InjectUserEnvVars'', TPtr TBool)]"

definition MLflowConfig_DeepCopyInto :: copier where
  "MLflowConfig_DeepCopyInto = copy_struct [(''IntegrationMode'', copy_ptr TStr copy_flat),
     (''InjectUserEnvVars'', copy_ptr TBool copy_flat)]"

definition MLflowConfig_DeepCopy :: copier where
  "MLflowConfig_DeepCopy = copy_ptr MLflowConfig_struct MLflowConfig_DeepCopyInto"

definition DSPASpec_struct :: "api_machinery \<Rightarrow> gtype" where
  "DSPASpec_struct x = TStruct [(''APIServer'', TPtr (APIServer_struct x)),
     (''PersistenceAgent'', TPtr (PersistenceAgent_struct x)),
     (''ScheduledWorkflow'', TPtr (ScheduledWorkflow_struct x)), (''Database'', TPtr (Database_struct x)),
     (''ObjectStorage'', TPtr (ObjectStorage_struct x)), (''MLMD'', TPtr (MLMD_struct x)),
     (''DSPVersion'', TStr), (''PodToPodTLS'', TPtr TBool),
     (''WorkflowController'', TPtr (WorkflowController_struct x)), (''Proxy'', TPtr ProxyConfig_struct),
     (''MLflow'', TPtr MLflowConfig_struct)]"

definition DSPASpec_DeepCopyInto :: "api_machinery \<Rightarrow> copier" where
  "DSPASpec_DeepCopyInto x = copy_struct [
     (''APIServer'', copy_ptr (APIServer_struct x) (APIServer_DeepCopyInto x)),
     (''PersistenceAgent'', copy_ptr (PersistenceAgent_struct x) (PersistenceAgent_DeepCopyInto x)),
     (''ScheduledWorkflow'', copy_ptr (ScheduledWorkflow_struct x) (ScheduledWorkflow_DeepCopyInto x)),
     (''Database'', copy_ptr (Database_struct x) (Database_DeepCopyInto x)),
     (''ObjectStorage'', copy_ptr (ObjectStorage_struct x) (ObjectStorage_DeepCopyInto x)),
     (''MLMD'', copy_ptr (MLMD_struct x) (MLMD_DeepCopyInto x)), (''PodToPodTLS'', copy_ptr TBool copy_flat),
     (''WorkflowController'', copy_ptr (WorkflowController_struct x) (WorkflowController_DeepCopyInto x)),
     (''Proxy'', copy_ptr ProxyConfig_struct copy_flat),
     (''MLflow'', copy_ptr MLflowConfig_struct MLflowConfig_DeepCopyInto)]"

definition DSPASpec_DeepCopy :: "api_machinery \<Rightarrow> copier" where
  "DSPASpec_DeepCopy x = copy_ptr (DSPASpec_struct x) (DSPASpec_DeepCopyInto x)"

definition ManagedPipelineOptions_struct :: gtype where
  "ManagedPipelineOptions_struct = TStruct [(''State'', TStr)]"

definition ManagedPipelineOptions_DeepCopyInto :: copier where
  "ManagedPipelineOptions_DeepCopyInto = copy_struct []"

definition ManagedPipelineOptions_DeepCopy :: copier where
  "ManagedPipelineOptions_DeepCopy = copy_ptr ManagedPipelineOptions_struct ManagedPipelineOptions_DeepCopyInto"

definition Writer_struct :: "api_machinery \<Rightarrow> gtype" where
  "Writer_struct x = TStruct [(''Resources'', TPtr (ResourceRequirements_struct x)), (''Image'', TStr)]"

definition Writer_DeepCopyInto :: "api_machinery \<Rightarrow> copier" where
  "Writer_DeepCopyInto x = copy_struct [
     (''Resources'', copy_ptr (ResourceRequirements_struct x) (ResourceRequirements_DeepCopyInto x))]"

definition Writer_DeepCopy :: "api_machinery \<Rightarrow> copier" where
  "Writer_DeepCopy x = copy_ptr (Writer_struct x) (Writer_DeepCopyInto x)"

definition ComponentDetailStatus_struct :: gtype where
  "ComponentDetailStatus_struct = TStruct [(''Url'', TStr), (''ExternalUrl'', TStr)]"

definition ComponentDetailStatus_DeepCopyInto :: copier where
  "ComponentDetailStatus_DeepCopyInto = copy_struct []"

definition ComponentDetailStatus_DeepCopy :: copier where
  "ComponentDetailStatus_DeepCopy = copy_ptr ComponentDetailStatus_struct ComponentDetailStatus_DeepCopyInto"

definition ComponentStatus_struct :: gtype where
  "ComponentStatus_struct = TStruct [(''MLMDProxy'', ComponentDetailStatus_struct),
     (''APIServer'', ComponentDetailStatus_struct)]"

definition ComponentStatus_DeepCopyInto :: copier where
  "ComponentStatus_DeepCopyInto = copy_struct [(''MLMDProxy'', copy_flat), (''APIServer'', copy_flat)]"

definition ComponentStatus_DeepCopy :: copier where
  "ComponentStatus_DeepCopy = copy_ptr ComponentStatus_struct ComponentStatus_DeepCopyInto"

definition DSPAStatus_struct :: "api_machinery \<Rightarrow> gtype" where
  "DSPAStatus_struct x = TStruct [(''Components'', ComponentStatus_struct),
     (''Conditions'', TSlice (xt_type (am_condition x)))]"

definition DSPAStatus_DeepCopyInto :: "api_machinery \<Rightarrow> copier" where
  "DSPAStatus_DeepCopyInto x = copy_struct [(''Components'', copy_flat),
     (''Conditions'', copy_slice (xt_type (am_condition x)) (xt_copy (am_condition x)))]"

definition DSPAStatus_DeepCopy :: "api_machinery \<Rightarrow> copier" where
  "DSPAStatus_DeepCopy x = copy_ptr (DSPAStatus_struct x) (DSPAStatus_DeepCopyInto x)"

definition DataSciencePipelinesApplication_struct :: "api_machinery \<Rightarrow> gtype" where
  "DataSciencePipelinesApplication_struct x = TStruct [(''TypeMeta'', TypeMeta_struct),
     (''ObjectMeta'', xt_type (am_object_meta x)), (''Spec'', DSPASpec_struct x),
     (''Status'', DSPAStatus_struct x)]"

definition DataSciencePipelinesApplication_DeepCopyInto :: "api_machinery \<Rightarrow> copier" where
  "DataSciencePipelinesApplication_DeepCopyInto x = copy_struct [(''TypeMeta'', copy_flat),
     (''ObjectMeta'', xt_copy (am_object_meta x)), (''Spec'', DSPASpec_DeepCopyInto x),
     (''Status'', DSPAStatus_DeepCopyInto x)]"

definition DataSciencePipelinesApplication_DeepCopy :: "api_machinery \<Rightarrow> copier" where
  "DataSciencePipelinesApplication_DeepCopy x = copy_ptr (DataSciencePipelinesApplication_struct x) (DataSciencePipelinesApplication_DeepCopyInto x)"

definition DataSciencePipelinesApplicationList_struct :: "api_machinery \<Rightarrow> gtype" where
  "DataSciencePipelinesApplicationList_struct x = TStruct [(''TypeMeta'', TypeMeta_struct),
     (''ListMeta'', xt_type (am_list_meta x)), (''Items'', TSlice (DataSciencePipelinesApplication_struct x))]"

definition DataSciencePipelinesApplicationList_DeepCopyInto :: "api_machinery \<Rightarrow> copier" where
  "DataSciencePipelinesApplicationList_DeepCopyInto x = copy_struct [(''TypeMeta'', copy_flat),
     (''ListMeta'', xt_copy (am_list_meta x)),
     (''Items'', copy_slice (DataSciencePipelinesApplication_struct x) (DataSciencePipelinesApplication_DeepCopyInto x))]"

definition DataSciencePipelinesApplicationList_DeepCopy :: "api_machinery \<Rightarrow> copier" where
  "DataSciencePipelinesApplicationList_DeepCopy x = copy_ptr (DataSciencePipelinesApplicationList_struct x) (DataSciencePipelinesApplicationList_DeepCopyInto x)"

text \<open>A nil pointer becomes a nil interface, not an interface that holds a nil pointer.\<close>

definition as_object :: "gval \<times> mem \<Rightarrow> gval option \<times> mem" where
  "as_object r = (if fst r \<noteq> VPtr None then (Some (fst r), snd r) else (None, snd r))"

definition DataSciencePipelinesApplication_DeepCopyObject :: "api_machinery \<Rightarrow> gval \<Rightarrow> mem \<Rightarrow> gval option \<times> mem" where
  "DataSciencePipelinesApplication_DeepCopyObject x v m = as_object (DataSciencePipelinesApplication_DeepCopy x v m)"

definition DataSciencePipelinesApplicationList_DeepCopyObject :: "api_machinery \<Rightarrow> gval \<Rightarrow> mem \<Rightarrow> gval option \<times> mem" where
  "DataSciencePipelinesApplicationList_DeepCopyObject x v m = as_object (DataSciencePipelinesApplicationList_DeepCopy x v m)"

section \<open>The contract, type by type\<close>

lemma flat_types [simp]:
  shows "flat TypeMeta_struct"
  and "flat Duration_struct"
  and "flat ManagedPipeline_struct"
  and "flat CABundle_struct"
  and "flat ScriptConfigMap_struct"
  and "flat SecretKeyValue_struct"
  and "flat S3CredentialSecret_struct"
  and "flat ProxyConfig_struct"
  and "flat ManagedPipelineOptions_struct"
  and "flat ComponentDetailStatus_struct"
  and "flat ComponentStatus_struct"
  by (simp_all add: TypeMeta_struct_def Duration_struct_def ManagedPipeline_struct_def CABundle_struct_def ScriptConfigMap_struct_def SecretKeyValue_struct_def S3CredentialSecret_struct_def ProxyConfig_struct_def ManagedPipelineOptions_struct_def ComponentDetailStatus_struct_def ComponentStatus_struct_def)

lemma deep_machinery:
  assumes "machinery_copies x"
  shows "deep_copy (xt_type (am_object_meta x)) (xt_copy (am_object_meta x))"
    and "deep_copy (xt_type (am_list_meta x)) (xt_copy (am_list_meta x))"
    and "deep_copy (xt_type (am_condition x)) (xt_copy (am_condition x))"
    and "deep_copy (xt_type (am_quantity x)) (xt_copy (am_quantity x))"
    and "deep_copy (xt_type (am_claim_spec x)) (xt_copy (am_claim_spec x))"
  using assms by (simp_all add: machinery_copies_def deep_ext_def)

lemma ManagedPipeline_copies [deep_copies]:
  shows "deep_copy ManagedPipeline_struct ManagedPipeline_DeepCopyInto"
  unfolding ManagedPipeline_struct_def ManagedPipeline_DeepCopyInto_def
  by (rule deep_copy_struct) (simp add: deep_copies)

lemma Resources_copies [deep_copies]:
  assumes "machinery_copies x"
  shows "deep_copy (Resources_struct x) (Resources_DeepCopyInto x)"
  unfolding Resources_struct_def Resources_DeepCopyInto_def
  by (rule deep_copy_struct) (simp add: deep_copies deep_machinery [OF assms] assms)

lemma ResourceRequirements_copies [deep_copies]:
  assumes "machinery_copies x"
  shows "deep_copy (ResourceRequirements_struct x) (ResourceRequirements_DeepCopyInto x)"
  unfolding ResourceRequirements_struct_def ResourceRequirements_DeepCopyInto_def
  by (rule deep_copy_struct) (simp add: deep_copies deep_machinery [OF assms] assms)

lemma ManagedPipelinesSpec_copies [deep_copies]:
  assumes "machinery_copies x"
  shows "deep_copy (ManagedPipelinesSpec_struct x) (ManagedPipelinesSpec_DeepCopyInto x)"
  unfolding ManagedPipelinesSpec_struct_def ManagedPipelinesSpec_DeepCopyInto_def
  by (rule deep_copy_struct) (simp add: deep_copies deep_machinery [OF assms] assms)

lemma CABundle_copies [deep_copies]:
  shows "deep_copy CABundle_struct CABundle_DeepCopyInto"
  unfolding CABundle_struct_def CABundle_DeepCopyInto_def
  by (rule deep_copy_struct) (simp add: deep_copies)

lemma ScriptConfigMap_copies [deep_copies]:
  shows "deep_copy ScriptConfigMap_struct ScriptConfigMap_DeepCopyInto"
  unfolding ScriptConfigMap_struct_def ScriptConfigMap_DeepCopyInto_def
  by (rule deep_copy_struct) (simp add: deep_copies)

lemma APIServerWorkspace_copies [deep_copies]:
  assumes "machinery_copies x"
  shows "deep_copy (APIServerWorkspace_struct x) (APIServerWorkspace_DeepCopyInto x)"
  unfolding APIServerWorkspace_struct_def APIServerWorkspace_DeepCopyInto_def
  by (rule deep_copy_struct) (simp add: deep_copies deep_machinery [OF assms] assms)

lemma APIServer_copies [deep_copies]:
  assumes "machinery_copies x"
  shows "deep_copy (APIServer_struct x) (APIServer_DeepCopyInto x)"
  unfolding APIServer_struct_def APIServer_DeepCopyInto_def
  by (rule deep_copy_struct) (simp add: deep_copies deep_machinery [OF assms] assms)

lemma PersistenceAgent_copies [deep_copies]:
  assumes "machinery_copies x"
  shows "deep_copy (PersistenceAgent_struct x) (PersistenceAgent_DeepCopyInto x)"
  unfolding PersistenceAgent_struct_def PersistenceAgent_DeepCopyInto_def
  by (rule deep_copy_struct) (simp add: deep_copies deep_machinery [OF assms] assms)

lemma ScheduledWorkflow_copies [deep_copies]:
  assumes "machinery_copies x"
  shows "deep_copy (ScheduledWorkflow_struct x) (ScheduledWorkflow_DeepCopyInto x)"
  unfolding ScheduledWorkflow_struct_def ScheduledWorkflow_DeepCopyInto_def
  by (rule deep_copy_struct) (simp add: deep_copies deep_machinery [OF assms] assms)

lemma SecretKeyValue_copies [deep_copies]:
  shows "deep_copy SecretKeyValue_struct SecretKeyValue_DeepCopyInto"
  unfolding SecretKeyValue_struct_def SecretKeyValue_DeepCopyInto_def
  by (rule deep_copy_struct) (simp add: deep_copies)

lemma MariaDB_copies [deep_copies]:
  assumes "machinery_copies x"
  shows "deep_copy (MariaDB_struct x) (MariaDB_DeepCopyInto x)"
  unfolding MariaDB_struct_def MariaDB_DeepCopyInto_def
  by (rule deep_copy_struct) (simp add: deep_copies deep_machinery [OF assms] assms)

lemma ExternalDB_copies [deep_copies]:
  shows "deep_copy ExternalDB_struct ExternalDB_DeepCopyInto"
  unfolding ExternalDB_struct_def ExternalDB_DeepCopyInto_def
  by (rule deep_copy_struct) (simp add: deep_copies)

lemma Database_copies [deep_copies]:
  assumes "machinery_copies x"
  shows "deep_copy (Database_struct x) (Database_DeepCopyInto x)"
  unfolding Database_struct_def Database_DeepCopyInto_def
  by (rule deep_copy_struct) (simp add: deep_copies deep_machinery [OF assms] assms)

lemma S3CredentialSecret_copies [deep_copies]:
  shows "deep_copy S3CredentialSecret_struct S3CredentialSecret_DeepCopyInto"
  unfolding S3CredentialSecret_struct_def S3CredentialSecret_DeepCopyInto_def
  by (rule deep_copy_struct) (simp add: deep_copies)

lemma Minio_copies [deep_copies]:
  assumes "machinery_copies x"
  shows "deep_copy (Minio_struct x) (Minio_DeepCopyInto x)"
  unfolding Minio_struct_def Minio_DeepCopyInto_def
  by (rule deep_copy_struct) (simp add: deep_copies deep_machinery [OF assms] assms)

lemma ExternalStorage_copies [deep_copies]:
  shows "deep_copy ExternalStorage_struct ExternalStorage_DeepCopyInto"
  unfolding ExternalStorage_struct_def ExternalStorage_DeepCopyInto_def
  by (rule deep_copy_struct) (simp add: deep_copies)

lemma ObjectStorage_copies [deep_copies]:
  assumes "machinery_copies x"
  shows "deep_copy (ObjectStorage_struct x) (ObjectStorage_DeepCopyInto x)"
  unfolding ObjectStorage_struct_def ObjectStorage_DeepCopyInto_def
  by (rule deep_copy_struct) (simp add: deep_copies deep_machinery [OF assms] assms)

lemma Envoy_copies [deep_copies]:
  assumes "machinery_copies x"
  shows "deep_copy (Envoy_struct x) (Envoy_DeepCopyInto x)"
  unfolding Envoy_struct_def Envoy_DeepCopyInto_def
  by (rule deep_copy_struct) (simp add: deep_copies deep_machinery [OF assms] assms)

lemma GRPC_copies [deep_copies]:
  assumes "machinery_copies x"
  shows "deep_copy (GRPC_struct x) (GRPC_DeepCopyInto x)"
  unfolding GRPC_struct_def GRPC_DeepCopyInto_def
  by (rule deep_copy_struct) (simp add: deep_copies deep_machinery [OF assms] assms)

lemma MLMD_copies [deep_copies]:
  assumes "machinery_copies x"
  shows "deep_copy (MLMD_struct x) (MLMD_DeepCopyInto x)"
  unfolding MLMD_struct_def MLMD_DeepCopyInto_def
  by (rule deep_copy_struct) (simp add: deep_copies deep_machinery [OF assms] assms)

lemma WorkflowController_copies [deep_copies]:
  assumes "machinery_copies x"
  shows "deep_copy (WorkflowController_struct x) (WorkflowController_DeepCopyInto x)"
  unfolding WorkflowController_struct_def WorkflowController_DeepCopyInto_def
  by (rule deep_copy_struct) (simp add: deep_copies deep_machinery [OF assms] assms)

lemma ProxyConfig_copies [deep_copies]:
  shows "deep_copy ProxyConfig_struct ProxyConfig_DeepCopyInto"
  unfolding ProxyConfig_struct_def ProxyConfig_DeepCopyInto_def
  by (rule deep_copy_struct) (simp add: deep_copies)

lemma MLflowConfig_copies [deep_copies]:
  shows "deep_copy MLflowConfig_struct MLflowConfig_DeepCopyInto"
  unfolding MLflowConfig_struct_def MLflowConfig_DeepCopyInto_def
  by (rule deep_copy_struct) (simp add: deep_copies)

lemma DSPASpec_copies [deep_copies]:
  assumes "machinery_copies x"
  shows "deep_copy (DSPASpec_struct x) (DSPASpec_DeepCopyInto x)"
  unfolding DSPASpec_struct_def DSPASpec_DeepCopyInto_def
  by (rule deep_copy_struct) (simp add: deep_copies deep_machinery [OF assms] assms)

lemma ManagedPipelineOptions_copies [deep_copies]:
  shows "deep_copy ManagedPipelineOptions_struct ManagedPipelineOptions_DeepCopyInto"
  unfolding ManagedPipelineOptions_struct_def ManagedPipelineOptions_DeepCopyInto_def
  by (rule deep_copy_struct) (simp add: deep_copies)

lemma Writer_copies [deep_copies]:
  assumes "machinery_copies x"
  shows "deep_copy (Writer_struct x) (Writer_DeepCopyInto x)"
  unfolding Writer_struct_def Writer_DeepCopyInto_def
  by (rule deep_copy_struct) (simp add: deep_copies deep_machinery [OF assms] assms)

lemma ComponentDetailStatus_copies [deep_copies]:
  shows "deep_copy ComponentDetailStatus_struct ComponentDetailStatus_DeepCopyInto"
  unfolding ComponentDetailStatus_struct_def ComponentDetailStatus_DeepCopyInto_def
  by (rule deep_copy_struct) (simp add: deep_copies)

lemma ComponentStatus_copies [deep_copies]:
  shows "deep_copy ComponentStatus_struct ComponentStatus_DeepCopyInto"
  unfolding ComponentStatus_struct_def ComponentStatus_DeepCopyInto_def
  by (rule deep_copy_struct) (simp add: deep_copies)

lemma DSPAStatus_copies [deep_copies]:
  assumes "machinery_copies x"
  shows "deep_copy (DSPAStatus_struct x) (DSPAStatus_DeepCopyInto x)"
  unfolding DSPAStatus_struct_def DSPAStatus_DeepCopyInto_def
  by (rule deep_copy_struct) (simp add: deep_copies deep_machinery [OF assms] assms)

lemma DataSciencePipelinesApplication_copies [deep_copies]:
  assumes "machinery_copies x"
  shows "deep_copy (DataSciencePipelinesApplication_struct x) (DataSciencePipelinesApplication_DeepCopyInto x)"
  unfolding DataSciencePipelinesApplication_struct_def DataSciencePipelinesApplication_DeepCopyInto_def
  by (rule deep_copy_struct) (simp add: deep_copies deep_machinery [OF assms] assms)

lemma DataSciencePipelinesApplicationList_copies [deep_copies]:
  assumes "machinery_copies x"
  shows "deep_copy (DataSciencePipelinesApplicationList_struct x) (DataSciencePipelinesApplicationList_DeepCopyInto x)"
  unfolding DataSciencePipelinesApplicationList_struct_def DataSciencePipelinesApplicationList_DeepCopyInto_def
  by (rule deep_copy_struct) (simp add: deep_copies deep_machinery [OF assms] assms)

section \<open>The parameters of a reconcile\<close>

text \<open>
  \<open>ExtractParams\<close> starts with a deep copy of every section of the resource that it will fill in with
  defaults.  \<open>None\<close> is the panic of following a nil \<open>dsp.Spec.Database\<close> or \<open>dsp.Spec.ObjectStorage\<close>.
\<close>

definition params_sources :: "mem \<Rightarrow> gval \<Rightarrow> (string \<times> gval) list option" where
  "params_sources m dsp =
     do {
       obj \<leftarrow> deref_ptr m dsp;
       spec \<leftarrow> sel ''Spec'' obj;
       apiServer \<leftarrow> sel ''APIServer'' spec;
       scheduledWorkflow \<leftarrow> sel ''ScheduledWorkflow'' spec;
       workflowController \<leftarrow> sel ''WorkflowController'' spec;
       persistenceAgent \<leftarrow> sel ''PersistenceAgent'' spec;
       database \<leftarrow> Option.bind (sel ''Database'' spec) (deref_ptr m);
       mariaDB \<leftarrow> sel ''MariaDB'' database;
       objectStorage \<leftarrow> Option.bind (sel ''ObjectStorage'' spec) (deref_ptr m);
       minio \<leftarrow> sel ''Minio'' objectStorage;
       mlmd \<leftarrow> sel ''MLMD'' spec;
       Some [(''APIServer'', apiServer), (''ScheduledWorkflow'', scheduledWorkflow),
             (''WorkflowController'', workflowController), (''PersistenceAgent'', persistenceAgent),
             (''MariaDB'', mariaDB), (''Minio'', minio), (''MLMD'', mlmd)]
     }"

definition params_copiers :: "api_machinery \<Rightarrow> (string \<times> copier) list" where
  "params_copiers x =
     [(''APIServer'', APIServer_DeepCopy x), (''ScheduledWorkflow'', ScheduledWorkflow_DeepCopy x),
      (''WorkflowController'', WorkflowController_DeepCopy x), (''PersistenceAgent'', PersistenceAgent_DeepCopy x),
      (''MariaDB'', MariaDB_DeepCopy x), (''Minio'', Minio_DeepCopy x), (''MLMD'', MLMD_DeepCopy x)]"

definition params_fields :: "api_machinery \<Rightarrow> (string \<times> gtype) list" where
  "params_fields x =
     [(''APIServer'', TPtr (APIServer_struct x)), (''ScheduledWorkflow'', TPtr (ScheduledWorkflow_struct x)),
      (''WorkflowController'', TPtr (WorkflowController_struct x)),
      (''PersistenceAgent'', TPtr (PersistenceAgent_struct x)),
      (''MariaDB'', TPtr (MariaDB_struct x)), (''Minio'', TPtr (Minio_struct x)), (''MLMD'', TPtr (MLMD_struct x))]"

definition params_copies :: "api_machinery \<Rightarrow> gval \<Rightarrow> mem \<Rightarrow> ((string \<times> gval) list \<times> mem) option" where
  "params_copies x dsp m = map_option (\<lambda>vs. copy_fields (params_copiers x) vs m) (params_sources m dsp)"

lemma params_copiers_deep:
  assumes "machinery_copies x"
  shows "list_all (\<lambda>(f, t). case map_of (params_copiers x) f of None \<Rightarrow> flat t | Some c \<Rightarrow> deep_copy t c) (params_fields x)"
  by (simp add: params_copiers_def params_fields_def APIServer_DeepCopy_def ScheduledWorkflow_DeepCopy_def
      WorkflowController_DeepCopy_def PersistenceAgent_DeepCopy_def MariaDB_DeepCopy_def Minio_DeepCopy_def
      MLMD_DeepCopy_def deep_copies assms)

text \<open>What is copied is a part of the resource, of the type it is copied at.\<close>

lemma params_sources_typed:
  assumes "of_type m (TPtr (DataSciencePipelinesApplication_struct x)) dsp" "params_sources m dsp = Some vs"
  shows "\<exists>ds B. view_fields m (params_fields x) vs = Some (ds, B)"
proof (rule of_type_fields)
  from assms(2) obtain obj spec where obj: "deref_ptr m dsp = Some obj" "sel ''Spec'' obj = Some spec"
    by (auto simp: params_sources_def bind_eq_Some_conv)
  have spec: "of_type m (DSPASpec_struct x) spec"
    by (rule of_type_sel [OF of_type_deref [OF assms(1) obj(1), unfolded DataSciencePipelinesApplication_struct_def] obj(2)])
      simp
  note parts = of_type_sel [OF spec [unfolded DSPASpec_struct_def]]
  have database: "of_type m (TPtr (MariaDB_struct x)) u"
    if "sel ''Database'' spec = Some v" "deref_ptr m v = Some db" "sel ''MariaDB'' db = Some u" for u v db
  proof (rule of_type_sel [OF of_type_deref [OF _ that(2)] that(3)])
    show "of_type m (TPtr (TStruct [(''MariaDB'', TPtr (MariaDB_struct x)), (''ExternalDB'', TPtr ExternalDB_struct),
        (''CustomExtraParams'', TPtr TStr), (''DisableHealthCheck'', TBool)])) v"
      using parts [OF that(1)] by (simp add: Database_struct_def)
  qed simp
  have minio: "of_type m (TPtr (Minio_struct x)) u"
    if "sel ''ObjectStorage'' spec = Some v" "deref_ptr m v = Some os" "sel ''Minio'' os = Some u" for u v os
  proof (rule of_type_sel [OF of_type_deref [OF _ that(2)] that(3)])
    show "of_type m (TPtr (TStruct [(''Minio'', TPtr (Minio_struct x)), (''ExternalStorage'', TPtr ExternalStorage_struct),
        (''DisableHealthCheck'', TBool), (''EnableExternalRoute'', TBool)])) v"
      using parts [OF that(1)] by (simp add: ObjectStorage_struct_def)
  qed simp
  from assms(2) show "list_all2 (\<lambda>(f, t) (g, v). g = f \<and> of_type m t v) (params_fields x) vs"
    using obj database minio
    by (auto simp: params_sources_def params_fields_def bind_eq_Some_conv intro: parts)
qed

text \<open>The types that need nothing of the libraries keep the contract outright.\<close>

interpretation mlflow_config: deep_copy MLflowConfig_struct MLflowConfig_DeepCopyInto
  by (rule MLflowConfig_copies)

interpretation external_db: deep_copy ExternalDB_struct ExternalDB_DeepCopyInto
  by (rule ExternalDB_copies)

interpretation external_storage: deep_copy ExternalStorage_struct ExternalStorage_DeepCopyInto
  by (rule ExternalStorage_copies)

section \<open>A concrete memory\<close>

text \<open>Library types with references in them, and a resource with an API server, a database and a store.\<close>

definition sample_machinery :: api_machinery where
  "sample_machinery =
     \<lparr>am_object_meta = \<lparr>xt_type = TStruct [(''Name'', TStr), (''Finalizers'', TSlice TStr)],
                        xt_copy = copy_struct [(''Finalizers'', copy_slice TStr copy_flat)]\<rparr>,
      am_list_meta = \<lparr>xt_type = TStruct [(''ResourceVersion'', TStr)], xt_copy = copy_struct []\<rparr>,
      am_condition = \<lparr>xt_type = TStruct [(''Type'', TStr), (''Status'', TStr)], xt_copy = copy_struct []\<rparr>,
      am_quantity = \<lparr>xt_type = TStruct [(''i'', TInt), (''d'', TPtr TInt)],
                     xt_copy = copy_struct [(''d'', copy_ptr TInt copy_flat)]\<rparr>,
      am_claim_spec = \<lparr>xt_type = TStruct [(''StorageClassName'', TPtr TStr)],
                       xt_copy = copy_struct [(''StorageClassName'', copy_ptr TStr copy_flat)]\<rparr>\<rparr>"

lemma sample_machinery_copies: "machinery_copies sample_machinery"
  by (simp add: machinery_copies_def deep_ext_def sample_machinery_def deep_copies)

fun with_field :: "string \<Rightarrow> gval \<Rightarrow> gval \<Rightarrow> gval" where
  "with_field f v (VStruct vs) = VStruct (map (\<lambda>(g, u). if g = f then (g, v) else (g, u)) vs)"
| "with_field f v u = u"

definition sample_mem :: mem where
  "sample_mem =
     \<lparr>m_next = 5,
      m_cells =
        [0 \<mapsto> CVal (with_field ''Spec''
                (with_field ''APIServer'' (VPtr (Some 1)) (with_field ''Database'' (VPtr (Some 2))
                  (with_field ''ObjectStorage'' (VPtr (Some 3)) (zero (DSPASpec_struct sample_machinery)))))
                (zero (DataSciencePipelinesApplication_struct sample_machinery))),
         1 \<mapsto> CVal (with_field ''CacheEnabled'' (VPtr (Some 4)) (zero (APIServer_struct sample_machinery))),
         2 \<mapsto> CVal (zero (Database_struct sample_machinery)),
         3 \<mapsto> CVal (zero (ObjectStorage_struct sample_machinery)),
         4 \<mapsto> CVal (VBool True)]\<rparr>"

lemmas sample_structs = DataSciencePipelinesApplication_struct_def DSPASpec_struct_def DSPAStatus_struct_def
  ComponentStatus_struct_def ComponentDetailStatus_struct_def TypeMeta_struct_def APIServer_struct_def
  Database_struct_def ObjectStorage_struct_def

lemma sample_mem_ok: "mem_ok sample_mem"
  by (auto simp: mem_ok_def sample_mem_def split: if_splits)

lemma sample_mem_view:
  "\<exists>d A. view sample_mem (TPtr (DataSciencePipelinesApplication_struct sample_machinery)) (VPtr (Some 0)) = Some (d, A)"
  by (simp add: sample_mem_def sample_structs sample_machinery_def)

lemma sample_mem_sources:
  "\<exists>vs. params_sources sample_mem (VPtr (Some 0)) = Some vs"
  by (simp add: params_sources_def sample_mem_def sample_structs sample_machinery_def)

section \<open>Properties\<close>

text \<open>
  C10: A deep copy of the resource is a resource of its own.  In any memory, for any pointer to a
  well-formed resource, \<open>DeepCopy\<close> yields a pointer to a resource with the same contents at every depth and
  no cell in common with the original; and no sequence of writes through either of the two changes what
  the other denotes.  The copiers of the Kubernetes libraries are assumed to do the same for their types.
\<close>

theorem resource_copy_isolated:
  assumes "machinery_copies x" "mem_ok m"
    and "view m (TPtr (DataSciencePipelinesApplication_struct x)) p = Some (d, A)"
    and "DataSciencePipelinesApplication_DeepCopy x p m = (p', m')"
  shows "\<exists>A'. view m' (TPtr (DataSciencePipelinesApplication_struct x)) p' = Some (d, A') \<and> set A \<inter> set A' = {} \<and>
     (\<forall>ws. fst ` set ws \<subseteq> set A' \<longrightarrow>
        view (stores ws m') (TPtr (DataSciencePipelinesApplication_struct x)) p = Some (d, A)) \<and>
     (\<forall>ws. fst ` set ws \<subseteq> {..<m_next m} \<longrightarrow>
        view (stores ws m') (TPtr (DataSciencePipelinesApplication_struct x)) p' = Some (d, A'))"
proof -
  have "deep_copy (TPtr (DataSciencePipelinesApplication_struct x)) (DataSciencePipelinesApplication_DeepCopy x)"
    unfolding DataSciencePipelinesApplication_DeepCopy_def by (intro deep_copies assms(1))
  from deep_copy.copy_isolated [OF this assms(2-)] show ?thesis by metis
qed

theorem resource_copy_isolated_witness:
  "\<exists>d A p' m' A'.
     view sample_mem (TPtr (DataSciencePipelinesApplication_struct sample_machinery)) (VPtr (Some 0)) = Some (d, A) \<and>
     DataSciencePipelinesApplication_DeepCopy sample_machinery (VPtr (Some 0)) sample_mem = (p', m') \<and>
     view m' (TPtr (DataSciencePipelinesApplication_struct sample_machinery)) p' = Some (d, A') \<and> set A \<inter> set A' = {}"
proof -
  obtain p' m' where run: "DataSciencePipelinesApplication_DeepCopy sample_machinery (VPtr (Some 0)) sample_mem = (p', m')"
    by fastforce
  from sample_mem_view obtain d A where
    v: "view sample_mem (TPtr (DataSciencePipelinesApplication_struct sample_machinery)) (VPtr (Some 0)) = Some (d, A)" by blast
  from resource_copy_isolated [OF sample_machinery_copies sample_mem_ok v run] v run show ?thesis by blast
qed



end
