(* ===== verification/Names_Store.thy ===== *)
theory Names_Store imports Go_Memory Ttl_Cache "HOL-Library.AList" begin

text \<open>
  The cache of the fetcher as the code keeps it (\<open>controllers/managed_pipelines_fetcher.go\<close>): its entries
  hold references to Go maps, and so do the callers of \<open>FetchPipelineNames\<close>, which may write to the maps
  they were given.  \<open>Ttl_Cache\<close> has the cache with sets of names as values; here it is shown that, thanks
  to the copies made on the way in and on the way out, the two cannot be told apart, whatever the callers
  do with their maps and however their calls interleave.
\<close>

section \<open>Operations\<close>

record heap_entry =
  he_names :: addr
  he_fetched_at :: int

record fetcher =
  f_mem :: mem
  f_cache :: "string \<rightharpoonup> heap_entry"

definition NewOCIManifestFetcher :: "mem \<Rightarrow> fetcher" where
  "NewOCIManifestFetcher m = \<lparr>f_mem = m, f_cache = Map.empty\<rparr>"

text \<open>\<open>for k, v := range m { cp[k] = v }\<close>, into a map that has just been made; a nil map has no entries.\<close>

definition copy_entries :: "(string \<times> gval) list \<Rightarrow> (string \<times> gval) list \<Rightarrow> (string \<times> gval) list" where
  "copy_entries kvs cp = fold (\<lambda>(k, v) cp. AList.update k v cp) kvs cp"

definition copyStringBoolMap :: "addr option \<Rightarrow> mem \<Rightarrow> addr \<times> mem" where
  "copyStringBoolMap p m =
     (let (cp, m1) = alloc (CTable []) m in
      case p of
        None \<Rightarrow> (cp, m1)
      | Some a \<Rightarrow>
          (case m_cells m1 a of
             Some (CTable kvs) \<Rightarrow> (cp, store cp (CTable (copy_entries kvs [])) m1)
           | _ \<Rightarrow> (cp, m1)))"

text \<open>The critical sections of \<open>getCached\<close> and \<open>putCache\<close>.\<close>

definition getCached_ref :: "int \<Rightarrow> string \<Rightarrow> fetcher \<Rightarrow> addr option \<times> fetcher" where
  "getCached_ref now digestStr f =
     (case f_cache f digestStr of
        None \<Rightarrow> (None, f)
      | Some entry \<Rightarrow>
          if now - he_fetched_at entry > cacheTTL then (None, f\<lparr>f_cache := (f_cache f)(digestStr := None)\<rparr>)
          else (let (cp, m') = copyStringBoolMap (Some (he_names entry)) (f_mem f) in (Some cp, f\<lparr>f_mem := m'\<rparr>)))"

definition pruneExpiredLocked_ref :: "int \<Rightarrow> (string \<rightharpoonup> heap_entry) \<Rightarrow> (string \<rightharpoonup> heap_entry)" where
  "pruneExpiredLocked_ref now c =
     (\<lambda>digest. case c digest of
        Some entry \<Rightarrow> if now - he_fetched_at entry > cacheTTL then None else Some entry
      | None \<Rightarrow> None)"

definition putCache_ref :: "int \<Rightarrow> string \<Rightarrow> addr \<Rightarrow> fetcher \<Rightarrow> fetcher" where
  "putCache_ref now digestStr names f =
     (let (cp, m') = copyStringBoolMap (Some names) (f_mem f) in
      \<lparr>f_mem = m',
       f_cache = (pruneExpiredLocked_ref now (f_cache f))(digestStr \<mapsto> \<lparr>he_names = cp, he_fetched_at = now\<rparr>)\<rparr>)"

section \<open>Runs\<close>

text \<open>The names in a map: the keys that a look-up \<open>names[k]\<close> finds true.\<close>

definition names_at :: "mem \<Rightarrow> addr \<Rightarrow> string set" where
  "names_at m a = (case m_cells m a of Some (CTable kvs) \<Rightarrow> {k. map_of kvs k = Some (VBool True)} | _ \<Rightarrow> {})"

definition is_map :: "mem \<Rightarrow> addr \<Rightarrow> bool" where
  "is_map m a = (case m_cells m a of Some (CTable kvs) \<Rightarrow> distinct (map fst kvs) | _ \<Rightarrow> False)"

text \<open>What is seen of a step: a look-up with its answer, an insertion, or something of the callers' own.\<close>

datatype seen = Got int string "string set option" | Kept int string "string set" | Own

text \<open>
  The second component holds the maps that callers have references to.  Callers make maps, write to maps
  they have, and call the two operations, in any order.
\<close>

inductive fetcher_step :: "fetcher \<times> addr set \<Rightarrow> seen \<Rightarrow> fetcher \<times> addr set \<Rightarrow> bool" where
  got: "getCached_ref now digest f = (r, f') \<Longrightarrow>
     fetcher_step (f, H) (Got now digest (map_option (names_at (f_mem f')) r)) (f', H \<union> set_option r)"
| kept: "a \<in> H \<Longrightarrow>
     fetcher_step (f, H) (Kept now digest (names_at (f_mem f) a)) (putCache_ref now digest a f, H)"
| made: "distinct (map fst kvs) \<Longrightarrow> alloc (CTable kvs) (f_mem f) = (a, m') \<Longrightarrow>
     fetcher_step (f, H) Own (f\<lparr>f_mem := m'\<rparr>, insert a H)"
| wrote: "a \<in> H \<Longrightarrow> distinct (map fst kvs) \<Longrightarrow>
     fetcher_step (f, H) Own (f\<lparr>f_mem := store a (CTable kvs) (f_mem f)\<rparr>, H)"

inductive fetcher_run :: "seen list \<Rightarrow> fetcher \<times> addr set \<Rightarrow> bool" where
  start: "fetcher_run [] (NewOCIManifestFetcher empty_mem, {})"
| step: "fetcher_run ls s \<Longrightarrow> fetcher_step s l s' \<Longrightarrow> fetcher_run (ls @ [l]) s'"

text \<open>The cache of values, driven by what is seen: \<open>None\<close> if it would have answered otherwise.\<close>

fun spec_step :: "seen \<Rightarrow> names_cache \<Rightarrow> names_cache option" where
  "spec_step (Got now digest r) c = (if fst (getCached now digest c) = r then Some (snd (getCached now digest c)) else None)"
| "spec_step (Kept now digest ns) c = Some (putCache now digest ns c)"
| "spec_step Own c = Some c"

fun spec_run :: "seen list \<Rightarrow> names_cache \<Rightarrow> names_cache option" where
  "spec_run [] c = Some c"
| "spec_run (l # ls) c = Option.bind (spec_step l c) (spec_run ls)"

definition abs_cache :: "fetcher \<Rightarrow> names_cache" where
  "abs_cache f digest =
     map_option (\<lambda>e. \<lparr>nce_names = names_at (f_mem f) (he_names e), nce_fetched_at = he_fetched_at e\<rparr>) (f_cache f digest)"

section \<open>The simulation\<close>

text \<open>No caller has a reference to a map of the cache.\<close>

definition unshared :: "fetcher \<times> addr set \<Rightarrow> bool" where
  "unshared s = (case s of (f, H) \<Rightarrow>
     mem_ok (f_mem f) \<and> (\<forall>a \<in> H. is_map (f_mem f) a) \<and>
     (\<forall>e \<in> ran (f_cache f). is_map (f_mem f) (he_names e) \<and> he_names e \<notin> H))"

lemma copy_entries_map_of:
  "distinct (map fst kvs) \<Longrightarrow> map_of (copy_entries kvs cp) = map_of cp ++ map_of kvs"
proof (induction kvs arbitrary: cp)
  case (Cons kv kvs)
  obtain k v where kv: "kv = (k, v)" by fastforce
  with Cons.prems have "map_of kvs k = None" by (simp add: map_of_eq_None_iff)
  with Cons kv show ?case
    by (auto simp: copy_entries_def update_conv' fun_eq_iff map_add_def split: option.splits)
qed (simp add: copy_entries_def)

lemma copy_entries_distinct: "distinct (map fst cp) \<Longrightarrow> distinct (map fst (copy_entries kvs cp))"
  unfolding copy_entries_def by (induction kvs arbitrary: cp) (auto intro: distinct_update)

lemma is_map_below: "mem_ok m \<Longrightarrow> is_map m a \<Longrightarrow> a < m_next m"
  by (auto simp: is_map_def mem_ok_def split: option.splits cell.splits)

text \<open>A copy is a new map with the same names, and everything else is as it was.\<close>

lemma copy_map:
  assumes "mem_ok m" "is_map m a" "copyStringBoolMap (Some a) m = (cp, m')"
  shows "mem_ok m'" "cp = m_next m" "is_map m' cp" "names_at m' cp = names_at m a"
    "b \<noteq> cp \<Longrightarrow> m_cells m' b = m_cells m b"
proof -
  from assms(2) obtain kvs where kvs: "m_cells m a = Some (CTable kvs)" "distinct (map fst kvs)"
    by (auto simp: is_map_def split: option.splits cell.splits)
  have a: "a < m_next m" by (rule is_map_below [OF assms(1,2)])
  with assms(3) kvs have out: "cp = m_next m"
    "m' = store (m_next m) (CTable (copy_entries kvs [])) (snd (alloc (CTable []) m))"
    by (auto simp: copyStringBoolMap_def alloc_def)
  show "cp = m_next m" by (rule out)
  show "mem_ok m'" unfolding out(2) using assms(1) by (intro store_ok alloc_ok) (simp_all add: alloc_def)
  show "is_map m' cp" using copy_entries_distinct [of "[]" kvs] by (simp add: is_map_def out)
  show "names_at m' cp = names_at m a" using kvs by (simp add: names_at_def out copy_entries_map_of)
  show "b \<noteq> cp \<Longrightarrow> m_cells m' b = m_cells m b" by (simp add: out alloc_def)
qed

lemma cells_eq:
  assumes "m_cells m' a = m_cells m a"
  shows "is_map m' a = is_map m a" "names_at m' a = names_at m a"
  using assms by (simp_all add: is_map_def names_at_def)

lemma abs_cache_cong:
  assumes "\<And>d e. f_cache f' d = Some e \<Longrightarrow> f_cache f d = Some e \<and> m_cells (f_mem f') (he_names e) = m_cells (f_mem f) (he_names e)"
    and "\<And>d. f_cache f' d = None \<longleftrightarrow> f_cache f d = None"
  shows "abs_cache f' = abs_cache f"
proof (rule ext)
  fix d
  show "abs_cache f' d = abs_cache f d"
  proof (cases "f_cache f' d")
    case (Some e)
    with assms(1) [OF Some] cells_eq(2) [of "f_mem f'" "he_names e" "f_mem f"] show ?thesis
      by (simp add: abs_cache_def)
  qed (simp add: abs_cache_def assms(2))
qed

lemma unsharedD:
  assumes "unshared (f, H)"
  shows "mem_ok (f_mem f)" "a \<in> H \<Longrightarrow> is_map (f_mem f) a"
    "f_cache f d = Some e \<Longrightarrow> is_map (f_mem f) (he_names e) \<and> he_names e \<notin> H \<and> he_names e < m_next (f_mem f)"
    "a \<in> H \<Longrightarrow> a < m_next (f_mem f)"
  using assms is_map_below by (auto simp: unshared_def ran_def)

lemma unsharedI:
  assumes "mem_ok (f_mem f)" "\<And>a. a \<in> H \<Longrightarrow> is_map (f_mem f) a"
    and "\<And>d e. f_cache f d = Some e \<Longrightarrow> is_map (f_mem f) (he_names e) \<and> he_names e \<notin> H"
  shows "unshared (f, H)"
  using assms by (auto simp: unshared_def ran_def)

text \<open>Memory that has grown by a map at a fresh address, with the cache as it was.\<close>

lemma grown:
  assumes inv: "unshared (f, H)" and m': "mem_ok m'" "is_map m' cp" "cp = m_next (f_mem f)"
    and same: "\<And>b. b \<noteq> cp \<Longrightarrow> m_cells m' b = m_cells (f_mem f) b"
  shows "unshared (f\<lparr>f_mem := m'\<rparr>, insert cp H)" "abs_cache (f\<lparr>f_mem := m'\<rparr>) = abs_cache f"
proof -
  note inv' = unsharedD [OF inv]
  have same': "m_cells m' b = m_cells (f_mem f) b" if "b < m_next (f_mem f)" for b
    using same that m'(3) by simp
  show "unshared (f\<lparr>f_mem := m'\<rparr>, insert cp H)"
  proof (rule unsharedI, goal_cases)
    case (2 a)
    then show ?case using m'(2) cells_eq(1) [OF same', of a] inv'(2,4) [of a] by auto
  next
    case (3 d e)
    with inv'(3) [of d e] show ?case using cells_eq(1) [OF same', of "he_names e"] m'(3) by simp
  qed (simp add: m'(1))
  show "abs_cache (f\<lparr>f_mem := m'\<rparr>) = abs_cache f"
    using inv'(3) same' by (intro abs_cache_cong) auto
qed

lemma got_simulates:
  assumes inv: "unshared (f, H)" and run: "getCached_ref now digest f = (r, f')"
  shows "unshared (f', H \<union> set_option r)"
    and "getCached now digest (abs_cache f) = (map_option (names_at (f_mem f')) r, abs_cache f')"
proof -
  have "unshared (f', H \<union> set_option r) \<and>
    getCached now digest (abs_cache f) = (map_option (names_at (f_mem f')) r, abs_cache f')"
  proof (cases "f_cache f digest")
    case None
    with run inv show ?thesis by (auto simp: getCached_ref_def getCached_def abs_cache_def)
  next
    case (Some e)
    show ?thesis
    proof (cases "now - he_fetched_at e > cacheTTL")
      case True
      with run Some have out: "r = None" "f' = f\<lparr>f_cache := (f_cache f)(digest := None)\<rparr>"
        by (auto simp: getCached_ref_def)
      have "unshared (f', H)" using inv out by (auto simp: unshared_def ran_def split: if_splits)
      moreover have "(abs_cache f)(digest := None) = abs_cache f'" by (auto simp: out abs_cache_def)
      ultimately show ?thesis using True Some out(1) by (simp add: getCached_def abs_cache_def [of f digest])
    next
      case False
      obtain cp m' where cp: "copyStringBoolMap (Some (he_names e)) (f_mem f) = (cp, m')" by fastforce
      with run Some False have out: "r = Some cp" "f' = f\<lparr>f_mem := m'\<rparr>" by (auto simp: getCached_ref_def)
      note copy = copy_map [OF unsharedD(1) [OF inv] conjunct1 [OF unsharedD(3) [OF inv Some]] cp]
      note grown [OF inv copy(1,3,2,5)]
      with out Some False copy(4) show ?thesis by (simp add: getCached_def abs_cache_def [of f digest])
    qed
  qed
  then show "unshared (f', H \<union> set_option r)"
    and "getCached now digest (abs_cache f) = (map_option (names_at (f_mem f')) r, abs_cache f')" by auto
qed

lemma kept_simulates:
  assumes inv: "unshared (f, H)" and a: "a \<in> H"
  shows "unshared (putCache_ref now digest a f, H)"
    and "abs_cache (putCache_ref now digest a f) = putCache now digest (names_at (f_mem f) a) (abs_cache f)"
proof -
  obtain cp m' where cp: "copyStringBoolMap (Some a) (f_mem f) = (cp, m')" by fastforce
  note copy = copy_map [OF unsharedD(1,2) [OF inv] cp] and inv' = unsharedD [OF inv]
  have f': "putCache_ref now digest a f =
    \<lparr>f_mem = m', f_cache = (pruneExpiredLocked_ref now (f_cache f))(digest \<mapsto> \<lparr>he_names = cp, he_fetched_at = now\<rparr>)\<rparr>"
    by (simp add: putCache_ref_def cp)
  have prune: "f_cache f d = Some e" if "pruneExpiredLocked_ref now (f_cache f) d = Some e" for d e
    using that by (auto simp: pruneExpiredLocked_ref_def split: option.splits if_splits)
  have same: "m_cells m' b = m_cells (f_mem f) b" if "b < m_next (f_mem f)" for b
    using copy(2,5) [OF a] that by simp
  show "unshared (putCache_ref now digest a f, H)"
    unfolding f'
  proof (rule unsharedI, goal_cases)
    case (2 b)
    then show ?case using cells_eq(1) [OF same, of b] inv'(2,4) [of b] by simp
  next
    case (3 d e)
    show ?case
    proof (cases "d = digest")
      case True
      with 3 copy(2,3) [OF a] inv'(4) [of cp] show ?thesis by auto
    next
      case False
      with 3 have "f_cache f d = Some e" by (simp add: prune)
      with inv'(3) [of d e] cells_eq(1) [OF same, of "he_names e"] show ?thesis by simp
    qed
  qed (simp add: copy(1) [OF a])
  show "abs_cache (putCache_ref now digest a f) = putCache now digest (names_at (f_mem f) a) (abs_cache f)"
  proof (rule ext)
    fix d
    show "abs_cache (putCache_ref now digest a f) d = putCache now digest (names_at (f_mem f) a) (abs_cache f) d"
    proof (cases "d = digest \<or> f_cache f d = None")
      case True
      with copy(4) [OF a] show ?thesis
        by (auto simp: f' abs_cache_def putCache_def pruneExpiredLocked_def pruneExpiredLocked_ref_def)
    next
      case False
      then obtain e where e: "f_cache f d = Some e" by auto
      with inv'(3) [OF e] cells_eq(2) [OF same, of "he_names e"] False show ?thesis
        by (auto simp: f' abs_cache_def putCache_def pruneExpiredLocked_def pruneExpiredLocked_ref_def)
    qed
  qed
qed

lemma fetcher_simulates:
  assumes "fetcher_step (f, H) l (f', H')" "unshared (f, H)"
  shows "unshared (f', H') \<and> spec_step l (abs_cache f) = Some (abs_cache f')"
  using assms(1)
proof (cases rule: fetcher_step.cases)
  case (got now digest r)
  with got_simulates [OF assms(2) got(3)] show ?thesis by simp
next
  case (kept a now digest)
  with kept_simulates [OF assms(2)] show ?thesis by simp
next
  case (made kvs a m')
  then have "mem_ok m'" "a = m_next (f_mem f)" "is_map m' a" "\<And>b. b \<noteq> a \<Longrightarrow> m_cells m' b = m_cells (f_mem f) b"
    using alloc_ok [OF unsharedD(1) [OF assms(2)], of "CTable kvs"] by (auto simp: alloc_def is_map_def)
  from grown [OF assms(2) this(1,3,2,4)] made show ?thesis by simp
next
  case (wrote a kvs)
  note inv = unsharedD [OF assms(2)]
  let ?m = "store a (CTable kvs) (f_mem f)"
  have "unshared (f', H')"
    using assms(2) wrote inv(4) by (auto simp: unshared_def is_map_def ran_def split: if_splits)
  moreover have "abs_cache f' = abs_cache f"
    using wrote inv(3) by (intro abs_cache_cong) auto
  ultimately show ?thesis using wrote by simp
qed

lemma spec_run_snoc: "spec_run (ls @ [l]) c = Option.bind (spec_run ls c) (spec_step l)"
  by (induction ls arbitrary: c) (auto split: bind_splits)

lemma fetcher_run_simulates:
  "fetcher_run ls s \<Longrightarrow> unshared s \<and> spec_run ls Map.empty = Some (abs_cache (fst s))"
proof (induction rule: fetcher_run.induct)
  case start
  show ?case by (auto simp: unshared_def NewOCIManifestFetcher_def mem_ok_def empty_mem_def abs_cache_def)
next
  case (step ls s l s')
  with fetcher_simulates [of "fst s" "snd s" l "fst s'" "snd s'"] show ?case by (simp add: spec_run_snoc)
qed

section \<open>Properties\<close>

text \<open>
  C8: The maps a caller gets are its own.  In every run, with callers that make maps, write to every map
  they have been given and call the cache in any order, the cache answers as the cache of values does:
  no caller can change, for itself or for another, what the cache will serve.
\<close>

theorem fetcher_refines_values:
  assumes "fetcher_run ls (f, H)"
  shows "spec_run ls Map.empty = Some (abs_cache f)"
  using fetcher_run_simulates [OF assms] by simp

text \<open>A caller stores a map, gets a copy, empties it, and the next caller is served all the same.\<close>

lemma names_at_single: "m_cells m a = Some (CTable [(k, VBool True)]) \<Longrightarrow> names_at m a = {k}"
  by (auto simp: names_at_def split: if_splits)

lemma copy_single:
  "m_cells m a = Some (CTable [kv]) \<Longrightarrow> a \<noteq> m_next m \<Longrightarrow>
   copyStringBoolMap (Some a) m = (m_next m, store (m_next m) (CTable [kv]) (snd (alloc (CTable []) m)))"
  by (cases kv) (simp add: copyStringBoolMap_def alloc_def copy_entries_def)

definition sample_served :: mem where
  "sample_served = \<lparr>m_next = 3, m_cells = (\<lambda>a. if a < 3 then Some (CTable [(''iris'', VBool True)]) else None)\<rparr>"

lemma sample_run:
  "fetcher_run [Own, Kept 1 ''d'' {''iris''}, Got 2 ''d'' (Some {''iris''}), Own]
     (\<lparr>f_mem = store 2 (CTable []) sample_served, f_cache = [''d'' \<mapsto> \<lparr>he_names = 1, he_fetched_at = 1\<rparr>]\<rparr>, {0, 2})"
proof -
  let ?iris = "CTable [(''iris'', VBool True)]"
  let ?m1 = "\<lparr>m_next = 1, m_cells = [0 \<mapsto> ?iris]\<rparr>" and ?m2 = "\<lparr>m_next = 2, m_cells = [0 \<mapsto> ?iris, 1 \<mapsto> ?iris]\<rparr>"
  let ?c = "[''d'' \<mapsto> \<lparr>he_names = 1, he_fetched_at = 1 :: int\<rparr>]"
  have 1: "fetcher_step (NewOCIManifestFetcher empty_mem, {}) Own (\<lparr>f_mem = ?m1, f_cache = Map.empty\<rparr>, {0})"
    using made [of "[(''iris'', VBool True)]" "NewOCIManifestFetcher empty_mem" 0 ?m1 "{}"]
    by (simp add: NewOCIManifestFetcher_def alloc_def empty_mem_def)
  have "putCache_ref 1 ''d'' 0 \<lparr>f_mem = ?m1, f_cache = Map.empty\<rparr> = \<lparr>f_mem = ?m2, f_cache = ?c\<rparr>"
    by (auto simp: putCache_ref_def copy_single alloc_def store_def pruneExpiredLocked_ref_def fun_eq_iff)
  then have 2: "fetcher_step (\<lparr>f_mem = ?m1, f_cache = Map.empty\<rparr>, {0}) (Kept 1 ''d'' {''iris''}) (\<lparr>f_mem = ?m2, f_cache = ?c\<rparr>, {0})"
    using kept [of 0 "{0}" "\<lparr>f_mem = ?m1, f_cache = Map.empty\<rparr>" 1 "''d''"] by (simp add: names_at_single)
  have "getCached_ref 2 ''d'' \<lparr>f_mem = ?m2, f_cache = ?c\<rparr> = (Some 2, \<lparr>f_mem = sample_served, f_cache = ?c\<rparr>)"
    by (auto simp: getCached_ref_def cacheTTL_def second_def copy_single alloc_def store_def sample_served_def fun_eq_iff)
  then have 3: "fetcher_step (\<lparr>f_mem = ?m2, f_cache = ?c\<rparr>, {0}) (Got 2 ''d'' (Some {''iris''}))
      (\<lparr>f_mem = sample_served, f_cache = ?c\<rparr>, {0, 2})"
    using got [of 2 "''d''" "\<lparr>f_mem = ?m2, f_cache = ?c\<rparr>" "Some 2" _ "{0}"]
    by (simp add: names_at_single sample_served_def insert_commute)
  have 4: "fetcher_step (\<lparr>f_mem = sample_served, f_cache = ?c\<rparr>, {0, 2}) Own
      (\<lparr>f_mem = store 2 (CTable []) sample_served, f_cache = ?c\<rparr>, {0, 2})"
    using wrote [of 2 "{0, 2}" "[]" "\<lparr>f_mem = sample_served, f_cache = ?c\<rparr>"] by simp
  from step [OF step [OF step [OF step [OF start 1] 2] 3] 4] show ?thesis by simp
qed

theorem fetcher_refines_values_witness:
  "map_option (\<lambda>c. fst (getCached 3 ''d'' c))
     (spec_run [Own, Kept 1 ''d'' {''iris''}, Got 2 ''d'' (Some {''iris''}), Own] Map.empty) = Some (Some {''iris''})"
  using fetcher_refines_values [OF sample_run]
  by (simp add: getCached_def abs_cache_def names_at_single sample_served_def cacheTTL_def second_def)

end
