(* ===== verification/Test_Equalities.thy ===== *)
theory Test_Equalities imports Util begin

text \<open>
  \<open>controllers/testutil/equalities.go\<close>: how the functional tests compare an object of the cluster with the
  expected one.  The conversion of an unstructured object (apimachinery's scheme) and \<open>deep.Equal\<close>
  are parameters; a part of an object that only \<open>deep.Equal\<close> looks at is a value of the type \<open>'v\<close>.
  The comparison is shown to accept exactly the objects that agree on every part it looks at.
\<close>

section \<open>The objects that are compared\<close>

text \<open>The last field of each stands for the fields that no comparison looks at.\<close>

record 'v env_var =
  env_name :: string
  env_value :: string
  env_value_from :: 'v

record 'v container =
  ct_name :: string
  ct_image :: string
  ct_env :: "'v env_var list"
  ct_ports :: 'v
  ct_resources :: 'v
  ct_volume_mounts :: 'v
  ct_args :: 'v
  ct_other :: 'v

record 'v deployment_object =
  do_labels :: 'v
  do_selector :: 'v
  do_template_meta :: 'v
  do_volumes :: 'v
  do_init_containers :: "'v container list"
  do_containers :: "'v container list"
  do_other :: 'v

text \<open>The data of a config map is a Go map of strings, which may be nil.\<close>

record 'v configmap_object =
  co_name :: string
  co_data :: "go_map option"
  co_other :: 'v

record 'v secret_object =
  so_name :: string
  so_data :: 'v
  so_other :: 'v

text \<open>\<open>scheme.Scheme.Convert\<close> to the three types, and \<open>deep.Equal\<close> at the types it is used at; nil is \<open>[]\<close>.\<close>

record ('u, 'v) compare_env =
  cv_config_map :: "'u \<Rightarrow> gerr + 'v configmap_object"
  cv_secret :: "'u \<Rightarrow> gerr + 'v secret_object"
  cv_deployment :: "'u \<Rightarrow> gerr + 'v deployment_object"
  dq_value :: "'v \<Rightarrow> 'v \<Rightarrow> string list"
  dq_data :: "go_map option \<Rightarrow> go_map option \<Rightarrow> string list"
  dq_env_var :: "'v env_var \<Rightarrow> 'v env_var \<Rightarrow> string list"

section \<open>Messages\<close>

definition notEqualMsg :: "string \<Rightarrow> gerr" where
  "notEqualMsg value = Plain_Err (value @ '' are not equal'')"

definition notDeeplyEqualMsg :: "string \<Rightarrow> string list \<Rightarrow> gerr" where
  "notDeeplyEqualMsg value diff =
     Plain_Err (value @ '' is not equal:'' @ [CHR 0x0A] @ concat (map (\<lambda>d. [CHR 0x09] @ d @ [CHR 0x0A]) diff))"

text \<open>\<open>[expected: %d, actual: %d]\<close>\<close>

definition lengths_msg :: "'a list \<Rightarrow> 'b list \<Rightarrow> string" where
  "lengths_msg expected actual =
     ''Container Env Lengths [expected: '' @ itoa (int (length expected)) @ '', actual: '' @
     itoa (int (length actual)) @ '']'' @ [CHR 0x0A]"

section \<open>Config maps and secrets\<close>

definition configMapsAreEqual :: "('u, 'v) compare_env \<Rightarrow> 'u \<Rightarrow> 'u \<Rightarrow> gerr + bool" where
  "configMapsAreEqual env expected actual =
     (case cv_config_map env expected of
        Inl err \<Rightarrow> Inl err
      | Inr expectedConfigMap \<Rightarrow>
          (case cv_config_map env actual of
             Inl err \<Rightarrow> Inl err
           | Inr actualConfigMap \<Rightarrow>
               if co_name expectedConfigMap \<noteq> co_name actualConfigMap
               then Inl (notEqualMsg ''Configmap Names are not equal.'')
               else
                 (let trimmed = map_option (map (\<lambda>(k, v). (k, trim_space v)));
                      diff = dq_data env (trimmed (co_data expectedConfigMap)) (trimmed (co_data actualConfigMap)) in
                  if diff \<noteq> [] then Inl (notDeeplyEqualMsg ''Configmap's Data values'' diff) else Inr True)))"

definition secretsAreEqual :: "('u, 'v) compare_env \<Rightarrow> 'u \<Rightarrow> 'u \<Rightarrow> gerr + bool" where
  "secretsAreEqual env expected actual =
     (case cv_secret env expected of
        Inl err \<Rightarrow> Inl err
      | Inr expectedSecret \<Rightarrow>
          (case cv_secret env actual of
             Inl err \<Rightarrow> Inl err
           | Inr actualSecret \<Rightarrow>
               if so_name expectedSecret \<noteq> so_name actualSecret
               then Inl (notEqualMsg ''Secret Names are not equal.'')
               else
                 (let diff = dq_value env (so_data expectedSecret) (so_data actualSecret) in
                  if diff \<noteq> [] then Inl (notDeeplyEqualMsg ''Secret's Data values'' diff) else Inr True)))"

section \<open>Environment variables\<close>

text \<open>
  The two loops of \<open>compareEnvs\<close>.  \<open>expect_env\<close> is the body of the first, for the variable \<open>e\<close> at the
  position \<open>e_i\<close>: it goes over all actual variables (\<open>continue\<close> does not leave that loop).
\<close>

definition bracketed :: "string \<Rightarrow> string \<Rightarrow> string" where
  "bracketed msg name = msg @ ''['' @ name @ '']'' @ [CHR 0x0A]"

definition match_env :: "nat \<Rightarrow> 'v env_var \<Rightarrow> nat \<times> 'v env_var \<Rightarrow> string \<times> bool \<Rightarrow> string \<times> bool" where
  "match_env e_i e ia acc =
     (case (ia, acc) of
        ((a_i, a), (errlist, found)) \<Rightarrow>
          if env_name e = env_name a then
            (let errlist1 = (if e_i \<noteq> a_i then errlist @ bracketed ''Expected Env out-of-order: '' (env_name e) else errlist);
                 errlist2 =
                   (if env_value e \<noteq> env_value a
                    then errlist1 @ ''Expected Env Values do not match: [expected: '' @ env_value e @ '', actual: '' @
                           env_value a @ '']'' @ [CHR 0x0A]
                    else errlist1) in
             (errlist2, True))
          else (errlist, found))"

definition expect_env :: "'v env_var list \<Rightarrow> nat \<times> 'v env_var \<Rightarrow> string \<Rightarrow> string" where
  "expect_env actual ie errlist =
     (case ie of
        (e_i, e) \<Rightarrow>
          (case fold (match_env e_i e) (enumerate 0 actual) (errlist, False) of
             (errlist', found) \<Rightarrow>
               if \<not> found then errlist' @ bracketed ''Could not find expected env: '' (env_name e) else errlist'))"

definition extra_env :: "'v env_var list \<Rightarrow> 'v env_var \<Rightarrow> string \<Rightarrow> string" where
  "extra_env expected a errlist =
     (let found = fold (\<lambda>e found. if env_name a = env_name e then True else found) expected False in
      if \<not> found then errlist @ bracketed ''Extra Env Found: '' (env_name a) else errlist)"

definition compareEnvs :: "'v env_var list \<Rightarrow> 'v env_var list \<Rightarrow> string" where
  "compareEnvs expected actual =
     (let errlist = (if length expected \<noteq> length actual then lengths_msg expected actual else '''');
          errlist' = fold (expect_env actual) (enumerate 0 expected) errlist in
      fold (extra_env expected) actual errlist')"

section \<open>Containers and deployments\<close>

text \<open>One check by \<open>deep.Equal\<close>, before the rest.\<close>

definition unless_diff :: "string \<Rightarrow> string list \<Rightarrow> gerr + bool \<Rightarrow> gerr + bool" where
  "unless_diff what diff rest = (if diff \<noteq> [] then Inl (notDeeplyEqualMsg what diff) else rest)"

text \<open>The loop over the expected variables, in step with the actual ones.\<close>

fun compare_env_list :: "('u, 'v) compare_env \<Rightarrow> ('v env_var \<times> 'v env_var) list \<Rightarrow> gerr + bool \<Rightarrow> gerr + bool" where
  "compare_env_list env [] rest = rest"
| "compare_env_list env ((e, a) # es) rest =
     unless_diff ''Container Env'' (dq_env_var env e a) (compare_env_list env es rest)"

definition compare_container :: "('u, 'v) compare_env \<Rightarrow> 'v container \<Rightarrow> 'v container \<Rightarrow> gerr + bool \<Rightarrow> gerr + bool" where
  "compare_container env expected actual rest =
     (let diffEnvsMsg = compareEnvs (ct_env expected) (ct_env actual) in
      if length (ct_env expected) \<noteq> length (ct_env actual)
      then Inl (notEqualMsg (lengths_msg (ct_env expected) (ct_env actual) @ ''Divergence(s): '' @ diffEnvsMsg))
      else
        compare_env_list env (zip (ct_env expected) (ct_env actual))
          (unless_diff ''Container Ports'' (dq_value env (ct_ports expected) (ct_ports actual))
          (unless_diff ''Container Resources'' (dq_value env (ct_resources expected) (ct_resources actual))
          (unless_diff ''Container VolumeMounts'' (dq_value env (ct_volume_mounts expected) (ct_volume_mounts actual))
          (unless_diff ''Container Args'' (dq_value env (ct_args expected) (ct_args actual))
          (if ct_name expected \<noteq> ct_name actual then Inl (notEqualMsg ''Container Name'')
           else if ct_image expected \<noteq> ct_image actual
           then Inl (notEqualMsg (''Container Image [expected: '' @ ct_image expected @ '', actual: '' @
                       ct_image actual @ '']''))
           else rest))))))"

fun compare_each :: "('u, 'v) compare_env \<Rightarrow> ('v container \<times> 'v container) list \<Rightarrow> gerr + bool" where
  "compare_each env [] = Inr True"
| "compare_each env ((e, a) # cs) = compare_container env e a (compare_each env cs)"

definition compareContainers :: "('u, 'v) compare_env \<Rightarrow> 'v container list \<Rightarrow> 'v container list \<Rightarrow> gerr + bool" where
  "compareContainers env expected actual =
     (if length expected \<noteq> length actual then Inl (notEqualMsg ''Container lengths'')
      else compare_each env (zip expected actual))"

definition deploymentsAreEqual :: "('u, 'v) compare_env \<Rightarrow> 'u \<Rightarrow> 'u \<Rightarrow> gerr + bool" where
  "deploymentsAreEqual env expected actual =
     (case cv_deployment env expected of
        Inl err \<Rightarrow> Inl err
      | Inr e \<Rightarrow>
          (case cv_deployment env actual of
             Inl err \<Rightarrow> Inl err
           | Inr a \<Rightarrow>
               unless_diff ''labels'' (dq_value env (do_labels e) (do_labels a))
               (unless_diff ''selector'' (dq_value env (do_selector e) (do_selector a))
               (unless_diff ''spec template'' (dq_value env (do_template_meta e) (do_template_meta a))
               (unless_diff ''Volumes'' (dq_value env (do_volumes e) (do_volumes a))
               (case compareContainers env (do_init_containers e) (do_init_containers a) of
                  Inl err \<Rightarrow> Inl err
                | Inr _ \<Rightarrow>
                    (case compareContainers env (do_containers e) (do_containers a) of
                       Inl err \<Rightarrow> Inl err
                     | Inr _ \<Rightarrow> Inr True)))))))"

definition CompareResourceProcs :: "('u, 'v) compare_env \<Rightarrow> string \<Rightarrow> ('u \<Rightarrow> 'u \<Rightarrow> gerr + bool) option" where
  "CompareResourceProcs env =
     map_of [(''Secret'', secretsAreEqual env), (''ConfigMap'', configMapsAreEqual env),
             (''Deployment'', deploymentsAreEqual env)]"

section \<open>What the environment comparison reports\<close>

text \<open>Messages are only ever added.\<close>

lemma bracketed_not_Nil [simp]: "bracketed msg n \<noteq> []"
  by (simp add: bracketed_def)

lemma match_env_fold:
  "fold (match_env i e) ias (l, fd) = (l', fd') \<Longrightarrow>
     (l' = [] \<longleftrightarrow> l = [] \<and> (\<forall>(j, a) \<in> set ias. env_name e = env_name a \<longrightarrow> i = j \<and> env_value e = env_value a)) \<and>
     (fd' \<longleftrightarrow> fd \<or> (\<exists>(j, a) \<in> set ias. env_name e = env_name a))"
proof (induction ias arbitrary: l fd)
  case (Cons ia ias)
  obtain l1 f1 where step: "match_env i e ia (l, fd) = (l1, f1)" by fastforce
  with Cons.prems have "fold (match_env i e) ias (l1, f1) = (l', fd')" by simp
  from Cons.IH [OF this] step show ?case
    by (cases ia) (auto simp: match_env_def Let_def split: if_splits)
qed simp

lemma ball_enumerate: "(\<forall>p \<in> set (enumerate 0 xs). P p) \<longleftrightarrow> (\<forall>i < length xs. P (i, xs ! i))"
  by (force simp: in_set_enumerate_eq)

lemma bex_enumerate: "(\<exists>(j, a) \<in> set (enumerate 0 xs). P a) \<longleftrightarrow> (\<exists>a \<in> set xs. P a)"
proof -
  have "set xs = snd ` set (enumerate 0 xs)" by (simp flip: set_map)
  then have "(\<exists>a \<in> set xs. P a) \<longleftrightarrow> (\<exists>p \<in> set (enumerate 0 xs). P (snd p))" by (simp only: bex_simps)
  then show ?thesis by (simp add: case_prod_unfold)
qed

lemma expect_env_Nil:
  "expect_env actual (i, e) l = [] \<longleftrightarrow>
     l = [] \<and> (\<forall>j < length actual. env_name e = env_name (actual ! j) \<longrightarrow> i = j \<and> env_value e = env_value (actual ! j)) \<and>
     env_name e \<in> env_name ` set actual"
proof -
  obtain l' f' where f: "fold (match_env i e) (enumerate 0 actual) (l, False) = (l', f')" by fastforce
  have "(\<exists>(j, a) \<in> set (enumerate 0 actual). env_name e = env_name a) \<longleftrightarrow> env_name e \<in> env_name ` set actual"
    unfolding bex_enumerate by blast
  with match_env_fold [OF f] show ?thesis by (simp add: expect_env_def f ball_enumerate)
qed

lemma expect_fold_Nil:
  "fold (expect_env actual) ies l = [] \<longleftrightarrow> l = [] \<and> (\<forall>ie \<in> set ies. expect_env actual ie [] = [])"
  by (induction ies arbitrary: l) (auto simp: expect_env_Nil)

lemma extra_env_Nil: "extra_env expected a l = [] \<longleftrightarrow> l = [] \<and> env_name a \<in> env_name ` set expected"
proof -
  have "fold (\<lambda>e found. if env_name a = env_name e then True else found) es b \<longleftrightarrow> b \<or> env_name a \<in> env_name ` set es"
    for es :: "'a env_var list" and b by (induction es arbitrary: b) auto
  then show ?thesis by (simp add: extra_env_def)
qed

lemma extra_fold_Nil:
  "fold (extra_env expected) as l = [] \<longleftrightarrow> l = [] \<and> (\<forall>a \<in> set as. env_name a \<in> env_name ` set expected)"
  by (induction as arbitrary: l) (auto simp: extra_env_Nil)

definition env_pairs :: "'v env_var list \<Rightarrow> (string \<times> string) list" where
  "env_pairs = map (\<lambda>e. (env_name e, env_value e))"

text \<open>The conditions of the two loops, put together.\<close>

definition envs_match :: "'v env_var list \<Rightarrow> 'v env_var list \<Rightarrow> bool" where
  "envs_match es as \<longleftrightarrow>
     length es = length as \<and>
     (\<forall>i < length es.
        (\<forall>j < length as. env_name (es ! i) = env_name (as ! j) \<longrightarrow> i = j \<and> env_value (es ! i) = env_value (as ! j)) \<and>
        env_name (es ! i) \<in> env_name ` set as)"

lemma envs_match_nth:
  assumes "envs_match es as" "i < length es"
  shows "env_name (as ! i) = env_name (es ! i) \<and> env_value (as ! i) = env_value (es ! i)"
proof -
  from assms obtain a where "a \<in> set as" "env_name (es ! i) = env_name a" by (auto simp: envs_match_def)
  then obtain j where "j < length as" "env_name (es ! i) = env_name (as ! j)" by (metis in_set_conv_nth)
  with assms show ?thesis unfolding envs_match_def by metis
qed

lemma envs_match_iff: "envs_match es as \<longleftrightarrow> env_pairs es = env_pairs as \<and> distinct (map env_name es)"
proof (intro iffI conjI)
  assume m: "envs_match es as"
  then have len: "length es = length as" by (simp add: envs_match_def)
  show "env_pairs es = env_pairs as"
    using envs_match_nth [OF m] len by (simp add: env_pairs_def list_eq_iff_nth_eq)
  show "distinct (map env_name es)"
    unfolding distinct_conv_nth
  proof (intro allI impI notI)
    fix i j assume i: "i < length (map env_name es)" "j < length (map env_name es)" "i \<noteq> j"
      and same: "map env_name es ! i = map env_name es ! j"
    then have "env_name (es ! i) = env_name (as ! j)" using envs_match_nth [OF m, of j] by simp
    with i m len show False by (simp add: envs_match_def)
  qed
next
  assume r: "env_pairs es = env_pairs as \<and> distinct (map env_name es)"
  then have len: "length es = length as" by (metis env_pairs_def length_map)
  have at: "env_name (as ! i) = env_name (es ! i)" "env_value (as ! i) = env_value (es ! i)" if "i < length es" for i
  proof -
    have "env_pairs es ! i = env_pairs as ! i" using r by simp
    with that len show "env_name (as ! i) = env_name (es ! i)" "env_value (as ! i) = env_value (es ! i)"
      by (simp_all add: env_pairs_def)
  qed
  have "i = j" if "i < length es" "j < length es" "env_name (es ! i) = env_name (es ! j)" for i j
    using r that by (simp add: distinct_conv_nth) blast
  with len at show "envs_match es as"
    by (auto simp: envs_match_def) (metis image_eqI nth_mem)
qed

lemma compareEnvs_Nil: "compareEnvs es as = [] \<longleftrightarrow> env_pairs es = env_pairs as \<and> distinct (map env_name es)"
proof -
  have "compareEnvs es as = [] \<longleftrightarrow> envs_match es as \<and> (\<forall>a \<in> set as. env_name a \<in> env_name ` set es)"
    by (auto simp: compareEnvs_def Let_def extra_fold_Nil expect_fold_Nil lengths_msg_def envs_match_def
        expect_env_Nil ball_enumerate)
  moreover have "env_name a \<in> env_name ` set es" if "env_pairs es = env_pairs as" "a \<in> set as" for a
  proof -
    have "(env_name a, env_value a) \<in> set (env_pairs es)" unfolding that(1) using that(2) by (simp add: env_pairs_def)
    then show ?thesis by (auto simp: env_pairs_def)
  qed
  ultimately show ?thesis unfolding envs_match_iff by blast
qed

section \<open>What is compared\<close>

text \<open>
  Two objects are the same for the tests when they agree on every part but the ones in the last field of
  their record; the data of config maps up to white space around the values.
\<close>

definition same_container :: "'v container \<Rightarrow> 'v container \<Rightarrow> bool" where
  "same_container e a \<longleftrightarrow> e\<lparr>ct_other := ct_other a\<rparr> = a"

definition same_deployment :: "'v deployment_object \<Rightarrow> 'v deployment_object \<Rightarrow> bool" where
  "same_deployment e a \<longleftrightarrow>
     do_labels e = do_labels a \<and> do_selector e = do_selector a \<and> do_template_meta e = do_template_meta a \<and>
     do_volumes e = do_volumes a \<and> list_all2 same_container (do_init_containers e) (do_init_containers a) \<and>
     list_all2 same_container (do_containers e) (do_containers a)"

definition same_data :: "go_map option \<Rightarrow> go_map option \<Rightarrow> bool" where
  "same_data m n \<longleftrightarrow> map_option map_of m = map_option map_of n"

definition same_configmap :: "'v configmap_object \<Rightarrow> 'v configmap_object \<Rightarrow> bool" where
  "same_configmap e a \<longleftrightarrow>
     co_name e = co_name a \<and>
     map_option (\<lambda>m k. map_option trim_space (map_of m k)) (co_data e) =
     map_option (\<lambda>m k. map_option trim_space (map_of m k)) (co_data a)"

definition same_secret :: "'v secret_object \<Rightarrow> 'v secret_object \<Rightarrow> bool" where
  "same_secret e a \<longleftrightarrow> e\<lparr>so_other := so_other a\<rparr> = a"

text \<open>Both objects convert to the type, and the results are the same.\<close>

definition both :: "('u \<Rightarrow> gerr + 'o) \<Rightarrow> ('o \<Rightarrow> 'o \<Rightarrow> bool) \<Rightarrow> 'u \<Rightarrow> 'u \<Rightarrow> bool" where
  "both convert same x y = (case (convert x, convert y) of (Inr e, Inr a) \<Rightarrow> same e a | _ \<Rightarrow> False)"

definition same_object :: "('u, 'v) compare_env \<Rightarrow> string \<Rightarrow> 'u \<Rightarrow> 'u \<Rightarrow> bool" where
  "same_object env kind x y =
     (if kind = ''Secret'' then both (cv_secret env) same_secret x y
      else if kind = ''ConfigMap'' then both (cv_config_map env) same_configmap x y
      else kind = ''Deployment'' \<and> both (cv_deployment env) same_deployment x y)"

text \<open>What \<open>deep.Equal\<close> promises: it lists the differences, so it returns nil for equal values only.\<close>

definition exact_deep :: "('u, 'v) compare_env \<Rightarrow> bool" where
  "exact_deep env \<longleftrightarrow>
     (\<forall>x y. dq_value env x y = [] \<longleftrightarrow> x = y) \<and> (\<forall>x y. dq_env_var env x y = [] \<longleftrightarrow> x = y) \<and>
     (\<forall>x y. dq_data env x y = [] \<longleftrightarrow> same_data x y)"

lemma exact_deepD:
  assumes "exact_deep env"
  shows "dq_value env x y = [] \<longleftrightarrow> x = y" "dq_env_var env u v = [] \<longleftrightarrow> u = v" "dq_data env m n = [] \<longleftrightarrow> same_data m n"
  using assms by (simp_all add: exact_deep_def)

lemma unless_diff_Inr: "unless_diff what diff rest = Inr b \<longleftrightarrow> diff = [] \<and> rest = Inr b"
  by (simp add: unless_diff_def)

lemma compare_env_list_Inr:
  "exact_deep env \<Longrightarrow> compare_env_list env es rest = Inr b \<longleftrightarrow> list_all (\<lambda>(e, a). e = a) es \<and> rest = Inr b"
  by (induction es) (auto simp: unless_diff_Inr exact_deepD)

lemma zip_all_eq: "length xs = length ys \<Longrightarrow> list_all (\<lambda>(x, y). x = y) (zip xs ys) \<longleftrightarrow> xs = ys"
  by (induction xs ys rule: list_induct2) auto

lemma compare_container_Inr:
  assumes "exact_deep env"
  shows "compare_container env e a rest = Inr b \<longleftrightarrow> same_container e a \<and> rest = Inr b"
  by (cases e; cases a)
    (auto simp: compare_container_def same_container_def Let_def compare_env_list_Inr [OF assms] unless_diff_Inr
       exact_deepD [OF assms] zip_all_eq)

lemma compare_each_Inr:
  "exact_deep env \<Longrightarrow> compare_each env cs = Inr b \<longleftrightarrow> list_all (\<lambda>(e, a). same_container e a) cs \<and> b"
  by (induction cs) (auto simp: compare_container_Inr)

lemma compareContainers_Inr:
  "exact_deep env \<Longrightarrow> compareContainers env es as = Inr b \<longleftrightarrow> list_all2 same_container es as \<and> b"
  by (auto simp: compareContainers_def compare_each_Inr list_all2_iff list_all_iff)

lemma compareContainers_case:
  assumes "exact_deep env"
  shows "(case compareContainers env es as of Inl err \<Rightarrow> Inl err | Inr _ \<Rightarrow> k) = Inr b \<longleftrightarrow>
     list_all2 same_container es as \<and> k = Inr b"
proof (cases "compareContainers env es as")
  case (Inl e)
  with compareContainers_Inr [OF assms, of es as True] show ?thesis by simp
next
  case (Inr c)
  with compareContainers_Inr [OF assms, of es as c] show ?thesis by simp
qed

lemma deploymentsAreEqual_Inr:
  assumes "exact_deep env"
  shows "deploymentsAreEqual env x y = Inr b \<longleftrightarrow> b \<and> both (cv_deployment env) same_deployment x y"
proof (cases "cv_deployment env x")
  case e: (Inr e)
  show ?thesis
  proof (cases "cv_deployment env y")
    case (Inr a)
    with e show ?thesis
      by (simp only: deploymentsAreEqual_def both_def same_deployment_def unless_diff_Inr exact_deepD [OF assms]
          compareContainers_case [OF assms] sum.case prod.case sum.inject) blast
  qed (simp add: deploymentsAreEqual_def both_def e)
qed (simp add: deploymentsAreEqual_def both_def)

lemma same_secret_iff: "same_secret e a \<longleftrightarrow> so_name e = so_name a \<and> so_data e = so_data a"
  by (cases e; cases a) (simp add: same_secret_def)

lemma secretsAreEqual_Inr:
  assumes "exact_deep env"
  shows "secretsAreEqual env x y = Inr b \<longleftrightarrow> b \<and> both (cv_secret env) same_secret x y"
  by (cases "cv_secret env x"; cases "cv_secret env y")
    (auto simp: secretsAreEqual_def both_def same_secret_iff Let_def exact_deepD [OF assms])

lemma trimmed_lookup: "map_of (map (\<lambda>(k, v). (k, trim_space v)) m) = (\<lambda>k. map_option trim_space (map_of m k))"
  by (induction m) (auto simp: fun_eq_iff)

lemma configMapsAreEqual_Inr:
  assumes "exact_deep env"
  shows "configMapsAreEqual env x y = Inr b \<longleftrightarrow> b \<and> both (cv_config_map env) same_configmap x y"
  by (cases "cv_config_map env x"; cases "cv_config_map env y")
    (auto simp: configMapsAreEqual_def both_def same_configmap_def same_data_def Let_def exact_deepD [OF assms]
       option.map_comp comp_def trimmed_lookup)

section \<open>Properties\<close>

text \<open>
  C40: A comparison of the functional tests accepts exactly the objects that agree.  For each of the three
  kinds with a procedure, and a \<open>deep.Equal\<close> that finds every difference, the procedure returns true
  when both objects convert to the kind and agree on all the parts it looks at, in order for containers
  and their variables and up to surrounding white space for config maps; in every other case it returns
  an error, never false without one.
\<close>

theorem comparison_exact:
  assumes "exact_deep env"
    and "CompareResourceProcs env kind = Some proc"
  shows "(proc x y = Inr True \<longleftrightarrow> same_object env kind x y) \<and> proc x y \<noteq> Inr False"
  using assms(2)
  by (auto simp: CompareResourceProcs_def same_object_def secretsAreEqual_Inr [OF assms(1)]
      configMapsAreEqual_Inr [OF assms(1)] deploymentsAreEqual_Inr [OF assms(1)] split: if_splits)

text \<open>Two deployments that differ in a field no comparison looks at, and a third with other arguments.\<close>

definition sample_container :: "string container" where
  "sample_container =
     \<lparr>ct_name = ''manager'', ct_image = ''img'',
      ct_env = [\<lparr>env_name = ''A'', env_value = ''1'', env_value_from = ''''\<rparr>,
                \<lparr>env_name = ''B'', env_value = ''2'', env_value_from = ''''\<rparr>],
      ct_ports = ''8080'', ct_resources = '''', ct_volume_mounts = '''', ct_args = ''--v'', ct_other = ''probe''\<rparr>"

definition sample_deployment :: "string container list \<Rightarrow> string deployment_object" where
  "sample_deployment cs =
     \<lparr>do_labels = ''app'', do_selector = ''app'', do_template_meta = ''app'', do_volumes = '''',
      do_init_containers = [], do_containers = cs, do_other = ''one replica''\<rparr>"

definition deep_map :: "go_map option \<Rightarrow> go_map option \<Rightarrow> bool" where
  "deep_map m n =
     (case (m, n) of
        (None, None) \<Rightarrow> True
      | (Some a, Some b) \<Rightarrow> list_all (\<lambda>(k, v). map_of a k = map_of b k) (a @ b)
      | _ \<Rightarrow> False)"

lemma deep_map_iff: "deep_map m n \<longleftrightarrow> same_data m n"
proof -
  have "map_of a = map_of b" if eq: "\<forall>kv \<in> set a \<union> set b. map_of a (fst kv) = map_of b (fst kv)" for a b :: go_map
  proof
    fix k show "map_of a k = map_of b k"
    proof (cases "k \<in> fst ` (set a \<union> set b)")
      case False
      then have "map_of a k = None" "map_of b k = None" by (auto simp: map_of_eq_None_iff)
      then show ?thesis by simp
    qed (use eq in force)
  qed
  then show ?thesis
    by (cases m; cases n) (auto simp: deep_map_def same_data_def list_all_iff case_prod_unfold)
qed

definition differs :: "bool \<Rightarrow> string list" where
  "differs same = (if same then [] else [''differs''])"

definition sample_compare :: "(string deployment_object, string) compare_env" where
  "sample_compare =
     \<lparr>cv_config_map = (\<lambda>u. Inl (Plain_Err ''not a config map'')), cv_secret = (\<lambda>u. Inl (Plain_Err ''not a secret'')),
      cv_deployment = Inr, dq_value = (\<lambda>x y. differs (x = y)), dq_data = (\<lambda>x y. differs (deep_map x y)),
      dq_env_var = (\<lambda>x y. differs (x = y))\<rparr>"

lemma sample_compare_exact: "exact_deep sample_compare"
  by (simp add: exact_deep_def sample_compare_def differs_def deep_map_iff)

theorem comparison_exact_witness:
  "\<exists>proc. CompareResourceProcs sample_compare ''Deployment'' = Some proc \<and>
     proc (sample_deployment [sample_container]) (sample_deployment [sample_container\<lparr>ct_other := ''none''\<rparr>]) = Inr True \<and>
     proc (sample_deployment [sample_container]) (sample_deployment [sample_container\<lparr>ct_args := ''--q''\<rparr>]) \<noteq> Inr True"
proof -
  obtain proc where p: "CompareResourceProcs sample_compare ''Deployment'' = Some proc"
    by (simp add: CompareResourceProcs_def)
  note exact = comparison_exact [OF sample_compare_exact p]
  show ?thesis
    using p exact [of "sample_deployment [sample_container]" "sample_deployment [sample_container\<lparr>ct_other := ''none''\<rparr>]"]
      exact [of "sample_deployment [sample_container]" "sample_deployment [sample_container\<lparr>ct_args := ''--q''\<rparr>]"]
    by (simp add: same_object_def both_def sample_compare_def same_deployment_def sample_deployment_def
        same_container_def sample_container_def)
qed

text \<open>
  \<open>compareEnvs\<close> finds every divergence it is meant to explain.  Its report is empty exactly when the two
  lists hold the same names and values in the same order and no name is expected twice; a name listed
  twice is reported even against itself.
\<close>

lemma compareEnvs_reports:
  "compareEnvs expected actual = '''' \<longleftrightarrow>
     map (\<lambda>e. (env_name e, env_value e)) expected = map (\<lambda>e. (env_name e, env_value e)) actual \<and>
     distinct (map env_name expected)"
  using compareEnvs_Nil [of expected actual] by (simp add: env_pairs_def)

text \<open>The message about different names says it twice.\<close>

lemma secret_name_message: "err_msg (notEqualMsg ''Secret Names are not equal.'') = ''Secret Names are not equal. are not equal''"
  by (simp add: notEqualMsg_def)

end
