(* ===== verification/Test_Support.thy ===== *)
theory Test_Support imports Test_Equalities begin

text \<open>
  \<open>controllers/testutil/util.go\<close>: the helpers of the functional tests, over the testing library, the
  manifest library, the file system and the polling of testify, which are parameters; and the fixtures,
  the resources the unit tests start from.
\<close>

section \<open>Running a test\<close>

text \<open>
  A test is an operation over the list of what it did.  \<open>assert\<close> notes a failure and goes on, \<open>require\<close>
  leaves the test with it.  A call of a method on the result of a failed call runs, as it does in Go, on
  the zero value.
\<close>

datatype 'u test_event = Test_Failed string | Applied_All "'u list" bool | Deleted_All "'u list" bool

type_synonym ('u, 'a) test = "('u test_event list, 'a) op"

record ('u, 'v) test_env =
  te_compare :: "('u, 'v) compare_env"
  te_new_manifest :: "string \<Rightarrow> 'u list \<times> gerr option"
  te_inject_namespace :: "'u list \<Rightarrow> 'u list \<times> gerr option"
  te_apply :: "'u list \<Rightarrow> gerr option"
  te_delete :: "'u list \<Rightarrow> gerr option"
  te_get :: "nat \<Rightarrow> 'u \<Rightarrow> gerr + 'u"
  te_eventually :: "(nat \<Rightarrow> bool) \<Rightarrow> nat option"
  te_kind :: "'u \<Rightarrow> string option"
  te_stat :: "string \<Rightarrow> gerr option"
  te_is_not_exist :: "gerr \<Rightarrow> bool"
  te_read_dir :: "string \<Rightarrow> string list \<times> gerr option"

text \<open>
  \<open>te_get n u\<close> is the answer of the cluster at the \<open>n\<close>-th attempt; \<open>te_eventually c\<close> the attempt at which
  \<open>Eventually\<close> saw the condition \<open>c\<close> hold within its ten seconds, if any.
\<close>

definition test_failed :: "string \<Rightarrow> ('u, unit) test" where
  "test_failed msg = modify_op (\<lambda>es. es @ [Test_Failed msg])"

definition assert_NoError :: "gerr option \<Rightarrow> string \<Rightarrow> ('u, unit) test" where
  "assert_NoError err msg = (case err of None \<Rightarrow> ret () | Some e \<Rightarrow> test_failed (msg @ err_msg e))"

definition assert_that :: "bool \<Rightarrow> string \<Rightarrow> ('u, unit) test" where
  "assert_that b msg = (if b then ret () else test_failed msg)"

definition fail_now :: "('u, unit) test \<Rightarrow> ('u, unit) test" where
  "fail_now t = and_then t (\<lambda>_. fail (Plain_Err ''FailNow''))"

definition require_NoError :: "gerr option \<Rightarrow> ('u, unit) test" where
  "require_NoError err = (case err of None \<Rightarrow> ret () | Some e \<Rightarrow> fail_now (test_failed (err_msg e)))"

definition require_that :: "bool \<Rightarrow> string \<Rightarrow> ('u, unit) test" where
  "require_that b msg = (if b then ret () else fail_now (test_failed msg))"

text \<open>\<open>assert.NotEqual\<close> compares two interface values: a nil or an error on one side, a string on the other.\<close>

datatype go_value = Err_Value "gerr option" | Str_Value string

definition assert_NotEqual :: "go_value \<Rightarrow> go_value \<Rightarrow> ('u, unit) test" where
  "assert_NotEqual expected actual =
     (if expected = actual then test_failed ''Should not be equal'' else ret ())"

text \<open>\<open>manifest.Resources()[0]\<close>\<close>

definition first_resource :: "'u list \<Rightarrow> ('u, 'u) test" where
  "first_resource m = (case m of [] \<Rightarrow> panic ''index out of range'' | u # us \<Rightarrow> ret u)"

section \<open>Resources of the cluster\<close>

text \<open>The manifest of a file, in the namespace of the test; \<open>check\<close> is \<open>assert\<close> or \<open>require\<close>.\<close>

definition load_manifest :: "('u, 'v) test_env \<Rightarrow> (gerr option \<Rightarrow> ('u, unit) test) \<Rightarrow> string \<Rightarrow> ('u, 'u list) test" where
  "load_manifest env check path =
     (case te_new_manifest env path of
        (manifest, err) \<Rightarrow>
          and_then (check err) (\<lambda>_.
          (case te_inject_namespace env manifest of
             (manifest', err') \<Rightarrow> and_then (check err') (\<lambda>_. ret manifest'))))"

definition is_gone :: "('u, 'v) test_env \<Rightarrow> 'u \<Rightarrow> nat \<Rightarrow> bool" where
  "is_gone env u n = (case te_get env n u of Inl err \<Rightarrow> is_not_found err | Inr _ \<Rightarrow> False)"

definition is_there :: "('u, 'v) test_env \<Rightarrow> 'u \<Rightarrow> nat \<Rightarrow> bool" where
  "is_there env u n = (case te_get env n u of Inl err \<Rightarrow> False | Inr _ \<Rightarrow> True)"

definition assert_Eventually :: "('u, 'v) test_env \<Rightarrow> (nat \<Rightarrow> bool) \<Rightarrow> ('u, unit) test" where
  "assert_Eventually env c = assert_that (te_eventually env c \<noteq> None) ''Condition never satisfied''"

definition ResourceDoesNotExists :: "('u, 'v) test_env \<Rightarrow> string \<Rightarrow> ('u, unit) test" where
  "ResourceDoesNotExists env path =
     and_then (load_manifest env (\<lambda>err. assert_NoError err '''') path) (\<lambda>manifest.
     and_then (first_resource manifest) (\<lambda>u.
     assert_Eventually env (is_gone env u)))"

definition DeployResource :: "('u, 'v) test_env \<Rightarrow> string \<Rightarrow> ('u, unit) test" where
  "DeployResource env path =
     and_then (load_manifest env (\<lambda>err. assert_NoError err '''') path) (\<lambda>manifest.
     and_then (modify_op (\<lambda>es. es @ [Applied_All manifest (te_apply env manifest = None)])) (\<lambda>_.
     and_then (assert_NoError (te_apply env manifest) '''') (\<lambda>_.
     and_then (first_resource manifest) (\<lambda>u.
     assert_Eventually env (is_there env u)))))"

definition DeleteResource_test :: "('u, 'v) test_env \<Rightarrow> string \<Rightarrow> ('u, unit) test" where
  "DeleteResource_test env path =
     and_then (load_manifest env (\<lambda>err. assert_NoError err '''') path) (\<lambda>manifest.
     and_then (modify_op (\<lambda>es. es @ [Deleted_All manifest (te_delete env manifest = None)])) (\<lambda>_.
     and_then (assert_NoError (te_delete env manifest) '''') (\<lambda>_.
     and_then (first_resource manifest) (\<lambda>u.
     assert_Eventually env (is_gone env u)))))"

text \<open>\<open>actual\<close> is what the last attempt of the polling got; a kind without a procedure is a nil function.\<close>

definition CompareResources :: "('u, 'v) test_env \<Rightarrow> string \<Rightarrow> ('u, unit) test" where
  "CompareResources env path =
     and_then (load_manifest env require_NoError path) (\<lambda>manifest.
     and_then (first_resource manifest) (\<lambda>expected.
     (case te_eventually env (is_there env expected) of
        None \<Rightarrow> fail_now (test_failed ''Condition never satisfied'')
      | Some n \<Rightarrow>
          (case te_get env n expected of
             Inl err \<Rightarrow> panic ''nil pointer dereference''
           | Inr actual \<Rightarrow>
               and_then (deref ''interface conversion'' (te_kind env expected)) (\<lambda>kind.
               and_then (deref ''nil function'' (CompareResourceProcs (te_compare env) kind)) (\<lambda>proc.
               (case proc expected actual of
                  Inl err \<Rightarrow> require_NoError (Some err)
                | Inr result \<Rightarrow> require_that result ''Should be true'')))))))"

section \<open>The declarative cases\<close>

definition CasesDir :: string where
  "CasesDir = ''./testdata/declarative''"

record expectation =
  tx_created :: "string list"
  tx_not_created :: "string list"

record test_case =
  tc_description :: string
  tc_config :: string
  tc_deploy :: "string list"
  tc_expected :: expectation

definition DirExists :: "('u, 'v) test_env \<Rightarrow> string \<Rightarrow> bool \<times> gerr option" where
  "DirExists env path =
     (case te_stat env path of
        None \<Rightarrow> (True, None)
      | Some err \<Rightarrow> if te_is_not_exist env err then (False, None) else (False, Some err))"

text \<open>The files of a directory, by their paths; \<open>check\<close> is the assertion made on the error of the reading.\<close>

definition list_files :: "('u, 'v) test_env \<Rightarrow> (gerr option \<Rightarrow> ('u, unit) test) \<Rightarrow> string \<Rightarrow> ('u, string list) test" where
  "list_files env check dir =
     (case te_read_dir env dir of
        (names, err) \<Rightarrow> and_then (check err) (\<lambda>_. ret (map (\<lambda>f. dir @ ''/'' @ f) names)))"

text \<open>The files of a directory that need not be there.\<close>

definition list_optional :: "('u, 'v) test_env \<Rightarrow> (gerr option \<Rightarrow> ('u, unit) test) \<Rightarrow> string \<Rightarrow> ('u, string list) test" where
  "list_optional env check dir =
     (case DirExists env dir of
        (found, err) \<Rightarrow> and_then (check err) (\<lambda>_. if found then list_files env check dir else ret []))"

definition read_case :: "('u, 'v) test_env \<Rightarrow> string \<Rightarrow> ('u, test_case) test" where
  "read_case env caseName =
     (let caseDir = CasesDir @ ''/'' @ caseName in
      and_then (list_files env (\<lambda>err. assert_NoError err ''Failed to read case.'') (caseDir @ ''/deploy'')) (\<lambda>deploy.
      and_then (list_optional env (\<lambda>err. assert_NoError err ''Failed to read 'create' dir.'')
                  (caseDir @ ''/expected/created'')) (\<lambda>created.
      and_then (list_optional env (\<lambda>err. assert_NotEqual (Err_Value err) (Str_Value ''Failed to read 'not_create' dir.''))
                  (caseDir @ ''/expected/not_created'')) (\<lambda>notCreated.
      ret \<lparr>tc_description = ''['' @ caseName @ ''] - When a DSPA is deployed'',
           tc_config = caseDir @ ''/config.yaml'', tc_deploy = deploy,
           tc_expected = \<lparr>tx_created = created, tx_not_created = notCreated\<rparr>\<rparr>))))"

fun read_cases :: "('u, 'v) test_env \<Rightarrow> string list \<Rightarrow> ('u, test_case list) test" where
  "read_cases env [] = ret []"
| "read_cases env (name # names) =
     and_then (read_case env name) (\<lambda>c. and_then (read_cases env names) (\<lambda>cs. ret (c # cs)))"

definition GenerateDeclarativeTestCases :: "('u, 'v) test_env \<Rightarrow> ('u, test_case list) test" where
  "GenerateDeclarativeTestCases env =
     (case te_read_dir env CasesDir of
        (cases, err) \<Rightarrow>
          and_then (assert_NoError err ''Failed to fetch cases in case dir.'') (\<lambda>_. read_cases env cases))"

section \<open>What the helpers guarantee\<close>

text \<open>The polling is right about the attempt it reports.\<close>

definition eventually_sound :: "('u, 'v) test_env \<Rightarrow> bool" where
  "eventually_sound env \<longleftrightarrow> (\<forall>c n. te_eventually env c = Some n \<longrightarrow> c n)"

lemma fail_now_stops: "fail_now (test_failed m) es = (Err (Plain_Err ''FailNow''), es @ [Test_Failed m])"
  by (simp add: fail_now_def test_failed_def and_then_def attempt_def modify_op_def fail_def)

lemma load_manifest_ok:
  assumes "load_manifest env require_NoError path es = (Ok m, es')"
  shows "es' = es \<and> (\<exists>m0. te_new_manifest env path = (m0, None) \<and> te_inject_namespace env m0 = (m, None))"
  using assms
  by (auto simp: load_manifest_def and_then_def attempt_def require_NoError_def fail_now_stops ret_def fail_def
      split: prod.splits option.splits)

lemma CompareResources_ok:
  assumes "CompareResources env path es = (Ok u, es')" "eventually_sound env" "exact_deep (te_compare env)"
  shows "es' = es \<and>
     (\<exists>m0 m expected rest n actual kind.
        te_new_manifest env path = (m0, None) \<and> te_inject_namespace env m0 = (m, None) \<and> m = expected # rest \<and>
        te_get env n expected = Inr actual \<and> te_kind env expected = Some kind \<and>
        same_object (te_compare env) kind expected actual)"
proof -
  have procs: "same_object (te_compare env) kind x y"
    if "CompareResourceProcs (te_compare env) kind = Some proc" "proc x y = Inr True" for kind proc x y
    using that by (auto simp: CompareResourceProcs_def same_object_def secretsAreEqual_Inr [OF assms(3)]
        configMapsAreEqual_Inr [OF assms(3)] deploymentsAreEqual_Inr [OF assms(3)] split: if_splits)
  obtain r1 es1 where l: "load_manifest env require_NoError path es = (r1, es1)" by fastforce
  with assms(1) obtain m where m: "r1 = Ok m"
    by (cases r1) (auto simp: CompareResources_def and_then_def attempt_def fail_def)
  from load_manifest_ok [OF l [unfolded m]] obtain m0 where
    m0: "es1 = es" "te_new_manifest env path = (m0, None)" "te_inject_namespace env m0 = (m, None)" by blast
  from assms(1) l m obtain expected rest where e: "m = expected # rest"
    by (cases m) (auto simp: CompareResources_def and_then_def attempt_def first_resource_def panic_def)
  from assms(1) l m m0(1) e obtain n actual kind proc where
    "te_get env n expected = Inr actual" "te_kind env expected = Some kind"
    "CompareResourceProcs (te_compare env) kind = Some proc" "proc expected actual = Inr True" "es' = es"
    by (auto simp: CompareResources_def and_then_def attempt_def first_resource_def ret_def deref_def panic_def
        fail_now_stops fail_def require_NoError_def require_that_def split: option.splits sum.splits if_splits)
  with procs m0 e show ?thesis by metis
qed

text \<open>What the cases are, and which failures are noticed on the way.\<close>

definition files_of :: "('u, 'v) test_env \<Rightarrow> string \<Rightarrow> string list" where
  "files_of env dir = map (\<lambda>f. dir @ ''/'' @ f) (fst (te_read_dir env dir))"

definition optional_files :: "('u, 'v) test_env \<Rightarrow> string \<Rightarrow> string list" where
  "optional_files env dir = (if te_stat env dir = None then files_of env dir else [])"

definition case_of :: "('u, 'v) test_env \<Rightarrow> string \<Rightarrow> test_case" where
  "case_of env name =
     (let dir = CasesDir @ ''/'' @ name in
      \<lparr>tc_description = ''['' @ name @ ''] - When a DSPA is deployed'', tc_config = dir @ ''/config.yaml'',
       tc_deploy = files_of env (dir @ ''/deploy''),
       tc_expected = \<lparr>tx_created = optional_files env (dir @ ''/expected/created''),
                      tx_not_created = optional_files env (dir @ ''/expected/not_created'')\<rparr>\<rparr>)"

definition optional_readable :: "('u, 'v) test_env \<Rightarrow> string \<Rightarrow> bool" where
  "optional_readable env dir =
     (case te_stat env dir of None \<Rightarrow> snd (te_read_dir env dir) = None | Some err \<Rightarrow> te_is_not_exist env err)"

definition case_readable :: "('u, 'v) test_env \<Rightarrow> string \<Rightarrow> bool" where
  "case_readable env name =
     (snd (te_read_dir env (CasesDir @ ''/'' @ name @ ''/deploy'')) = None \<and>
      optional_readable env (CasesDir @ ''/'' @ name @ ''/expected/created''))"

text \<open>\<open>yields t a ok\<close>: the test goes on with the value \<open>a\<close>, and notes no failure exactly when \<open>ok\<close>.\<close>

definition yields :: "('u, 'a) test \<Rightarrow> 'a \<Rightarrow> bool \<Rightarrow> bool" where
  "yields t a ok \<longleftrightarrow> (\<forall>es. \<exists>fs. t es = (Ok a, es @ fs) \<and> (fs = [] \<longleftrightarrow> ok))"

lemma yields_ret: "yields (ret a) a True"
  by (simp add: yields_def ret_def)

lemma yields_and_then:
  assumes "yields t a ok" "yields (k a) b ok'"
  shows "yields (and_then t k) b (ok \<and> ok')"
  unfolding yields_def
proof
  fix es
  from assms(1) obtain fs where t: "t es = (Ok a, es @ fs)" "(fs = []) = ok" unfolding yields_def by blast
  from assms(2) obtain fs' where k: "k a (es @ fs) = (Ok b, (es @ fs) @ fs')" "(fs' = []) = ok'" unfolding yields_def by blast
  from t k show "\<exists>gs. and_then t k es = (Ok b, es @ gs) \<and> (gs = []) = (ok \<and> ok')"
    by (intro exI [of _ "fs @ fs'"]) (auto simp: and_then_def attempt_def)
qed

lemma yields_assert_NoError: "yields (assert_NoError err msg) () (err = None)"
  by (auto simp: yields_def assert_NoError_def ret_def test_failed_def modify_op_def split: option.splits)

lemma yields_assert_NotEqual: "yields (assert_NotEqual (Err_Value err) (Str_Value msg)) () True"
  by (simp add: yields_def assert_NotEqual_def ret_def)

lemma yields_then_ret: "yields t () ok \<Longrightarrow> yields (and_then t (\<lambda>_. ret b)) b ok"
  using yields_and_then [of t "()" ok "\<lambda>_. ret b" b True] by (simp add: yields_ret)

lemma yields_list_files:
  assumes "\<And>err. yields (check err) () (ok err)"
  shows "yields (list_files env check dir) (files_of env dir) (ok (snd (te_read_dir env dir)))"
  by (simp add: list_files_def files_of_def case_prod_unfold yields_then_ret assms)

lemma yields_list_optional:
  assumes check: "\<And>err. yields (check err) () (ok err)" and none: "ok None"
  shows "yields (list_optional env check dir) (optional_files env dir)
     (case te_stat env dir of
        None \<Rightarrow> ok (snd (te_read_dir env dir)) | Some err \<Rightarrow> te_is_not_exist env err \<or> ok (Some err))"
proof (cases "te_stat env dir")
  case None
  have "yields (and_then (check None) (\<lambda>_. list_files env check dir)) (files_of env dir)
     (ok None \<and> ok (snd (te_read_dir env dir)))"
    by (rule yields_and_then) (rule check, rule yields_list_files, rule check)
  with None none show ?thesis by (simp add: list_optional_def DirExists_def optional_files_def)
next
  case (Some err)
  have "yields (and_then (check e) (\<lambda>_. ret [])) [] (ok e)" for e
    by (rule yields_then_ret) (rule check)
  from this [of None] this [of "Some err"] Some none show ?thesis
    by (auto simp: list_optional_def DirExists_def optional_files_def)
qed

lemma yields_read_case: "yields (read_case env name) (case_of env name) (case_readable env name)"
proof -
  let ?dir = "CasesDir @ ''/'' @ name"
  have deploy: "yields (list_files env (\<lambda>err. assert_NoError err m) d) (files_of env d) (snd (te_read_dir env d) = None)" for m d
    by (rule yields_list_files) (rule yields_assert_NoError)
  have created: "yields (list_optional env (\<lambda>err. assert_NoError err m) d) (optional_files env d) (optional_readable env d)" for m d
    using yields_list_optional [of "\<lambda>err. assert_NoError err m" "\<lambda>err. err = None" env d]
    by (simp add: yields_assert_NoError optional_readable_def cong: option.case_cong)
  have rest: "yields (list_optional env (\<lambda>err. assert_NotEqual (Err_Value err) (Str_Value m)) d) (optional_files env d) True" for m d
    using yields_list_optional [of "\<lambda>err. assert_NotEqual (Err_Value err) (Str_Value m)" "\<lambda>err. True" env d]
    by (simp add: yields_assert_NotEqual split: option.splits)
  have "yields (read_case env name) (case_of env name)
     ((snd (te_read_dir env (?dir @ ''/deploy'')) = None) \<and> optional_readable env (?dir @ ''/expected/created'') \<and> True \<and> True)"
    unfolding read_case_def case_of_def Let_def
    by (intro yields_and_then [OF deploy] yields_and_then [OF created] yields_and_then [OF rest] yields_ret)
  then show ?thesis by (simp add: case_readable_def)
qed

lemma yields_read_cases:
  "yields (read_cases env names) (map (case_of env) names) (\<forall>name \<in> set names. case_readable env name)"
proof (induction names)
  case (Cons name names)
  have "yields (read_cases env (name # names)) (map (case_of env) (name # names))
     (case_readable env name \<and> (\<forall>name \<in> set names. case_readable env name) \<and> True)"
    unfolding read_cases.simps list.map
    by (intro yields_and_then [OF yields_read_case] yields_and_then [OF Cons.IH] yields_ret)
  then show ?case by simp
qed (simp add: yields_ret)

section \<open>Properties\<close>

text \<open>
  A comparison of the functional tests that passes is right.  When \<open>CompareResources\<close> returns, the
  expected object is the first one of the manifest, the cluster answered with an object of that name, and
  the two agree on everything the comparison of their kind looks at; and no failure was noted.  An error,
  a timeout, a kind without a procedure or an empty manifest never passes.
\<close>

lemma passing_comparison:
  assumes "CompareResources env path es = (Ok u, es')"
    and "eventually_sound env"
    and "exact_deep (te_compare env)"
  shows "es' = es \<and>
     (\<exists>m0 m expected rest n actual kind.
        te_new_manifest env path = (m0, None) \<and> te_inject_namespace env m0 = (m, None) \<and> m = expected # rest \<and>
        te_get env n expected = Inr actual \<and> te_kind env expected = Some kind \<and>
        same_object (te_compare env) kind expected actual)"
  by (rule CompareResources_ok [OF assms])

text \<open>A cluster that shows the deployment at the third attempt, with another probe.\<close>

definition sample_test_env :: "(string deployment_object, string) test_env" where
  "sample_test_env =
     \<lparr>te_compare = sample_compare,
      te_new_manifest = (\<lambda>path. ([sample_deployment [sample_container]], None)),
      te_inject_namespace = (\<lambda>m. (m, None)), te_apply = (\<lambda>m. None), te_delete = (\<lambda>m. None),
      te_get = (\<lambda>n u. if n < 2 then Inl (Api_Err ReasonNotFound ''not found'')
                       else Inr (sample_deployment [sample_container\<lparr>ct_other := ''none''\<rparr>])),
      te_eventually = (\<lambda>c. find c [0..<10]), te_kind = (\<lambda>u. Some ''Deployment''),
      te_stat = (\<lambda>path. Some (Plain_Err ''permission denied'')), te_is_not_exist = (\<lambda>err. False),
      te_read_dir = (\<lambda>path. ([''case_1''], None))\<rparr>"

lemma sample_test_env_simps:
  "te_compare sample_test_env = sample_compare" "te_inject_namespace sample_test_env m = (m, None)"
  "te_new_manifest sample_test_env path = ([sample_deployment [sample_container]], None)"
  "te_get sample_test_env 2 u = Inr (sample_deployment [sample_container\<lparr>ct_other := ''none''\<rparr>])"
  "te_kind sample_test_env u = Some ''Deployment''"
  by (simp_all add: sample_test_env_def)

lemma sample_eventually_sound: "eventually_sound sample_test_env"
  by (auto simp: eventually_sound_def sample_test_env_def find_Some_iff)

lemma passing_comparison_witness:
  "CompareResources sample_test_env ''deployment.yaml'' [] = (Ok (), []) \<and>
   (\<exists>n actual. te_get sample_test_env n (sample_deployment [sample_container]) = Inr actual \<and>
      same_object sample_compare ''Deployment'' (sample_deployment [sample_container]) actual)"
proof -
  have polled: "te_eventually sample_test_env (is_there sample_test_env u) = Some 2" for u
    by (simp add: sample_test_env_def is_there_def upt_rec)
  have "both (cv_deployment sample_compare) same_deployment (sample_deployment [sample_container])
          (sample_deployment [sample_container\<lparr>ct_other := ''none''\<rparr>])"
    by (simp add: both_def sample_compare_def same_deployment_def sample_deployment_def same_container_def
        sample_container_def)
  then have "deploymentsAreEqual sample_compare (sample_deployment [sample_container])
          (sample_deployment [sample_container\<lparr>ct_other := ''none''\<rparr>]) = Inr True"
    unfolding deploymentsAreEqual_Inr [OF sample_compare_exact] by simp
  then have run: "CompareResources sample_test_env ''deployment.yaml'' [] = (Ok (), [])"
    by (simp add: CompareResources_def polled load_manifest_def and_then_def attempt_def require_NoError_def
        require_that_def ret_def first_resource_def deref_def CompareResourceProcs_def sample_test_env_simps)
  from passing_comparison [OF run sample_eventually_sound] show ?thesis
    using run sample_compare_exact by (auto simp: sample_test_env_simps)
qed

text \<open>
  The declarative cases are those of the directory.  Whatever the file system answers, the generator
  ends with one case per entry, in order, with the paths of the files that could be listed; and it notes a
  failure exactly when the directory of the cases, one of the manifests to deploy or one of the expected
  objects could not be read.  That the objects that must not be created could not be read is never noted:
  such a case then checks nothing about them.
\<close>

lemma declarative_cases:
  "\<exists>fs. GenerateDeclarativeTestCases env es = (Ok (map (case_of env) (fst (te_read_dir env CasesDir))), es @ fs) \<and>
     (fs = [] \<longleftrightarrow> snd (te_read_dir env CasesDir) = None \<and> (\<forall>name \<in> set (fst (te_read_dir env CasesDir)). case_readable env name))"
proof -
  have "yields (GenerateDeclarativeTestCases env) (map (case_of env) (fst (te_read_dir env CasesDir)))
     (snd (te_read_dir env CasesDir) = None \<and> (\<forall>name \<in> set (fst (te_read_dir env CasesDir)). case_readable env name))"
    unfolding GenerateDeclarativeTestCases_def case_prod_unfold
    by (rule yields_and_then) (rule yields_assert_NoError, rule yields_read_cases)
  then show ?thesis unfolding yields_def by blast
qed

text \<open>A \<open>not_created\<close> directory that cannot be examined: an empty list and no failure.\<close>

lemma unreadable_not_created:
  assumes "te_stat env (CasesDir @ ''/'' @ name @ ''/expected/not_created'') = Some err"
  shows "tx_not_created (tc_expected (case_of env name)) = []"
    "assert_NotEqual (Err_Value (Some err)) (Str_Value msg) es = (Ok (), es)"
  using assms by (simp_all add: case_of_def optional_files_def assert_NotEqual_def ret_def)

end
