(* ===== verification/Test_Fixtures.thy ===== *)
theory Test_Fixtures imports Params begin

text \<open>
  The fixtures of \<open>controllers/testutil/util.go\<close>: the resources the unit tests of the controller start from,
  as composite literals over the zero values of the API's structs, and what the controller makes of them.
\<close>

section \<open>Zero values\<close>

definition zero_api_server :: api_server where
  "zero_api_server =
     \<lparr>as_deploy = False, as_image = '''', as_enable_route = False, as_enable_sample_pipeline = False,
      as_argo_launcher_image = '''', as_argo_driver_image = '''', as_managed_pipelines = None,
      as_resources = None, as_ca_bundle = None, as_custom_server_config = None,
      as_custom_kfp_launcher_configmap = '''', as_ca_bundle_file_mount_path = '''', as_ca_bundle_file_name = '''',
      as_artifact_signed_url_expiry_seconds = None, as_pipeline_store = '''', as_cache_enabled = None,
      as_workspace = None, as_resource_ttl = None\<rparr>"

definition zero_maria_db :: maria_db where
  "zero_maria_db =
     \<lparr>mdb_deploy = False, mdb_image = '''', mdb_username = '''', mdb_password_secret = None, mdb_db_name = '''',
      mdb_pvc_size = '''', mdb_storage_class_name = '''', mdb_resources = None\<rparr>"

definition zero_minio :: minio where
  "zero_minio =
     \<lparr>mn_deploy = False, mn_bucket = '''', mn_s3_credential_secret = None, mn_pvc_size = '''',
      mn_storage_class_name = '''', mn_resources = None, mn_image = ''''\<rparr>"

definition mlmd_deployed :: mlmd where
  "mlmd_deployed = \<lparr>ml_deploy = True, ml_envoy = None, ml_grpc = None\<rparr>"

text \<open>A database and a store with only the in-cluster variant, whose health checks are on.\<close>

definition fixture_database :: "bool \<Rightarrow> database" where
  "fixture_database deploy =
     \<lparr>db_maria_db = Some (zero_maria_db\<lparr>mdb_deploy := deploy\<rparr>), db_external_db = None,
      db_custom_extra_params = None, db_disable_health_check = False\<rparr>"

definition fixture_storage :: "string \<Rightarrow> object_storage" where
  "fixture_storage img =
     \<lparr>os_minio = Some (zero_minio\<lparr>mn_deploy := False, mn_image := img\<rparr>), os_external_storage = None,
      os_disable_health_check = False, os_enable_external_route = False\<rparr>"

section \<open>The fixtures\<close>

definition BoolPtr :: "bool \<Rightarrow> bool option" where
  "BoolPtr b = Some b"

definition CreateEmptyDSPA :: dspa where
  "CreateEmptyDSPA =
     empty_dspa\<lparr>d_spec :=
       empty_spec\<lparr>sp_pod_to_pod_tls := BoolPtr False,
         sp_api_server := Some (zero_api_server\<lparr>as_deploy := False\<rparr>),
         sp_mlmd := Some mlmd_deployed,
         sp_persistence_agent := Some \<lparr>pa_deploy = False, pa_image = '''', pa_num_workers = 0, pa_resources = None\<rparr>,
         sp_scheduled_workflow :=
           Some \<lparr>sw_deploy = False, sw_image = '''', sw_cron_schedule_timezone = '''', sw_resources = None\<rparr>,
         sp_workflow_controller :=
           Some \<lparr>wc_deploy = False, wc_image = '''', wc_argo_exec_image = '''', wc_custom_config = '''',
                 wc_resources = None\<rparr>,
         sp_database := Some (fixture_database False),
         sp_object_storage := Some (fixture_storage ''testimage-Minio:test'')\<rparr>,
       d_name := ''testdspa'', d_namespace := ''testnamespace''\<rparr>"

definition with_api_server :: "api_server \<Rightarrow> dspa \<Rightarrow> dspa" where
  "with_api_server a d = d\<lparr>d_spec := (d_spec d)\<lparr>sp_api_server := Some (a\<lparr>as_deploy := True\<rparr>)\<rparr>\<rparr>"

definition CreateDSPAWithAPIServerCABundle :: "string \<Rightarrow> string \<Rightarrow> dspa" where
  "CreateDSPAWithAPIServerCABundle key cfgmapName =
     with_api_server
       (zero_api_server\<lparr>as_ca_bundle := Some \<lparr>cab_configmap_name = cfgmapName, cab_configmap_key = key\<rparr>\<rparr>)
       CreateEmptyDSPA"

text \<open>The version, MLMD and pod-to-pod TLS, which several fixtures set; MLMD is never nil there.\<close>

definition v2_resource :: "bool \<Rightarrow> dspa \<Rightarrow> dspa" where
  "v2_resource tls d =
     d\<lparr>d_spec := (d_spec d)\<lparr>sp_dsp_version := ''v2'', sp_pod_to_pod_tls := BoolPtr tls,
         sp_mlmd := map_option (\<lambda>m. m\<lparr>ml_deploy := True\<rparr>) (sp_mlmd (d_spec d))\<rparr>\<rparr>"

definition CreateDSPAWithAPIServerPodtoPodTlsEnabled :: dspa where
  "CreateDSPAWithAPIServerPodtoPodTlsEnabled = v2_resource True (with_api_server zero_api_server CreateEmptyDSPA)"

definition CreateDSPAWithCustomKfpLauncherConfigMap :: "string \<Rightarrow> dspa" where
  "CreateDSPAWithCustomKfpLauncherConfigMap configMapName =
     with_api_server (zero_api_server\<lparr>as_custom_kfp_launcher_configmap := configMapName\<rparr>)
       (v2_resource False CreateEmptyDSPA)"

definition CreateDSPAWithResourceTTL :: "int \<Rightarrow> dspa" where
  "CreateDSPAWithResourceTTL duration =
     with_api_server (zero_api_server\<lparr>as_resource_ttl := Some duration\<rparr>) (v2_resource False CreateEmptyDSPA)"

definition CreateDSPAWithManagedPipelines ::
  "string \<Rightarrow> managed_pipeline list \<Rightarrow> resource_requirements option \<Rightarrow> dspa" where
  "CreateDSPAWithManagedPipelines img pipelines res =
     with_api_server
       (zero_api_server\<lparr>as_managed_pipelines :=
          Some \<lparr>mps_image = img, mps_pipelines = pipelines, mps_resources = res, mps_volume_size_limit = ''''\<rparr>\<rparr>)
       (v2_resource False CreateEmptyDSPA)"

definition CreateTestDSPA :: dspa where
  "CreateTestDSPA =
     CreateEmptyDSPA\<lparr>d_name := ''testdspa'', d_namespace := ''testnamespace'',
       d_spec :=
         empty_spec\<lparr>sp_pod_to_pod_tls := BoolPtr False,
           sp_api_server := Some (zero_api_server\<lparr>as_deploy := True, as_pipeline_store := ''kubernetes''\<rparr>),
           sp_mlmd := Some mlmd_deployed, sp_database := Some (fixture_database True),
           sp_object_storage := Some (fixture_storage ''someimage''), sp_dsp_version := ''v2''\<rparr>\<rparr>"

text \<open>The operator's own deployment, as far as the fixture sets it.\<close>

record operator_deployment =
  od_name :: string
  od_namespace :: string
  od_match_labels :: go_map
  od_template_labels :: go_map
  od_containers :: "(string \<times> string) list"

definition CreateTestDSPODeployment :: "string \<Rightarrow> operator_deployment" where
  "CreateTestDSPODeployment ns =
     \<lparr>od_name = ''data-science-pipelines-operator-controller-manager'', od_namespace = ns,
      od_match_labels = [(''app'', ''dspo'')], od_template_labels = [(''app'', ''dspo'')],
      od_containers = [(''manager'', ''testimage'')]\<rparr>"

section \<open>What the controller makes of them\<close>

text \<open>Which fixtures the controller would reconcile at all: the empty one and the one with a certificate bundle have no version.\<close>

lemma fixture_versions:
  "\<not> DSPAWithSupportedDSPVersion CreateEmptyDSPA"
  "\<not> DSPAWithSupportedDSPVersion (CreateDSPAWithAPIServerCABundle k c)"
  "DSPAWithSupportedDSPVersion CreateDSPAWithAPIServerPodtoPodTlsEnabled"
  "DSPAWithSupportedDSPVersion (CreateDSPAWithCustomKfpLauncherConfigMap c)"
  "DSPAWithSupportedDSPVersion (CreateDSPAWithResourceTTL t)"
  "DSPAWithSupportedDSPVersion (CreateDSPAWithManagedPipelines i ps r)"
  "DSPAWithSupportedDSPVersion CreateTestDSPA"
  by (simp_all add: CreateEmptyDSPA_def CreateDSPAWithAPIServerCABundle_def with_api_server_def v2_resource_def
      CreateDSPAWithAPIServerPodtoPodTlsEnabled_def CreateDSPAWithCustomKfpLauncherConfigMap_def
      CreateDSPAWithResourceTTL_def CreateDSPAWithManagedPipelines_def CreateTestDSPA_def empty_dspa_def empty_spec_def)

lemma fixture_stores:
  "\<not> UsingExternalDB CreateTestDSPA" "\<not> UsingExternalStorage CreateTestDSPA"
  "\<not> DatabaseHealthCheckDisabled CreateTestDSPA" "\<not> ObjectStorageHealthCheckDisabled CreateTestDSPA"
  "\<not> ExternalRouteEnabled CreateTestDSPA"
  by (simp_all add: CreateTestDSPA_def fixture_database_def fixture_storage_def UsingExternalDB_def
      UsingExternalStorage_def DatabaseHealthCheckDisabled_def ObjectStorageHealthCheckDisabled_def
      ExternalRouteEnabled_def)

end
