(* ===== verification/Spec2Isabelle.thy ===== *)
theory Spec2Isabelle imports Operator_Scheme Plugin_Config Api_Copies Names_Store Test_Support Test_Fixtures begin

text \<open>
  A model of the Data Science Pipelines operator: a Kubernetes controller that deploys, for every
  resource of kind DataSciencePipelinesApplication, a database, an object store and the components of
  a pipelines service, and keeps the status of the resource up to date.

  \<^bold>\<open>The program.\<close>  \<open>main.go\<close> starts a controller-runtime manager with the reconciler of
  \<open>controllers/dspipeline_controller.go\<close>.  A reconcile reads the resource, computes its parameters
  (\<open>dspipeline_params.go\<close>), deploys the database (\<open>database.go\<close>) and the object store
  (\<open>storage.go\<close>), asks both whether they answer, and then deploys the API server
  (\<open>apiserver.go\<close>) and the other components (\<open>common.go\<close>, \<open>persistence_agent.go\<close>,
  \<open>scheduled_workflow.go\<close>, \<open>workflow_controller.go\<close>, \<open>mlmd.go\<close>, \<open>webhook.go\<close>)
  from templates.  Every step leaves a condition in a status object (\<open>dspastatus\<close>); two deferred
  calls publish it as metrics and write it to the resource.

  \<^bold>\<open>How it is modelled.\<close>  The code is sequential and talks to the outside by calls that may fail.
  An operation is a state-passing function that ends with a value, an error or a panic (\<open>Go_Prelude\<close>);
  a nil pointer that is followed is a panic of its own.  The state (\<open>World\<close>) holds the resource, the
  parameters, the status object, the two caches and the history of the calls made.  All code that is not
  in the repository is a function of the record \<open>env\<close> (\<open>Kube\<close>): its answers may depend on the whole
  history, so a theorem for all \<open>env\<close> holds for every behaviour of the API server, of the registry, of
  the database, and of other clients in between.  What the operator does to the cluster is the list of
  events it appends.  The calculi that carry the proofs follow the combinators: \<open>wp\<close> for outcomes,
  \<open>emits\<close> for the events of an operation, \<open>reads\<close> and \<open>within\<close> for what it leaves alone
  (\<open>Frame_Rules\<close>), \<open>applies\<close> for the templates a successful operation has applied (\<open>Applied\<close>),
  \<open>status_inv\<close> for the status object (\<open>Status_Flow\<close>).

  \<^bold>\<open>Theories.\<close>
  \<^item> \<open>Go_Prelude\<close>, \<open>Go_Strings\<close>, \<open>Go_Json\<close>, \<open>Go_Base64\<close>: errors, operations, and what the code uses
    of Go's libraries for strings, JSON and base64.
  \<^item> \<open>Api_Types\<close>, \<open>Config\<close>: the types of \<open>api/v1\<close>, and constants, defaults and readers of
    \<open>controllers/config\<close>.
  \<^item> \<open>Dspa_Status\<close>: the status object, its setters and \<open>GetConditions\<close>.  The types of the reported
    conditions, the overall Ready condition, stable transition times; the interface of condition slots is
    the locale \<open>condition_slots\<close>, interpreted on the setters.
  \<^item> \<open>Metrics\<close>: the gauges, what is published and what is deleted.
  \<^item> \<open>Kube\<close>, \<open>World\<close>, \<open>Frame_Rules\<close>, \<open>Sample_Env\<close>: environment, state, frame rules, and a concrete
    environment for witnesses.
  \<^item> \<open>Ttl_Cache\<close>, \<open>Mlflow\<close>: the two caches with expiry as instances of one locale, and the lookup of the
    MLflow endpoint through one of them.
  \<^item> \<open>Util\<close>, \<open>Manifests\<close>, \<open>Applied\<close>: helpers; loading, labelling, applying and deleting templates; the
    two loops over templates as instances of the locale \<open>template_runner\<close>.
  \<^item> \<open>Managed_Pipelines\<close>, \<open>Oci_Fetcher\<close>: validation of pipeline names, image variables, and the fetch of
    the manifest from an image; the contract of the fetcher is the locale \<open>pipeline_names_fetcher\<close>.
  \<^item> \<open>Params\<close>, \<open>Extract_Params\<close>: \<open>DSPAParams\<close> and \<open>ExtractParams\<close>, in blocks in the order of the code.
  \<^item> \<open>Database\<close>, \<open>Storage\<close>, \<open>Api_Server\<close>, \<open>Components\<close>: health checks and deployment.
  \<^item> \<open>Conditions\<close>, \<open>Controller\<close>: readiness, validation, and \<open>Reconcile\<close> with its stages, deferred calls and
    event handlers.  \<open>Status_Flow\<close> shows what touches the status.  \<open>Controller_Safety\<close> separates the body
    from the closing calls and has the theorems on unsupported versions and finalisation,
    \<open>Controller_Gate\<close> the order of the stages and the retries, \<open>Controller_Decisions\<close> the decisions.
  \<^item> \<open>Operator_Main\<close>, \<open>Cache_Labels\<close>: the start of the operator, its caches, and that what is applied is
    labelled as the caches need it.
  \<^item> \<open>Go_Flags\<close>, \<open>Manager_Options\<close>, \<open>Operator_Scheme\<close>: the command line of the operator over Go's flag package
    and strconv's 64-bit integers; the options of the manager with the rules of its caches, which are the
    filters of \<open>Operator_Main\<close>; what \<open>init\<close> registers, and the reconcilers of \<open>main\<close> and of the unit tests.
  \<^item> \<open>Operator_Run\<close>, \<open>Event_Routing\<close>: runs of many reconciles, events, changes of the configuration
    and restarts, over which the two caches
    stay right (the step relation \<open>operator_step\<close>, the rules \<open>safe_intros\<close>); what \<open>SetupWithManager\<close>
    registers, and which resource an event of a written object wakes.
  \<^item> \<open>Go_Memory\<close>, \<open>Deep_Copy\<close>, \<open>Api_Copies\<close>: a memory of Go values with pointers, slices and maps; the
    contract of a deep copy, the locale \<open>deep_copy\<close>; the generated copiers of \<open>api/v1\<close> and the copies
    \<open>ExtractParams\<close> starts with.  The other theories have the resource as a value, on which a deep copy is the
    identity: this is where that is justified.
  \<^item> \<open>Names_Store\<close>: the fetcher's cache with references to maps, which simulates the cache of values of
    \<open>Ttl_Cache\<close>, whatever the callers write.
  \<^item> \<open>Json_Laws\<close>, \<open>Json_Roundtrip\<close>, \<open>Marshalled\<close>: the JSON parser consumes input, needs no more fuel than it is
    given, and reads back what the printer prints; the texts that pass between parts of the program.
    \<open>Plugin_Config\<close> has the structs of the MLflow plugin's configuration and that its text loses nothing.
  \<^item> \<open>Test_Equalities\<close>, \<open>Test_Support\<close>, \<open>Test_Fixtures\<close>: the comparisons, helpers and fixtures of
    \<open>controllers/testutil\<close>.

  \<^bold>\<open>What is shown.\<close>  Order and safety of a reconcile: components only after both health checks, the
  finalizer only after the clean-up, nothing but the status for unsupported versions, a retry while a
  prerequisite is not ready, labels on everything that is applied.  What the status and the metrics say,
  on every path.  What a successful set-up leaves in the parameters, which objects are read and written
  while they are computed, that credentials survive their encoding.  What the health checks have asked
  before they say yes.  Exactly which templates a deployment applies, when the shared webhook is removed.
  Which manifest an image yields, that the digest cache is transparent, that no cache serves an expired
  entry, over any run of the operator.  That reading a manifest ends with the verdict of the text, that
  the sample configuration reads back, that the database that is checked is the one that was configured.
  That deep copies share nothing and that no caller can change what a cache serves.  When the operator
  starts at all, that it gets the number of concurrent reconciles its command line names or stops, and that
  its caches hide nothing the event handlers act on.  That the functional tests accept exactly the objects that agree.

  \<^bold>\<open>Bounds.\<close>  Recursions are structural or have a termination proof.  The JSON parser has the depth limit
  of Go's decoder and consumes input on every step; the fuel of its functions is twice the length of the
  input and two more, which \<open>Json_Laws\<close> shows to be as good as any larger amount.
  Times are integers in nanoseconds; ports, sizes and quantities are as the code has them.  The integer of
  the command line is read over 64-bit words with the overflow checks of strconv.

  \<^bold>\<open>Not modelled.\<close>  The flags and types that libraries register (parameters of \<open>Go_Flags\<close> and
  \<open>Operator_Scheme\<close>), logging, the YAML templates themselves, and the tests (their helpers are).  A change of
  the configuration file falls between the steps of a run, not into a reconcile.  The reconciles of different resources run
  concurrently in the program and share the two caches: their interleavings are covered for the caches
  (\<open>Ttl_Cache\<close>, \<open>Names_Store\<close>), and otherwise by the arbitrary answers of the environment.
\<close>

section \<open>Across the components\<close>

text \<open>
  C5: What the operator creates it can also see.  Whatever a reconcile comes across, every object that it
  applies for an owner carries the label by which the caches of the operator select Services,
  ServiceAccounts and Routes, so that the client reads it back; this rests only on the documented
  behaviour of the manifest library (\<open>manifest_library\<close>).
\<close>

theorem applied_objects_stay_visible:
  assumes "manifest_library env"
  shows "\<exists>evs. w_history (snd (Reconcile env req w)) = w_history w @ evs \<and> list_all (cacheable env) evs"
  using cache_Reconcile [OF assms, of req] by (simp add: emits_def)

theorem applied_objects_stay_visible_witness:
  "\<exists>evs. w_history (snd (Reconcile sample_env (nsname ''ns'' ''sample'') sample_world)) = evs \<and>
     list_all (cacheable sample_env) evs"
  using applied_objects_stay_visible [OF manifest_library_sample, of "nsname ''ns'' ''sample''" sample_world]
  by (simp add: sample_world_def)

end
